(* ===== verification/Uma_Prelude.thy ===== *)
theory Uma_Prelude
  imports Main "HOL-Library.Word" "HOL-Library.Sublist" "HOL-Library.AList"
begin

text \<open>
  Shared vocabulary of the development: the names of the machine types, the collections of
  rewrite rules the component theories add to, and the generic facts on association lists,
  sorted lists and words that their proofs use. Nothing here is specific to one component.

  A Rust string is the list of its UTF-8 bytes (\<open>string\<close>, whose characters are bytes). A
  \<open>HashMap\<close> that is only looked up is a map; one whose values are enumerated is an association
  list without repeated keys, whose order stands for the unspecified iteration order. An
  \<open>Instant\<close> (monotonic clock) and a \<open>Duration\<close> are nanosecond counts; a \<open>DateTime<Utc>\<close> is the
  signed nanosecond count since the Unix epoch.
\<close>

type_synonym u8 = "8 word"
type_synonym u32 = "32 word"
type_synonym u64 = "64 word"
type_synonym instant = nat
type_synonym duration = nat
type_synonym datetime = int

named_theorems std_defs \<open>definitions of the modelled part of the standard library\<close>
named_theorems agent_defs \<open>definitions of the agent's operations\<close>
named_theorems coll_defs \<open>definitions of the collector's operations\<close>

abbreviation secs :: "nat \<Rightarrow> duration" where
  "secs n \<equiv> n * 1000000000"

abbreviation millis :: "nat \<Rightarrow> duration" where
  "millis n \<equiv> n * 1000000"


section \<open>Association lists\<close>

lemma map_fst_update:
  "map fst (AList.update k v xs) = (if k \<in> fst ` set xs then map fst xs else map fst xs @ [k])"
  by (induction xs) auto

lemma set_update_distinct:
  assumes "distinct (map fst xs)"
  shows "set (AList.update k v xs) = insert (k, v) {p \<in> set xs. fst p \<noteq> k}"
  using assms by (induction xs) (auto simp: image_iff)

lemma set_delete: "set (AList.delete k xs) = {p \<in> set xs. fst p \<noteq> k}"
  by (auto simp: AList.delete_eq)

lemma length_filter_update_new:
  assumes "k \<notin> fst ` set xs"
  shows "length (filter P (AList.update k v xs)) = length (filter P xs) + (if P (k, v) then 1 else 0)"
  using assms by (induction xs) auto

lemma length_filter_update_old:
  assumes "distinct (map fst xs)" and "(k, v0) \<in> set xs" and "P (k, v0) = P (k, v)"
  shows "length (filter P (AList.update k v xs)) = length (filter P xs)"
  using assms
proof (induction xs)
  case (Cons x xs)
  show ?case
  proof (cases "fst x = k")
    case True
    with Cons.prems have "x = (k, v0)" by (cases x) (force simp: image_iff)
    with Cons.prems show ?thesis by simp
  next
    case False
    with Cons.prems Cons.IH show ?thesis by (cases x) auto
  qed
qed simp

lemma length_filter_delete:
  assumes "distinct (map fst xs)" and "(k, v0) \<in> set xs"
  shows "length (filter P (AList.delete k xs)) = length (filter P xs) - (if P (k, v0) then 1 else 0)"
  using assms
proof (induction xs)
  case (Cons x xs)
  show ?case
  proof (cases "fst x = k")
    case True
    with Cons.prems have "x = (k, v0)" and "k \<notin> fst ` set xs"
      by (cases x, force simp: image_iff)+
    then show ?thesis by (simp add: delete_id)
  next
    case False
    with Cons.prems have in_xs: "(k, v0) \<in> set xs" by (cases x) auto
    then have "P (k, v0) \<Longrightarrow> 0 < length (filter P xs)"
      by (metis filter_empty_conv length_greater_0_conv)
    with False Cons.prems Cons.IH in_xs show ?thesis by (cases x) auto
  qed
qed simp

lemma map_of_in_set: "distinct (map fst xs) \<Longrightarrow> map_of xs k = Some v \<longleftrightarrow> (k, v) \<in> set xs"
  by (auto dest: map_of_SomeD)


section \<open>Sorted windows\<close>

lemma dropWhile_eq_filter_sorted:
  assumes "sorted (map f xs)" and "\<And>x y. f x \<le> f y \<Longrightarrow> P y \<Longrightarrow> P x"
  shows "dropWhile P xs = filter (\<lambda>x. \<not> P x) xs"
  using assms(1)
proof (induction xs)
  case (Cons x xs)
  then show ?case
    using assms(2) by (auto simp: filter_empty_conv intro!: filter_True [symmetric])
qed simp

lemma sorted_snoc:
  "sorted (xs @ [y]) \<longleftrightarrow> sorted xs \<and> (\<forall>x \<in> set xs. x \<le> (y::'a::linorder))"
  by (simp add: sorted_append)

lemma sorted_map_filter: "sorted (map f xs) \<Longrightarrow> sorted (map f (filter P xs))"
  by (rule sorted_filter)

lemma sorted_map_dropWhile: "sorted (map f xs) \<Longrightarrow> sorted (map f (dropWhile P xs))"
  by (induction xs) auto


section \<open>Words\<close>

lemma unat_Suc_word: "unat (w::'a::len word) + 1 < 2 ^ LENGTH('a) \<Longrightarrow> unat (w + 1) = unat w + 1"
  by (simp add: unat_word_ariths)

lemma sint_of_nat_small: "n < 2 ^ 31 \<Longrightarrow> sint (of_nat n :: 32 word) = int n"
  by (simp add: signed_of_nat signed_take_bit_int_eq_self)

end
