(* ===== verification/Rust_Std.thy ===== *)
theory Rust_Std
  imports Uma_Prelude
begin

text \<open>
  The part of the Rust standard library the sources use on strings, bytes and integers, on
  strings as UTF-8 byte lists. \<open>char::is_whitespace\<close> is the Unicode \<open>White_Space\<close> property on
  its UTF-8 encodings. \<open>str::to_lowercase\<close> is exact on its ASCII output: apart from the ASCII
  letters, U+0130 and U+212A are the only characters whose lower case has an ASCII letter, and
  both are mapped; every other non-ASCII character is left as it is, so a comparison of the
  result with an ASCII literal has the outcome the code sees. Integer parsing follows
  \<open>from_str_radix\<close>: a sign is accepted where the type has one, \<open>+\<close> always, the empty string and
  a lone sign are errors, and so is a value that does not fit.
\<close>

section \<open>Searching and splitting\<close>

definition starts_with :: "string \<Rightarrow> string \<Rightarrow> bool" where
  [std_defs]: "starts_with s p = prefix p s"

definition strip_prefix :: "string \<Rightarrow> string \<Rightarrow> string option" where
  [std_defs]: "strip_prefix s p = (if prefix p s then Some (drop (length p) s) else None)"

fun contains :: "string \<Rightarrow> string \<Rightarrow> bool" where
  "contains [] p = (p = [])"
| "contains (c # cs) p = (prefix p (c # cs) \<or> contains cs p)"

definition split_once :: "string \<Rightarrow> char \<Rightarrow> (string \<times> string) option" where
  [std_defs]: "split_once s c =
     (case dropWhile (\<lambda>x. x \<noteq> c) s of
        [] \<Rightarrow> None
      | _ # r \<Rightarrow> Some (takeWhile (\<lambda>x. x \<noteq> c) s, r))"

fun split_on :: "char \<Rightarrow> string \<Rightarrow> string list" where
  "split_on c [] = [[]]"
| "split_on c (x # xs) =
     (if x = c then [] # split_on c xs
      else (case split_on c xs of [] \<Rightarrow> [[x]] | p # ps \<Rightarrow> (x # p) # ps))"

text \<open>At most \<open>n\<close> pieces, the last one unsplit (\<open>str::splitn\<close>).\<close>

fun splitn_on :: "nat \<Rightarrow> char \<Rightarrow> string \<Rightarrow> string list" where
  "splitn_on 0 c s = []"
| "splitn_on (Suc 0) c s = [s]"
| "splitn_on (Suc (Suc n)) c s =
     (case split_once s c of
        None \<Rightarrow> [s]
      | Some (a, b) \<Rightarrow> a # splitn_on (Suc n) c b)"

definition newline :: char where
  "newline = CHR 0x0A"

definition strip_cr :: "string \<Rightarrow> string" where
  "strip_cr s = (if s \<noteq> [] \<and> last s = CHR 0x0D then butlast s else s)"

text \<open>\<open>str::lines\<close>: a line ends at a newline, which is dropped with one carriage return
  before it; a last piece without a newline is kept as it is, and dropped when empty.\<close>

definition lines :: "string \<Rightarrow> string list" where
  [std_defs]: "lines s =
     (let ps = split_on newline s
      in map strip_cr (butlast ps) @ (if last ps = [] then [] else [last ps]))"

fun join :: "string \<Rightarrow> string list \<Rightarrow> string" where
  "join sep [] = []"
| "join sep [x] = x"
| "join sep (x # y # ys) = x @ sep @ join sep (y # ys)"

text \<open>\<open>str::replace\<close>; the counter skips the bytes of an occurrence that was replaced. The
  sources only replace non-empty patterns.\<close>

fun replace_from :: "nat \<Rightarrow> string \<Rightarrow> string \<Rightarrow> string \<Rightarrow> string" where
  "replace_from n p r [] = []"
| "replace_from (Suc n) p r (c # cs) = replace_from n p r cs"
| "replace_from 0 p r (c # cs) =
     (if prefix p (c # cs) then r @ replace_from (length p - 1) p r cs
      else c # replace_from 0 p r cs)"

definition replace :: "string \<Rightarrow> string \<Rightarrow> string \<Rightarrow> string" where
  [std_defs]: "replace s p r = replace_from 0 p r s"

lemma contains_sublist: "contains s p \<longleftrightarrow> sublist p s"
  by (induction s) (auto simp: sublist_Cons_right)

lemma contains_refl [simp]: "contains s s"
  by (simp add: contains_sublist)

lemma contains_empty [simp]: "contains s []"
  by (simp add: contains_sublist)

lemma contains_append: "contains s p \<Longrightarrow> contains (s @ t) p \<and> contains (t @ s) p"
  by (auto simp: contains_sublist intro: sublist_appendI sublist_order.order_trans)

lemma contains_infix [simp]: "contains (a @ p @ b) p"
  by (simp add: contains_sublist)

lemma strip_prefix_Some: "strip_prefix s p = Some r \<longleftrightarrow> s = p @ r"
  by (auto simp: strip_prefix_def prefix_def)

lemma split_once_Some:
  "split_once s c = Some (a, b) \<longleftrightarrow> s = a @ c # b \<and> c \<notin> set a"
proof
  assume "split_once s c = Some (a, b)"
  then have d: "dropWhile (\<lambda>x. x \<noteq> c) s = c # b" and t: "a = takeWhile (\<lambda>x. x \<noteq> c) s"
    by (auto simp: split_once_def dropWhile_eq_Cons_conv split: list.splits)
  have "s = takeWhile (\<lambda>x. x \<noteq> c) s @ dropWhile (\<lambda>x. x \<noteq> c) s" by simp
  with d t show "s = a @ c # b \<and> c \<notin> set a"
    using set_takeWhileD by fastforce
next
  assume "s = a @ c # b \<and> c \<notin> set a"
  then show "split_once s c = Some (a, b)"
    by (auto simp: split_once_def takeWhile_append dropWhile_append)
qed

lemma split_once_append [simp]: "c \<notin> set a \<Longrightarrow> split_once (a @ c # b) c = Some (a, b)"
  by (simp add: split_once_Some)

lemma split_on_nonempty [simp]: "split_on c s \<noteq> []"
  by (induction s) (auto split: list.splits)

lemma split_on_nosep: "c \<notin> set s \<Longrightarrow> split_on c s = [s]"
  by (induction s) auto

lemma split_on_append: "c \<notin> set a \<Longrightarrow> split_on c (a @ c # b) = a # split_on c b"
  by (induction a) auto


section \<open>Whitespace\<close>

definition is_ascii_ws :: "char \<Rightarrow> bool" where
  [std_defs]: "is_ascii_ws c =
     (c = CHR 0x20 \<or> c = CHR 0x09 \<or> c = CHR 0x0A \<or> c = CHR 0x0B \<or> c = CHR 0x0C \<or> c = CHR 0x0D)"

text \<open>The UTF-8 encodings of the non-ASCII \<open>White_Space\<close> characters: U+0085, U+00A0, U+1680,
  U+2000 to U+200A, U+2028, U+2029, U+202F, U+205F, U+3000.\<close>

definition wide_ws :: "string list" where
  [std_defs]: "wide_ws =
     [[CHR 0xC2, CHR 0x85], [CHR 0xC2, CHR 0xA0], [CHR 0xE1, CHR 0x9A, CHR 0x80],
      [CHR 0xE2, CHR 0x80, CHR 0x80], [CHR 0xE2, CHR 0x80, CHR 0x81],
      [CHR 0xE2, CHR 0x80, CHR 0x82], [CHR 0xE2, CHR 0x80, CHR 0x83],
      [CHR 0xE2, CHR 0x80, CHR 0x84], [CHR 0xE2, CHR 0x80, CHR 0x85],
      [CHR 0xE2, CHR 0x80, CHR 0x86], [CHR 0xE2, CHR 0x80, CHR 0x87],
      [CHR 0xE2, CHR 0x80, CHR 0x88], [CHR 0xE2, CHR 0x80, CHR 0x89],
      [CHR 0xE2, CHR 0x80, CHR 0x8A], [CHR 0xE2, CHR 0x80, CHR 0xA8],
      [CHR 0xE2, CHR 0x80, CHR 0xA9], [CHR 0xE2, CHR 0x80, CHR 0xAF],
      [CHR 0xE2, CHR 0x81, CHR 0x9F], [CHR 0xE3, CHR 0x80, CHR 0x80]]"

text \<open>Length of the whitespace character a byte string begins with, 0 for none; the list of
  encodings is a parameter so that the same function works on reversed strings.\<close>

definition ws_len :: "string list \<Rightarrow> string \<Rightarrow> nat" where
  [std_defs]: "ws_len enc s =
     (case s of
        [] \<Rightarrow> 0
      | c # _ \<Rightarrow> if is_ascii_ws c then 1
                else (case find (\<lambda>w. prefix w s) enc of None \<Rightarrow> 0 | Some w \<Rightarrow> length w))"

fun skip_ws :: "string list \<Rightarrow> nat \<Rightarrow> string \<Rightarrow> string" where
  "skip_ws enc n [] = []"
| "skip_ws enc (Suc n) (c # cs) = skip_ws enc n cs"
| "skip_ws enc 0 (c # cs) =
     (let k = ws_len enc (c # cs) in if k = 0 then c # cs else skip_ws enc (k - 1) cs)"

definition trim_start :: "string \<Rightarrow> string" where
  [std_defs]: "trim_start s = skip_ws wide_ws 0 s"

definition trim_end :: "string \<Rightarrow> string" where
  [std_defs]: "trim_end s = rev (skip_ws (map rev wide_ws) 0 (rev s))"

definition trim :: "string \<Rightarrow> string" where
  [std_defs]: "trim s = trim_end (trim_start s)"

definition trim_end_char :: "char \<Rightarrow> string \<Rightarrow> string" where
  [std_defs]: "trim_end_char c s = rev (dropWhile (\<lambda>x. x = c) (rev s))"

text \<open>\<open>trim_start_matches\<close> with a text: every repetition at the front goes.\<close>

function trim_start_matches :: "string \<Rightarrow> string \<Rightarrow> string" where
  "trim_start_matches p s =
     (if p \<noteq> [] \<and> prefix p s then trim_start_matches p (drop (length p) s) else s)"
  by pat_completeness auto

termination
  by (relation "measure (\<lambda>(p, s). length s)") (auto simp: prefix_def)

declare trim_start_matches.simps [simp del]

fun ws_tokens :: "nat \<Rightarrow> string \<Rightarrow> string \<Rightarrow> string list" where
  "ws_tokens n cur [] = (if cur = [] then [] else [cur])"
| "ws_tokens (Suc n) cur (c # cs) = ws_tokens n cur cs"
| "ws_tokens 0 cur (c # cs) =
     (let k = ws_len wide_ws (c # cs)
      in if k = 0 then ws_tokens 0 (cur @ [c]) cs
         else (if cur = [] then [] else [cur]) @ ws_tokens (k - 1) [] cs)"

definition split_whitespace :: "string \<Rightarrow> string list" where
  [std_defs]: "split_whitespace s = ws_tokens 0 [] s"

lemma length_skip_ws: "length (skip_ws enc n s) \<le> length s"
  by (induction enc n s rule: skip_ws.induct) (auto simp: Let_def)

lemma length_trim: "length (trim s) \<le> length s"
  unfolding trim_def trim_end_def trim_start_def
  by (metis length_rev length_skip_ws le_trans)


section \<open>Case\<close>

definition ascii_lower :: "char \<Rightarrow> char" where
  [std_defs]: "ascii_lower c =
     (if 65 \<le> (of_char c :: nat) \<and> (of_char c :: nat) \<le> 90 then char_of (of_char c + 32 :: nat) else c)"

definition ascii_upper :: "char \<Rightarrow> char" where
  [std_defs]: "ascii_upper c =
     (if 97 \<le> (of_char c :: nat) \<and> (of_char c :: nat) \<le> 122 then char_of (of_char c - 32 :: nat) else c)"

definition to_ascii_lowercase :: "string \<Rightarrow> string" where
  [std_defs]: "to_ascii_lowercase s = map ascii_lower s"

definition to_lowercase :: "string \<Rightarrow> string" where
  [std_defs]: "to_lowercase s =
     map ascii_lower
       (replace (replace s [CHR 0xC4, CHR 0xB0] [CHR ''i'', CHR 0xCC, CHR 0x87])
          [CHR 0xE2, CHR 0x84, CHR 0xAA] ''k'')"

definition eq_ignore_ascii_case :: "string \<Rightarrow> string \<Rightarrow> bool" where
  [std_defs]: "eq_ignore_ascii_case s t = (map ascii_lower s = map ascii_lower t)"

lemma eq_ignore_ascii_case_refl [simp]: "eq_ignore_ascii_case s s"
  by (simp add: eq_ignore_ascii_case_def)

lemma eq_ignore_ascii_case_sym: "eq_ignore_ascii_case s t \<longleftrightarrow> eq_ignore_ascii_case t s"
  by (auto simp: eq_ignore_ascii_case_def)


section \<open>UTF-8\<close>

abbreviation byte_in :: "char \<Rightarrow> nat \<Rightarrow> nat \<Rightarrow> bool" where
  "byte_in c lo hi \<equiv> lo \<le> (of_char c :: nat) \<and> (of_char c :: nat) \<le> hi"

definition cont_at :: "string \<Rightarrow> nat \<Rightarrow> nat \<Rightarrow> nat \<Rightarrow> bool" where
  [std_defs]: "cont_at s i lo hi = (i < length s \<and> byte_in (s ! i) lo hi)"

text \<open>Whether the bytes at the front are one well-formed character, and how many bytes that
  character, or the ill-formed part that is replaced as one unit, takes.\<close>

definition utf8_step :: "string \<Rightarrow> bool \<times> nat" where
  [std_defs]: "utf8_step s =
     (case s of
        [] \<Rightarrow> (True, 0)
      | c # _ \<Rightarrow>
         if byte_in c 0 0x7F then (True, 1)
         else if byte_in c 0xC2 0xDF then (if cont_at s 1 0x80 0xBF then (True, 2) else (False, 1))
         else if byte_in c 0xE0 0xEF then
           (if cont_at s 1 (if byte_in c 0xE0 0xE0 then 0xA0 else 0x80)
                           (if byte_in c 0xED 0xED then 0x9F else 0xBF)
            then (if cont_at s 2 0x80 0xBF then (True, 3) else (False, 2)) else (False, 1))
         else if byte_in c 0xF0 0xF4 then
           (if cont_at s 1 (if byte_in c 0xF0 0xF0 then 0x90 else 0x80)
                           (if byte_in c 0xF4 0xF4 then 0x8F else 0xBF)
            then (if cont_at s 2 0x80 0xBF
                  then (if cont_at s 3 0x80 0xBF then (True, 4) else (False, 3)) else (False, 2))
            else (False, 1))
         else (False, 1))"

fun utf8_valid_from :: "nat \<Rightarrow> string \<Rightarrow> bool" where
  "utf8_valid_from n [] = True"
| "utf8_valid_from (Suc n) (c # cs) = utf8_valid_from n cs"
| "utf8_valid_from 0 (c # cs) =
     (fst (utf8_step (c # cs)) \<and> utf8_valid_from (snd (utf8_step (c # cs)) - 1) cs)"

definition from_utf8 :: "string \<Rightarrow> string option" where
  [std_defs]: "from_utf8 bs = (if utf8_valid_from 0 bs then Some bs else None)"

fun lossy_from :: "nat \<Rightarrow> bool \<Rightarrow> string \<Rightarrow> string" where
  "lossy_from n keep [] = []"
| "lossy_from (Suc n) keep (c # cs) = (if keep then [c] else []) @ lossy_from n keep cs"
| "lossy_from 0 keep (c # cs) =
     (case utf8_step (c # cs) of
        (ok, k) \<Rightarrow> (if ok then [c] else [CHR 0xEF, CHR 0xBF, CHR 0xBD]) @ lossy_from (k - 1) ok cs)"

definition from_utf8_lossy :: "string \<Rightarrow> string" where
  [std_defs]: "from_utf8_lossy bs = lossy_from 0 True bs"

lemma lossy_from_valid: "utf8_valid_from n bs \<Longrightarrow> lossy_from n True bs = bs"
  by (induction n bs rule: utf8_valid_from.induct) (auto split: prod.splits)

lemma from_utf8_lossy_valid: "from_utf8 bs = Some s \<Longrightarrow> from_utf8_lossy bs = s"
  by (auto simp: from_utf8_def from_utf8_lossy_def lossy_from_valid split: if_splits)

lemma utf8_step_ascii: "byte_in c 0 0x7F \<Longrightarrow> utf8_step (c # cs) = (True, 1)"
  by (simp add: utf8_step_def)

lemma from_utf8_ascii: "(\<And>c. c \<in> set s \<Longrightarrow> byte_in c 0 0x7F) \<Longrightarrow> from_utf8 s = Some s"
proof -
  have "(\<And>c. c \<in> set s \<Longrightarrow> byte_in c 0 0x7F) \<Longrightarrow> utf8_valid_from 0 s" for s
    by (induction s) (simp_all add: utf8_step_ascii)
  then show "(\<And>c. c \<in> set s \<Longrightarrow> byte_in c 0 0x7F) \<Longrightarrow> from_utf8 s = Some s"
    by (simp add: from_utf8_def)
qed


section \<open>Integers as text\<close>

definition digit_char :: "nat \<Rightarrow> char" where
  [std_defs]: "digit_char d = char_of (48 + d)"

fun show_nat :: "nat \<Rightarrow> string" where
  "show_nat n = (if n < 10 then [digit_char n] else show_nat (n div 10) @ [digit_char (n mod 10)])"

declare show_nat.simps [simp del]

definition show_int :: "int \<Rightarrow> string" where
  [std_defs]: "show_int i = (if i < 0 then ''-'' @ show_nat (nat (- i)) else show_nat (nat i))"

abbreviation show_word :: "'a::len word \<Rightarrow> string" where
  "show_word w \<equiv> show_nat (unat w)"

definition is_digit :: "char \<Rightarrow> bool" where
  [std_defs]: "is_digit c = byte_in c 48 57"

definition hex_val :: "char \<Rightarrow> nat option" where
  [std_defs]: "hex_val c =
     (if byte_in c 48 57 then Some (of_char c - 48)
      else if byte_in c 97 102 then Some (of_char c - 87)
      else if byte_in c 65 70 then Some (of_char c - 55)
      else None)"

fun digits_val :: "nat \<Rightarrow> nat \<Rightarrow> string \<Rightarrow> nat option" where
  "digits_val radix acc [] = Some acc"
| "digits_val radix acc (c # cs) =
     (case hex_val c of
        None \<Rightarrow> None
      | Some d \<Rightarrow> if d < radix then digits_val radix (acc * radix + d) cs else None)"

text \<open>\<open>u8\<close>, \<open>u32\<close>, \<open>u64\<close> and \<open>usize\<close> from text: \<open>bits\<close> is the width.\<close>

definition parse_uint :: "nat \<Rightarrow> nat \<Rightarrow> string \<Rightarrow> nat option" where
  [std_defs]: "parse_uint radix bits s =
     (let body = (case s of c # cs \<Rightarrow> if c = CHR ''+'' then cs else s | [] \<Rightarrow> [])
      in if body = [] then None
         else (case digits_val radix 0 body of
                 None \<Rightarrow> None
               | Some n \<Rightarrow> if n < 2 ^ bits then Some n else None))"

text \<open>\<open>i32\<close> and \<open>i64\<close> from text.\<close>

definition parse_sint :: "nat \<Rightarrow> nat \<Rightarrow> string \<Rightarrow> int option" where
  [std_defs]: "parse_sint radix bits s =
     (let neg = (s \<noteq> [] \<and> hd s = CHR ''-'');
          body = (case s of c # cs \<Rightarrow> if c = CHR ''+'' \<or> c = CHR ''-'' then cs else s | [] \<Rightarrow> [])
      in if body = [] then None
         else (case digits_val radix 0 body of
                 None \<Rightarrow> None
               | Some n \<Rightarrow>
                   let v = (if neg then - int n else int n)
                   in if - (2 ^ (bits - 1)) \<le> v \<and> v < 2 ^ (bits - 1) then Some v else None))"

abbreviation parse_u8 :: "string \<Rightarrow> u8 option" where
  "parse_u8 s \<equiv> map_option of_nat (parse_uint 10 8 s)"

abbreviation parse_u64 :: "string \<Rightarrow> u64 option" where
  "parse_u64 s \<equiv> map_option of_nat (parse_uint 10 64 s)"

lemma of_char_digit_char: "d < 10 \<Longrightarrow> (of_char (digit_char d) :: nat) = 48 + d"
  by (simp add: digit_char_def)

lemma hex_val_digit_char [simp]: "d < 10 \<Longrightarrow> hex_val (digit_char d) = Some d"
  by (simp add: hex_val_def of_char_digit_char)

lemma digits_val_append:
  "digits_val r acc (xs @ ys) =
     (case digits_val r acc xs of None \<Rightarrow> None | Some a \<Rightarrow> digits_val r a ys)"
  by (induction r acc xs rule: digits_val.induct) (auto split: option.splits)

lemma digits_val_show_nat: "digits_val 10 0 (show_nat n) = Some n"
proof (induction n rule: show_nat.induct)
  case (1 n)
  show ?case
  proof (cases "n < 10")
    case True
    then show ?thesis by (simp add: show_nat.simps [of n])
  next
    case False
    with "1.IH" show ?thesis by (simp add: show_nat.simps [of n] digits_val_append)
  qed
qed

lemma show_nat_nonempty [simp]: "show_nat n \<noteq> []"
  by (subst show_nat.simps) simp

lemma show_nat_digits: "c \<in> set (show_nat n) \<Longrightarrow> is_digit c"
proof (induction n rule: show_nat.induct)
  case (1 n)
  then show ?case
    by (cases "n < 10")
       (auto simp: show_nat.simps [of n] is_digit_def of_char_digit_char)
qed

lemma show_nat_no_char: "\<not> is_digit c \<Longrightarrow> c \<notin> set (show_nat n)"
  using show_nat_digits by blast

lemma hd_show_nat_not_plus: "show_nat n = c # cs \<Longrightarrow> c \<noteq> CHR ''+''"
  using show_nat_digits [of c n] by (auto simp: is_digit_def)

lemma parse_uint_show_nat: "n < 2 ^ bits \<Longrightarrow> parse_uint 10 bits (show_nat n) = Some n"
proof -
  assume n: "n < 2 ^ bits"
  obtain c cs where s: "show_nat n = c # cs" by (cases "show_nat n") auto
  with hd_show_nat_not_plus have "c \<noteq> CHR ''+''" by blast
  with n s show ?thesis
    using digits_val_show_nat [of n] by (simp add: parse_uint_def)
qed

lemma show_nat_inject: "show_nat m = show_nat n \<longleftrightarrow> m = n"
  by (metis digits_val_show_nat option.inject)

lemma parse_uint_bound: "parse_uint r bits s = Some n \<Longrightarrow> n < 2 ^ bits"
  by (auto simp: parse_uint_def Let_def split: if_splits option.splits list.splits)


section \<open>Saturating arithmetic\<close>

definition saturating_sub :: "'a::len word \<Rightarrow> 'a word \<Rightarrow> 'a word" where
  [std_defs]: "saturating_sub x y = (if x < y then 0 else x - y)"

definition saturating_mul :: "'a::len word \<Rightarrow> 'a word \<Rightarrow> 'a word" where
  [std_defs]: "saturating_mul x y =
     (if unat x * unat y < 2 ^ LENGTH('a) then x * y else - 1)"

lemma unat_saturating_sub: "unat (saturating_sub x y) = unat x - unat y"
  by (auto simp: saturating_sub_def unat_sub word_le_nat_alt word_less_nat_alt)

lemma unat_saturating_mul:
  "unat (saturating_mul x (y :: 'a::len word)) = min (unat x * unat y) (2 ^ LENGTH('a) - 1)"
proof -
  have "unat (- 1 :: 'a word) = 2 ^ LENGTH('a) - 1"
    by (simp add: unat_eq_nat_uint nat_diff_distrib nat_power_eq uint_word_ariths zmod_minus1)
  then show ?thesis
    by (auto simp: saturating_mul_def unat_word_ariths)
qed

end
