(* ===== verification/Uma_Shared.thy ===== *)
theory Uma_Shared
  imports Rust_Std
begin

text \<open>
  The wire schema of \<open>shared/src/lib.rs\<close>: severities, alerts, heartbeats, hellos, host states,
  the envelope that carries them, and \<open>AlertBuilder\<close>. \<open>Utc::now()\<close> and \<open>Ulid::new()\<close> are inputs
  of the operations that call them. A \<open>BTreeMap\<close> is a finite map. The JSON values an alert may
  carry are the datatype \<open>json\<close>; the JSON form of the messages is in \<open>Wire_Format\<close>.
\<close>

section \<open>Severity and alert state\<close>

datatype severity = Info | Warning | Critical

primrec severity_rank :: "severity \<Rightarrow> nat" where
  "severity_rank Info = 0"
| "severity_rank Warning = 1"
| "severity_rank Critical = 2"

lemma severity_rank_inject: "severity_rank s = severity_rank t \<longleftrightarrow> s = t"
  by (cases s; cases t) simp_all

text \<open>The order Rust derives from the order of the constructors.\<close>

instantiation severity :: linorder
begin

definition less_eq_severity :: "severity \<Rightarrow> severity \<Rightarrow> bool" where
  "less_eq_severity s t \<longleftrightarrow> severity_rank s \<le> severity_rank t"

definition less_severity :: "severity \<Rightarrow> severity \<Rightarrow> bool" where
  "less_severity s t \<longleftrightarrow> severity_rank s < severity_rank t"

instance
  by standard
    (auto simp: less_eq_severity_def less_severity_def severity_rank_inject)

end

primrec severity_as_str :: "severity \<Rightarrow> string" where
  "severity_as_str Info = ''info''"
| "severity_as_str Warning = ''warning''"
| "severity_as_str Critical = ''critical''"

datatype alert_state = Firing | Resolved

text \<open>\<open>serde_json::Value\<close>, as far as the sources build or inspect such values. Integers are
  exact, a floating-point number is given by numerator and denominator; a JSON object is the list of its members in order.\<close>

datatype json =
    JNull
  | JBool bool
  | JInt int
  | JFloat "int \<times> int"
  | JStr string
  | JArr "json list"
  | JObj "(string \<times> json) list"

section \<open>Messages\<close>

record alert =
  al_id :: string
  al_ts :: datetime
  al_host :: string
  al_host_id :: string
  al_primary_ip :: string
  al_category :: string
  al_subsystem :: "string option"
  al_severity :: severity
  al_state :: alert_state
  al_device :: "string option"
  al_device_model :: "string option"
  al_metric :: string
  al_value :: "string option"
  al_threshold :: "string option"
  al_title :: string
  al_message :: string
  al_fingerprint :: string
  al_first_seen :: datetime
  al_last_seen :: datetime
  al_occurrences :: u64
  al_raw :: "string \<rightharpoonup> json"
  al_correlated :: "string list"

record heartbeat =
  hb_host :: string
  hb_host_id :: string
  hb_ts :: datetime
  hb_uptime_s :: u64
  hb_firing_count :: u32
  hb_agent_version :: string

record vendor_info =
  vi_system_manufacturer :: string
  vi_system_product_name :: string
  vi_bios_version :: string
  vi_bmc_vendor :: string
  vi_gpu_vendors :: "string list"
  vi_kernel :: string
  vi_os_release :: string

definition vendor_info_default :: vendor_info where
  "vendor_info_default =
     \<lparr>vi_system_manufacturer = [], vi_system_product_name = [], vi_bios_version = [],
      vi_bmc_vendor = [], vi_gpu_vendors = [], vi_kernel = [], vi_os_release = []\<rparr>"

record hello =
  hl_host :: string
  hl_host_id :: string
  hl_primary_ip :: string
  hl_agent_version :: string
  hl_started_at :: datetime
  hl_vendor :: vendor_info
  hl_tags :: "string \<rightharpoonup> string"
  hl_maintenance :: bool

record host_state =
  hst_host :: string
  hst_host_id :: string
  hst_primary_ip :: string
  hst_online :: bool
  hst_last_seen :: datetime
  hst_firing_count :: u32
  hst_tags :: "string \<rightharpoonup> string"
  hst_agent_version :: string
  hst_maintenance :: bool

record host_status =
  hs_host :: string
  hs_host_id :: string
  hs_online :: bool
  hs_last_seen :: datetime
  hs_firing_count :: u32

record snapshot =
  sn_generated_at :: datetime
  sn_alerts :: "alert list"
  sn_hosts :: "host_state list"

datatype envelope =
    EAlert alert
  | EHeartbeat heartbeat
  | EHello hello
  | ESnapshot snapshot
  | EHostStatus host_status

section \<open>The alert builder\<close>

record alert_builder =
  b_host :: string
  b_host_id :: string
  b_category :: string
  b_subsystem :: "string option"
  b_severity :: severity
  b_metric :: string
  b_device :: "string option"
  b_device_model :: "string option"
  b_value :: "string option"
  b_threshold :: "string option"
  b_title :: string
  b_message :: string
  b_raw :: "string \<rightharpoonup> json"
  b_correlated :: "string list"

definition builder_new :: "string \<Rightarrow> string \<Rightarrow> string \<Rightarrow> string \<Rightarrow> severity \<Rightarrow> alert_builder" where
  "builder_new host host_id category metric severity =
     \<lparr>b_host = host, b_host_id = host_id, b_category = category, b_subsystem = None,
      b_severity = severity, b_metric = metric, b_device = None, b_device_model = None,
      b_value = None, b_threshold = None, b_title = [], b_message = [],
      b_raw = Map.empty, b_correlated = []\<rparr>"

definition with_subsystem :: "string \<Rightarrow> alert_builder \<Rightarrow> alert_builder" where
  "with_subsystem s b = b\<lparr>b_subsystem := Some s\<rparr>"

definition with_device :: "string \<Rightarrow> alert_builder \<Rightarrow> alert_builder" where
  "with_device d b = b\<lparr>b_device := Some d\<rparr>"

definition with_device_model :: "string \<Rightarrow> alert_builder \<Rightarrow> alert_builder" where
  "with_device_model m b = b\<lparr>b_device_model := Some m\<rparr>"

definition with_value :: "string \<Rightarrow> alert_builder \<Rightarrow> alert_builder" where
  "with_value v b = b\<lparr>b_value := Some v\<rparr>"

definition with_threshold :: "string \<Rightarrow> alert_builder \<Rightarrow> alert_builder" where
  "with_threshold t b = b\<lparr>b_threshold := Some t\<rparr>"

definition with_title :: "string \<Rightarrow> alert_builder \<Rightarrow> alert_builder" where
  "with_title t b = b\<lparr>b_title := t\<rparr>"

definition with_message :: "string \<Rightarrow> alert_builder \<Rightarrow> alert_builder" where
  "with_message m b = b\<lparr>b_message := m\<rparr>"

definition raw_kv :: "string \<Rightarrow> json \<Rightarrow> alert_builder \<Rightarrow> alert_builder" where
  "raw_kv k v b = b\<lparr>b_raw := (b_raw b)(k \<mapsto> v)\<rparr>"

definition correlate :: "string \<Rightarrow> alert_builder \<Rightarrow> alert_builder" where
  "correlate fp b = b\<lparr>b_correlated := b_correlated b @ [fp]\<rparr>"

lemmas builder_setters [simp] =
  with_subsystem_def with_device_def with_device_model_def with_value_def with_threshold_def
  with_title_def with_message_def raw_kv_def correlate_def

text \<open>A method chain \<open>b.f(..).g(..)\<close> is the list of its calls, applied from the left.\<close>

definition chain :: "alert_builder \<Rightarrow> (alert_builder \<Rightarrow> alert_builder) list \<Rightarrow> alert_builder" where
  "chain b fs = foldl (\<lambda>acc f. f acc) b fs"

lemma chain_Nil [simp]: "chain b [] = b"
  and chain_Cons [simp]: "chain b (f # fs) = chain (f b) fs"
  by (simp_all add: chain_def)

text \<open>The separator-joined key that \<open>AlertBuilder::fingerprint\<close> and \<open>build_resolved\<close> format.\<close>

definition fingerprint_of :: "string \<Rightarrow> string \<Rightarrow> string option \<Rightarrow> string \<Rightarrow> string" where
  "fingerprint_of host_id category device metric =
     host_id @ ''|'' @ category @ ''|'' @ (case device of None \<Rightarrow> ''-'' | Some d \<Rightarrow> d)
       @ ''|'' @ metric"

definition fingerprint :: "alert_builder \<Rightarrow> string" where
  "fingerprint b = fingerprint_of (b_host_id b) (b_category b) (b_device b) (b_metric b)"

definition build_firing :: "datetime \<Rightarrow> string \<Rightarrow> alert_builder \<Rightarrow> alert" where
  "build_firing now ulid b =
     \<lparr>al_id = ulid, al_ts = now, al_host = b_host b, al_host_id = b_host_id b,
      al_primary_ip = [], al_category = b_category b, al_subsystem = b_subsystem b,
      al_severity = b_severity b, al_state = Firing, al_device = b_device b,
      al_device_model = b_device_model b, al_metric = b_metric b, al_value = b_value b,
      al_threshold = b_threshold b, al_title = b_title b, al_message = b_message b,
      al_fingerprint = fingerprint b, al_first_seen = now, al_last_seen = now,
      al_occurrences = 1, al_raw = b_raw b, al_correlated = b_correlated b\<rparr>"

section \<open>Categories\<close>

definition NVME :: string where "NVME = ''nvme''"
definition DISK_SMART :: string where "DISK_SMART = ''disk_smart''"
definition MEMORY_ECC :: string where "MEMORY_ECC = ''memory_ecc''"
definition CPU_MCE :: string where "CPU_MCE = ''cpu_mce''"
definition PCIE_AER :: string where "PCIE_AER = ''pcie_aer''"
definition THERMAL :: string where "THERMAL = ''thermal''"
definition GPU_NVIDIA :: string where "GPU_NVIDIA = ''gpu_nvidia''"
definition GPU_AMD :: string where "GPU_AMD = ''gpu_amd''"
definition NETWORK_NIC :: string where "NETWORK_NIC = ''network_nic''"
definition STORAGE_CONTROLLER :: string where "STORAGE_CONTROLLER = ''storage_controller''"
definition STORAGE_IO :: string where "STORAGE_IO = ''storage_io''"
definition MEMORY_PRESSURE :: string where "MEMORY_PRESSURE = ''memory_pressure''"
definition OS_HANG :: string where "OS_HANG = ''os_hang''"
definition BMC_REDFISH :: string where "BMC_REDFISH = ''bmc_redfish''"
definition BMC_EVENTLOG :: string where "BMC_EVENTLOG = ''bmc_eventlog''"
definition SYSLOG :: string where "SYSLOG = ''syslog''"
definition BOOT :: string where "BOOT = ''boot''"
definition LIFECYCLE :: string where "LIFECYCLE = ''lifecycle''"
definition AGENT :: string where "AGENT = ''agent''"
definition COLLECTOR :: string where "COLLECTOR = ''collector''"

lemmas category_defs =
  NVME_def DISK_SMART_def MEMORY_ECC_def CPU_MCE_def PCIE_AER_def THERMAL_def GPU_NVIDIA_def
  GPU_AMD_def NETWORK_NIC_def STORAGE_CONTROLLER_def STORAGE_IO_def MEMORY_PRESSURE_def
  OS_HANG_def BMC_REDFISH_def BMC_EVENTLOG_def SYSLOG_def BOOT_def LIFECYCLE_def AGENT_def
  COLLECTOR_def

section \<open>Facts about fingerprints\<close>

lemma build_firing_simps [simp]:
  "al_fingerprint (build_firing t u b) = fingerprint b"
  "al_state (build_firing t u b) = Firing"
  "al_severity (build_firing t u b) = b_severity b"
  "al_host (build_firing t u b) = b_host b"
  "al_host_id (build_firing t u b) = b_host_id b"
  "al_category (build_firing t u b) = b_category b"
  "al_device (build_firing t u b) = b_device b"
  "al_metric (build_firing t u b) = b_metric b"
  "al_occurrences (build_firing t u b) = 1"
  "al_primary_ip (build_firing t u b) = []"
  "al_ts (build_firing t u b) = t"
  "al_id (build_firing t u b) = u"
  "al_title (build_firing t u b) = b_title b"
  "al_subsystem (build_firing t u b) = b_subsystem b"
  "al_device_model (build_firing t u b) = b_device_model b"
  by (simp_all add: build_firing_def)

lemma builder_new_simps [simp]:
  "b_host (builder_new h hid c m s) = h"
  "b_host_id (builder_new h hid c m s) = hid"
  "b_category (builder_new h hid c m s) = c"
  "b_metric (builder_new h hid c m s) = m"
  "b_severity (builder_new h hid c m s) = s"
  "b_device (builder_new h hid c m s) = None"
  "b_correlated (builder_new h hid c m s) = []"
  "b_title (builder_new h hid c m s) = []"
  "b_message (builder_new h hid c m s) = []"
  "b_raw (builder_new h hid c m s) = Map.empty"
  by (simp_all add: builder_new_def)

text \<open>No component of a key holds the separator: then the key determines its components.\<close>

abbreviation no_sep :: "string \<Rightarrow> bool" where
  "no_sep s \<equiv> CHR ''|'' \<notin> set s"

lemma append_sep_inject:
  assumes "no_sep a" and "no_sep c"
  shows "a @ ''|'' @ b = c @ ''|'' @ d \<longleftrightarrow> a = c \<and> b = d"
proof
  assume "a @ ''|'' @ b = c @ ''|'' @ d"
  then have "split_once (a @ CHR ''|'' # b) (CHR ''|'') = split_once (c @ CHR ''|'' # d) (CHR ''|'')"
    by simp
  with assms show "a = c \<and> b = d" by simp
qed simp

lemma fingerprint_of_host_id:
  assumes "no_sep h" and "no_sep h'" and "fingerprint_of h c d m = fingerprint_of h' c' d' m'"
  shows "h = h'"
  using assms by (auto simp: fingerprint_of_def append_sep_inject [simplified])

lemma fingerprint_of_category:
  assumes "no_sep h" and "no_sep h'" and "no_sep c" and "no_sep c'"
    and "fingerprint_of h c d m = fingerprint_of h' c' d' m'"
  shows "c = c'"
  using assms by (auto simp: fingerprint_of_def append_sep_inject [simplified])

end
