(* ===== verification/Agent_Tracker.thy ===== *)
theory Agent_Tracker
  imports Uma_Shared
begin

text \<open>
  \<open>agent/src/state.rs\<close>: the per-module dedup state machine \<open>AlertTracker\<close>. One call reads the
  clocks once; the readings (monotonic clock, UTC clock, fresh ULID) are a \<open>stamp\<close>. The mutex
  makes each operation one atomic step, so an operation is a function on the tracker. The
  release profile of the workspace turns overflow checks off, hence \<open>occurrences += 1\<close> wraps.

  The second half states the abstract contract: what may follow what in the sequence of emitted
  alerts. \<open>active_since\<close> reads the contract's state off the history alone, \<open>history_ok\<close> is the
  contract, and the lemmas show that the tracker keeps exactly that information.
\<close>

record stamp =
  st_instant :: instant
  st_utc :: datetime
  st_ulid :: string

record alert_snapshot =
  sp_host :: string
  sp_host_id :: string
  sp_category :: string
  sp_subsystem :: "string option"
  sp_metric :: string
  sp_device :: "string option"
  sp_device_model :: "string option"
  sp_title :: string

record entry =
  en_last_emitted :: instant
  en_last_seen :: instant
  en_occurrences :: u64
  en_severity :: severity
  en_template :: alert_snapshot
  en_ok_since :: "instant option"

record tracker =
  tr_inner :: "string \<rightharpoonup> entry"
  tr_re_notify :: duration
  tr_recovery :: duration

datatype decision = Emit alert | Suppress

definition tracker_new :: "duration \<Rightarrow> duration \<Rightarrow> tracker" where
  "tracker_new re_notify recovery =
     \<lparr>tr_inner = Map.empty, tr_re_notify = re_notify, tr_recovery = recovery\<rparr>"

definition snapshot_of :: "alert \<Rightarrow> alert_snapshot" where
  "snapshot_of a =
     \<lparr>sp_host = al_host a, sp_host_id = al_host_id a, sp_category = al_category a,
      sp_subsystem = al_subsystem a, sp_metric = al_metric a, sp_device = al_device a,
      sp_device_model = al_device_model a, sp_title = al_title a\<rparr>"

definition build_resolved :: "datetime \<Rightarrow> string \<Rightarrow> alert_snapshot \<Rightarrow> severity \<Rightarrow> u64 \<Rightarrow> alert" where
  "build_resolved now ulid snap severity occ =
     \<lparr>al_id = ulid, al_ts = now, al_host = sp_host snap, al_host_id = sp_host_id snap,
      al_primary_ip = [], al_category = sp_category snap, al_subsystem = sp_subsystem snap,
      al_severity = severity, al_state = Resolved, al_device = sp_device snap,
      al_device_model = sp_device_model snap, al_metric = sp_metric snap,
      al_value = None, al_threshold = None,
      al_title = ''Resolved: '' @ sp_title snap,
      al_message = ''Condition recovered after '' @ show_word occ @ '' occurrence(s).'',
      al_fingerprint =
        fingerprint_of (sp_host_id snap) (sp_category snap) (sp_device snap) (sp_metric snap),
      al_first_seen = now, al_last_seen = now, al_occurrences = occ,
      al_raw = Map.empty, al_correlated = []\<rparr>"

text \<open>\<open>now.duration_since(t)\<close> saturates at zero, as subtraction on \<open>nat\<close> does.\<close>

definition observe :: "stamp \<Rightarrow> alert_builder \<Rightarrow> tracker \<Rightarrow> decision \<times> tracker" where
  "observe st b t =
     (let fp = fingerprint b; now = st_instant st
      in case tr_inner t fp of
           Some e \<Rightarrow>
             (let e1 = e\<lparr>en_last_seen := now, en_occurrences := en_occurrences e + 1,
                         en_ok_since := None\<rparr>
              in if tr_re_notify t \<le> now - en_last_emitted e1
                 then (let alert = (build_firing (st_utc st) (st_ulid st) b)
                                     \<lparr>al_occurrences := en_occurrences e1\<rparr>;
                           e2 = e1\<lparr>en_last_emitted := now\<rparr>
                       in (Emit alert, t\<lparr>tr_inner := (tr_inner t)(fp \<mapsto> e2)\<rparr>))
                 else (Suppress, t\<lparr>tr_inner := (tr_inner t)(fp \<mapsto> e1)\<rparr>))
         | None \<Rightarrow>
             (let alert = build_firing (st_utc st) (st_ulid st) b;
                  e = \<lparr>en_last_emitted = now, en_last_seen = now, en_occurrences = 1,
                       en_severity = al_severity alert, en_template = snapshot_of alert,
                       en_ok_since = None\<rparr>
              in (Emit alert, t\<lparr>tr_inner := (tr_inner t)(fp \<mapsto> e)\<rparr>)))"

definition observe_ok :: "stamp \<Rightarrow> string \<Rightarrow> tracker \<Rightarrow> alert option \<times> tracker" where
  "observe_ok st fp t =
     (let now = st_instant st
      in case tr_inner t fp of
           None \<Rightarrow> (None, t)
         | Some e \<Rightarrow>
             (case en_ok_since e of
                None \<Rightarrow>
                  (None, t\<lparr>tr_inner := (tr_inner t)(fp \<mapsto> e\<lparr>en_ok_since := Some now\<rparr>)\<rparr>)
              | Some t0 \<Rightarrow>
                  if tr_recovery t \<le> now - t0
                  then (Some (build_resolved (st_utc st) (st_ulid st) (en_template e)
                                (en_severity e) (en_occurrences e)),
                        t\<lparr>tr_inner := (tr_inner t)(fp := None)\<rparr>)
                  else (None, t)))"

definition force_resolve :: "stamp \<Rightarrow> string \<Rightarrow> tracker \<Rightarrow> alert option \<times> tracker" where
  "force_resolve st fp t =
     (case tr_inner t fp of
        None \<Rightarrow> (None, t)
      | Some e \<Rightarrow>
          (Some (build_resolved (st_utc st) (st_ulid st) (en_template e)
                   (en_severity e) (en_occurrences e)),
           t\<lparr>tr_inner := (tr_inner t)(fp := None)\<rparr>))"

lemmas tracker_defs = observe_def observe_ok_def force_resolve_def Let_def

lemma build_resolved_simps [simp]:
  "al_state (build_resolved t u sp sev occ) = Resolved"
  "al_host_id (build_resolved t u sp sev occ) = sp_host_id sp"
  "al_host (build_resolved t u sp sev occ) = sp_host sp"
  "al_category (build_resolved t u sp sev occ) = sp_category sp"
  "al_severity (build_resolved t u sp sev occ) = sev"
  "al_occurrences (build_resolved t u sp sev occ) = occ"
  "al_fingerprint (build_resolved t u sp sev occ) =
     fingerprint_of (sp_host_id sp) (sp_category sp) (sp_device sp) (sp_metric sp)"
  by (simp_all add: build_resolved_def)

lemma snapshot_of_build_firing [simp]:
  "sp_host_id (snapshot_of (build_firing t u b)) = b_host_id b"
  "sp_host (snapshot_of (build_firing t u b)) = b_host b"
  "sp_category (snapshot_of (build_firing t u b)) = b_category b"
  "sp_device (snapshot_of (build_firing t u b)) = b_device b"
  "sp_metric (snapshot_of (build_firing t u b)) = b_metric b"
  by (simp_all add: snapshot_of_def)


section \<open>The key invariant of the tracker\<close>

text \<open>Every entry is filed under the fingerprint its resolved alert will carry, and \<open>Q\<close> holds
  of the host and category it was created for.\<close>

definition entry_fp :: "entry \<Rightarrow> string" where
  "entry_fp e = (let sp = en_template e in
     fingerprint_of (sp_host_id sp) (sp_category sp) (sp_device sp) (sp_metric sp))"

definition tracker_wf :: "(string \<Rightarrow> string \<Rightarrow> bool) \<Rightarrow> tracker \<Rightarrow> bool" where
  "tracker_wf Q t \<longleftrightarrow>
     (\<forall>fp e. tr_inner t fp = Some e \<longrightarrow>
        entry_fp e = fp \<and> Q (sp_host_id (en_template e)) (sp_category (en_template e)))"

lemma tracker_wfD:
  assumes "tracker_wf Q t" and "tr_inner t fp = Some e"
  shows "fingerprint_of (sp_host_id (en_template e)) (sp_category (en_template e))
           (sp_device (en_template e)) (sp_metric (en_template e)) = fp"
    and "Q (sp_host_id (en_template e)) (sp_category (en_template e))"
  using assms by (auto simp: tracker_wf_def entry_fp_def Let_def)

lemma tracker_wf_new: "tracker_wf Q (tracker_new r c)"
  by (simp add: tracker_wf_def tracker_new_def)

lemma tracker_wf_observe:
  assumes "tracker_wf Q t" and "Q (b_host_id b) (b_category b)"
  shows "tracker_wf Q (snd (observe st b t))"
  using assms
  by (auto simp: tracker_wf_def tracker_defs entry_fp_def fingerprint_def split: option.splits)

lemma tracker_wf_observe_ok:
  "tracker_wf Q t \<Longrightarrow> tracker_wf Q (snd (observe_ok st fp t))"
  by (auto simp: tracker_wf_def tracker_defs entry_fp_def split: option.splits)

lemma tracker_wf_force_resolve:
  "tracker_wf Q t \<Longrightarrow> tracker_wf Q (snd (force_resolve st fp t))"
  by (auto simp: tracker_wf_def tracker_defs entry_fp_def split: option.splits)

lemmas tracker_wf_intros = tracker_wf_new tracker_wf_observe tracker_wf_observe_ok tracker_wf_force_resolve

lemma tracker_params [simp]:
  "tr_re_notify (snd (observe st b t)) = tr_re_notify t"
  "tr_recovery (snd (observe st b t)) = tr_recovery t"
  "tr_re_notify (snd (observe_ok st fp t)) = tr_re_notify t"
  "tr_recovery (snd (observe_ok st fp t)) = tr_recovery t"
  "tr_re_notify (snd (force_resolve st fp t)) = tr_re_notify t"
  "tr_recovery (snd (force_resolve st fp t)) = tr_recovery t"
  by (auto simp: tracker_defs split: option.splits)


section \<open>The contract on histories of emitted alerts\<close>

type_synonym event = "instant \<times> alert"

text \<open>A history lists the emitted alerts with their monotonic time, latest first.\<close>

fun active_since :: "string \<Rightarrow> event list \<Rightarrow> instant option" where
  "active_since fp [] = None"
| "active_since fp ((t, a) # h) =
     (if al_fingerprint a = fp then (case al_state a of Firing \<Rightarrow> Some t | Resolved \<Rightarrow> None)
      else active_since fp h)"

fun history_ok :: "duration \<Rightarrow> event list \<Rightarrow> bool" where
  "history_ok d [] = True"
| "history_ok d ((t, a) # h) =
     (history_ok d h \<and>
      (case al_state a of
         Firing \<Rightarrow> (case active_since (al_fingerprint a) h of None \<Rightarrow> True | Some t0 \<Rightarrow> d \<le> t - t0)
       | Resolved \<Rightarrow> active_since (al_fingerprint a) h \<noteq> None))"

text \<open>The tracker represents a history when its entries are the active fingerprints with the
  time of their last emission.\<close>

definition represents :: "tracker \<Rightarrow> event list \<Rightarrow> bool" where
  "represents t h \<longleftrightarrow> (\<forall>fp. map_option en_last_emitted (tr_inner t fp) = active_since fp h)"

definition log_decision :: "instant \<Rightarrow> decision \<Rightarrow> event list \<Rightarrow> event list" where
  "log_decision now d h = (case d of Emit a \<Rightarrow> (now, a) # h | Suppress \<Rightarrow> h)"

definition log_option :: "instant \<Rightarrow> alert option \<Rightarrow> event list \<Rightarrow> event list" where
  "log_option now r h = (case r of Some a \<Rightarrow> (now, a) # h | None \<Rightarrow> h)"

lemma representsD:
  "represents t h \<Longrightarrow> tr_inner t fp = Some e \<Longrightarrow> active_since fp h = Some (en_last_emitted e)"
  "represents t h \<Longrightarrow> tr_inner t fp = None \<Longrightarrow> active_since fp h = None"
  by (metis (no_types, lifting) option.map represents_def)+

lemma represents_new: "represents (tracker_new r c) []"
  by (simp add: represents_def tracker_new_def)

lemma observe_refines:
  assumes rep: "represents t h" and ok: "history_ok (tr_re_notify t) h"
  shows "represents (snd (observe st b t)) (log_decision (st_instant st) (fst (observe st b t)) h)
       \<and> history_ok (tr_re_notify t) (log_decision (st_instant st) (fst (observe st b t)) h)"
proof (cases "tr_inner t (fingerprint b)")
  case None
  with representsD(2) [OF rep None] ok rep show ?thesis
    by (auto simp: tracker_defs log_decision_def represents_def)
next
  case (Some e)
  with representsD(1) [OF rep Some] ok rep show ?thesis
    by (auto simp: tracker_defs log_decision_def represents_def)
qed

lemma observe_ok_refines:
  assumes rep: "represents t h" and ok: "history_ok d h" and wf: "tracker_wf Q t"
  shows "represents (snd (observe_ok st fp t)) (log_option (st_instant st) (fst (observe_ok st fp t)) h)
       \<and> history_ok d (log_option (st_instant st) (fst (observe_ok st fp t)) h)"
proof (cases "tr_inner t fp")
  case None
  with ok rep show ?thesis by (simp add: tracker_defs log_option_def)
next
  case (Some e)
  with tracker_wfD(1) [OF wf Some] representsD(1) [OF rep Some] ok rep show ?thesis
    by (auto simp: tracker_defs log_option_def represents_def split: option.splits)
qed

lemma force_resolve_refines:
  assumes rep: "represents t h" and ok: "history_ok d h" and wf: "tracker_wf Q t"
  shows "represents (snd (force_resolve st fp t)) (log_option (st_instant st) (fst (force_resolve st fp t)) h)
       \<and> history_ok d (log_option (st_instant st) (fst (force_resolve st fp t)) h)"
proof (cases "tr_inner t fp")
  case None
  with ok rep show ?thesis by (simp add: tracker_defs log_option_def)
next
  case (Some e)
  with tracker_wfD(1) [OF wf Some] representsD(1) [OF rep Some] ok rep show ?thesis
    by (auto simp: tracker_defs log_option_def represents_def)
qed

end
