(* ===== verification/Agent_Emitter.thy ===== *)
theory Agent_Emitter
  imports Agent_Tracker
begin

text \<open>
  How a monitoring module uses its tracker and the sink. Every module of \<open>agent/src/modules\<close>
  acts through three idioms: \<open>if let Emit(a) = tracker.observe(b) { sink.send(Alert(a)) }\<close> (the
  helper \<open>emit\<close> of several modules), \<open>if let Some(r) = tracker.observe_ok(&fp) { sink.send(r) }\<close>
  and the same with \<open>force_resolve\<close>. The state they act on is an \<open>emitter\<close>: the tracker, the
  successive clock readings, and the alerts handed to \<open>AlertSink::send\<close> with the time of the
  decision, latest first. What the sink does with them is \<open>Agent_Bus\<close>.

  The locale \<open>detector\<close> is the interface between a module and its tracker: a step of the module is
  a sequence of these idioms on builders that satisfy \<open>P\<close>. Its lemmas lift the tracker's contract
  to whole runs, once for all modules.
\<close>

record emitter =
  em_tracker :: tracker
  em_clock :: "nat \<Rightarrow> stamp"
  em_k :: nat
  em_hist :: "event list"

abbreviation em_now :: "emitter \<Rightarrow> stamp" where
  "em_now s \<equiv> em_clock s (em_k s)"

definition emit :: "alert_builder \<Rightarrow> emitter \<Rightarrow> emitter" where
  "emit b s =
     (case observe (em_now s) b (em_tracker s) of
        (d, t) \<Rightarrow> s\<lparr>em_tracker := t, em_k := Suc (em_k s),
                   em_hist := log_decision (st_instant (em_now s)) d (em_hist s)\<rparr>)"

definition emit_ok :: "string \<Rightarrow> emitter \<Rightarrow> emitter" where
  "emit_ok fp s =
     (case observe_ok (em_now s) fp (em_tracker s) of
        (r, t) \<Rightarrow> s\<lparr>em_tracker := t, em_k := Suc (em_k s),
                   em_hist := log_option (st_instant (em_now s)) r (em_hist s)\<rparr>)"

definition emit_force :: "string \<Rightarrow> emitter \<Rightarrow> emitter" where
  "emit_force fp s =
     (case force_resolve (em_now s) fp (em_tracker s) of
        (r, t) \<Rightarrow> s\<lparr>em_tracker := t, em_k := Suc (em_k s),
                   em_hist := log_option (st_instant (em_now s)) r (em_hist s)\<rparr>)"

lemmas emitter_defs = emit_def emit_ok_def emit_force_def

definition emitter_new :: "duration \<Rightarrow> duration \<Rightarrow> (nat \<Rightarrow> stamp) \<Rightarrow> emitter" where
  "emitter_new re_notify recovery clock =
     \<lparr>em_tracker = tracker_new re_notify recovery, em_clock = clock, em_k = 0, em_hist = []\<rparr>"

datatype tracker_op = OpObserve alert_builder | OpOk string | OpForce string

fun run_op :: "tracker_op \<Rightarrow> emitter \<Rightarrow> emitter" where
  "run_op (OpObserve b) s = emit b s"
| "run_op (OpOk fp) s = emit_ok fp s"
| "run_op (OpForce fp) s = emit_force fp s"

definition run_ops :: "tracker_op list \<Rightarrow> emitter \<Rightarrow> emitter" where
  "run_ops ops s = fold run_op ops s"

fun op_sat :: "(alert_builder \<Rightarrow> bool) \<Rightarrow> tracker_op \<Rightarrow> bool" where
  "op_sat P (OpObserve b) = P b"
| "op_sat P (OpOk fp) = True"
| "op_sat P (OpForce fp) = True"


section \<open>Invariant of an emitter\<close>

definition emitter_ok :: "(string \<Rightarrow> string \<Rightarrow> bool) \<Rightarrow> emitter \<Rightarrow> bool" where
  "emitter_ok Q s \<longleftrightarrow>
     tracker_wf Q (em_tracker s) \<and>
     represents (em_tracker s) (em_hist s) \<and>
     history_ok (tr_re_notify (em_tracker s)) (em_hist s) \<and>
     (\<forall>(t, a) \<in> set (em_hist s). Q (al_host_id a) (al_category a))"

lemma emitter_ok_new: "emitter_ok Q (emitter_new r c clk)"
  by (simp add: emitter_ok_def emitter_new_def tracker_wf_new represents_new)

lemma observe_alert_origin:
  "fst (observe st b t) = Emit a \<Longrightarrow> al_host_id a = b_host_id b \<and> al_category a = b_category b"
  by (auto simp: tracker_defs split: option.splits if_splits)

lemma resolve_alert_origin:
  assumes "tracker_wf Q t"
  shows "fst (observe_ok st fp t) = Some a \<Longrightarrow> Q (al_host_id a) (al_category a)"
    and "fst (force_resolve st fp t) = Some a \<Longrightarrow> Q (al_host_id a) (al_category a)"
  using tracker_wfD(2) [OF assms]
  by (auto simp: tracker_defs split: option.splits if_splits)

lemma emit_parts:
  "em_tracker (emit b s) = snd (observe (em_now s) b (em_tracker s))"
  "em_hist (emit b s) =
     log_decision (st_instant (em_now s)) (fst (observe (em_now s) b (em_tracker s))) (em_hist s)"
  "em_tracker (emit_ok fp s) = snd (observe_ok (em_now s) fp (em_tracker s))"
  "em_hist (emit_ok fp s) =
     log_option (st_instant (em_now s)) (fst (observe_ok (em_now s) fp (em_tracker s))) (em_hist s)"
  "em_tracker (emit_force fp s) = snd (force_resolve (em_now s) fp (em_tracker s))"
  "em_hist (emit_force fp s) =
     log_option (st_instant (em_now s)) (fst (force_resolve (em_now s) fp (em_tracker s))) (em_hist s)"
  by (simp_all add: emitter_defs split: prod.splits)

lemma emit_clock [simp]:
  "em_clock (emit b s) = em_clock s" "em_k (emit b s) = Suc (em_k s)"
  "em_clock (emit_ok fp s) = em_clock s" "em_k (emit_ok fp s) = Suc (em_k s)"
  "em_clock (emit_force fp s) = em_clock s" "em_k (emit_force fp s) = Suc (em_k s)"
  by (simp_all add: emitter_defs split: prod.splits)

lemma log_decision_all:
  "(\<forall>x \<in> set (log_decision n d h). R x) \<longleftrightarrow>
     (\<forall>x \<in> set h. R x) \<and> (\<forall>a. d = Emit a \<longrightarrow> R (n, a))"
  by (cases d) (auto simp: log_decision_def)

lemma log_option_all:
  "(\<forall>x \<in> set (log_option n r h). R x) \<longleftrightarrow>
     (\<forall>x \<in> set h. R x) \<and> (\<forall>a. r = Some a \<longrightarrow> R (n, a))"
  by (cases r) (auto simp: log_option_def)

lemma emit_keeps_ok:
  assumes "emitter_ok Q s" and "Q (b_host_id b) (b_category b)"
  shows "emitter_ok Q (emit b s)"
  using assms observe_refines [of "em_tracker s" "em_hist s" "em_now s" b]
  unfolding emitter_ok_def emit_parts log_decision_all
  by (simp add: tracker_wf_observe) (metis observe_alert_origin)

lemma emit_ok_keeps_ok: "emitter_ok Q s \<Longrightarrow> emitter_ok Q (emit_ok fp s)"
  using observe_ok_refines [of "em_tracker s" "em_hist s" _ Q "em_now s" fp]
  unfolding emitter_ok_def emit_parts log_option_all
  by (auto simp: tracker_wf_observe_ok dest: resolve_alert_origin(1))

lemma emit_force_keeps_ok: "emitter_ok Q s \<Longrightarrow> emitter_ok Q (emit_force fp s)"
  using force_resolve_refines [of "em_tracker s" "em_hist s" _ Q "em_now s" fp]
  unfolding emitter_ok_def emit_parts log_option_all
  by (auto simp: tracker_wf_force_resolve dest: resolve_alert_origin(2))

lemma run_op_keeps_ok:
  assumes "emitter_ok Q s" and "op_sat (\<lambda>b. Q (b_host_id b) (b_category b)) op"
  shows "emitter_ok Q (run_op op s)"
  using assms by (cases op) (simp_all add: emit_keeps_ok emit_ok_keeps_ok emit_force_keeps_ok)

lemma run_ops_keeps_ok:
  assumes "emitter_ok Q s" and "\<forall>op \<in> set ops. op_sat (\<lambda>b. Q (b_host_id b) (b_category b)) op"
  shows "emitter_ok Q (run_ops ops s)"
  using assms unfolding run_ops_def
  by (induction ops arbitrary: s) (simp_all add: run_op_keeps_ok)

lemma run_op_params [simp]:
  "tr_re_notify (em_tracker (run_op op s)) = tr_re_notify (em_tracker s)"
  "tr_recovery (em_tracker (run_op op s)) = tr_recovery (em_tracker s)"
  by (cases op; simp add: emit_parts)+

lemma run_ops_params [simp]:
  "tr_re_notify (em_tracker (run_ops ops s)) = tr_re_notify (em_tracker s)"
  "tr_recovery (em_tracker (run_ops ops s)) = tr_recovery (em_tracker s)"
  unfolding run_ops_def by (induction ops arbitrary: s) simp_all

lemma suffix_log: "suffix h (log_decision n d h)" "suffix h (log_option n r h)"
  by (auto simp: log_decision_def log_option_def suffix_def split: decision.splits option.splits)

lemma suffix_run_op: "suffix (em_hist s) (em_hist (run_op op s))"
  by (cases op) (simp_all add: emit_parts suffix_log)

lemma suffix_run_ops: "suffix (em_hist s) (em_hist (run_ops ops s))"
  unfolding run_ops_def
proof (induction ops arbitrary: s)
  case (Cons op ops)
  from suffix_run_op Cons.IH [of "run_op op s"] show ?case
    by (metis fold_simps(2) suffix_order.order_trans)
qed simp


section \<open>Steps that only use the three idioms\<close>

text \<open>\<open>acts Q\<close>: by operations that satisfy \<open>Q\<close>. A step \<open>emits P\<close> when every alert it raises is built
  from a builder in \<open>P\<close>; it \<open>observes P\<close> when moreover it clears nothing.\<close>

definition acts :: "(tracker_op \<Rightarrow> bool) \<Rightarrow> emitter \<Rightarrow> emitter \<Rightarrow> bool" where
  "acts Q s s' \<longleftrightarrow> (\<exists>ops. s' = run_ops ops s \<and> (\<forall>op \<in> set ops. Q op))"

fun op_obs :: "(alert_builder \<Rightarrow> bool) \<Rightarrow> tracker_op \<Rightarrow> bool" where
  "op_obs P (OpObserve b) = P b"
| "op_obs P (OpOk fp) = False"
| "op_obs P (OpForce fp) = False"

abbreviation emits :: "(alert_builder \<Rightarrow> bool) \<Rightarrow> emitter \<Rightarrow> emitter \<Rightarrow> bool" where
  "emits P \<equiv> acts (op_sat P)"

abbreviation observes :: "(alert_builder \<Rightarrow> bool) \<Rightarrow> emitter \<Rightarrow> emitter \<Rightarrow> bool" where
  "observes P \<equiv> acts (op_obs P)"

lemma emits_refl [intro, simp]: "acts Q s s"
  unfolding acts_def by (rule exI [of _ "[]"]) (simp add: run_ops_def)

lemma emits_trans [trans]: "acts Q s s' \<Longrightarrow> acts Q s' s'' \<Longrightarrow> acts Q s s''"
  unfolding acts_def run_ops_def
  by (metis (no_types, lifting) Un_iff comp_apply fold_append set_append)

lemma acts_op: "acts Q s s' \<Longrightarrow> Q op \<Longrightarrow> acts Q s (run_op op s')"
  by (rule emits_trans, assumption, unfold acts_def, rule exI [of _ "[op]"]) (simp add: run_ops_def)

lemma emits_emit: "acts Q s s' \<Longrightarrow> Q (OpObserve b) \<Longrightarrow> acts Q s (emit b s')"
  using acts_op [of Q s s' "OpObserve b"] by simp

lemma emits_emit_ok: "acts Q s s' \<Longrightarrow> Q (OpOk fp) \<Longrightarrow> acts Q s (emit_ok fp s')"
  using acts_op [of Q s s' "OpOk fp"] by simp

lemma emits_emit_force: "acts Q s s' \<Longrightarrow> Q (OpForce fp) \<Longrightarrow> acts Q s (emit_force fp s')"
  using acts_op [of Q s s' "OpForce fp"] by simp

lemma acts_mono: "acts Q s s' \<Longrightarrow> (\<And>op. Q op \<Longrightarrow> Q' op) \<Longrightarrow> acts Q' s s'"
  by (auto simp: acts_def)

lemma op_obs_sat: "op_obs P op \<Longrightarrow> op_sat P op"
  by (cases op) simp_all

lemma emits_fold:
  assumes "\<And>x s'. x \<in> set xs \<Longrightarrow> acts Q s s' \<Longrightarrow> acts Q s (f x s')" and "acts Q s s0"
  shows "acts Q s (fold f xs s0)"
  using assms by (induction xs arbitrary: s0) simp_all

lemma emits_fold_snd:
  assumes "\<And>x m s'. x \<in> set xs \<Longrightarrow> acts Q s s' \<Longrightarrow> acts Q s (snd (f x (m, s')))"
    and "acts Q s (snd p)"
  shows "acts Q s (snd (fold f xs p))"
  using assms
proof (induction xs arbitrary: p)
  case (Cons x xs)
  from Cons.prems(1) [of x "snd p" "fst p"] Cons.prems(2) have "acts Q s (snd (f x p))" by simp
  with Cons show ?case by simp
qed simp

lemmas emits_intros [intro] = emits_emit emits_emit_ok emits_emit_force

lemma emits_if: "(c \<Longrightarrow> acts Q s a) \<Longrightarrow> (\<not> c \<Longrightarrow> acts Q s b) \<Longrightarrow> acts Q s (if c then a else b)"
  by simp

text \<open>What a builder of a given host and set of categories looks like; its map \<open>raw\<close> is finite.\<close>

definition from_host :: "string \<Rightarrow> string set \<Rightarrow> alert_builder \<Rightarrow> bool" where
  "from_host hid cats b \<longleftrightarrow> b_host_id b = hid \<and> b_category b \<in> cats \<and> finite (dom (b_raw b))"

lemma from_host_builder [simp]:
  "from_host hid cats (builder_new h hid' c m sev) \<longleftrightarrow> hid' = hid \<and> c \<in> cats"
  "from_host hid cats (b\<lparr>b_device := d\<rparr>) = from_host hid cats b"
  "from_host hid cats (b\<lparr>b_subsystem := d\<rparr>) = from_host hid cats b"
  "from_host hid cats (b\<lparr>b_device_model := d\<rparr>) = from_host hid cats b"
  "from_host hid cats (b\<lparr>b_value := d\<rparr>) = from_host hid cats b"
  "from_host hid cats (b\<lparr>b_threshold := d\<rparr>) = from_host hid cats b"
  "from_host hid cats (b\<lparr>b_title := str\<rparr>) = from_host hid cats b"
  "from_host hid cats (b\<lparr>b_message := str\<rparr>) = from_host hid cats b"
  "from_host hid cats (b\<lparr>b_raw := rw\<rparr>) \<longleftrightarrow> b_host_id b = hid \<and> b_category b \<in> cats \<and> finite (dom rw)"
  "from_host hid cats (b\<lparr>b_correlated := cs\<rparr>) = from_host hid cats b"
  by (simp_all add: from_host_def)

definition origin :: "string \<Rightarrow> string set \<Rightarrow> string \<Rightarrow> string \<Rightarrow> bool" where
  "origin hid cats h c \<longleftrightarrow> h = hid \<and> c \<in> cats"

lemma emits_keeps_ok:
  assumes "emits (from_host hid cats) s s'" and "emitter_ok (origin hid cats) s"
  shows "emitter_ok (origin hid cats) s'"
proof -
  from assms(1) obtain ops where "s' = run_ops ops s"
    and "\<forall>op \<in> set ops. op_sat (from_host hid cats) op" by (auto simp: acts_def)
  moreover have "op_sat (\<lambda>b. origin hid cats (b_host_id b) (b_category b)) op" if "op_sat (from_host hid cats) op" for op
    using that by (cases op) (simp_all add: origin_def from_host_def)
  ultimately show ?thesis using assms(2) by (simp add: run_ops_keeps_ok)
qed

text \<open>The alerts built from such builders have finite maps as well.\<close>

definition raw_finite :: "emitter \<Rightarrow> bool" where
  "raw_finite s \<longleftrightarrow> (\<forall>x \<in> set (em_hist s). finite (dom (al_raw (snd x))))"

lemma observe_raw: "fst (observe st b t) = Emit a \<Longrightarrow> al_raw a = b_raw b"
  by (auto simp: tracker_defs build_firing_def split: option.splits if_splits)

lemma resolve_raw:
  "fst (observe_ok st fp t) = Some a \<Longrightarrow> al_raw a = Map.empty" "fst (force_resolve st fp t) = Some a \<Longrightarrow> al_raw a = Map.empty"
  by (auto simp: tracker_defs build_resolved_def split: option.splits if_splits)

lemma run_op_raw_finite:
  "raw_finite s \<Longrightarrow> op_sat (from_host hid cats) op \<Longrightarrow> raw_finite (run_op op s)"
  by (cases op)
     (auto simp: raw_finite_def emit_parts log_decision_all log_option_all from_host_def observe_raw resolve_raw)

lemma emits_raw_finite:
  assumes "emits (from_host hid cats) s s'" and "raw_finite s"
  shows "raw_finite s'"
proof -
  from assms(1) obtain ops where "s' = run_ops ops s" "\<forall>op \<in> set ops. op_sat (from_host hid cats) op"
    by (auto simp: acts_def)
  with assms(2) show ?thesis
    unfolding run_ops_def by (induction ops arbitrary: s s') (simp_all add: run_op_raw_finite [of _ hid cats])
qed

locale detector =
  fixes step :: "'i \<Rightarrow> 'm \<times> emitter \<Rightarrow> 'm \<times> emitter"
    and hid :: string
    and cats :: "string set"
  assumes step_emits: "emits (from_host hid cats) (snd s) (snd (step i s))"
begin

lemma run_emits: "emits (from_host hid cats) (snd s) (snd (fold step xs s))"
proof (induction xs arbitrary: s)
  case (Cons i xs)
  from step_emits Cons.IH [of "step i s"] show ?case
    by (metis emits_trans fold_simps(2))
qed simp

lemma run_ok:
  assumes "emitter_ok (origin hid cats) (snd s)"
  shows "emitter_ok (origin hid cats) (snd (fold step xs s))"
  using run_emits assms by (rule emits_keeps_ok)

lemma run_re_notify:
  "tr_re_notify (em_tracker (snd (fold step xs s))) = tr_re_notify (em_tracker (snd s))"
  using run_emits [where s = s and xs = xs] by (auto simp: acts_def)

text \<open>From a new tracker, everything a module ever sends respects the contract.\<close>

lemma run_contract:
  assumes "snd s = emitter_new r c clk"
  shows "history_ok r (em_hist (snd (fold step xs s)))"
    and "\<forall>(t, a) \<in> set (em_hist (snd (fold step xs s))). al_host_id a = hid \<and> al_category a \<in> cats"
  using run_ok [where s = s and xs = xs] run_re_notify [where s = s and xs = xs] assms
  by (auto simp: emitter_ok_def emitter_ok_new origin_def emitter_new_def tracker_new_def
        represents_def tracker_wf_def)

end


text \<open>A module that never clears: everything it sends is firing.\<close>

lemma observe_firing: "fst (observe st b t) = Emit a \<Longrightarrow> al_state a = Firing"
  by (auto simp: tracker_defs split: option.splits if_splits)

lemma observes_firing:
  assumes "observes P s s'" and "\<forall>(t, a) \<in> set (em_hist s). al_state a = Firing"
  shows "\<forall>(t, a) \<in> set (em_hist s'). al_state a = Firing"
proof -
  from assms(1) obtain ops where "s' = run_ops ops s" and "\<forall>op \<in> set ops. op_obs P op"
    by (auto simp: acts_def)
  moreover have "\<forall>op \<in> set ops. op_obs P op \<Longrightarrow> \<forall>(t, a) \<in> set (em_hist s). al_state a = Firing \<Longrightarrow>
      \<forall>(t, a) \<in> set (em_hist (run_ops ops s)). al_state a = Firing" for ops s
  proof (induction ops arbitrary: s)
    case (Cons op ops)
    then obtain b where op: "op = OpObserve b" by (cases op) auto
    have "\<forall>(t, a) \<in> set (em_hist (emit b s)). al_state a = Firing"
      using Cons.prems(2) observe_firing unfolding emit_parts log_decision_all by fast
    with Cons.IH [of "run_op op s"] Cons.prems(1) show ?case by (simp add: op run_ops_def)
  qed (simp add: run_ops_def)
  ultimately show ?thesis using assms(2) by blast
qed

locale observer =
  fixes step :: "'i \<Rightarrow> 'm \<times> emitter \<Rightarrow> 'm \<times> emitter"
    and hid :: string
    and cats :: "string set"
  assumes step_observes: "observes (from_host hid cats) (snd s) (snd (step i s))"
begin

lemma run_observes: "observes (from_host hid cats) (snd s) (snd (fold step xs s))"
proof (induction xs arbitrary: s)
  case (Cons i xs)
  from step_observes Cons.IH [of "step i s"] show ?case by (metis emits_trans fold_simps(2))
qed simp

lemma run_only_fires:
  assumes "snd s = emitter_new r c clk"
  shows "\<forall>(t, a) \<in> set (em_hist (snd (fold step xs s))). al_state a = Firing"
  by (rule observes_firing [OF run_observes]) (simp add: assms emitter_new_def)

end

sublocale observer \<subseteq> detector step hid cats
  by unfold_locales (rule acts_mono [OF step_observes op_obs_sat])


section \<open>What the contract means for consecutive alerts\<close>

lemma history_ok_appendD: "history_ok d (h1 @ h2) \<Longrightarrow> history_ok d h2"
  by (induction h1) auto

lemma active_since_skip:
  "\<forall>(t, a) \<in> set m. al_fingerprint a \<noteq> fp \<Longrightarrow> active_since fp (m @ h) = active_since fp h"
  by (induction m) auto

lemma active_since_Some:
  "active_since fp h = Some t \<Longrightarrow>
     \<exists>a. (t, a) \<in> set h \<and> al_state a = Firing \<and> al_fingerprint a = fp"
  by (induction h) (force split: if_splits alert_state.splits)+

lemma op_sat_True [simp]: "op_sat (\<lambda>_. True) op"
  by (cases op) simp_all

lemma run_ops_ok_new: "emitter_ok (\<lambda>_ _. True) (run_ops ops (emitter_new r c clk))"
  by (rule run_ops_keeps_ok) (simp_all add: emitter_ok_new)

lemma emitter_new_simps [simp]:
  "tr_re_notify (em_tracker (emitter_new r c clk)) = r"
  "tr_recovery (em_tracker (emitter_new r c clk)) = c"
  "em_clock (emitter_new r c clk) = clk"
  "em_k (emitter_new r c clk) = 0"
  "em_hist (emitter_new r c clk) = []"
  "tr_inner (em_tracker (emitter_new r c clk)) = Map.empty"
  by (simp_all add: emitter_new_def tracker_new_def)

lemma run_ops_contract: "history_ok r (em_hist (run_ops ops (emitter_new r c clk)))"
  using run_ops_ok_new [of ops r c clk] by (simp add: emitter_ok_def)


section \<open>Timing of recovery\<close>

definition mono_clock :: "(nat \<Rightarrow> stamp) \<Rightarrow> bool" where
  "mono_clock clk \<longleftrightarrow> (\<forall>i j. i \<le> j \<longrightarrow> st_instant (clk i) \<le> st_instant (clk j))"

text \<open>Since the reading \<open>t0\<close>, entry \<open>fp\<close>, if present, was last seen and last found in order no
  earlier than \<open>t0\<close>, and no later than the readings made so far.\<close>

definition seen_since :: "instant \<Rightarrow> string \<Rightarrow> emitter \<Rightarrow> bool" where
  "seen_since t0 fp s \<longleftrightarrow>
     t0 \<le> st_instant (em_now s) \<and>
     (\<forall>e. tr_inner (em_tracker s) fp = Some e \<longrightarrow>
        t0 \<le> en_last_seen e \<and> (\<forall>u. en_ok_since e = Some u \<longrightarrow> t0 \<le> u))"

lemma run_op_clock [simp]:
  "em_clock (run_op op s) = em_clock s" "em_k (run_op op s) = Suc (em_k s)"
  by (cases op; simp)+

lemma run_ops_clock [simp]:
  "em_clock (run_ops ops s) = em_clock s" "em_k (run_ops ops s) = em_k s + length ops"
  unfolding run_ops_def by (induction ops arbitrary: s) simp_all

lemma run_ops_append: "run_ops (xs @ ys) s = run_ops ys (run_ops xs s)"
  by (simp add: run_ops_def)

lemma run_ops_Cons: "run_ops (x # xs) s = run_ops xs (run_op x s)"
  by (simp add: run_ops_def)

lemma seen_since_step:
  assumes "mono_clock (em_clock s)" and "seen_since t0 fp s"
  shows "seen_since t0 fp (run_op op s)"
proof -
  have "st_instant (em_now s) \<le> st_instant (em_clock s (Suc (em_k s)))"
    using assms(1) by (simp add: mono_clock_def)
  with assms(2) show ?thesis
    by (cases op)
       (auto simp: seen_since_def emit_parts tracker_defs split: option.splits if_splits)
qed

lemma seen_since_run:
  assumes "mono_clock (em_clock s)" and "seen_since t0 fp s"
  shows "seen_since t0 fp (run_ops ops s)"
  using assms
  by (induction ops arbitrary: s) (simp_all add: run_ops_def seen_since_step)

lemma seen_since_observe:
  assumes "mono_clock (em_clock s)"
  shows "seen_since (st_instant (em_now s)) (fingerprint b) (emit b s)"
proof -
  have "st_instant (em_now s) \<le> st_instant (em_clock s (Suc (em_k s)))"
    using assms by (simp add: mono_clock_def)
  then show ?thesis
    by (auto simp: seen_since_def emit_parts tracker_defs split: option.splits if_splits)
qed

lemma emit_ok_resolved_waited:
  assumes "seen_since t0 fp s" and "em_hist (emit_ok fp s) \<noteq> em_hist s"
  shows "tr_recovery (em_tracker s) \<le> st_instant (em_now s) - t0"
  using assms
  by (auto simp: seen_since_def emit_parts tracker_defs log_option_def split: option.splits if_splits)


section \<open>Properties\<close>

text \<open>For concrete runs: a clock that advances by \<open>d\<close> at each reading, and a sample builder.\<close>

definition tick_clock :: "nat \<Rightarrow> nat \<Rightarrow> stamp" where
  "tick_clock d n = \<lparr>st_instant = d * n, st_utc = int n, st_ulid = []\<rparr>"

definition sample_builder :: alert_builder where
  "sample_builder = builder_new ''node1'' ''4f2a'' NVME ''media_errors'' Warning"

lemma mono_tick_clock: "mono_clock (tick_clock d)"
  by (simp add: mono_clock_def tick_clock_def)

lemma tick_clock_simps [simp]:
  "st_instant (tick_clock d n) = d * n" "st_utc (tick_clock d n) = int n"
  "st_ulid (tick_clock d n) = []"
  by (simp_all add: tick_clock_def)

lemmas run_eval =
  run_ops_def emit_parts tracker_defs log_decision_def log_option_def

text \<open>C1. Whatever sequence of \<open>observe\<close>, \<open>observe_ok\<close> and \<open>force_resolve\<close> calls a module makes on
  a fresh tracker, and whatever the clock does, the sequence of alerts it sends satisfies the
  dedup contract: a firing alert whose fingerprint is already firing comes at least
  \<open>re_notify\<close> after the last one sent, and a resolved alert only for a fingerprint that is
  firing (so every resolve closes an open firing episode and is sent once).\<close>

theorem tracker_history_contract:
  "history_ok (tr_re_notify (em_tracker (run_ops ops (emitter_new r c clk))))
     (em_hist (run_ops ops (emitter_new r c clk)))
   \<and> represents (em_tracker (run_ops ops (emitter_new r c clk)))
       (em_hist (run_ops ops (emitter_new r c clk)))"
  using run_ops_ok_new [of ops r c clk] by (simp add: emitter_ok_def)

text \<open>C2. Two firing alerts with the same fingerprint that are sent one after the other, with no
  other alert of that fingerprint between them, are at least \<open>re_notify\<close> apart.\<close>

theorem dedup_spacing:
  assumes "em_hist (run_ops ops (emitter_new r c clk)) = later @ (t2, a2) # mid @ (t1, a1) # earlier"
    and "al_state a1 = Firing" and "al_state a2 = Firing"
    and "al_fingerprint a1 = al_fingerprint a2"
    and "\<forall>(t, a) \<in> set mid. al_fingerprint a \<noteq> al_fingerprint a2"
  shows "r \<le> t2 - t1"
proof -
  have "history_ok r ((t2, a2) # mid @ (t1, a1) # earlier)"
    using run_ops_contract [of r ops c clk] assms(1) history_ok_appendD by metis
  moreover have "active_since (al_fingerprint a2) (mid @ (t1, a1) # earlier) = Some t1"
    using assms(2,4,5) by (simp add: active_since_skip)
  ultimately show ?thesis using assms(3) by simp
qed

theorem dedup_spacing_witness:
  "\<exists>a1 a2. em_hist (run_ops (replicate 3 (OpObserve sample_builder)) (emitter_new 15 5 (tick_clock 10)))
             = [(20, a2), (0, a1)] \<and> (15::nat) \<le> 20 - 0"
proof -
  let ?a1 = "build_firing 0 [] sample_builder"
  let ?b1 = "(build_firing 2 [] sample_builder)\<lparr>al_occurrences := 3\<rparr>"
  have h: "em_hist (run_ops (replicate 3 (OpObserve sample_builder)) (emitter_new 15 5 (tick_clock 10)))
             = [] @ (20, ?b1) # [] @ (0, ?a1) # []"
    by (simp add: run_eval numeral_3_eq_3)
  from dedup_spacing [OF h] h show ?thesis by simp
qed

text \<open>C3. A resolved alert is only ever sent for a condition that was reported before: earlier in
  the history there is a firing alert with its fingerprint, and no other alert of that
  fingerprint lies between them.\<close>

theorem resolved_closes_firing:
  assumes "em_hist (run_ops ops (emitter_new r c clk)) = later @ (t, a) # earlier"
    and "al_state a = Resolved"
  shows "\<exists>mid t0 a0 rest. earlier = mid @ (t0, a0) # rest \<and> al_state a0 = Firing
           \<and> al_fingerprint a0 = al_fingerprint a
           \<and> (\<forall>(u, x) \<in> set mid. al_fingerprint x \<noteq> al_fingerprint a)"
proof -
  have act: "active_since (al_fingerprint a) earlier \<noteq> None"
    using run_ops_contract [of r ops c clk] assms history_ok_appendD [of r later "(t, a) # earlier"]
    by simp
  have "active_since fp h \<noteq> None \<Longrightarrow>
      \<exists>mid t0 a0 rest. h = mid @ (t0, a0) # rest \<and> al_state a0 = Firing
        \<and> al_fingerprint a0 = fp \<and> (\<forall>(u, x) \<in> set mid. al_fingerprint x \<noteq> fp)" for fp h
  proof (induction h)
    case (Cons e h)
    obtain u x where e: "e = (u, x)" by force
    show ?case
    proof (cases "al_fingerprint x = fp")
      case True
      with Cons.prems e show ?thesis
        by (intro exI [of _ "[]"] exI [of _ u] exI [of _ x] exI [of _ h])
           (auto split: alert_state.splits)
    next
      case False
      with Cons.prems e obtain mid t0 a0 rest where "h = mid @ (t0, a0) # rest"
        "al_state a0 = Firing" "al_fingerprint a0 = fp" "\<forall>(u, x) \<in> set mid. al_fingerprint x \<noteq> fp"
        using Cons.IH by auto
      with e False show ?thesis
        by (intro exI [of _ "e # mid"] exI [of _ t0] exI [of _ a0] exI [of _ rest]) auto
    qed
  qed simp
  from this [OF act] show ?thesis .
qed

theorem resolved_closes_firing_witness:
  "\<exists>t a earlier mid t0 a0 rest.
     em_hist (run_ops [OpObserve sample_builder, OpForce (fingerprint sample_builder)]
       (emitter_new 15 5 (tick_clock 10))) = (t, a) # earlier \<and> al_state a = Resolved
     \<and> earlier = mid @ (t0, a0) # rest \<and> al_state a0 = Firing
     \<and> al_fingerprint a0 = al_fingerprint a"
proof -
  let ?res = "build_resolved 1 [] (snapshot_of (build_firing 0 [] sample_builder)) Warning 1"
  have h: "em_hist (run_ops [OpObserve sample_builder, OpForce (fingerprint sample_builder)]
       (emitter_new 15 5 (tick_clock 10)))
       = [] @ (10, ?res) # [(0, build_firing 0 [] sample_builder)]"
    by (simp add: run_eval) (simp add: sample_builder_def)
  from resolved_closes_firing [OF h] h show ?thesis
    by (metis append_Nil build_resolved_simps(1))
qed

text \<open>C4. With a monotonic clock, once a condition has been observed at time \<open>t0\<close>, no later
  \<open>observe_ok\<close> for its fingerprint sends the resolved alert before the recovery window has
  passed since \<open>t0\<close>, whatever happens in between.\<close>

theorem recovery_window_respected:
  assumes "mono_clock clk"
    and "em_hist (run_ops (pre @ OpObserve b # post @ [OpOk (fingerprint b)]) (emitter_new r c clk))
         = (t, a) # em_hist (run_ops (pre @ OpObserve b # post) (emitter_new r c clk))"
  shows "c \<le> st_instant (clk (length pre + 1 + length post)) - st_instant (clk (length pre))"
proof -
  let ?before = "run_ops pre (emitter_new r c clk)"
  let ?s = "run_ops (pre @ OpObserve b # post) (emitter_new r c clk)"
  have clk: "em_clock ?before = clk" and k: "em_k ?before = length pre" by simp_all
  have s: "?s = run_ops post (emit b ?before)" by (simp add: run_ops_append run_ops_Cons)
  have "seen_since (st_instant (em_now ?before)) (fingerprint b) (emit b ?before)"
    using assms(1) by (intro seen_since_observe) (simp only: clk)
  then have "seen_since (st_instant (em_now ?before)) (fingerprint b) ?s"
    unfolding s using assms(1) by (intro seen_since_run) (simp_all only: emit_clock clk)
  then have "seen_since (st_instant (clk (length pre))) (fingerprint b) ?s"
    by (simp only: clk k)
  moreover have "emit_ok (fingerprint b) ?s =
      run_ops (pre @ OpObserve b # post @ [OpOk (fingerprint b)]) (emitter_new r c clk)"
    by (simp add: run_ops_def)
  with assms(2) have "em_hist (emit_ok (fingerprint b) ?s) \<noteq> em_hist ?s"
    by (metis not_Cons_self2)
  ultimately have "tr_recovery (em_tracker ?s) \<le> st_instant (em_now ?s) - st_instant (clk (length pre))"
    by (rule emit_ok_resolved_waited)
  then show ?thesis by (simp add: add.assoc)
qed

theorem recovery_window_respected_witness:
  "mono_clock (tick_clock 10) \<and>
   (20::nat) \<le> st_instant (tick_clock 10 3) - st_instant (tick_clock 10 0)"
proof -
  let ?res = "build_resolved 3 [] (snapshot_of (build_firing 0 [] sample_builder)) Warning 1"
  have "em_hist (run_ops ([] @ OpObserve sample_builder #
          [OpOk (fingerprint sample_builder), OpOk (fingerprint sample_builder)]
          @ [OpOk (fingerprint sample_builder)]) (emitter_new 100 20 (tick_clock 10)))
        = (30, ?res) # em_hist (run_ops ([] @ OpObserve sample_builder #
          [OpOk (fingerprint sample_builder), OpOk (fingerprint sample_builder)])
          (emitter_new 100 20 (tick_clock 10)))"
    by (simp add: run_eval) (simp add: sample_builder_def)
  from recovery_window_respected [OF mono_tick_clock this] show ?thesis
    by (simp add: mono_tick_clock)
qed


text \<open>The entry of \<open>fp\<close> is gone, or in order since \<open>t0\<close>.\<close>

definition ok_from :: "instant \<Rightarrow> string \<Rightarrow> emitter \<Rightarrow> bool" where
  "ok_from t0 fp s \<longleftrightarrow>
     (case tr_inner (em_tracker s) fp of None \<Rightarrow> True | Some e \<Rightarrow> en_ok_since e = Some t0)"

definition leaves_alone :: "string \<Rightarrow> tracker_op \<Rightarrow> bool" where
  "leaves_alone fp op = op_sat (\<lambda>b. fingerprint b \<noteq> fp) op"

lemma ok_from_step: "ok_from t0 fp s \<Longrightarrow> leaves_alone fp op \<Longrightarrow> ok_from t0 fp (run_op op s)"
  by (cases op)
     (auto simp: ok_from_def leaves_alone_def emit_parts tracker_defs split: option.splits if_splits)

lemma ok_from_run:
  "ok_from t0 fp s \<Longrightarrow> \<forall>op \<in> set ops. leaves_alone fp op \<Longrightarrow> ok_from t0 fp (run_ops ops s)"
  unfolding run_ops_def by (induction ops arbitrary: s) (simp_all add: ok_from_step)

lemma ok_from_start: "ok_from (st_instant (em_now (emit b s))) (fingerprint b) (emit_ok (fingerprint b) (emit b s))"
  by (auto simp: ok_from_def emit_parts tracker_defs split: option.splits if_splits)

lemma ok_from_resolves:
  "ok_from t0 fp s \<Longrightarrow> tr_recovery (em_tracker s) \<le> st_instant (em_now s) - t0 \<Longrightarrow>
     tr_inner (em_tracker (emit_ok fp s)) fp = None"
  by (auto simp: ok_from_def emit_parts tracker_defs split: option.splits if_splits)

lemma closed_history:
  "active_since fp h = None \<Longrightarrow> (t, a) \<in> set h \<Longrightarrow> al_fingerprint a = fp \<Longrightarrow>
     \<exists>u r. find (\<lambda>(_, a). al_fingerprint a = fp) h = Some (u, r) \<and> al_state r = Resolved"
  by (induction h) (auto split: if_splits alert_state.splits prod.splits)

text \<open>C5. Recovery is reported: once a condition was observed, found in order, not observed again
  (whatever else happens to the tracker), and found in order a second time at least the recovery
  window after the first, its entry is gone and the last alert sent for its fingerprint is a
  resolved one.\<close>

theorem recovery_reported:
  assumes "s1 = run_ops (pre @ [OpObserve b]) (emitter_new r c clk)"
    and "s2 = run_ops (OpOk (fingerprint b) # ops) s1" and "\<forall>op \<in> set ops. leaves_alone (fingerprint b) op"
    and "c \<le> st_instant (em_now s2) - st_instant (em_now s1)"
  shows "tr_inner (em_tracker (emit_ok (fingerprint b) s2)) (fingerprint b) = None
    \<and> (\<exists>t a. find (\<lambda>(_, a). al_fingerprint a = fingerprint b) (em_hist (emit_ok (fingerprint b) s2)) = Some (t, a)
          \<and> al_state a = Resolved)"
proof -
  let ?fp = "fingerprint b"
  let ?s0 = "run_ops pre (emitter_new r c clk)"
  have s1: "s1 = emit b ?s0" by (simp add: assms(1) run_ops_def)
  have "ok_from (st_instant (em_now s1)) ?fp s2"
    unfolding assms(2) run_ops_Cons using assms(3) ok_from_start [of b ?s0] by (intro ok_from_run) (simp_all add: s1)
  moreover have "tr_recovery (em_tracker s2) = c" by (simp add: assms(1,2))
  ultimately have gone: "tr_inner (em_tracker (emit_ok ?fp s2)) ?fp = None"
    using assms(4) by (intro ok_from_resolves) simp_all
  let ?ops = "pre @ OpObserve b # OpOk ?fp # ops @ [OpOk ?fp]"
  have s3: "emit_ok ?fp s2 = run_ops ?ops (emitter_new r c clk)"
    by (simp add: assms(1,2) run_ops_def)
  have rep: "represents (em_tracker (run_ops os (emitter_new r c clk))) (em_hist (run_ops os (emitter_new r c clk)))" for os
    using run_ops_ok_new [of os r c clk] by (simp add: emitter_ok_def)
  have "tr_inner (em_tracker s1) ?fp \<noteq> None"
    by (auto simp: s1 emit_parts observe_def Let_def split: option.splits)
  then have "active_since ?fp (em_hist s1) \<noteq> None"
    using rep [of "pre @ [OpObserve b]"] unfolding represents_def assms(1) by (metis map_option_is_None)
  then obtain t a where ta: "(t, a) \<in> set (em_hist s1)" "al_fingerprint a = ?fp"
    by (auto dest: active_since_Some)
  have "suffix (em_hist s1) (em_hist (emit_ok ?fp s2))"
    using suffix_run_ops [of s1 "OpOk ?fp # ops @ [OpOk ?fp]"] by (simp add: assms(2) run_ops_def)
  with ta(1) have "(t, a) \<in> set (em_hist (emit_ok ?fp s2))" by (meson set_mono_suffix subsetD)
  moreover have "active_since ?fp (em_hist (emit_ok ?fp s2)) = None"
    using rep [of ?ops] gone unfolding represents_def s3 by (metis map_option_is_None)
  ultimately show ?thesis using closed_history ta(2) gone by blast
qed

theorem recovery_reported_witness:
  "\<exists>t a. find (\<lambda>(_, a). al_fingerprint a = fingerprint sample_builder)
     (em_hist (run_ops [OpObserve sample_builder, OpOk (fingerprint sample_builder), OpOk ''other'',
        OpOk (fingerprint sample_builder)] (emitter_new 100 20 (tick_clock 10)))) = Some (t, a) \<and> al_state a = Resolved"
  using recovery_reported [of _ "[]" sample_builder 100 20 "tick_clock 10" _ "[OpOk ''other'']", OF refl refl]
  by (simp add: leaves_alone_def run_ops_def)

end
