(* ===== verification/Agent_Host.thy ===== *)
theory Agent_Host
  imports Uma_Shared
begin

text \<open>
  \<open>agent/src/host.rs\<close> and \<open>agent/src/priv_cmd.rs\<close>, and what the monitoring modules share besides
  the tracker. Running a process is outside the program: what a child does is an input
  (\<open>child_outcome\<close>), and modules see a command as a function from its words to an outcome. The
  accessors of \<open>serde_json::Value\<close> are those of the JSON data model. The hash of the fallback
  machine id (the standard library's unspecified default hasher) is a parameter.
\<close>

section \<open>JSON accessors\<close>

definition jget :: "json \<Rightarrow> string \<Rightarrow> json option" where
  [std_defs]: "jget v k = (case v of JObj ms \<Rightarrow> map_of ms k | _ \<Rightarrow> None)"

definition as_str :: "json \<Rightarrow> string option" where
  [std_defs]: "as_str v = (case v of JStr s \<Rightarrow> Some s | _ \<Rightarrow> None)"

definition as_array :: "json \<Rightarrow> json list option" where
  [std_defs]: "as_array v = (case v of JArr xs \<Rightarrow> Some xs | _ \<Rightarrow> None)"

definition as_object :: "json \<Rightarrow> (string \<times> json) list option" where
  [std_defs]: "as_object v = (case v of JObj ms \<Rightarrow> Some ms | _ \<Rightarrow> None)"

definition as_bool :: "json \<Rightarrow> bool option" where
  [std_defs]: "as_bool v = (case v of JBool b \<Rightarrow> Some b | _ \<Rightarrow> None)"

definition as_u64 :: "json \<Rightarrow> u64 option" where
  [std_defs]: "as_u64 v =
     (case v of JInt i \<Rightarrow> if 0 \<le> i \<and> i < 2 ^ 64 then Some (of_int i) else None | _ \<Rightarrow> None)"

definition as_i64 :: "json \<Rightarrow> int option" where
  [std_defs]: "as_i64 v =
     (case v of JInt i \<Rightarrow> if - (2 ^ 63) \<le> i \<and> i < 2 ^ 63 then Some i else None | _ \<Rightarrow> None)"

text \<open>\<open>v.get(k).and_then(|x| x.as_str()).unwrap_or(d)\<close>.\<close>

definition str_field :: "json \<Rightarrow> string \<Rightarrow> string \<Rightarrow> string" where
  [std_defs]: "str_field v k d = (case Option.bind (jget v k) as_str of Some s \<Rightarrow> s | None \<Rightarrow> d)"


section \<open>Commands\<close>

record cmd_output =
  co_stdout :: string
  co_stderr :: string
  co_code :: "int option"

text \<open>\<open>ExitStatus::success\<close>: the process ended with code zero (a signal leaves no code).\<close>

definition co_success :: "cmd_output \<Rightarrow> bool" where
  "co_success out \<longleftrightarrow> co_code out = Some 0"

datatype child_outcome =
    SpawnFailed
  | WaitFailed
  | TimedOut
  | Exited string string "int option"

definition TIMEOUT_STORAGE :: duration where "TIMEOUT_STORAGE = secs 20"
definition TIMEOUT_IPMI :: duration where "TIMEOUT_IPMI = secs 15"
definition TIMEOUT_NET :: duration where "TIMEOUT_NET = secs 10"
definition TIMEOUT_GPU :: duration where "TIMEOUT_GPU = secs 15"
definition TIMEOUT_GENERAL :: duration where "TIMEOUT_GENERAL = secs 15"

definition priv_command :: "bool \<Rightarrow> string \<Rightarrow> string list" where
  "priv_command is_root bin = (if is_root then [bin] else [''sudo'', ''-n'', bin])"

text \<open>The environment says how a command with a given time limit ends.\<close>

type_synonym spawn = "string list \<Rightarrow> duration \<Rightarrow> child_outcome"

definition run_cmd :: "spawn \<Rightarrow> string list \<Rightarrow> string \<Rightarrow> duration \<Rightarrow> string + cmd_output" where
  "run_cmd spawn argv label t =
     (case spawn argv t of
        SpawnFailed \<Rightarrow> Inl (''spawn `'' @ label @ ''`'')
      | Exited out err code \<Rightarrow> Inr \<lparr>co_stdout = out, co_stderr = err, co_code = code\<rparr>
      | WaitFailed \<Rightarrow> Inl (''`'' @ label @ ''` wait error'')
      | TimedOut \<Rightarrow> Inl (''`'' @ label @ ''` timed out after '' @ show_nat (t div 1000000000) @ ''s''))"

definition run :: "spawn \<Rightarrow> string \<Rightarrow> string list \<Rightarrow> duration \<Rightarrow> string + cmd_output" where
  "run spawn bin args t = run_cmd spawn (bin # args) bin t"

text \<open>\<open>run(..).await.ok()\<close>, and the same followed by the test of the exit status.\<close>

definition ok_output :: "string + cmd_output \<Rightarrow> cmd_output option" where
  "ok_output r = (case r of Inr o1 \<Rightarrow> Some o1 | Inl _ \<Rightarrow> None)"

definition success_output :: "string + cmd_output \<Rightarrow> string option" where
  "success_output r = (case r of Inr o1 \<Rightarrow> if co_success o1 then Some (co_stdout o1) else None | Inl _ \<Rightarrow> None)"


section \<open>Host identity\<close>

record host_id =
  ho_hostname :: string
  ho_machine_id :: string
  ho_primary_ip :: string

definition skip_ifaces :: "string list" where
  "skip_ifaces = [''lo'', ''docker'', ''cni'', ''veth'', ''br-'', ''tun'', ''tap'', ''virbr'', ''uma-test'']"

fun first_inet :: "json list \<Rightarrow> string option" where
  "first_inet [] = None"
| "first_inet (a # as) =
     (if Option.bind (jget a ''family'') as_str = Some ''inet''
      then (case Option.bind (jget a ''local'') as_str of Some ip \<Rightarrow> Some ip | None \<Rightarrow> first_inet as)
      else first_inet as)"

fun pick_iface :: "json list \<Rightarrow> string option" where
  "pick_iface [] = None"
| "pick_iface (iface # rest) =
     (if list_ex (\<lambda>p. starts_with (str_field iface ''ifname'' []) p) skip_ifaces then pick_iface rest
      else
        let oper = str_field iface ''operstate'' []
        in if oper \<noteq> ''UP'' \<and> oper \<noteq> ''UNKNOWN'' then pick_iface rest
           else (case Option.bind (jget iface ''addr_info'') as_array of
                   Some addrs \<Rightarrow>
                     (case first_inet addrs of Some ip \<Rightarrow> Some ip | None \<Rightarrow> pick_iface rest)
                 | None \<Rightarrow> pick_iface rest))"

definition detect_ip_via_ip_cmd :: "(string \<Rightarrow> json option) \<Rightarrow> cmd_output option \<Rightarrow> string option" where
  "detect_ip_via_ip_cmd parse_json out =
     Option.bind out (\<lambda>o1. if \<not> co_success o1 then None
       else Option.bind (parse_json (co_stdout o1)) (\<lambda>v. Option.bind (as_array v) pick_iface))"

definition detect_ip_via_hostname :: "cmd_output option \<Rightarrow> string option" where
  "detect_ip_via_hostname out =
     Option.bind out (\<lambda>o1.
       find (\<lambda>ip. \<not> starts_with ip ''127.'' \<and> \<not> starts_with ip ''169.254.'' \<and> \<not> contains ip '':'')
         (split_whitespace (from_utf8_lossy (co_stdout o1))))"

definition detect_primary_ip ::
  "(string \<Rightarrow> json option) \<Rightarrow> cmd_output option \<Rightarrow> cmd_output option \<Rightarrow> string option" where
  "detect_primary_ip parse_json ip_out hostname_out =
     (case detect_ip_via_ip_cmd parse_json ip_out of
        Some ip \<Rightarrow> Some ip
      | None \<Rightarrow> detect_ip_via_hostname hostname_out)"

text \<open>\<open>hash16\<close> is the sixteen-digit hexadecimal hash of the host name.\<close>

definition detect ::
  "(string \<Rightarrow> json option) \<Rightarrow> (string \<Rightarrow> string) \<Rightarrow> string option \<Rightarrow> (string \<Rightarrow> string option)
     \<Rightarrow> cmd_output option \<Rightarrow> cmd_output option \<Rightarrow> host_id option" where
  "detect parse_json hash16 gethostname read_file ip_out hostname_out =
     (case gethostname of
        None \<Rightarrow> None
      | Some raw \<Rightarrow>
          let hostname = from_utf8_lossy raw;
              machine_id = (case read_file ''/etc/machine-id'' of
                  Some s \<Rightarrow> trim s
                | None \<Rightarrow>
                    (case read_file ''/var/lib/dbus/machine-id'' of
                       Some s \<Rightarrow> trim s
                     | None \<Rightarrow> ''hn-'' @ hash16 hostname));
              primary_ip = (case detect_primary_ip parse_json ip_out hostname_out of
                  Some ip \<Rightarrow> ip | None \<Rightarrow> [])
          in Some \<lparr>ho_hostname = hostname, ho_machine_id = machine_id, ho_primary_ip = primary_ip\<rparr>)"


section \<open>Characters and the regex library\<close>

text \<open>The characters of the modules' texts and patterns that a literal cannot hold.\<close>

definition em_dash :: string where "em_dash = [CHR 0xE2, CHR 0x80, CHR 0x94]"
definition arrow :: string where "arrow = [CHR 0xE2, CHR 0x86, CHR 0x92]"
definition degree :: string where "degree = [CHR 0xC2, CHR 0xB0]"
definition quote :: string where "quote = [CHR 0x22]"
definition bsl :: string where "bsl = [CHR 0x5C]"

text \<open>The regex crate: \<open>rx_is_match\<close> and \<open>rx_captures\<close> on a pattern and a text (a match gives its
  groups by number, a group that took no part is None), and \<open>rx_compiles\<close>, whether
  \<open>Regex::new\<close> accepts a pattern.\<close>

record regex_lib =
  rx_compiles :: "string \<Rightarrow> bool"
  rx_is_match :: "string \<Rightarrow> string \<Rightarrow> bool"
  rx_captures :: "string \<Rightarrow> string \<Rightarrow> (nat \<Rightarrow> string option) option"

text \<open>\<open>&c[i]\<close> on a group that always takes part in a match.\<close>

definition grp :: "(nat \<Rightarrow> string option) \<Rightarrow> nat \<Rightarrow> string" where
  "grp c i = (case c i of Some s \<Rightarrow> s | None \<Rightarrow> [])"

abbreviation host_builder :: "host_id \<Rightarrow> string \<Rightarrow> string \<Rightarrow> severity \<Rightarrow> alert_builder" where
  "host_builder h cat metric sev \<equiv> builder_new (ho_hostname h) (ho_machine_id h) cat metric sev"


section \<open>Facts\<close>

lemma first_inet_Some:
  "first_inet addrs = Some ip \<Longrightarrow>
     \<exists>a \<in> set addrs. Option.bind (jget a ''family'') as_str = Some ''inet''
       \<and> Option.bind (jget a ''local'') as_str = Some ip"
  by (induction addrs) (auto split: if_splits option.splits)

lemma pick_iface_Some:
  "pick_iface ifs = Some ip \<Longrightarrow>
     \<exists>i \<in> set ifs. (\<forall>p \<in> set skip_ifaces. \<not> starts_with (str_field i ''ifname'' []) p)
       \<and> str_field i ''operstate'' [] \<in> {''UP'', ''UNKNOWN''}
       \<and> (\<exists>addrs. Option.bind (jget i ''addr_info'') as_array = Some addrs \<and> first_inet addrs = Some ip)"
proof (induction ifs)
  case (Cons i ifs)
  show ?case
  proof (cases "pick_iface ifs = Some ip")
    case True
    with Cons.IH show ?thesis by auto
  next
    case False
    with Cons.prems show ?thesis
      by (intro bexI [of _ i]) (auto simp: list_ex_iff Let_def split: if_splits option.splits)
  qed
qed simp

end
