(* ===== verification/Agent_Kmsg.thy ===== *)
theory Agent_Kmsg
  imports Agent_Host
begin

text \<open>
  \<open>agent/src/kmsg.rs\<close>: kernel log records \<open>LEVEL,SEQNUM,TIMESTAMP,FLAG;TEXT\<close>. A \<open>read\<close> of the
  device is an input, and so is whether opening it, registering it and waiting for it succeed (the
  seek to its end decides which records are read at all, and its result is ignored).
  \<open>kmsg_drain\<close> is the inner loop that reads until the device has nothing more, and sends each
  record that parses; \<open>kmsg_loop\<close> the task around it.
\<close>

record kmsg_line =
  km_level :: u8
  km_seq :: u64
  km_ts_us :: u64
  km_text :: string

definition severity_str :: "kmsg_line \<Rightarrow> string" where
  "severity_str l =
     (if km_level l \<le> 2 then ''critical''
      else if km_level l = 3 then ''error''
      else if km_level l = 4 then ''warning''
      else if km_level l = 5 then ''notice''
      else if km_level l = 6 then ''info''
      else ''debug'')"

definition parse_kmsg :: "string \<Rightarrow> kmsg_line option" where
  "parse_kmsg bytes =
     Option.bind (from_utf8 bytes) (\<lambda>s.
     Option.bind (split_once s (CHR '';'')) (\<lambda>(prefix, rest).
       (case split_on (CHR '','') prefix of
          l # q # t # _ \<Rightarrow>
            Option.bind (parse_u8 l) (\<lambda>level.
            Option.bind (parse_u64 q) (\<lambda>seq.
            Option.bind (parse_u64 t) (\<lambda>ts_us.
              Some \<lparr>km_level = level, km_seq = seq, km_ts_us = ts_us,
                    km_text = takeWhile (\<lambda>c. c \<noteq> newline) rest\<rparr>)))
        | _ \<Rightarrow> None)))"

datatype kmsg_read =
    KBytes string
  | KAgain
  | KPipe
  | KErr
  | KZero

text \<open>The records sent, and the reads that are left for the next time the device is ready.\<close>

fun kmsg_drain :: "kmsg_read list \<Rightarrow> kmsg_line list \<times> kmsg_read list" where
  "kmsg_drain [] = ([], [])"
| "kmsg_drain (KAgain # rs) = ([], rs)"
| "kmsg_drain (KPipe # rs) = kmsg_drain rs"
| "kmsg_drain (KErr # rs) = ([], rs)"
| "kmsg_drain (KZero # rs) = ([], rs)"
| "kmsg_drain (KBytes b # rs) =
     (case kmsg_drain rs of
        (ls, rest) \<Rightarrow> ((case parse_kmsg b of Some l \<Rightarrow> [l] | None \<Rightarrow> []) @ ls, rest))"

text \<open>One turn per wake-up: whether \<open>readable\<close> succeeded. A failure only sleeps.\<close>

fun kmsg_loop :: "bool list \<Rightarrow> kmsg_read list \<Rightarrow> kmsg_line list" where
  "kmsg_loop [] rs = []"
| "kmsg_loop (False # ws) rs = kmsg_loop ws rs"
| "kmsg_loop (True # ws) rs = (case kmsg_drain rs of (ls, rest) \<Rightarrow> ls @ kmsg_loop ws rest)"

text \<open>None: the device cannot be opened or registered. Otherwise the records broadcast.\<close>

definition kmsg_spawn :: "bool \<Rightarrow> bool \<Rightarrow> bool list \<Rightarrow> kmsg_read list \<Rightarrow> kmsg_line list option" where
  "kmsg_spawn opened registered ws rs =
     (if \<not> opened then None else if \<not> registered then None else Some (kmsg_loop ws rs))"

text \<open>The bytes of the successful reads. Errors, end of file and overruns of the kernel's buffer
  neither lose nor reorder what is read around them.\<close>

definition read_bytes :: "kmsg_read list \<Rightarrow> string list" where
  "read_bytes rs = [b. KBytes b \<leftarrow> rs]"

lemma read_bytes_simps [simp]:
  "read_bytes [] = []" "read_bytes (KBytes b # rs) = b # read_bytes rs" "read_bytes (KAgain # rs) = read_bytes rs"
  "read_bytes (KPipe # rs) = read_bytes rs" "read_bytes (KErr # rs) = read_bytes rs"
  "read_bytes (KZero # rs) = read_bytes rs" "read_bytes (rs @ qs) = read_bytes rs @ read_bytes qs"
  by (simp_all add: read_bytes_def)

lemma kmsg_drain_reads:
  "kmsg_drain rs = (ls, rest) \<Longrightarrow>
     \<exists>used. rs = used @ rest \<and> ls = List.map_filter parse_kmsg (read_bytes used)"
proof (induction rs arbitrary: ls rest rule: kmsg_drain.induct)
  case (6 b rs)
  obtain ls' where d: "kmsg_drain rs = (ls', rest)"
    "ls = (case parse_kmsg b of Some l \<Rightarrow> [l] | None \<Rightarrow> []) @ ls'"
    using 6(2) by (auto split: prod.splits)
  from 6(1) [OF d(1)] obtain used where "rs = used @ rest" "ls' = List.map_filter parse_kmsg (read_bytes used)" by blast
  with d(2) show ?case by (intro exI [of _ "KBytes b # used"]) (simp add: map_filter_simps split: option.splits)
next
  case (3 rs)
  then obtain used where "rs = used @ rest" "ls = List.map_filter parse_kmsg (read_bytes used)" by auto
  then show ?case by (intro exI [of _ "KPipe # used"]) simp
qed (force simp: map_filter_simps intro: exI [of _ "[_]"] exI [of _ "[]"])+

lemma kmsg_loop_reads:
  "\<exists>used rest. rs = used @ rest \<and> kmsg_loop ws rs = List.map_filter parse_kmsg (read_bytes used)"
proof (induction ws rs rule: kmsg_loop.induct)
  case (1 rs)
  show ?case by (intro exI [of _ "[]"] exI [of _ rs]) (simp add: map_filter_simps)
next
  case (3 ws rs)
  obtain ls rest where d: "kmsg_drain rs = (ls, rest)" by force
  from kmsg_drain_reads [OF d] obtain used where u: "rs = used @ rest" "ls = List.map_filter parse_kmsg (read_bytes used)" by blast
  from 3 [OF d [symmetric]] obtain used' rest' where "rest = used' @ rest'"
    "kmsg_loop ws rest = List.map_filter parse_kmsg (read_bytes used')" by blast
  with u d show ?case by (intro exI [of _ "used @ used'"] exI [of _ rest']) (simp add: map_filter_def)
qed simp

lemma utf8_valid_ascii_append:
  "(\<And>c. c \<in> set p \<Longrightarrow> byte_in c 0 0x7F) \<Longrightarrow> utf8_valid_from 0 (p @ t) = utf8_valid_from 0 t"
  by (induction p) (simp_all add: utf8_step_ascii)

lemma digit_ascii: "c \<in> set (show_nat n) \<Longrightarrow> byte_in c 0 0x7F"
  using show_nat_digits [of c n] by (auto simp: is_digit_def)

lemma takeWhile_text: "newline \<notin> set t \<Longrightarrow> takeWhile (\<lambda>c. c \<noteq> newline) (t @ newline # cont) = t"
  by (subst takeWhile_append2) auto


section \<open>Properties\<close>

text \<open>A kernel record written with any level, sequence number and time stamp that fit their
  types, and a valid text without a line break, parses to exactly these values, whatever flag
  field and continuation lines it carries.\<close>

theorem kmsg_roundtrip:
  assumes "level < 2 ^ 8" and "seq < 2 ^ 64" and "ts < 2 ^ 64"
    and "utf8_valid_from 0 (text @ newline # cont)" and "newline \<notin> set text"
    and "\<And>c. c \<in> set flag \<Longrightarrow> byte_in c 0 0x7F \<and> c \<noteq> CHR '';''"
  shows "parse_kmsg (show_nat level @ '','' @ show_nat seq @ '','' @ show_nat ts @ '','' @ flag @ '';''
             @ text @ newline # cont) =
     Some \<lparr>km_level = of_nat level, km_seq = of_nat seq, km_ts_us = of_nat ts, km_text = text\<rparr>"
proof -
  let ?prefix = "show_nat level @ CHR '','' # show_nat seq @ CHR '','' # show_nat ts @ CHR '','' # flag"
  let ?rest = "text @ newline # cont"
  have nd: "\<not> is_digit (CHR '','')" "\<not> is_digit (CHR '';'')" by (simp_all add: is_digit_def)
  have no: "CHR '','' \<notin> set (show_nat n)" "CHR '';'' \<notin> set (show_nat n)" for n
    using nd by (simp_all add: show_nat_no_char)
  have asc: "byte_in c 0 0x7F" if "c \<in> set (?prefix @ '';'')" for c
    using that digit_ascii assms(6) by fastforce
  have "from_utf8 ((?prefix @ '';'') @ ?rest) = Some ((?prefix @ '';'') @ ?rest)"
    using assms(4) asc unfolding from_utf8_def by (subst utf8_valid_ascii_append) auto
  moreover have "CHR '';'' \<notin> set ?prefix" using no assms(6) by auto
  then have "split_once (?prefix @ CHR '';'' # ?rest) (CHR '';'') = Some (?prefix, ?rest)"
    by (rule split_once_append)
  moreover have "\<exists>r. split_on (CHR '','') ?prefix = show_nat level # show_nat seq # show_nat ts # r"
    using no by (simp add: split_on_append)
  moreover have "parse_uint 10 8 (show_nat level) = Some level" "parse_uint 10 64 (show_nat seq) = Some seq"
    "parse_uint 10 64 (show_nat ts) = Some ts"
    using assms(1-3) by (simp_all add: parse_uint_show_nat)
  ultimately show ?thesis
    by (auto simp: parse_kmsg_def takeWhile_text [OF assms(5)])
qed

theorem kmsg_roundtrip_witness:
  "parse_kmsg (show_nat 4 @ '','' @ show_nat 1207 @ '','' @ show_nat 9000000000 @ '','' @ ''-'' @ '';''
      @ ''EXT4-fs error'' @ newline # '' SUBSYSTEM=block'') =
   Some \<lparr>km_level = 4, km_seq = 1207, km_ts_us = 9000000000, km_text = ''EXT4-fs error''\<rparr>"
proof -
  have "utf8_valid_from 0 (''EXT4-fs error'' @ newline # '' SUBSYSTEM=block'')"
    by (simp add: std_defs newline_def)
  moreover have "newline \<notin> set ''EXT4-fs error''" by (simp add: newline_def)
  ultimately show ?thesis
    using kmsg_roundtrip [of 4 1207 9000000000 "''EXT4-fs error''" "'' SUBSYSTEM=block''" "''-''"]
    by simp
qed

end
