(* ===== verification/Sliding_Window.thy ===== *)
theory Sliding_Window
  imports Uma_Prelude
begin

text \<open>
  Sliding time windows. Five places of the program keep a list of time stamps, drop the old ones
  and look at how many are left: the webhook rate limit (\<open>Vec::retain\<close>) and, popping from the
  front of a deque, the AER rate, the NIC flap detector, the OOM storm detector and the
  controller-lockup correlation. The locale \<open>sliding_window\<close> is what they share: pruning at time
  \<open>now\<close> keeps exactly the stamps whose age is still accepted. Its lemmas say that such a window
  always holds the recent part of the whole history of stamps.
\<close>

locale sliding_window =
  fixes keep :: "nat \<Rightarrow> bool"
    and prune :: "instant \<Rightarrow> instant list \<Rightarrow> instant list"
  assumes keep_0: "keep 0"
    and keep_antimono: "a \<le> b \<Longrightarrow> keep b \<Longrightarrow> keep a"
    and prune_filter: "sorted w \<Longrightarrow> prune now w = filter (\<lambda>t. keep (now - t)) w"
begin

text \<open>At time \<open>now\<close>, \<open>w\<close> is the part of the history \<open>hs\<close> that is still accepted.\<close>

definition recent :: "instant \<Rightarrow> instant list \<Rightarrow> instant list \<Rightarrow> bool" where
  "recent now hs w \<longleftrightarrow>
     sorted hs \<and> (\<forall>t \<in> set hs. t \<le> now) \<and> w = filter (\<lambda>t. keep (now - t)) hs"

lemma recent_nil [simp]: "recent now [] []"
  by (simp add: recent_def)

lemma recent_prune:
  assumes "recent n hs w" and "n \<le> now"
  shows "recent now hs (prune now w)"
proof -
  have "sorted w" using assms(1) by (auto simp: recent_def sorted_wrt_filter)
  moreover have "keep (now - t) \<Longrightarrow> keep (n - t)" for t
    using keep_antimono [of "n - t" "now - t"] assms(2) by simp
  ultimately show ?thesis
    using assms by (auto simp: recent_def prune_filter intro!: filter_cong)
qed

lemma recent_push: "recent now hs w \<Longrightarrow> recent now (hs @ [now]) (w @ [now])"
  by (auto simp: recent_def sorted_append keep_0)

text \<open>Pushing first and pruning afterwards is the same.\<close>

lemma prune_push:
  "sorted w \<Longrightarrow> \<forall>t \<in> set w. t \<le> now \<Longrightarrow> prune now (w @ [now]) = prune now w @ [now]"
  by (simp add: prune_filter sorted_append keep_0)

lemma recent_sorted: "recent n hs w \<Longrightarrow> sorted w \<and> (\<forall>t \<in> set w. t \<le> n)"
  by (auto simp: recent_def sorted_wrt_filter)

lemma recent_length: "recent now hs w \<Longrightarrow> length w = length (filter (\<lambda>t. keep (now - t)) hs)"
  by (simp add: recent_def)

text \<open>If fewer than \<open>n\<close> stamps are recent, the stamp \<open>n\<close> places back is no longer accepted.\<close>

lemma recent_spacing:
  assumes "recent now hs w" and "length w < n" and "n \<le> length hs"
  shows "\<not> keep (now - hs ! (length hs - n))"
proof
  assume k: "keep (now - hs ! (length hs - n))"
  have sorted: "sorted hs" and w: "w = filter (\<lambda>t. keep (now - t)) hs"
    using assms(1) by (simp_all add: recent_def)
  have "\<forall>t \<in> set (drop (length hs - n) hs). keep (now - t)"
  proof
    fix t assume "t \<in> set (drop (length hs - n) hs)"
    then obtain i where i: "i < n" "t = hs ! (length hs - n + i)"
      using assms(3) by (auto simp: in_set_conv_nth)
    have "hs ! (length hs - n) \<le> t"
      unfolding i(2) using sorted i(1) assms(3) by (intro sorted_nth_mono) auto
    with k show "keep (now - t)" using keep_antimono diff_le_mono2 by blast
  qed
  then have "filter (\<lambda>t. keep (now - t)) (drop (length hs - n) hs) = drop (length hs - n) hs"
    by (simp add: filter_True)
  moreover have "hs = take (length hs - n) hs @ drop (length hs - n) hs" by simp
  then have "w = filter (\<lambda>t. keep (now - t)) (take (length hs - n) hs)
      @ filter (\<lambda>t. keep (now - t)) (drop (length hs - n) hs)"
    unfolding w by (metis filter_append)
  ultimately have "n \<le> length w" using assms(3) by simp
  with assms(2) show False by simp
qed

text \<open>A program that pushes the time of each input that counts and prunes, and otherwise leaves the
  window alone: on inputs in order of time, right after an input that counts the window is the
  recent part of the times of all that counted.\<close>

lemma recent_step:
  assumes "recent m hs w" and "m \<le> now"
  shows "recent now (hs @ [now]) (prune now (w @ [now]))"
proof -
  have "sorted w" "\<forall>t \<in> set w. t \<le> now" using recent_sorted [OF assms(1)] assms(2) by auto
  then show ?thesis using recent_push [OF recent_prune [OF assms]] by (simp add: prune_push)
qed

lemma recent_run:
  assumes step: "\<And>i st. win (f i st) = (if hit i then prune (time i) (win st @ [time i]) else win st)"
    and "win st = []" and "sorted (map time is)"
  shows "\<exists>m. recent m (map time (filter hit is)) (win (fold f is st))
    \<and> (\<forall>now. (\<forall>i \<in> set is. time i \<le> now) \<longrightarrow> m \<le> now)"
  using assms(3)
proof (induction "is" rule: rev_induct)
  case Nil
  with assms(2) show ?case by auto
next
  case (snoc i "is")
  obtain m where m: "recent m (map time (filter hit is)) (win (fold f is st))"
    and le: "\<forall>now. (\<forall>i \<in> set is. time i \<le> now) \<longrightarrow> m \<le> now"
    using snoc by (auto simp: sorted_append)
  have mi: "m \<le> time i" using le snoc.prems by (auto simp: sorted_append)
  show ?case
  proof (cases "hit i")
    case True
    with recent_step [OF m mi] show ?thesis
      by (intro exI [of _ "time i"]) (simp add: step)
  next
    case False
    with m le show ?thesis by (intro exI [of _ m]) (simp add: step)
  qed
qed

lemma recent_run_last:
  assumes step: "\<And>i st. win (f i st) = (if hit i then prune (time i) (win st @ [time i]) else win st)"
    and "win st = []" and "sorted (map time (is @ [i]))" and "hit i"
  shows "win (fold f (is @ [i]) st) = filter (\<lambda>t. keep (time i - t)) (map time (filter hit (is @ [i])))"
proof -
  have "sorted (map time is)" using assms(3) by (simp add: sorted_append)
  from recent_run [where win = win and f = f, OF step assms(2) this]
  obtain m where m: "recent m (map time (filter hit is)) (win (fold f is st))"
    and le: "\<forall>now. (\<forall>i \<in> set is. time i \<le> now) \<longrightarrow> m \<le> now" by blast
  have "m \<le> time i" using le assms(3) by (auto simp: sorted_append)
  from recent_step [OF m this] show ?thesis using assms(4) by (simp add: step recent_def)
qed

end

text \<open>The two ways the program prunes: \<open>retain\<close>, and popping from the front while the front is
  too old.\<close>

definition retain_recent :: "duration \<Rightarrow> instant \<Rightarrow> instant list \<Rightarrow> instant list" where
  "retain_recent d now w = filter (\<lambda>t. now - t \<le> d) w"

definition pop_old :: "duration \<Rightarrow> instant \<Rightarrow> instant list \<Rightarrow> instant list" where
  "pop_old d now w = dropWhile (\<lambda>t. now - t > d) w"

text \<open>\<open>while front < now - d { pop }\<close>.\<close>

definition pop_before :: "duration \<Rightarrow> instant \<Rightarrow> instant list \<Rightarrow> instant list" where
  "pop_before d now w = dropWhile (\<lambda>t. t < now - d) w"

interpretation retain: sliding_window "\<lambda>a. a \<le> d" "retain_recent d" for d
  by unfold_locales (simp_all add: retain_recent_def)

interpretation popped: sliding_window "\<lambda>a. a \<le> d" "pop_old d" for d
proof unfold_locales
  show "sorted w \<Longrightarrow> pop_old d now w = filter (\<lambda>t. now - t \<le> d) w" for now w
    unfolding pop_old_def
    by (subst dropWhile_eq_filter_sorted [of id]) (auto simp: not_less)
qed simp_all

lemma pop_before_eq: "pop_before d now w = pop_old d now w"
  unfolding pop_before_def pop_old_def by (rule dropWhile_cong) auto

end
