(* ===== verification/Broadcast.thy ===== *)
theory Broadcast
  imports Main "HOL-Library.Sublist"
begin

text \<open>
  What a receiver of tokio's broadcast channel gets, as far as the sources rely on it: the agent's
  modules receive log lines that way, the collector's browsers and webhooks what the state
  publishes. \<open>bus_feed\<close> states the documented behaviour of a receiver that has subscribed.
\<close>

datatype 'a bus_recv = BGot 'a | BLagged nat | BClosed

fun recv_loop :: "('a \<Rightarrow> 's \<Rightarrow> 's) \<Rightarrow> 'a bus_recv list \<Rightarrow> 's \<Rightarrow> 's" where
  "recv_loop handler [] s = s"
| "recv_loop handler (BGot x # rs) s = recv_loop handler rs (handler x s)"
| "recv_loop handler (BLagged n # rs) s = recv_loop handler rs s"
| "recv_loop handler (BClosed # rs) s = s"

text \<open>The messages a loop handles.\<close>

fun handled :: "'a bus_recv list \<Rightarrow> 'a list" where
  "handled [] = []"
| "handled (BGot x # rs) = x # handled rs"
| "handled (BLagged n # rs) = handled rs"
| "handled (BClosed # rs) = []"

lemma recv_loop_fold: "recv_loop handler rs s = fold handler (handled rs) s"
  by (induction rs arbitrary: s rule: handled.induct) simp_all

text \<open>What a receiver of a broadcast channel gets, when \<open>xs\<close> is sent after it subscribed: the messages
  in order, except that a lag of \<open>n\<close> stands for \<open>n\<close> messages that were overwritten; the channel
  closes after the last message. An observation may end at any point.\<close>

inductive bus_feed :: "'a list \<Rightarrow> 'a bus_recv list \<Rightarrow> bool" where
  waiting: "bus_feed xs []"
| got: "bus_feed xs rs \<Longrightarrow> bus_feed (x # xs) (BGot x # rs)"
| lagged: "n \<le> length xs \<Longrightarrow> bus_feed (drop n xs) rs \<Longrightarrow> bus_feed xs (BLagged n # rs)"
| closed: "bus_feed [] [BClosed]"

inductive_simps bus_feed_simps [simp]:
  "bus_feed xs []" "bus_feed xs (BGot x # rs)" "bus_feed xs (BLagged n # rs)" "bus_feed xs (BClosed # rs)"

lemma bus_feed_subseq: "bus_feed xs rs \<Longrightarrow> subseq (handled rs) xs"
proof (induction rule: bus_feed.induct)
  case (lagged n xs rs)
  have "subseq (handled rs) (take n xs @ drop n xs)" using lagged.IH by (rule subseq_drop_many)
  then show ?case by simp
qed simp_all

lemma bus_feed_handled: "bus_feed xs rs \<Longrightarrow> x \<in> set (handled rs) \<Longrightarrow> x \<in> set xs"
  by (induction rule: bus_feed.induct) (auto dest: in_set_dropD)

text \<open>Without a lag nothing is missed.\<close>

lemma bus_feed_all: "bus_feed xs rs \<Longrightarrow> \<forall>r \<in> set rs. \<forall>n. r \<noteq> BLagged n \<Longrightarrow> handled rs = take (length (handled rs)) xs"
  by (induction rule: bus_feed.induct) auto

end
