(* ===== verification/Agent_Detect.thy ===== *)
theory Agent_Detect
  imports Agent_Emitter Agent_Kmsg Sliding_Window Broadcast
begin

text \<open>
  What the monitoring modules have in common: the facts by which a module's handler is shown to be a
  \<open>detector\<close>. Their receive loop is \<open>recv_loop\<close> of \<open>Broadcast\<close>.
\<close>

text \<open>A handler without a state of its own, as a step of a module.\<close>

definition stateless :: "('i \<Rightarrow> emitter \<Rightarrow> emitter) \<Rightarrow> 'i \<Rightarrow> unit \<times> emitter \<Rightarrow> unit \<times> emitter" where
  "stateless f i s = ((), f i (snd s))"

lemma snd_stateless [simp]: "snd (stateless f i s) = f i (snd s)"
  by (simp add: stateless_def)

lemma snd_fold_stateless: "snd (fold (stateless f) xs s) = fold f xs (snd s)"
  by (induction xs arbitrary: s) simp_all

lemma stateless_observer:
  assumes "\<And>i s. observes (from_host hid cats) s (f i s)"
  shows "observer (stateless f) hid cats"
  by unfold_locales (simp add: assms)

lemma emits_option:
  "(\<And>x. v = Some x \<Longrightarrow> acts Q s (f x)) \<Longrightarrow> (v = None \<Longrightarrow> acts Q s g) \<Longrightarrow>
     acts Q s (case v of Some x \<Rightarrow> f x | None \<Rightarrow> g)"
  by (cases v) simp_all

text \<open>One \<open>emit\<close> of an idle fingerprint sends the alert at once.\<close>

lemma emit_first:
  "tr_inner (em_tracker s) (fingerprint b) = None \<Longrightarrow>
     em_hist (emit b s) = (st_instant (em_now s), build_firing (st_utc (em_now s)) (st_ulid (em_now s)) b) # em_hist s"
  by (simp add: emit_parts observe_def log_decision_def Let_def)

text \<open>What the idioms do to the entries of the tracker.\<close>

lemma emit_force_clears: "tr_inner (em_tracker (emit_force fp s)) fp = None"
  by (simp add: emit_parts force_resolve_def split: option.splits)

lemma emit_keeps_other:
  "fp \<noteq> fingerprint b \<Longrightarrow> tr_inner (em_tracker (emit b s)) fp = tr_inner (em_tracker s) fp"
  by (simp add: emit_parts observe_def Let_def split: option.splits)

lemma emit_keeps_entry:
  "tr_inner (em_tracker s) fp \<noteq> None \<Longrightarrow> tr_inner (em_tracker (emit b s)) fp \<noteq> None"
  by (auto simp: emit_parts observe_def Let_def split: option.splits)

lemma emit_force_keeps_other:
  "fp \<noteq> fp' \<Longrightarrow> tr_inner (em_tracker (emit_force fp' s)) fp = tr_inner (em_tracker s) fp"
  by (simp add: emit_parts force_resolve_def split: option.splits)

lemma emit_opens: "tr_inner (em_tracker (emit b s)) (fingerprint b) \<noteq> None"
  by (auto simp: emit_parts observe_def Let_def split: option.splits)

lemma fold_emit_keeps_entry:
  "tr_inner (em_tracker s) fp \<noteq> None \<Longrightarrow> tr_inner (em_tracker (fold (\<lambda>x. emit (f x)) xs s)) fp \<noteq> None"
  by (induction xs arbitrary: s) (simp, metis emit_keeps_entry fold_simps(2))

lemma fold_emit_opens:
  "x \<in> set xs \<Longrightarrow> tr_inner (em_tracker (fold (\<lambda>x. emit (f x)) xs s)) (fingerprint (f x)) \<noteq> None"
proof (induction xs arbitrary: s)
  case (Cons y ys)
  show ?case
  proof (cases "x = y")
    case True
    from fold_emit_keeps_entry [OF emit_opens, of f ys "f x" s] show ?thesis by (simp add: True)
  next
    case False
    with Cons show ?thesis by simp
  qed
qed simp

text \<open>An operation always reads the clock.\<close>

lemma emit_changes: "emit b s \<noteq> s"
  using emit_clock(2) [of b s] by (metis n_not_Suc_n)

end
