(* ===== verification/Line_Reports.thy ===== *)
theory Line_Reports
  imports Agent_Detect
begin

text \<open>
  Modules that look at each line of a log alone: \<open>report\<close> gives the alerts a line asks for, and the
  handler does nothing but observe them, in order. The locale \<open>line_reporter\<close> is that contract; its
  lemmas say that a run over any lines misses none of them and invents none.
\<close>

text \<open>The firing alerts built from a builder, whatever time, id and count they carry.\<close>

definition built_from :: "alert_builder \<Rightarrow> alert \<Rightarrow> bool" where
  "built_from b a \<longleftrightarrow> a = (build_firing (al_ts a) (al_id a) b)\<lparr>al_occurrences := al_occurrences a\<rparr>"

lemma built_from_build [simp]:
  "built_from b (build_firing t u b)" "built_from b ((build_firing t u b)\<lparr>al_occurrences := n\<rparr>)"
  by (simp_all add: built_from_def build_firing_def)

lemma built_from_fields:
  "built_from b a \<Longrightarrow> al_fingerprint a = fingerprint b \<and> al_state a = Firing \<and> al_severity a = b_severity b"
  unfolding built_from_def by (erule ssubst) (simp add: build_firing_def)

lemma emit_hist_new:
  "(t, a) \<in> set (em_hist (emit b s)) \<Longrightarrow> (t, a) \<in> set (em_hist s) \<or> built_from b a"
  by (auto simp: emit_parts observe_def log_decision_def Let_def split: option.splits if_splits)

lemma fold_emit_hist_new:
  "(t, a) \<in> set (em_hist (fold emit bs s)) \<Longrightarrow> (t, a) \<in> set (em_hist s) \<or> (\<exists>b \<in> set bs. built_from b a)"
proof (induction bs arbitrary: s)
  case (Cons b bs)
  from Cons.IH [of "emit b s"] Cons.prems emit_hist_new [of t a b s] show ?case by auto
qed simp

text \<open>Every builder observed leaves its condition open.\<close>

lemma fold_emit_open:
  "b \<in> set bs \<Longrightarrow> tr_inner (em_tracker (fold emit bs s)) (fingerprint b) \<noteq> None"
  using fold_emit_opens [of b bs "\<lambda>b. b" s] by simp

locale line_reporter =
  fixes handler :: "'l \<Rightarrow> emitter \<Rightarrow> emitter"
    and report :: "'l \<Rightarrow> alert_builder list"
  assumes handler_reports: "handler l s = fold emit (report l) s"
begin

lemma run_reports: "recv_loop handler rs s = fold emit (concat (map report (handled rs))) s"
proof -
  have "fold handler ls s = fold emit (concat (map report ls)) s" for ls
    by (induction ls arbitrary: s) (simp_all add: handler_reports)
  then show ?thesis by (simp add: recv_loop_fold)
qed

lemma reported:
  "l \<in> set (handled rs) \<Longrightarrow> b \<in> set (report l) \<Longrightarrow>
     tr_inner (em_tracker (recv_loop handler rs s)) (fingerprint b) \<noteq> None"
  unfolding run_reports by (rule fold_emit_open) auto

lemma nothing_else:
  assumes "(t, a) \<in> set (em_hist (recv_loop handler rs s))" and "em_hist s = []"
  shows "\<exists>l \<in> set (handled rs). \<exists>b \<in> set (report l). built_from b a"
  using fold_emit_hist_new [OF assms(1) [unfolded run_reports]] assms(2) by auto

end

end
