(* ===== verification/Mod_Oshang.thy ===== *)
theory Mod_Oshang
  imports Line_Reports
begin

text \<open>
  \<open>agent/src/modules/oshang.rs\<close>: hung tasks, lockups and kernel bugs in the kernel log. The
  patterns are those of the source; matching them is the regex crate's.
\<close>

definition task_re :: string where
  "task_re = ''INFO: task ('' @ bsl @ ''S+):('' @ bsl @ ''d+) blocked for more than ('' @ bsl @ ''d+) seconds''"

definition soft_re :: string where
  "soft_re = ''watchdog: BUG: soft lockup - CPU#('' @ bsl @ ''d+) stuck for ('' @ bsl @ ''d+s)''"

definition hard_re :: string where
  "hard_re = ''NMI watchdog: BUG: hard LOCKUP on CPU ('' @ bsl @ ''d+)''"

definition bug_re :: string where
  "bug_re = ''^(BUG:|Oops:|general protection fault|kernel BUG at)''"

definition oshang_report :: "regex_lib \<Rightarrow> host_id \<Rightarrow> kmsg_line \<Rightarrow> alert_builder option" where
  "oshang_report rx host line =
     (let t = km_text line
      in case rx_captures rx task_re t of
           Some c \<Rightarrow>
             (let comm = grp c 1; pid = grp c 2; seconds = grp c 3
              in Some (chain (host_builder host OS_HANG ''task_hang'' Warning)
                   [with_device (''pid='' @ pid),
                    with_value (seconds @ ''s''),
                    with_title ''Hung task detected'',
                    with_message (''Task '' @ comm @ '' (pid '' @ pid @ '') has been blocked for over '' @
                      seconds @ '' seconds. Common causes: stuck I/O on a wedged storage controller, '' @
                      ''deadlock, paging on a swap-starved host.''),
                    raw_kv ''kmsg'' (JStr t)]))
         | None \<Rightarrow>
        (case rx_captures rx soft_re t of
           Some c \<Rightarrow>
             (let cpu = grp c 1; stuck = grp c 2
              in Some (chain (host_builder host OS_HANG ''cpu_softlockup'' Critical)
                   [with_device (''cpu'' @ cpu),
                    with_value stuck,
                    with_title ''CPU soft lockup'',
                    with_message (''watchdog reported a soft lockup on CPU '' @ cpu @ '' for '' @ stuck @
                      ''. The kernel may panic shortly. Investigate via `kdump` if enabled.''),
                    raw_kv ''kmsg'' (JStr t)]))
         | None \<Rightarrow>
        (case rx_captures rx hard_re t of
           Some c \<Rightarrow>
             (let cpu = grp c 1
              in Some (chain (host_builder host OS_HANG ''cpu_hardlockup'' Critical)
                   [with_device (''cpu'' @ cpu),
                    with_title ''CPU hard lockup (NMI watchdog)'',
                    with_message (''NMI watchdog fired for CPU '' @ cpu @ '' '' @ em_dash @
                      '' hard lockup. Host is almost certainly going to panic.''),
                    raw_kv ''kmsg'' (JStr t)]))
         | None \<Rightarrow>
           if rx_is_match rx bug_re t then
             Some (chain (host_builder host OS_HANG ''kernel_bug'' Critical)
               [with_title ''Kernel BUG / oops'',
                with_message (''Kernel logged: '' @ quote @ t @ quote @ ''. Capture vmcore via kdump.''),
                raw_kv ''kmsg'' (JStr t)])
           else None)))"

definition oshang_line :: "regex_lib \<Rightarrow> host_id \<Rightarrow> kmsg_line \<Rightarrow> emitter \<Rightarrow> emitter" where
  "oshang_line rx host line s = (case oshang_report rx host line of Some b \<Rightarrow> emit b s | None \<Rightarrow> s)"

definition oshang_spawn ::
  "regex_lib \<Rightarrow> host_id \<Rightarrow> bool \<Rightarrow> kmsg_line bus_recv list \<Rightarrow> emitter \<Rightarrow> emitter" where
  "oshang_spawn rx host enabled rs s =
     (if \<not> enabled then s else recv_loop (oshang_line rx host) rs s)"

lemma oshang_line_emits: "observes (from_host (ho_machine_id host) {OS_HANG}) s (oshang_line rx host line s)"
  unfolding oshang_line_def oshang_report_def Let_def
  by (auto intro!: emits_option emits_emit split: option.splits if_splits)

interpretation oshang: observer "stateless (oshang_line rx host)" "ho_machine_id host" "{OS_HANG}" for rx host
  by (rule stateless_observer) (rule oshang_line_emits)

text \<open>Each line is looked at alone and asks for at most one alert.\<close>

definition oshang_reports :: "regex_lib \<Rightarrow> host_id \<Rightarrow> kmsg_line \<Rightarrow> alert_builder list" where
  "oshang_reports rx host line = (case oshang_report rx host line of Some b \<Rightarrow> [b] | None \<Rightarrow> [])"

interpretation oshang_lines: line_reporter "oshang_line rx host" "oshang_reports rx host" for rx host
  by unfold_locales (simp add: oshang_line_def oshang_reports_def split: option.splits)

end
