(* ===== verification/Mod_Pcie_Aer.thy ===== *)
theory Mod_Pcie_Aer
  imports Agent_Detect
begin

text \<open>
  \<open>agent/src/modules/pcie_aer.rs\<close>: PCIe error reports in the kernel log. The module's state is the
  deque of the times of corrected errors. An input is a line, the reading of the clock and what
  the commands it starts do.
\<close>

definition bdf_re :: string where
  "bdf_re = (''([0-9a-fA-F]{4}:[0-9a-fA-F]{2}:[0-9a-fA-F]{2}'' @ bsl @ ''.[0-9a-fA-F])'')"

definition uncorr_re :: string where
  "uncorr_re = ''(?i)AER:.*Uncorrected''"

definition corr_re :: string where
  "corr_re = ''(?i)AER:.*Corrected''"

definition describe_line :: "string \<Rightarrow> string \<times> string \<Rightarrow> string \<times> string" where
  "describe_line line vd =
     (let vd1 = (case strip_prefix line ''Vendor:'' of Some v \<Rightarrow> (trim v, snd vd) | None \<Rightarrow> vd)
      in case strip_prefix line ''Device:'' of Some v \<Rightarrow> (fst vd1, trim v) | None \<Rightarrow> vd1)"

definition describe_pci :: "spawn \<Rightarrow> string \<Rightarrow> string option" where
  "describe_pci spawn bdf =
     Option.bind (success_output (run spawn ''lspci'' [''-s'', bdf, ''-vmm''] TIMEOUT_GENERAL)) (\<lambda>out.
       case fold describe_line (lines (from_utf8_lossy out)) ([], []) of
         (vendor, device) \<Rightarrow>
           if vendor = [] \<and> device = [] then None else Some (trim (vendor @ '' '' @ device)))"

type_synonym aer_input = "kmsg_line \<times> instant \<times> spawn"

definition aer_line ::
  "regex_lib \<Rightarrow> host_id \<Rightarrow> u64 \<Rightarrow> aer_input \<Rightarrow> instant list \<times> emitter \<Rightarrow> instant list \<times> emitter" where
  "aer_line rx host corrected_per_min_warn i st =
     (case (i, st) of ((line, now, spawn), (corr_window, s)) \<Rightarrow>
       let t = km_text line;
           is_uncorr = rx_is_match rx uncorr_re t;
           is_corr = rx_is_match rx corr_re t
       in if \<not> is_uncorr \<and> \<not> is_corr then (corr_window, s)
          else
            let bdf = map_option (\<lambda>c. grp c 1) (rx_captures rx bdf_re t);
                device_label = (case bdf of
                    Some b \<Rightarrow> (case describe_pci spawn b of Some d \<Rightarrow> d | None \<Rightarrow> b)
                  | None \<Rightarrow> ''unknown'');
                device = (case bdf of Some b \<Rightarrow> b | None \<Rightarrow> [])
            in if is_uncorr then
                 (corr_window,
                  emit (chain (host_builder host PCIE_AER ''uncorrectable'' Critical)
                    [with_device device,
                     with_device_model device_label,
                     with_title ''PCIe uncorrectable AER error'',
                     with_message (''PCIe device '' @ device_label @
                       '' reported an uncorrectable AER error. Raw: '' @ quote @ t @ quote @
                       ''. This often forces a reset of the device or the host.''),
                     raw_kv ''kmsg'' (JStr t)]) s)
               else
                 let w = pop_before (secs 60) now (corr_window @ [now])
                 in if (of_nat (length w) :: u64) \<ge> corrected_per_min_warn then
                      (w, emit (chain (host_builder host PCIE_AER ''corrected_rate_high'' Warning)
                        [with_device device,
                         with_device_model device_label,
                         with_value (show_nat (length w) @ ''/min''),
                         with_threshold (show_word corrected_per_min_warn @ ''/min''),
                         with_title ''PCIe corrected AER rate high'',
                         with_message (''Sustained PCIe corrected errors on '' @ device_label @ '' (~'' @
                           show_nat (length w) @ ''/min). Worth replacing the riser or device before it escalates to uncorrectable.'')]) s)
                    else (w, s))"

definition aer_spawn ::
  "regex_lib \<Rightarrow> host_id \<Rightarrow> bool \<Rightarrow> u64 \<Rightarrow> aer_input bus_recv list \<Rightarrow> emitter \<Rightarrow> emitter" where
  "aer_spawn rx host enabled corrected_per_min_warn rs s =
     (if \<not> enabled then s
      else snd (recv_loop (aer_line rx host corrected_per_min_warn) rs ([], s)))"

lemma aer_line_emits:
  "observes (from_host (ho_machine_id host) {PCIE_AER}) (snd st) (snd (aer_line rx host n i st))"
  by (auto simp: aer_line_def Let_def intro!: emits_emit split: prod.splits)

interpretation aer: observer "aer_line rx host n" "ho_machine_id host" "{PCIE_AER}" for rx host n
  by unfold_locales (rule aer_line_emits)


section \<open>The window of corrected errors\<close>

definition is_corrected :: "regex_lib \<Rightarrow> aer_input \<Rightarrow> bool" where
  "is_corrected rx i \<longleftrightarrow>
     rx_is_match rx corr_re (km_text (fst i)) \<and> \<not> rx_is_match rx uncorr_re (km_text (fst i))"

lemma fst_aer_line:
  "fst (aer_line rx host n i st) =
     (if is_corrected rx i then pop_old (secs 60) (fst (snd i)) (fst st @ [fst (snd i)]) else fst st)"
  by (auto simp: aer_line_def Let_def is_corrected_def pop_before_eq split: prod.splits)

definition corrected_times :: "regex_lib \<Rightarrow> aer_input list \<Rightarrow> instant list" where
  "corrected_times rx is = map (\<lambda>i. fst (snd i)) (filter (is_corrected rx) is)"


section \<open>Properties\<close>

text \<open>When a corrected PCIe error arrives, the module's window then holds exactly the corrected
  errors of the last 60 seconds, this one included, whatever other lines came in between; the rate
  alert is raised exactly when their number has reached the configured threshold (compared as
  64-bit numbers).\<close>

theorem aer_rate_window:
  assumes "sorted (map (\<lambda>i. fst (snd i)) (is @ [i]))" and "is_corrected rx i"
  shows "fst (fold (aer_line rx host n) (is @ [i]) ([], s)) =
      filter (\<lambda>t. fst (snd i) - t \<le> secs 60) (corrected_times rx (is @ [i]))
    \<and> (snd (fold (aer_line rx host n) (is @ [i]) ([], s)) = snd (fold (aer_line rx host n) is ([], s))
        \<longleftrightarrow> (of_nat (length (fst (fold (aer_line rx host n) (is @
          [i]) ([], s)))) :: u64) < n)"
proof -
  let ?st = "fold (aer_line rx host n) is ([], s)"
  have w: "fst (aer_line rx host n i ?st) =
      filter (\<lambda>t. fst (snd i) - t \<le> secs 60) (corrected_times rx (is @ [i]))"
    using popped.recent_run_last [where win = fst and f = "aer_line rx host n" and st = "([], s)"
        and hit = "is_corrected rx" and time = "\<lambda>i. fst (snd i)" and d = "secs 60", OF fst_aer_line _ assms]
    by (simp add: corrected_times_def)
  have "emit b s \<noteq> s" for b s
    using emit_clock(2) [of b s] by (metis n_not_Suc_n)
  then have "snd (aer_line rx host n i ?st) = snd ?st \<longleftrightarrow>
      (of_nat (length (fst (aer_line rx host n i ?st))) :: u64) < n"
    using assms(2) by (auto simp: aer_line_def Let_def is_corrected_def not_less split: prod.splits)
  with w show ?thesis by simp
qed

definition sample_rx :: regex_lib where
  "sample_rx = \<lparr>rx_compiles = (\<lambda>p. True),
     rx_is_match = (\<lambda>p t. p = corr_re \<and> contains t ''Corrected''), rx_captures = (\<lambda>p t. None)\<rparr>"

definition sample_aer :: "nat \<Rightarrow> aer_input" where
  "sample_aer n = (\<lparr>km_level = 4, km_seq = 1, km_ts_us = 0, km_text = ''AER: Corrected error''\<rparr>,
     secs n, (\<lambda>_ _. SpawnFailed))"

lemma sample_aer_corrected: "is_corrected sample_rx (sample_aer n)"
  by (simp add: is_corrected_def sample_rx_def sample_aer_def uncorr_re_def corr_re_def)

theorem aer_rate_window_witness:
  "fst (fold (aer_line sample_rx \<lparr>ho_hostname = ''node1'', ho_machine_id = ''4f2a'', ho_primary_ip = []\<rparr> 3)
      ([sample_aer 0, sample_aer 50] @ [sample_aer 90]) ([], emitter_new 15 5 (tick_clock 10)))
   = [secs 50, secs 90]"
proof -
  have s: "sorted (map (\<lambda>i. fst (snd i)) ([sample_aer 0, sample_aer 50] @ [sample_aer 90]))"
    by (simp add: sample_aer_def)
  have "corrected_times sample_rx ([sample_aer 0, sample_aer 50] @
    [sample_aer 90]) = [secs 0, secs 50, secs 90]"
    by (simp add: corrected_times_def sample_aer_corrected) (simp add: sample_aer_def)
  with aer_rate_window [OF s sample_aer_corrected] show ?thesis by (simp add: sample_aer_def)
qed

end
