(* ===== verification/Mod_Cpu_Mce.thy ===== *)
theory Mod_Cpu_Mce
  imports Agent_Detect
begin

text \<open>
  \<open>agent/src/modules/cpu_mce.rs\<close>: machine checks in the kernel log. The three patterns of the
  classification are compiled on first use (\<open>LazyLock\<close> with \<open>unwrap\<close>): a pattern the regex crate
  rejects panics at that moment, and the release profile turns a panic into the end of the
  process. Such an end is None here.
\<close>

definition mce_re :: string where
  "mce_re = (''(?i)'' @ bsl @ ''b(mce|machine check|hardware error)'' @ bsl @ ''b'')"

definition bank_re :: string where
  "bank_re = (''(?i)bank[: ]+('' @ bsl @ ''d+)'')"

definition cpu_re :: string where
  "cpu_re = (''(?i)CPU[: ]?('' @ bsl @ ''d+)'')"

definition status_re :: string where
  "status_re = ''(?i)STATUS[: ]+([0-9A-Fa-fx]+)''"

definition CE_PIPE_MARKER :: string where
  "CE_PIPE_MARKER = (bsl @ ''|CE'' @ bsl @ ''|'')"

definition EXPLICIT_UNCORR :: string where
  "EXPLICIT_UNCORR = (''(?i)'' @ bsl @ ''buncorrect(ed|able)'' @ bsl @ ''b|'' @ bsl @ ''|UCE'' @ bsl @
    ''||'' @ bsl @ ''|UC(?=['' @ bsl @ ''|'' @ bsl @ '']])|'' @ bsl @ ''bseverity:'' @ bsl @ ''s*fatal'' @
    bsl @ ''b|'' @ bsl @ ''bmca:'' @ bsl @ ''s*fatal'' @ bsl @ ''b'')"

definition MEMORY_GEO_HINT :: string where
  "MEMORY_GEO_HINT = (''(?i)'' @ bsl @ ''b(rank|bank|row|column|slice|dram)'' @ bsl @ ''b|'' @ bsl @
    ''bnode:'' @ bsl @ ''s*'' @ bsl @ ''d+|'' @ bsl @ ''bcard:'' @ bsl @ ''s*'' @ bsl @ ''d+'' @ bsl @
    ''s+.*'' @ bsl @ ''bmodule:'' @ bsl @ ''s*'' @ bsl @ ''d+'')"

definition lazy_match :: "regex_lib \<Rightarrow> string \<Rightarrow> string \<Rightarrow> bool option" where
  "lazy_match rx p t = (if rx_compiles rx p then Some (rx_is_match rx p t) else None)"

text \<open>\<open>x && y\<close>, where \<open>y\<close> is only evaluated when \<open>x\<close> holds, and negation.\<close>

definition and_then :: "bool option \<Rightarrow> bool option \<Rightarrow> bool option" where
  "and_then x y = Option.bind x (\<lambda>a. if a then y else Some False)"

abbreviation not_opt :: "bool option \<Rightarrow> bool option" where
  "not_opt x \<equiv> map_option Not x"

definition mce_alert_severity_and_copy :: "regex_lib \<Rightarrow> string \<Rightarrow> (severity \<times> string \<times> string) option" where
  "mce_alert_severity_and_copy rx text =
     (let tl = to_lowercase text
      in Option.bind (and_then (lazy_match rx CE_PIPE_MARKER text) (not_opt (lazy_match rx EXPLICIT_UNCORR text)))
         (\<lambda>corr_only_ce.
           if corr_only_ce then
             Some (Warning, ''Corrected machine check / CMCI'', ''corrected_cmci_kmsg'')
           else
             let apei_generic = contains tl ''apei generic hardware error source''
             in Option.bind
                  (and_then (lazy_match rx MEMORY_GEO_HINT text)
                    (and_then (Some (contains tl ''[hardware error]''))
                      (and_then (not_opt (lazy_match rx EXPLICIT_UNCORR text))
                        (Some (\<not> contains tl ''mce:'')))))
                  (\<lambda>fragment_without_status.
             Option.bind
                  (and_then (Some (apei_generic \<or> fragment_without_status))
                    (not_opt (lazy_match rx EXPLICIT_UNCORR text)))
                  (\<lambda>vague_summary.
               if vague_summary then
                 Some (Warning, ''APEI / hardware RAS summary logged'', ''hardware_error_summary'')
               else Some (Critical, ''CPU Machine Check Exception'', ''mce_event'')))))"

definition advice_for :: "string \<Rightarrow> string" where
  "advice_for metric =
     (if metric = ''corrected_cmci_kmsg'' then
        (''`|CE|` in the MCA status means the hardware reported a corrected error '' @ em_dash @
          '' do not panic-page as UE; watch for escalating uncorrected MCA lines or DIMM swaps.'')
      else if metric = ''hardware_error_summary'' then
        (''APEI generic summaries omit per-bank MCA detail; correlate with SEL/IML and nearby MCA printks for UE.'')
      else (''If this is uncorrected, replace the CPU/socket if it recurs; single bursts can be transient.''))"

definition decode :: "string \<Rightarrow> string" where
  "decode text =
     (let t = to_lowercase text
      in if contains t ''dram'' \<or> contains t ''memory controller'' then ''DRAM ECC / memory controller error''
         else if contains t ''l2'' then ''L2 cache error''
         else if contains t ''l3'' then ''L3 cache / LLC error''
         else if contains t ''bus'' then ''Bus / interconnect error''
         else if contains t ''tlb'' then ''TLB error''
         else if contains t ''uncorrected'' then ''Uncorrected error''
         else if contains t ''corrected'' then ''Corrected error''
         else ''see raw'')"

definition or_question :: "string option \<Rightarrow> string" where
  "or_question v = (case v of Some s \<Rightarrow> s | None \<Rightarrow> ''?'')"

definition mce_line :: "regex_lib \<Rightarrow> host_id \<Rightarrow> kmsg_line \<Rightarrow> emitter \<Rightarrow> emitter option" where
  "mce_line rx host line s =
     (let t = km_text line
      in if \<not> rx_is_match rx mce_re t then Some s
         else
           let bank = map_option (\<lambda>c. grp c 1) (rx_captures rx bank_re t);
               cpu = map_option (\<lambda>c. grp c 1) (rx_captures rx cpu_re t);
               status = map_option (\<lambda>c. grp c 1) (rx_captures rx status_re t);
               reason = decode t
           in Option.bind (mce_alert_severity_and_copy rx t) (\<lambda>(severity, title, metric).
                let advice = advice_for metric
                in Some (emit (chain (host_builder host CPU_MCE metric severity)
                     [with_device (''cpu='' @ or_question cpu @ '', bank='' @ or_question bank),
                      with_value (case status of Some v \<Rightarrow> v | None \<Rightarrow> []),
                      with_title title,
                      with_message (''CPU '' @ or_question cpu @ '' hardware check on bank '' @
                        or_question bank @ '' (decoded hint: '' @ reason @ ''). Raw: '' @ quote @ t @
                        quote @ ''. '' @ advice),
                      raw_kv ''kmsg'' (JStr t),
                      raw_kv ''status'' (case status of Some v \<Rightarrow> JStr v | None \<Rightarrow> JNull)]) s)))"

text \<open>The module with the flag that says whether the process is still there.\<close>

definition mce_step :: "regex_lib \<Rightarrow> host_id \<Rightarrow> kmsg_line \<Rightarrow> bool \<times> emitter \<Rightarrow> bool \<times> emitter" where
  "mce_step rx host line st =
     (if \<not> fst st then st
      else (case mce_line rx host line (snd st) of None \<Rightarrow> (False, snd st) | Some s \<Rightarrow> (True, s)))"

definition mce_spawn ::
  "regex_lib \<Rightarrow> host_id \<Rightarrow> bool \<Rightarrow> kmsg_line bus_recv list \<Rightarrow> emitter \<Rightarrow> bool \<times> emitter" where
  "mce_spawn rx host enabled rs s =
     (if \<not> enabled then (True, s) else recv_loop (mce_step rx host) rs (True, s))"

lemma mce_step_emits:
  "observes (from_host (ho_machine_id host) {CPU_MCE}) (snd st) (snd (mce_step rx host line st))"
  by (auto simp: mce_step_def mce_line_def Let_def intro!: emits_emit
        split: option.splits bind_splits if_splits)

interpretation mce: observer "mce_step rx host" "ho_machine_id host" "{CPU_MCE}" for rx host
  by unfold_locales (rule mce_step_emits)


section \<open>Properties\<close>

text \<open>The classification, for a regex library that accepts all three patterns: a line with the
  \<open>|CE|\<close> marker and no explicit sign of an uncorrected error is a warning, never critical; and a
  line with an explicit sign of an uncorrected error is always critical.\<close>

theorem mce_classification:
  assumes "rx_compiles rx CE_PIPE_MARKER" and "rx_compiles rx EXPLICIT_UNCORR" and "rx_compiles rx MEMORY_GEO_HINT"
  shows "\<exists>sev title metric. mce_alert_severity_and_copy rx text = Some (sev, title, metric)
    \<and> (rx_is_match rx CE_PIPE_MARKER text \<and> \<not> rx_is_match rx EXPLICIT_UNCORR text \<longrightarrow> sev = Warning)
    \<and> (rx_is_match rx EXPLICIT_UNCORR text \<longrightarrow> sev = Critical)"
  using assms by (auto simp: mce_alert_severity_and_copy_def lazy_match_def and_then_def Let_def)

definition sample_mce_rx :: regex_lib where
  "sample_mce_rx = \<lparr>rx_compiles = (\<lambda>p. True),
     rx_is_match = (\<lambda>p t. p = CE_PIPE_MARKER \<and> contains t ''|CE|''), rx_captures = (\<lambda>p t. None)\<rparr>"

lemma mce_patterns_distinct: "EXPLICIT_UNCORR \<noteq> CE_PIPE_MARKER" "MEMORY_GEO_HINT \<noteq> CE_PIPE_MARKER" "mce_re \<noteq> CE_PIPE_MARKER"
  by (simp_all add: EXPLICIT_UNCORR_def CE_PIPE_MARKER_def MEMORY_GEO_HINT_def mce_re_def bsl_def)

theorem mce_classification_witness:
  "\<exists>title metric. mce_alert_severity_and_copy sample_mce_rx ''MC0: |CE|'' = Some (Warning, title, metric)"
  using mce_classification [of sample_mce_rx "''MC0: |CE|''"] mce_patterns_distinct
  by (auto simp: sample_mce_rx_def)


definition plain_rx :: regex_lib where
  "plain_rx = \<lparr>rx_compiles = (\<lambda>p. \<not> contains p ''(?=''),
     rx_is_match = (\<lambda>p t. (p = CE_PIPE_MARKER \<and> contains t ''|CE|'') \<or> (p = mce_re \<and> contains t ''mce'')),
     rx_captures = (\<lambda>p t. None)\<rparr>"


end
