(* ===== verification/Agent_Bus.thy ===== *)
theory Agent_Bus
  imports Uma_Shared
begin

text \<open>
  \<open>agent/src/bus.rs\<close>: the sink every module sends through. Critical alerts have a lane of their
  own. The two bounded channels are tokio's: \<open>try_send\<close> is a parameter, and \<open>channel_law\<close> states
  the documented behaviour the properties rely on (an accepted message is the last one in the
  queue). Logging is left out; the in-process fanout is the sequence of alerts sent on it.
\<close>

datatype outbound =
    OAlert alert
  | OHeartbeat heartbeat
  | OHello hello

primrec into_envelope :: "outbound \<Rightarrow> envelope" where
  "into_envelope (OAlert a) = EAlert a"
| "into_envelope (OHeartbeat h) = EHeartbeat h"
| "into_envelope (OHello h) = EHello h"

record 'q alert_sink =
  sk_normal :: 'q
  sk_critical :: 'q
  sk_fanout :: "alert list"
  sk_suppress_alerts :: bool

definition sink_new :: "'q \<Rightarrow> 'q \<Rightarrow> alert list \<Rightarrow> bool \<Rightarrow> 'q alert_sink" where
  "sink_new normal critical fanout suppress_alerts =
     \<lparr>sk_normal = normal, sk_critical = critical, sk_fanout = fanout,
      sk_suppress_alerts = suppress_alerts\<rparr>"

definition is_alert :: "outbound \<Rightarrow> bool" where
  "is_alert m = (case m of OAlert _ \<Rightarrow> True | _ \<Rightarrow> False)"

definition is_critical :: "outbound \<Rightarrow> bool" where
  "is_critical m = (case m of OAlert a \<Rightarrow> al_severity a = Critical | _ \<Rightarrow> False)"

text \<open>A refused message is only logged.\<close>

definition sink_send :: "('q \<Rightarrow> outbound \<Rightarrow> 'q option) \<Rightarrow> outbound \<Rightarrow> 'q alert_sink \<Rightarrow> 'q alert_sink" where
  "sink_send try_send msg s =
     (if sk_suppress_alerts s \<and> is_alert msg then s
      else
        let s1 = (case msg of OAlert a \<Rightarrow> s\<lparr>sk_fanout := sk_fanout s @ [a]\<rparr> | _ \<Rightarrow> s)
        in if is_critical msg
           then (case try_send (sk_critical s1) msg of Some q \<Rightarrow> s1\<lparr>sk_critical := q\<rparr> | None \<Rightarrow> s1)
           else (case try_send (sk_normal s1) msg of Some q \<Rightarrow> s1\<lparr>sk_normal := q\<rparr> | None \<Rightarrow> s1))"

definition channel_law :: "('q \<Rightarrow> outbound \<Rightarrow> 'q option) \<Rightarrow> ('q \<Rightarrow> outbound list) \<Rightarrow> bool" where
  "channel_law try_send queued \<longleftrightarrow>
     (\<forall>q m q'. try_send q m = Some q' \<longrightarrow> queued q' = queued q @ [m])"

text \<open>A bounded queue as such a channel, for concrete runs.\<close>

definition bounded_send :: "nat \<Rightarrow> outbound list \<Rightarrow> outbound \<Rightarrow> outbound list option" where
  "bounded_send cap q m = (if length q < cap then Some (q @ [m]) else None)"

lemma bounded_send_law: "channel_law (bounded_send cap) (\<lambda>q. q)"
  by (simp add: channel_law_def bounded_send_def)

text \<open>What the lanes hold, relative to the messages sent so far.\<close>

definition lanes_ok :: "('q \<Rightarrow> outbound list) \<Rightarrow> outbound list \<Rightarrow> 'q alert_sink \<Rightarrow> bool" where
  "lanes_ok queued sent s \<longleftrightarrow>
     subseq (queued (sk_critical s)) (filter is_critical sent)
     \<and> subseq (queued (sk_normal s)) (filter (\<lambda>m. \<not> is_critical m) sent)
     \<and> (sk_suppress_alerts s \<longrightarrow>
          \<not> list_ex is_alert (queued (sk_critical s)) \<and> \<not> list_ex is_alert (queued (sk_normal s)))"

lemma lanes_ok_send:
  assumes "channel_law try_send queued" and "lanes_ok queued sent s"
  shows "lanes_ok queued (sent @ [m]) (sink_send try_send m s)"
proof -
  have weaken: "subseq xs ys \<Longrightarrow> subseq xs (ys @ [m])" for xs ys :: "outbound list"
    using subseq_order.order_trans subseq_rev_drop_many by blast
  have "try_send q m = Some q' \<Longrightarrow> queued q' = queued q @ [m]" for q q'
    using assms(1) by (simp add: channel_law_def)
  with assms(2) weaken show ?thesis
    by (cases m) (auto simp: lanes_ok_def sink_send_def Let_def is_alert_def is_critical_def
        split: option.splits)
qed

lemma lanes_ok_run:
  assumes "channel_law try_send queued" and "lanes_ok queued sent s"
  shows "lanes_ok queued (sent @ ms) (fold (sink_send try_send) ms s)"
  using assms(2)
proof (induction ms arbitrary: sent s)
  case (Cons m ms)
  from Cons.IH [OF lanes_ok_send [OF assms(1) Cons.prems]] show ?case by simp
qed simp


section \<open>Properties\<close>

text \<open>Whatever the modules send and however full the queues are, the critical lane holds only
  critical alerts and the normal lane none of them, each in the order they were sent (messages
  refused by a full queue are missing); in maintenance mode no alert is in either lane.\<close>

theorem sink_lanes:
  assumes "channel_law try_send queued" and "queued normal = []" and "queued critical = []"
  shows "lanes_ok queued ms (fold (sink_send try_send) ms (sink_new normal critical [] suppress))"
proof -
  have "lanes_ok queued [] (sink_new normal critical [] suppress)"
    using assms(2,3) by (simp add: lanes_ok_def sink_new_def)
  from lanes_ok_run [OF assms(1) this, of ms] show ?thesis by simp
qed

theorem sink_lanes_witness:
  "lanes_ok (\<lambda>q. q) [OHeartbeat \<lparr>hb_host = ''n'', hb_host_id = ''i'', hb_ts = 0, hb_uptime_s = 0,
        hb_firing_count = 0, hb_agent_version = []\<rparr>]
     (fold (sink_send (bounded_send 4)) [OHeartbeat \<lparr>hb_host = ''n'', hb_host_id = ''i'', hb_ts = 0,
        hb_uptime_s = 0, hb_firing_count = 0, hb_agent_version = []\<rparr>] (sink_new [] [] [] True))"
  by (rule sink_lanes [OF bounded_send_law refl refl])

text \<open>When a lane refuses a message, that message is the one that is lost: the queues stay as
  they are, and no older message gives way to it.\<close>

theorem sink_overflow_drops_new:
  assumes "try_send (if is_critical msg then sk_critical s else sk_normal s) msg = None"
  shows "sk_critical (sink_send try_send msg s) = sk_critical s
         \<and> sk_normal (sink_send try_send msg s) = sk_normal s"
  using assms
  by (auto simp: sink_send_def Let_def split: option.splits outbound.splits if_splits)

theorem sink_overflow_drops_new_witness:
  "\<exists>m. sk_normal (sink_send (bounded_send 0) m (sink_new [] [] [] False)) = []"
proof -
  let ?m = "OHello \<lparr>hl_host = ''n'', hl_host_id = ''i'', hl_primary_ip = [], hl_agent_version = [],
     hl_started_at = 0, hl_vendor = vendor_info_default, hl_tags = Map.empty, hl_maintenance = False\<rparr>"
  let ?s = "sink_new [] [] [] False"
  have "bounded_send 0 (if is_critical ?m then sk_critical ?s else sk_normal ?s) ?m = None"
    by (simp add: bounded_send_def)
  then have "sk_normal (sink_send (bounded_send 0) ?m ?s) = sk_normal ?s"
    using sink_overflow_drops_new [of "bounded_send 0" ?m ?s] by blast
  then show ?thesis by (auto simp: sink_new_def)
qed

end
