(* ===== verification/Agent_Transport.thy ===== *)
theory Agent_Transport
  imports Agent_Bus
begin

text \<open>
  \<open>agent/src/transport.rs\<close>: the connection to the collector. \<open>pump\<close> is a biased select over the
  critical lane, the normal lane, the keep-alive tick and the socket's read side: a round takes
  the first of them that is ready. \<open>ship\<close> takes a message off its lane before it tries to send it.
  What the socket does is an input of a round; \<open>encode\<close> stands for serde's serialiser (None for an
  error). The lanes stay open while the agent runs, since it keeps their senders. Setting up TCP
  and TLS is not modelled.
\<close>

datatype frame = FText string bool | FPing

datatype ws_read = RPending | RClose | RError | REnd | ROther

datatype pump_error = SerializeErr | NonUtf8 | SendErr | FlushErr | PingErr | ServerClosed | ReadErr | StreamEnded

record pump =
  pm_normal :: "outbound list"
  pm_critical :: "outbound list"
  pm_wire :: "frame list"

record round_input =
  ri_critical :: "outbound list"
  ri_normal :: "outbound list"
  ri_send_ok :: bool
  ri_flush_ok :: bool
  ri_tick :: bool
  ri_read :: ws_read

text \<open>None: go on. Some: the error that ends the connection.\<close>

definition ship ::
  "(envelope \<Rightarrow> string option) \<Rightarrow> round_input \<Rightarrow> outbound \<Rightarrow> bool \<Rightarrow> pump \<Rightarrow> pump_error option \<times> pump" where
  "ship encode i out critical p =
     (case encode (into_envelope out) of
        None \<Rightarrow> (Some SerializeErr, p)
      | Some buf \<Rightarrow>
          (case from_utf8 buf of
             None \<Rightarrow> (Some NonUtf8, p)
           | Some payload \<Rightarrow>
               if \<not> ri_send_ok i then (Some SendErr, p)
               else
                 let p1 = p\<lparr>pm_wire := pm_wire p @ [FText payload critical]\<rparr>
                 in if critical \<and> \<not> ri_flush_ok i then (Some FlushErr, p1) else (None, p1)))"

definition pump_round ::
  "(envelope \<Rightarrow> string option) \<Rightarrow> round_input \<Rightarrow> pump \<Rightarrow> pump_error option \<times> pump" where
  "pump_round encode i p0 =
     (let p = p0\<lparr>pm_critical := pm_critical p0 @ ri_critical i, pm_normal := pm_normal p0 @ ri_normal i\<rparr>
      in case pm_critical p of
           out # rest \<Rightarrow> ship encode i out True (p\<lparr>pm_critical := rest\<rparr>)
         | [] \<Rightarrow>
             (case pm_normal p of
                out # rest \<Rightarrow> ship encode i out False (p\<lparr>pm_normal := rest\<rparr>)
              | [] \<Rightarrow>
                  if ri_tick i then
                    (if ri_send_ok i then (None, p\<lparr>pm_wire := pm_wire p @ [FPing]\<rparr>) else (Some PingErr, p))
                  else
                    (case ri_read i of
                       RPending \<Rightarrow> (None, p)
                     | RClose \<Rightarrow> (Some ServerClosed, p)
                     | RError \<Rightarrow> (Some ReadErr, p)
                     | REnd \<Rightarrow> (Some StreamEnded, p)
                     | ROther \<Rightarrow> (None, p))))"

fun pump_loop ::
  "(envelope \<Rightarrow> string option) \<Rightarrow> round_input list \<Rightarrow> pump \<Rightarrow> pump_error option \<times> pump" where
  "pump_loop encode [] p = (None, p)"
| "pump_loop encode (i # is) p =
     (case pump_round encode i p of
        (None, p') \<Rightarrow> pump_loop encode is p'
      | (Some e, p') \<Rightarrow> (Some e, p'))"

text \<open>The reconnect loop of \<open>run\<close>: one turn tries to connect (\<open>ok\<close>), pumps until the connection
  ends, sleeps, and doubles the delay. The value is the delay slept and the next one.\<close>

definition run_turn :: "u64 \<Rightarrow> u64 \<Rightarrow> bool \<Rightarrow> u64 \<Rightarrow> u64 \<times> u64" where
  "run_turn reconnect_min_ms reconnect_max_ms ok backoff_ms =
     (let b = (if ok then reconnect_min_ms else backoff_ms)
      in (b, min (saturating_mul b 2) reconnect_max_ms))"

fun run_delays :: "u64 \<Rightarrow> u64 \<Rightarrow> bool list \<Rightarrow> u64 \<Rightarrow> u64 list" where
  "run_delays mn mx [] b = []"
| "run_delays mn mx (ok # oks) b =
     (case run_turn mn mx ok b of (d, b') \<Rightarrow> d # run_delays mn mx oks b')"

definition transport_run_delays :: "u64 \<Rightarrow> u64 \<Rightarrow> bool list \<Rightarrow> u64 list" where
  "transport_run_delays mn mx oks = run_delays mn mx oks mn"


section \<open>Back-off\<close>

lemma unat_min_word: "unat (min a b) = min (unat a) (unat (b :: 'a::len word))"
  by (simp add: min_def word_le_nat_alt)

text \<open>The delay before the turn with number \<open>n\<close> of a row of failed ones.\<close>

fun delay_after :: "nat \<Rightarrow> nat \<Rightarrow> nat \<Rightarrow> nat" where
  "delay_after mn mx 0 = mn"
| "delay_after mn mx (Suc n) = min (mn * 2 ^ Suc n) mx"

lemma min_double: "0 < k \<Longrightarrow> min (min (min (mn * 2 ^ k) mx * 2) (2 ^ 64 - 1)) mx = min (mn * 2 ^ Suc k) (mx::nat)"
  if "mx < 2 ^ 64"
  using that by (auto simp: min_def)

lemma next_delay:
  assumes "unat b = delay_after (unat mn) (unat mx) n"
  shows "unat (snd (run_turn mn mx False b)) = delay_after (unat mn) (unat mx) (Suc n)"
proof -
  have mx: "unat mx < 2 ^ 64" using unsigned_less [of mx] by simp
  have "unat (snd (run_turn mn mx False b)) = min (min (unat b * 2) (2 ^ 64 - 1)) (unat mx)"
    by (simp add: run_turn_def unat_min_word unat_saturating_mul)
  also have "\<dots> = delay_after (unat mn) (unat mx) (Suc n)"
    using mx assms min_double [OF mx, of n] by (cases n) (auto simp: min_def)
  finally show ?thesis .
qed

lemma run_delays_nth:
  assumes "unat b = delay_after (unat mn) (unat mx) k" and "i < n"
  shows "unat (run_delays mn mx (replicate n False) b ! i) = delay_after (unat mn) (unat mx) (k + i)"
  using assms
proof (induction n arbitrary: b k i)
  case (Suc n)
  show ?case
  proof (cases i)
    case 0
    with Suc.prems show ?thesis by (simp add: run_turn_def)
  next
    case (Suc i')
    from Suc.IH [OF next_delay [OF Suc.prems(1)], of i'] Suc.prems(2) Suc
    show ?thesis by (simp add: run_turn_def)
  qed
qed simp


section \<open>Order on the wire\<close>

text \<open>The texts of the frames that were flushed at once (the critical lane) and of the others.\<close>

definition lane_texts :: "bool \<Rightarrow> frame list \<Rightarrow> string list" where
  "lane_texts critical fs = [t. FText t c \<leftarrow> fs, c = critical]"

definition encodable :: "(envelope \<Rightarrow> string option) \<Rightarrow> outbound \<Rightarrow> bool" where
  "encodable encode m \<longleftrightarrow> (\<exists>t. encode (into_envelope m) = Some t \<and> from_utf8 t = Some t)"

definition text_of :: "(envelope \<Rightarrow> string option) \<Rightarrow> outbound \<Rightarrow> string" where
  "text_of encode m = (case encode (into_envelope m) of Some t \<Rightarrow> t | None \<Rightarrow> [])"

lemma lane_texts_simps [simp]:
  "lane_texts c [] = []"
  "lane_texts c (fs @ gs) = lane_texts c fs @ lane_texts c gs"
  "lane_texts c [FText t d] = (if c = d then [t] else [])"
  "lane_texts c [FPing] = []"
  by (auto simp: lane_texts_def)

lemma from_utf8_Some: "from_utf8 s = Some t \<longleftrightarrow> t = s \<and> utf8_valid_from 0 s"
  by (auto simp: from_utf8_def)

lemma ship_None:
  "ship encode i out c p = (None, p') \<Longrightarrow> p' = p\<lparr>pm_wire := pm_wire p @ [FText (text_of encode out) c]\<rparr>"
  by (auto simp: ship_def text_of_def from_utf8_Some Let_def split: option.splits if_splits)

text \<open>In every state reached without an error, each lane's messages are on the wire in order,
  followed by those still queued.\<close>

definition in_order :: "(envelope \<Rightarrow> string option) \<Rightarrow> outbound list \<Rightarrow> outbound list \<Rightarrow> pump \<Rightarrow> bool" where
  "in_order encode crit norm p \<longleftrightarrow>
     (\<exists>sc sn. crit = sc @ pm_critical p \<and> norm = sn @ pm_normal p \<and>
        lane_texts True (pm_wire p) = map (text_of encode) sc \<and>
        lane_texts False (pm_wire p) = map (text_of encode) sn)"

lemma pump_round_in_order:
  assumes "in_order encode crit norm p" and "pump_round encode i p = (None, p')"
  shows "in_order encode (crit @ ri_critical i) (norm @ ri_normal i) p'"
proof -
  obtain sc sn where l: "crit = sc @ pm_critical p" "norm = sn @ pm_normal p"
    "lane_texts True (pm_wire p) = map (text_of encode) sc"
    "lane_texts False (pm_wire p) = map (text_of encode) sn"
    using assms(1) by (auto simp: in_order_def)
  show ?thesis
  proof (cases "pm_critical p @ ri_critical i")
    case (Cons out rest)
    with assms(2) have "p' = p\<lparr>pm_critical := rest, pm_normal := pm_normal p @ ri_normal i,
        pm_wire := pm_wire p @ [FText (text_of encode out) True]\<rparr>"
      by (auto simp: pump_round_def Let_def dest!: ship_None)
    with l Cons show ?thesis
      unfolding in_order_def by (intro exI [of _ "sc @ [out]"] exI [of _ sn]) simp
  next
    case Nil
    show ?thesis
    proof (cases "pm_normal p @ ri_normal i")
      case (Cons out rest)
      with Nil assms(2) have "p' = p\<lparr>pm_critical := [], pm_normal := rest,
          pm_wire := pm_wire p @ [FText (text_of encode out) False]\<rparr>"
        by (auto simp: pump_round_def Let_def dest!: ship_None)
      with l Nil Cons show ?thesis
        unfolding in_order_def by (intro exI [of _ sc] exI [of _ "sn @ [out]"]) simp
    next
      case Nil2: Nil
      with Nil assms(2) have "pm_critical p' = [] \<and> pm_normal p' = []
          \<and> (pm_wire p' = pm_wire p \<or> pm_wire p' = pm_wire p @ [FPing])"
        by (auto simp: pump_round_def Let_def split: if_splits ws_read.splits)
      with l Nil Nil2 show ?thesis
        unfolding in_order_def by (intro exI [of _ sc] exI [of _ sn]) auto
    qed
  qed
qed

lemma pump_loop_in_order:
  assumes "in_order encode crit norm p" and "pump_loop encode is p = (None, p')"
  shows "in_order encode (crit @ concat (map ri_critical is)) (norm @ concat (map ri_normal is)) p'"
  using assms
proof (induction "is" arbitrary: p crit norm)
  case (Cons i "is")
  then obtain p1 where "pump_round encode i p = (None, p1)" "pump_loop encode is p1 = (None, p')"
    by (auto split: prod.splits option.splits)
  with Cons.IH [OF pump_round_in_order [OF Cons.prems(1)]] show ?case by force
qed simp

text \<open>A quiet round: nothing arrives, and the socket takes what it is given.\<close>

definition quiet :: round_input where
  "quiet = \<lparr>ri_critical = [], ri_normal = [], ri_send_ok = True, ri_flush_ok = True,
            ri_tick = False, ri_read = RPending\<rparr>"

lemma pump_round_quiet_critical:
  "encodable encode m \<Longrightarrow> pm_critical p = m # ms \<Longrightarrow>
     pump_round encode quiet p =
       (None, p\<lparr>pm_critical := ms, pm_wire := pm_wire p @ [FText (text_of encode m) True]\<rparr>)"
  by (auto simp: pump_round_def quiet_def ship_def encodable_def text_of_def)

lemma pump_round_quiet_normal:
  "encodable encode m \<Longrightarrow> pm_critical p = [] \<Longrightarrow> pm_normal p = m # ms \<Longrightarrow>
     pump_round encode quiet p =
       (None, p\<lparr>pm_normal := ms, pm_wire := pm_wire p @ [FText (text_of encode m) False]\<rparr>)"
  by (auto simp: pump_round_def quiet_def ship_def encodable_def text_of_def)

lemma pump_drain_normal:
  "\<forall>m \<in> set ms. encodable encode m \<Longrightarrow> pm_critical p = [] \<Longrightarrow> pm_normal p = ms \<Longrightarrow>
     pump_loop encode (replicate (length ms) quiet) p =
       (None, p\<lparr>pm_normal := [], pm_wire := pm_wire p @ map (\<lambda>m. FText (text_of encode m) False) ms\<rparr>)"
proof (induction ms arbitrary: p)
  case (Cons m ms)
  then show ?case using pump_round_quiet_normal [of encode m p ms] by simp
qed simp

lemma pump_loop_append:
  "pump_loop encode (xs @ ys) p =
     (case pump_loop encode xs p of
        (None, p') \<Rightarrow> pump_loop encode ys p' | (Some e, p') \<Rightarrow> (Some e, p'))"
  by (induction xs arbitrary: p) (auto split: prod.splits option.splits)

lemma pump_drain_critical:
  "\<forall>m \<in> set ms. encodable encode m \<Longrightarrow> pm_critical p = ms \<Longrightarrow>
     pump_loop encode (replicate (length ms) quiet) p =
       (None, p\<lparr>pm_critical := [], pm_wire := pm_wire p @ map (\<lambda>m. FText (text_of encode m) True) ms\<rparr>)"
proof (induction ms arbitrary: p)
  case (Cons m ms)
  then show ?case using pump_round_quiet_critical [of encode m p ms] by simp
qed simp


section \<open>Properties\<close>

text \<open>C29. Critical alerts go first: when \<open>m\<close> messages wait in the critical lane and \<open>n\<close> in the
  normal lane and the socket works, then after \<open>m + n\<close> rounds everything is on the wire, the
  critical messages in order and each flushed at once, then the normal ones in order.\<close>

theorem pump_critical_first:
  assumes "\<forall>x \<in> set (pm_critical p) \<union> set (pm_normal p). encodable encode x"
  shows "pump_loop encode (replicate (length (pm_critical p) + length (pm_normal p)) quiet) p =
    (None, p\<lparr>pm_critical := [], pm_normal := [],
       pm_wire := pm_wire p @ map (\<lambda>m. FText (text_of encode m) True) (pm_critical p)
                            @ map (\<lambda>m. FText (text_of encode m) False) (pm_normal p)\<rparr>)"
  using pump_drain_critical [of "pm_critical p" encode p] assms
    pump_drain_normal [of "pm_normal p" encode
      "p\<lparr>pm_critical := [], pm_wire := pm_wire p @ map (\<lambda>m. FText (text_of encode m) True) (pm_critical p)\<rparr>"]
  by (simp add: replicate_add pump_loop_append)

definition sample_out :: "severity \<Rightarrow> outbound" where
  "sample_out sev = OAlert (build_firing 0 [] (builder_new ''node1'' ''4f2a'' ''nvme'' ''media_errors'' sev))"

theorem pump_critical_first_witness:
  "pm_wire (snd (pump_loop (\<lambda>_. Some ''{}'') (replicate 2 quiet)
     \<lparr>pm_normal = [sample_out Info], pm_critical = [sample_out Critical], pm_wire = []\<rparr>))
   = [FText ''{}'' True, FText ''{}'' False]"
proof -
  have "from_utf8 ''{}'' = Some ''{}''" by (simp add: std_defs)
  then show ?thesis
    using pump_critical_first [of "\<lparr>pm_normal = [sample_out Info], pm_critical = [sample_out Critical], pm_wire = []\<rparr>"
        "\<lambda>_. Some ''{}''"]
    by (simp add: encodable_def text_of_def numeral_2_eq_2)
qed

text \<open>Whatever arrives and whatever the socket does, while a connection lasts each lane is
  first-in first-out and loses nothing: the texts sent for a lane are those of a prefix of all the
  messages that ever entered it, and the rest is still queued, in order.\<close>

theorem pump_lanes_fifo:
  assumes "pump_loop encode is \<lparr>pm_normal = norm, pm_critical = crit, pm_wire = []\<rparr> = (None, p')"
  shows "\<exists>sc sn. crit @ concat (map ri_critical is) = sc @ pm_critical p'
     \<and> norm @ concat (map ri_normal is) = sn @ pm_normal p'
     \<and> lane_texts True (pm_wire p') = map (text_of encode) sc
     \<and> lane_texts False (pm_wire p') = map (text_of encode) sn"
proof -
  have "in_order encode crit norm \<lparr>pm_normal = norm, pm_critical = crit, pm_wire = []\<rparr>"
    by (simp add: in_order_def)
  from pump_loop_in_order [OF this assms] show ?thesis by (simp add: in_order_def)
qed

theorem pump_lanes_fifo_witness:
  "\<exists>p' sc. pump_loop (\<lambda>_. Some ''{}'') [quiet] \<lparr>pm_normal = [], pm_critical = [sample_out Critical], pm_wire = []\<rparr>
       = (None, p') \<and> [sample_out Critical] = sc @ pm_critical p'"
proof -
  have "from_utf8 ''{}'' = Some ''{}''" by (simp add: std_defs)
  then obtain p' where p': "pump_loop (\<lambda>_. Some ''{}'') [quiet]
      \<lparr>pm_normal = [], pm_critical = [sample_out Critical], pm_wire = []\<rparr> = (None, p')"
    by (simp add: pump_round_def quiet_def ship_def)
  from pump_lanes_fifo [OF p'] have "\<exists>sc. [sample_out Critical] = sc @ pm_critical p'"
    by (auto simp: quiet_def)
  with p' show ?thesis by blast
qed

text \<open>C30. Reconnect delays: in a row of failed attempts the delay after attempt \<open>i\<close> is the
  configured minimum for the first, and the minimum times \<open>2^i\<close>, at most the configured maximum,
  from then on; no value wraps around at 64 bits. A successful connection resets the delay to
  the minimum.\<close>

theorem reconnect_backoff:
  assumes "i < n"
  shows "unat (transport_run_delays mn mx (replicate n False) ! i)
           = (if i = 0 then unat mn else min (unat mn * 2 ^ i) (unat mx))
         \<and> run_turn mn mx True b = run_turn mn mx False mn"
proof -
  have "unat (run_delays mn mx (replicate n False) mn ! i) = delay_after (unat mn) (unat mx) (0 + i)"
    using assms by (intro run_delays_nth) simp_all
  then show ?thesis by (cases i) (simp_all add: transport_run_delays_def run_turn_def)
qed

theorem reconnect_backoff_witness:
  "unat (transport_run_delays 250 8000 (replicate 7 False) ! 6) = 8000"
  using reconnect_backoff [of 6 7 250 8000] by simp

end
