(* ===== verification/Agent_Config.thy ===== *)
theory Agent_Config
  imports Complex_Main Agent_Transport Agent_Host
begin

text \<open>
  \<open>agent/src/config.rs\<close>: the blocks of the configuration and their defaults, the maintenance
  switch and the log filter. Reading TOML is the library's; a field left out of the file takes the
  value of the default shown here. The \<open>f32\<close> thresholds are rationals (every default is a whole
  number, which \<open>f32\<close> holds exactly). \<open>usize\<close> is 64 bits.
\<close>

record agent_block =
  ab_log_level :: string
  ab_maintenance :: bool
  ab_debug_listen :: "string option"

definition default_log_level :: string where "default_log_level = ''info''"

definition agent_block_default :: agent_block where
  "agent_block_default = \<lparr>ab_log_level = default_log_level, ab_maintenance = False, ab_debug_listen = None\<rparr>"

record collector_block =
  cb_url :: string
  cb_send_queue_size :: u64
  cb_critical_queue_size :: u64
  cb_reconnect_min_ms :: u64
  cb_reconnect_max_ms :: u64
  cb_keepalive_s :: u64

definition collector_block_default :: collector_block where
  "collector_block_default =
     \<lparr>cb_url = ''wss://collector.local:9443/v1/ingest'', cb_send_queue_size = 4096,
      cb_critical_queue_size = 1024, cb_reconnect_min_ms = 250, cb_reconnect_max_ms = 30000,
      cb_keepalive_s = 5\<rparr>"

record tls_block =
  tb_ca_cert :: string
  tb_client_cert :: string
  tb_client_key :: string
  tb_insecure_skip_verify :: bool

definition tls_block_default :: tls_block where
  "tls_block_default =
     \<lparr>tb_ca_cert = ''/etc/monitor-agent/ca.crt'', tb_client_cert = ''/etc/monitor-agent/client.crt'',
      tb_client_key = ''/etc/monitor-agent/client.key'', tb_insecure_skip_verify = False\<rparr>"

record heartbeat_block =
  hbk_interval_s :: u64

definition heartbeat_block_default :: heartbeat_block where
  "heartbeat_block_default = \<lparr>hbk_interval_s = 5\<rparr>"

record dedup_block =
  db_re_notify_after_s :: u64
  db_recovery_window_s :: u64

definition dedup_block_default :: dedup_block where
  "dedup_block_default = \<lparr>db_re_notify_after_s = 30 * 60, db_recovery_window_s = 60\<rparr>"

record simple_enable =
  se_enabled :: bool

definition simple_enable_default :: simple_enable where
  "simple_enable_default = \<lparr>se_enabled = True\<rparr>"

record nvme_cfg =
  nv_enabled :: bool
  nv_poll_s :: u64
  nv_wear_warn_pct :: u8
  nv_wear_critical_pct :: u8
  nv_temp_warn_c :: int
  nv_temp_critical_c :: int

definition nvme_cfg_default :: nvme_cfg where
  "nvme_cfg_default =
     \<lparr>nv_enabled = True, nv_poll_s = 60, nv_wear_warn_pct = 80, nv_wear_critical_pct = 90,
      nv_temp_warn_c = 70, nv_temp_critical_c = 80\<rparr>"

record disk_smart_cfg =
  ds_enabled :: bool
  ds_poll_s :: u64

definition disk_smart_cfg_default :: disk_smart_cfg where
  "disk_smart_cfg_default = \<lparr>ds_enabled = True, ds_poll_s = 300\<rparr>"

record memory_ecc_cfg =
  me_enabled :: bool
  me_poll_s :: u64
  me_ce_per_hour_warn :: u64
  me_edac_sysfs_enable :: bool
  me_ipmi_sdr_enable :: bool

definition memory_ecc_cfg_default :: memory_ecc_cfg where
  "memory_ecc_cfg_default =
     \<lparr>me_enabled = True, me_poll_s = 5, me_ce_per_hour_warn = 50, me_edac_sysfs_enable = False,
      me_ipmi_sdr_enable = True\<rparr>"

record pcie_aer_cfg =
  pa_enabled :: bool
  pa_corrected_per_min_warn :: u64

definition pcie_aer_cfg_default :: pcie_aer_cfg where
  "pcie_aer_cfg_default = \<lparr>pa_enabled = True, pa_corrected_per_min_warn = 100\<rparr>"

record thermal_cfg =
  th_enabled :: bool
  th_poll_s :: u64
  th_inlet_warn_c :: rat
  th_inlet_critical_c :: rat
  th_inlet_emergency_c :: rat

definition thermal_cfg_default :: thermal_cfg where
  "thermal_cfg_default =
     \<lparr>th_enabled = True, th_poll_s = 5, th_inlet_warn_c = 32, th_inlet_critical_c = 36,
      th_inlet_emergency_c = 38\<rparr>"

record network_nic_cfg =
  nn_enabled :: bool
  nn_flap_window_s :: u64
  nn_flap_threshold :: u32
  nn_counter_poll_s :: u64
  nn_ignore_regex :: "string list"

definition default_nic_ignore :: "string list" where
  "default_nic_ignore =
     [''^lo$'', ''^docker.*'', ''^veth.*'', ''^br-.*'', ''^cali.*'', ''^cni.*'', ''^tun.*'', ''^tap.*'', ''^virbr.*'']"

definition network_nic_cfg_default :: network_nic_cfg where
  "network_nic_cfg_default =
     \<lparr>nn_enabled = True, nn_flap_window_s = 10, nn_flap_threshold = 2, nn_counter_poll_s = 5,
      nn_ignore_regex = default_nic_ignore\<rparr>"

record storage_controller_cfg =
  sc_enabled :: bool
  sc_poll_s :: u64

definition storage_controller_cfg_default :: storage_controller_cfg where
  "storage_controller_cfg_default = \<lparr>sc_enabled = True, sc_poll_s = 15\<rparr>"

record storage_io_cfg =
  sio_enabled :: bool
  sio_watch_ceph_osd :: bool
  sio_correlate_window_s :: u64

definition storage_io_cfg_default :: storage_io_cfg where
  "storage_io_cfg_default =
     \<lparr>sio_enabled = True, sio_watch_ceph_osd = True, sio_correlate_window_s = 30\<rparr>"

record mempressure_cfg =
  mp_enabled :: bool
  mp_poll_s :: u64
  mp_psi_some_avg10_warn :: rat
  mp_sustain_s :: u64
  mp_oom_storm_count :: u32
  mp_oom_storm_window_s :: u64

definition mempressure_cfg_default :: mempressure_cfg where
  "mempressure_cfg_default =
     \<lparr>mp_enabled = True, mp_poll_s = 2, mp_psi_some_avg10_warn = 50, mp_sustain_s = 30,
      mp_oom_storm_count = 3, mp_oom_storm_window_s = 300\<rparr>"

record bmc_cfg =
  bm_enabled :: bool
  bm_poll_s :: u64
  bm_ipmi_device :: string
  bm_redfish_url :: string
  bm_redfish_username :: string
  bm_redfish_password :: string
  bm_redfish_insecure :: bool

definition bmc_cfg_default :: bmc_cfg where
  "bmc_cfg_default =
     \<lparr>bm_enabled = False, bm_poll_s = 10, bm_ipmi_device = ''/dev/ipmi0'', bm_redfish_url = [],
      bm_redfish_username = [], bm_redfish_password = [], bm_redfish_insecure = False\<rparr>"

record syslog_rule =
  ru_name :: string
  ru_regex :: string
  ru_severity :: string
  ru_category :: string
  ru_title :: string
  ru_message :: string

record syslog_rules_cfg =
  sr_enabled :: bool
  sr_rules :: "syslog_rule list"

definition default_syslog_rules :: "syslog_rule list" where
  "default_syslog_rules =
     [\<lparr>ru_name = ''scsi_command_timeout'',
       ru_regex = (''sd '' @ bsl @ ''d+:'' @ bsl @ ''d+:'' @ bsl @ ''d+:'' @ bsl @
         ''d+:.*timing out|ata'' @ bsl @ ''d+'' @ bsl @ ''.'' @ bsl @ ''d+: exception Emask''),
       ru_severity = ''warning'', ru_category = ''storage_io'',
       ru_title = ''Storage controller command timeout'',
       ru_message = ''Kernel reported a SCSI/SATA command timeout. Drive is unresponsive; if it persists the disk will be marked offline. Trace: {match}''\<rparr>,
      \<lparr>ru_name = ''pcie_link_recovery'',
       ru_regex = ''PCIe Bus Error|pciehp.*Link (Down|Up)|pci_bus.*recovery'',
       ru_severity = ''warning'', ru_category = ''pcie_aer'',
       ru_title = ''PCIe link instability'',
       ru_message = ''Kernel logged a PCIe link/bus event. Often precedes an uncorrectable AER. Trace: {match}''\<rparr>,
      \<lparr>ru_name = ''nic_driver_reset'',
       ru_regex = ''(ixgbe|i40e|ice|mlx5_core|bnxt_en|ena).*(reset|recovery)|NIC Reset'',
       ru_severity = ''warning'', ru_category = ''network_nic'',
       ru_title = ''NIC driver reset'',
       ru_message = ''Network driver issued a reset/recovery event. Brief packet loss expected; investigate if recurring. Trace: {match}''\<rparr>,
      \<lparr>ru_name = ''watchdog_warning'',
       ru_regex = ''hardware watchdog|iTCO_wdt|softdog: WDIOC'',
       ru_severity = ''info'', ru_category = ''syslog'',
       ru_title = ''Hardware watchdog message'',
       ru_message = ''Kernel logged a hardware-watchdog event. Trace: {match}''\<rparr>,
      \<lparr>ru_name = ''acpi_power_event'',
       ru_regex = ''ACPI.*power|ACPI.*thermal|ACPI: Critical|chassis intrusion'',
       ru_severity = ''warning'', ru_category = ''thermal'',
       ru_title = ''ACPI power/thermal event'',
       ru_message = ''ACPI subsystem reported a power or thermal event. Trace: {match}''\<rparr>]"

definition syslog_rules_cfg_default :: syslog_rules_cfg where
  "syslog_rules_cfg_default = \<lparr>sr_enabled = True, sr_rules = default_syslog_rules\<rparr>"

record modules_block =
  mb_nvme :: nvme_cfg
  mb_disk_smart :: disk_smart_cfg
  mb_memory_ecc :: memory_ecc_cfg
  mb_cpu_mce :: simple_enable
  mb_pcie_aer :: pcie_aer_cfg
  mb_thermal :: thermal_cfg
  mb_gpu_nvidia :: simple_enable
  mb_gpu_amd :: simple_enable
  mb_network_nic :: network_nic_cfg
  mb_storage_controller :: storage_controller_cfg
  mb_storage_io :: storage_io_cfg
  mb_mempressure :: mempressure_cfg
  mb_oshang :: simple_enable
  mb_bmc_redfish :: bmc_cfg
  mb_bmc_eventlog :: bmc_cfg
  mb_syslog_rules :: syslog_rules_cfg
  mb_boot :: simple_enable
  mb_lifecycle :: simple_enable

definition modules_block_default :: modules_block where
  "modules_block_default =
     \<lparr>mb_nvme = nvme_cfg_default, mb_disk_smart = disk_smart_cfg_default,
      mb_memory_ecc = memory_ecc_cfg_default, mb_cpu_mce = simple_enable_default,
      mb_pcie_aer = pcie_aer_cfg_default, mb_thermal = thermal_cfg_default,
      mb_gpu_nvidia = simple_enable_default, mb_gpu_amd = simple_enable_default,
      mb_network_nic = network_nic_cfg_default, mb_storage_controller = storage_controller_cfg_default,
      mb_storage_io = storage_io_cfg_default, mb_mempressure = mempressure_cfg_default,
      mb_oshang = simple_enable_default, mb_bmc_redfish = bmc_cfg_default,
      mb_bmc_eventlog = bmc_cfg_default, mb_syslog_rules = syslog_rules_cfg_default,
      mb_boot = simple_enable_default, mb_lifecycle = simple_enable_default\<rparr>"

record agent_config =
  ac_agent :: agent_block
  ac_collector :: collector_block
  ac_tls :: tls_block
  ac_heartbeat :: heartbeat_block
  ac_dedup :: dedup_block
  ac_modules :: modules_block
  ac_tags :: "string \<rightharpoonup> string"

definition default_fallback :: agent_config where
  "default_fallback =
     \<lparr>ac_agent = agent_block_default, ac_collector = collector_block_default,
      ac_tls = tls_block_default, ac_heartbeat = heartbeat_block_default,
      ac_dedup = dedup_block_default, ac_modules = modules_block_default, ac_tags = Map.empty\<rparr>"

text \<open>Reading the file is the system's and parsing TOML the library's.\<close>

definition agent_config_load ::
  "(string \<Rightarrow> string option) \<Rightarrow> (string \<Rightarrow> agent_config option) \<Rightarrow> string \<Rightarrow> string + agent_config" where
  "agent_config_load read_file from_toml path =
     (case read_file path of
        None \<Rightarrow> Inl (''reading '' @ path)
      | Some s \<Rightarrow> (case from_toml s of None \<Rightarrow> Inl (''parsing '' @
        path) | Some cfg \<Rightarrow> Inr cfg))"

definition maintenance_mode :: "agent_config \<Rightarrow> bool" where
  "maintenance_mode cfg =
     (if ab_maintenance (ac_agent cfg) then True
      else let l = to_lowercase (ab_log_level (ac_agent cfg))
           in l = ''maintainance'' \<or> l = ''maintenance'')"

definition tracing_log_filter :: "agent_config \<Rightarrow> string" where
  "tracing_log_filter cfg =
     (let l = to_lowercase (ab_log_level (ac_agent cfg))
      in if l = ''maintainance'' \<or> l = ''maintenance'' then ''info'' else ab_log_level (ac_agent cfg))"

definition cfg_re_notify :: "agent_config \<Rightarrow> duration" where
  "cfg_re_notify cfg = secs (unat (db_re_notify_after_s (ac_dedup cfg)))"

definition cfg_recovery :: "agent_config \<Rightarrow> duration" where
  "cfg_recovery cfg = secs (unat (db_recovery_window_s (ac_dedup cfg)))"


section \<open>Facts\<close>

lemma replace_absent: "c \<notin> set s \<Longrightarrow> replace s (c # p) r = s"
proof -
  have "c \<notin> set s \<Longrightarrow> replace_from 0 (c # p) r s = s" for s
    by (induction s) auto
  then show "c \<notin> set s \<Longrightarrow> replace s (c # p) r = s" by (simp add: replace_def)
qed

text \<open>On text whose ASCII lower case is an ASCII word, the two lower-case functions agree.\<close>

lemma to_lowercase_word:
  assumes "map ascii_lower s = w" and "\<forall>c \<in> set w. byte_in c 0 0x7F"
  shows "to_lowercase s = w"
proof -
  have "c \<notin> set s" if "\<not> byte_in c 0 0x7F" for c
  proof
    assume "c \<in> set s"
    then have "ascii_lower c \<in> set w" using assms(1) by auto
    moreover have "ascii_lower c = c" using that by (auto simp: ascii_lower_def)
    ultimately show False using assms(2) that by auto
  qed
  then have "CHR 0xC4 \<notin> set s" "CHR 0xE2 \<notin> set s" by auto
  with assms(1) show ?thesis by (simp add: to_lowercase_def replace_absent)
qed

lemma maintenance_mode_level:
  "eq_ignore_ascii_case (ab_log_level (ac_agent cfg)) ''maintenance'' \<Longrightarrow> maintenance_mode cfg"
  using to_lowercase_word [of "ab_log_level (ac_agent cfg)" "''maintenance''"]
  by (simp add: maintenance_mode_def eq_ignore_ascii_case_def ascii_lower_def)


section \<open>Properties\<close>

text \<open>The sink as \<open>main\<close> builds it from a configuration.\<close>

definition configured_sink :: "agent_config \<Rightarrow> 'q \<Rightarrow> 'q \<Rightarrow> 'q alert_sink" where
  "configured_sink cfg normal critical = sink_new normal critical [] (maintenance_mode cfg)"

text \<open>Maintenance: with the flag set, or with the log level spelled \<open>maintenance\<close> (or
  \<open>maintainance\<close>) in any case, no alert enters either lane, whatever the modules send; and the log
  filter handed to the tracing library is never one of these two words.\<close>

theorem maintenance_silences:
  assumes "channel_law try_send queued" and "queued normal = []" and "queued critical = []"
    and "ab_maintenance (ac_agent cfg)
         \<or> eq_ignore_ascii_case (ab_log_level (ac_agent cfg)) ''maintenance''"
  shows "(let s = fold (sink_send try_send) ms (configured_sink cfg normal critical)
          in \<not> list_ex is_alert (queued (sk_critical s)) \<and> \<not> list_ex is_alert (queued (sk_normal s)))
         \<and> tracing_log_filter cfg \<notin> {''maintenance'', ''maintainance''}"
proof -
  have mm: "maintenance_mode cfg"
    using assms(4) maintenance_mode_level by (auto simp: maintenance_mode_def)
  have "lanes_ok queued [] (configured_sink cfg normal critical)"
    using assms(2,3) by (simp add: lanes_ok_def configured_sink_def sink_new_def)
  from lanes_ok_run [OF assms(1) this, of ms]
  have "lanes_ok queued ms (fold (sink_send try_send) ms (configured_sink cfg normal critical))" by simp
  moreover have "sk_suppress_alerts (fold (sink_send try_send) ms s) = sk_suppress_alerts s" for s
    by (induction ms arbitrary: s) (auto simp: sink_send_def Let_def split: option.splits outbound.splits)
  moreover have "tracing_log_filter cfg \<notin> {''maintenance'', ''maintainance''}"
    using to_lowercase_word [of "''maintenance''" "''maintenance''"]
      to_lowercase_word [of "''maintainance''" "''maintainance''"]
    by (auto simp: tracing_log_filter_def Let_def ascii_lower_def)
  ultimately show ?thesis using mm by (simp add: lanes_ok_def configured_sink_def sink_new_def Let_def)
qed

theorem maintenance_silences_witness:
  "\<exists>cfg. ab_log_level (ac_agent cfg) = ''Maintenance'' \<and>
     \<not> list_ex is_alert (sk_critical (fold (sink_send (bounded_send 8)) [sample_out Critical]
         (configured_sink cfg [] [])))"
proof -
  let ?cfg = "default_fallback\<lparr>ac_agent := agent_block_default\<lparr>ab_log_level := ''Maintenance''\<rparr>\<rparr>"
  have "ab_maintenance (ac_agent ?cfg) \<or> eq_ignore_ascii_case (ab_log_level (ac_agent ?cfg)) ''maintenance''"
    by (simp add: eq_ignore_ascii_case_def ascii_lower_def char_of_def bit_0)
  from maintenance_silences [OF bounded_send_law refl refl this, of 8 "[sample_out Critical]"]
  show ?thesis by (intro exI [of _ ?cfg]) (simp add: Let_def)
qed

text \<open>The built-in configuration is consistent: every warning threshold is at or below its
  critical one, the reconnect delays are ordered and positive, both queues have room, and the
  deduplication window exceeds the recovery window.\<close>

theorem default_config_sane:
  "let m = ac_modules default_fallback; c = ac_collector default_fallback
   in nv_wear_warn_pct (mb_nvme m) \<le> nv_wear_critical_pct (mb_nvme m)
    \<and> nv_temp_warn_c (mb_nvme m) \<le> nv_temp_critical_c (mb_nvme m)
    \<and> th_inlet_warn_c (mb_thermal m) \<le> th_inlet_critical_c (mb_thermal m)
    \<and> th_inlet_critical_c (mb_thermal m) \<le> th_inlet_emergency_c (mb_thermal m)
    \<and> 0 < cb_reconnect_min_ms c \<and> cb_reconnect_min_ms c \<le> cb_reconnect_max_ms c
    \<and> 0 < cb_send_queue_size c \<and> 0 < cb_critical_queue_size c
    \<and> cfg_recovery default_fallback < cfg_re_notify default_fallback
    \<and> \<not> maintenance_mode default_fallback \<and> tracing_log_filter default_fallback = ''info''"
  by (simp add: default_fallback_def modules_block_default_def nvme_cfg_default_def thermal_cfg_default_def
      collector_block_default_def dedup_block_default_def agent_block_default_def default_log_level_def
      cfg_recovery_def cfg_re_notify_def maintenance_mode_def tracing_log_filter_def Let_def
      to_lowercase_def replace_def ascii_lower_def word_le_nat_alt word_less_nat_alt)

end
