(* ===== verification/Mod_Storage_Io.thy ===== *)
theory Mod_Storage_Io
  imports Line_Reports Agent_Config
begin

text \<open>
  \<open>agent/src/modules/storage_io.rs\<close>: three tasks that share the module's tracker (disks that
  vanish from \<open>/proc/partitions\<close>, I/O errors in the kernel log, Ceph OSD units that leave the state
  active) and one that only observes the in-process alerts. A hash set is the list of its
  elements in iteration order. \<open>list_units\<close> on D-Bus is an input (None for an error).
\<close>

section \<open>Block devices\<close>

definition whole_disk :: "string \<Rightarrow> bool" where
  "whole_disk name \<longleftrightarrow>
     (name \<noteq> [] \<and> \<not> is_digit (last name)) \<or> (starts_with name ''nvme'' \<and> \<not> contains name ''p'')"

definition read_block_devices :: "string option \<Rightarrow> string list" where
  "read_block_devices partitions =
     (case partitions of
        None \<Rightarrow> []
      | Some t \<Rightarrow>
          remdups (concat (map (\<lambda>line.
            let cols = split_whitespace line
            in if length cols < 4 then []
               else if whole_disk (cols ! 3) then [cols ! 3] else []) (drop 2 (lines t)))))"

definition disk_lost_builder :: "host_id \<Rightarrow> string \<Rightarrow> alert_builder" where
  "disk_lost_builder host gone =
     chain (host_builder host STORAGE_IO ''disk_lost'' Critical)
       [with_device (''/dev/'' @ gone),
        with_title ''Block device disappeared'',
        with_message (''Block device /dev/'' @ gone @
          '' is no longer enumerable. If many disks vanished simultaneously, look for a `controller_lockup` alert.'')]"

definition block_device_tick ::
  "host_id \<Rightarrow> string option \<Rightarrow> string list \<times> emitter \<Rightarrow> string list \<times> emitter" where
  "block_device_tick host partitions st =
     (case st of (last_seen, s) \<Rightarrow>
       let now = read_block_devices partitions
       in if last_seen = [] then (now, s)
          else (now, fold (\<lambda>gone. emit (disk_lost_builder host gone))
                       (filter (\<lambda>d. d \<notin> set now) last_seen) s))"


section \<open>Kernel log\<close>

definition io_re :: string where
  "io_re = ''(?i)(Buffer I/O error|rejecting I/O to offline device|EXT4-fs error|XFS.*Internal error|blk_update_request: I/O error|FAILED Result: hostbyte)''"

definition io_error_builder :: "host_id \<Rightarrow> kmsg_line \<Rightarrow> alert_builder" where
  "io_error_builder host line =
     chain (host_builder host STORAGE_IO ''fs_io_error'' Critical)
       [with_title ''Storage I/O error'',
        with_message (''Kernel reported a storage I/O error: '' @ quote @ km_text line @ quote),
        raw_kv ''kmsg'' (JStr (km_text line))]"

definition io_line :: "regex_lib \<Rightarrow> host_id \<Rightarrow> kmsg_line \<Rightarrow> emitter \<Rightarrow> emitter" where
  "io_line rx host line s =
     (if rx_is_match rx io_re (km_text line) then emit (io_error_builder host line) s else s)"


section \<open>Ceph OSD units\<close>

definition ceph_unit ::
  "host_id \<Rightarrow> string \<times> string \<Rightarrow> (string \<rightharpoonup> string) \<times> emitter \<Rightarrow> (string \<rightharpoonup> string) \<times> emitter" where
  "ceph_unit host u st =
     (case (u, st) of ((name, active), (last_active, s)) \<Rightarrow>
       if \<not> starts_with name ''ceph-osd@'' then (last_active, s)
       else
         let prev = last_active name;
             la = last_active(name \<mapsto> active)
         in if prev = Some ''active'' \<and> active \<noteq> ''active'' then
              (la, emit (chain (host_builder host STORAGE_IO ''ceph_osd_down'' Critical)
                [with_device name,
                 with_value active,
                 with_threshold ''active'',
                 with_title ''Ceph OSD transitioned out of active'',
                 with_message (name @ '' went from active '' @ arrow @ '' '' @ active @
                   ''. Check `journalctl -u '' @ name @
                   ''` for the cause; if a `controller_lockup` alert fired in the last 30s the lost disks are the root cause.'')]) s)
            else (la, s))"

definition ceph_tick ::
  "host_id \<Rightarrow> (string \<times> string) list option \<Rightarrow> (string \<rightharpoonup> string) \<times> emitter
     \<Rightarrow> (string \<rightharpoonup> string) \<times> emitter" where
  "ceph_tick host units st = (case units of None \<Rightarrow> st | Some us \<Rightarrow> fold (ceph_unit host) us st)"

text \<open>The watch ends at once when the bus or the proxy cannot be had.\<close>

definition ceph_watch_starts :: "bool \<Rightarrow> bool \<Rightarrow> bool" where
  "ceph_watch_starts bus_ok proxy_ok = (if \<not> bus_ok then False else proxy_ok)"


section \<open>Correlation window\<close>

definition correlation_step :: "instant \<Rightarrow> alert \<Rightarrow> (instant \<times> string) list \<Rightarrow> (instant \<times> string) list" where
  "correlation_step now a recent =
     (let r = dropWhile (\<lambda>(t, _). now - t > secs 30) recent
      in if al_category a = STORAGE_CONTROLLER \<and> al_metric a = ''controller_lockup''
         then r @ [(now, al_fingerprint a)] else r)"


section \<open>The module\<close>

datatype storage_io_input =
    SioPartitions "string option"
  | SioLine kmsg_line
  | SioUnits "(string \<times> string) list option"

record storage_io_state =
  si_disks :: "string list"
  si_active :: "string \<rightharpoonup> string"

text \<open>One step of any of the three tasks; the OSD watch only runs when it is configured and
  reaches systemd.\<close>

definition storage_io_step ::
  "regex_lib \<Rightarrow> host_id \<Rightarrow> bool \<Rightarrow> storage_io_input \<Rightarrow> storage_io_state \<times> emitter
     \<Rightarrow> storage_io_state \<times> emitter" where
  "storage_io_step rx host watch_ceph_osd i st =
     (case i of
        SioPartitions p \<Rightarrow>
          (case block_device_tick host p (si_disks (fst st), snd st) of
             (d, s) \<Rightarrow> ((fst st)\<lparr>si_disks := d\<rparr>, s))
      | SioLine l \<Rightarrow> (fst st, io_line rx host l (snd st))
      | SioUnits us \<Rightarrow>
          if \<not> watch_ceph_osd then st
          else (case ceph_tick host us (si_active (fst st), snd st) of
                  (a, s) \<Rightarrow> ((fst st)\<lparr>si_active := a\<rparr>, s)))"

definition storage_io_spawn ::
  "regex_lib \<Rightarrow> host_id \<Rightarrow> storage_io_cfg \<Rightarrow> bool \<times> bool \<Rightarrow> storage_io_input list \<Rightarrow> emitter \<Rightarrow> emitter" where
  "storage_io_spawn rx host cfg bus inputs s =
     (if \<not> sio_enabled cfg then s
      else snd (fold (storage_io_step rx host (sio_watch_ceph_osd cfg \<and> ceph_watch_starts (fst bus) (snd bus))) inputs
                  (\<lparr>si_disks = [], si_active = Map.empty\<rparr>, s)))"

abbreviation sio_emits :: "host_id \<Rightarrow> emitter \<Rightarrow> emitter \<Rightarrow> bool" where
  "sio_emits host \<equiv> observes (from_host (ho_machine_id host) {STORAGE_IO})"

lemma block_device_tick_emits: "sio_emits host (snd st) (snd (block_device_tick host p st))"
  by (auto simp: block_device_tick_def Let_def disk_lost_builder_def intro!: emits_fold emits_emit
        split: prod.splits)

lemma io_line_emits: "sio_emits host s (io_line rx host l s)"
  by (auto simp: io_line_def io_error_builder_def intro!: emits_emit)

text \<open>The kernel-log task looks at each line alone.\<close>

definition io_reports :: "regex_lib \<Rightarrow> host_id \<Rightarrow> kmsg_line \<Rightarrow> alert_builder list" where
  "io_reports rx host line = (if rx_is_match rx io_re (km_text line) then [io_error_builder host line] else [])"

interpretation io_lines: line_reporter "io_line rx host" "io_reports rx host" for rx host
  by unfold_locales (simp add: io_line_def io_reports_def)

lemma ceph_unit_emits: "sio_emits host s (snd st) \<Longrightarrow> sio_emits host s (snd (ceph_unit host u st))"
  by (auto simp: ceph_unit_def Let_def intro!: emits_emit split: prod.splits)

lemma ceph_tick_emits: "sio_emits host (snd st) (snd (ceph_tick host us st))"
  by (auto simp: ceph_tick_def intro!: emits_fold_snd ceph_unit_emits split: option.splits)

lemma storage_io_step_emits: "sio_emits host (snd st) (snd (storage_io_step rx host w i st))"
  using block_device_tick_emits [of host "(si_disks (fst st), snd st)"] io_line_emits
    ceph_tick_emits [of host "(si_active (fst st), snd st)"]
  by (auto simp: storage_io_step_def split: storage_io_input.splits prod.splits) (metis snd_conv)+

interpretation storage_io: observer "storage_io_step rx host w" "ho_machine_id host" "{STORAGE_IO}" for rx host w
  by unfold_locales (rule storage_io_step_emits)

text \<open>The correlation window is a sliding window of 30 seconds over the lockups seen.\<close>

lemma dropWhile_map: "map f (dropWhile (P \<circ> f) xs) = dropWhile P (map f xs)"
  by (induction xs) auto

lemma correlation_times:
  "map fst (correlation_step now a recent) =
     pop_old (secs 30) now (map fst recent) @
       (if al_category a = STORAGE_CONTROLLER \<and> al_metric a = ''controller_lockup'' then [now] else [])"
proof -
  have "(\<lambda>(t, _). now - t > secs 30) = (\<lambda>t. now - t > secs 30) \<circ> (fst :: instant \<times> string \<Rightarrow> instant)"
    by (auto simp: fun_eq_iff)
  then show ?thesis by (simp add: correlation_step_def Let_def pop_old_def dropWhile_map)
qed

end
