(* ===== verification/Agent_Journal.thy ===== *)
theory Agent_Journal
  imports Agent_Host
begin

text \<open>
  \<open>agent/src/journal.rs\<close>: the lines of \<open>journalctl -f\<close>. What \<open>read_line\<close> returns is an input, and so
  is what starting the child gives. \<open>journal_loop\<close> starts it again whenever it ends.
\<close>

record journal_line =
  jl_text :: string

datatype journal_read = JRaw string | JEof | JErr

definition trim_line_end :: "string \<Rightarrow> string" where
  "trim_line_end s = rev (dropWhile (\<lambda>c. c = newline \<or> c = CHR 0x0D) (rev s))"

text \<open>The lines sent while one child lives.\<close>

fun journal_tail :: "journal_read list \<Rightarrow> journal_line list" where
  "journal_tail [] = []"
| "journal_tail (JEof # rs) = []"
| "journal_tail (JErr # rs) = []"
| "journal_tail (JRaw line # rs) =
     (let trimmed = trim_line_end line
      in if trimmed \<noteq> [] then \<lparr>jl_text = trimmed\<rparr> # journal_tail rs else journal_tail rs)"

lemma journal_tail_nonempty: "l \<in> set (journal_tail rs) \<Longrightarrow> jl_text l \<noteq> []"
  by (induction rs rule: journal_tail.induct) (auto simp: Let_def split: if_splits)

text \<open>One turn of the task per attempt to start the child.\<close>

datatype journal_child = SpawnFailed | NoStdout | Tailing "journal_read list"

fun journal_loop :: "journal_child list \<Rightarrow> journal_line list" where
  "journal_loop [] = []"
| "journal_loop (SpawnFailed # cs) = journal_loop cs"
| "journal_loop (NoStdout # cs) = journal_loop cs"
| "journal_loop (Tailing rs # cs) = journal_tail rs @ journal_loop cs"

text \<open>The probe is the status of \<open>journalctl --version\<close>, None when it cannot be run.\<close>

definition journal_spawn :: "bool option \<Rightarrow> journal_child list \<Rightarrow> journal_line list option" where
  "journal_spawn probe cs =
     (case probe of None \<Rightarrow> None | Some success \<Rightarrow> if \<not> success then None else Some (journal_loop cs))"

lemma journal_tail_reads:
  "l \<in> set (journal_tail rs) \<Longrightarrow> \<exists>raw. JRaw raw \<in> set rs \<and> jl_text l = trim_line_end raw"
  by (induction rs rule: journal_tail.induct) (auto simp: Let_def split: if_splits)

lemma journal_loop_reads:
  "l \<in> set (journal_loop cs) \<Longrightarrow>
     \<exists>rs raw. Tailing rs \<in> set cs \<and> JRaw raw \<in> set rs \<and> jl_text l = trim_line_end raw"
proof (induction cs rule: journal_loop.induct)
  case (4 rs cs)
  then show ?case using journal_tail_reads [of l rs] by auto
qed auto

end
