(* ===== verification/Mod_Syslog_Rules.thy ===== *)
theory Mod_Syslog_Rules
  imports Line_Reports Agent_Config Agent_Journal
begin

text \<open>
  \<open>agent/src/modules/syslog_rules.rs\<close>: configurable rules over the journal. A rule set with a
  pattern that does not compile disables the module (\<open>compile_rules\<close> is None). \<open>nic_ignore\<close> is the
  set of interface patterns of the NIC module, as the test on an interface name.
\<close>

record compiled =
  cr_name :: string
  cr_re :: string
  cr_severity :: severity
  cr_category :: string
  cr_title :: string
  cr_message :: string

definition rule_severity :: "string \<Rightarrow> severity" where
  "rule_severity s =
     (let l = to_lowercase s
      in if l = ''critical'' then Critical else if l = ''warning'' then Warning else Info)"

fun compile_rules :: "regex_lib \<Rightarrow> syslog_rule list \<Rightarrow> compiled list option" where
  "compile_rules rx [] = Some []"
| "compile_rules rx (r # rs) =
     (if \<not> rx_compiles rx (ru_regex r) then None
      else map_option (\<lambda>out.
        \<lparr>cr_name = ru_name r, cr_re = ru_regex r, cr_severity = rule_severity (ru_severity r),
         cr_category = ru_category r, cr_title = ru_title r, cr_message = ru_message r\<rparr> # out)
        (compile_rules rx rs))"

definition JOURNAL_LINK_IFACE :: string where
  "JOURNAL_LINK_IFACE = (''(?i)(['' @ bsl @ ''w.@+:~/-]{2,80}):'' @ bsl @ ''s+(?:Link'' @ bsl @
    ''s+(?:DOWN|UP)|lost'' @ bsl @ ''s+carrier|NO-CARRIER)'' @ bsl @ ''b'')"

definition iface_kernel_link_journal :: "regex_lib \<Rightarrow> string \<Rightarrow> string option" where
  "iface_kernel_link_journal rx text = map_option (\<lambda>c. grp c 1) (rx_captures rx JOURNAL_LINK_IFACE text)"

definition rule_applies :: "regex_lib \<Rightarrow> (string \<Rightarrow> bool) \<Rightarrow> journal_line \<Rightarrow> compiled \<Rightarrow> bool" where
  "rule_applies rx nic_ignore line r \<longleftrightarrow>
     rx_is_match rx (cr_re r) (jl_text line) \<and>
     \<not> (eq_ignore_ascii_case (cr_category r) ''network_nic'' \<and>
        (case iface_kernel_link_journal rx (jl_text line) of Some iface \<Rightarrow> nic_ignore iface | None \<Rightarrow> False))"

definition rule_builder :: "host_id \<Rightarrow> journal_line \<Rightarrow> compiled \<Rightarrow> alert_builder" where
  "rule_builder host line r =
     chain (host_builder host (cr_category r) (cr_name r) (cr_severity r))
       [with_title (cr_title r),
        with_message (replace (cr_message r) ''{match}'' (jl_text line)),
        raw_kv ''journal'' (JStr (jl_text line))]"

definition rules_line ::
  "regex_lib \<Rightarrow> (string \<Rightarrow> bool) \<Rightarrow> host_id \<Rightarrow> compiled list \<Rightarrow> journal_line \<Rightarrow> emitter \<Rightarrow> emitter" where
  "rules_line rx nic_ignore host rules line s =
     fold (\<lambda>r s. if rule_applies rx nic_ignore line r then emit (rule_builder host line r) s else s) rules s"

definition syslog_rules_spawn ::
  "regex_lib \<Rightarrow> (string \<Rightarrow> bool) \<Rightarrow> host_id \<Rightarrow> syslog_rules_cfg \<Rightarrow> journal_line bus_recv list
     \<Rightarrow> emitter \<Rightarrow> emitter" where
  "syslog_rules_spawn rx nic_ignore host cfg rs s =
     (if \<not> sr_enabled cfg then s
      else (case compile_rules rx (sr_rules cfg) of
              None \<Rightarrow> s
            | Some rules \<Rightarrow> recv_loop (rules_line rx nic_ignore host rules) rs s))"

lemma rules_line_emits:
  "observes (from_host (ho_machine_id host) (cr_category ` set rules)) s (rules_line rx ign host rules line s)"
  unfolding rules_line_def by (rule emits_fold) (auto simp: rule_builder_def intro!: emits_emit)

interpretation syslog_rules: observer "stateless (rules_line rx ign host rules)" "ho_machine_id host"
  "cr_category ` set rules" for rx ign host rules
  by (rule stateless_observer) (rule rules_line_emits)


text \<open>Each line is looked at alone and asks for one alert per rule that applies.\<close>

definition rule_reports ::
  "regex_lib \<Rightarrow> (string \<Rightarrow> bool) \<Rightarrow> host_id \<Rightarrow> compiled list \<Rightarrow> journal_line \<Rightarrow> alert_builder list" where
  "rule_reports rx nic_ignore host rules line =
     map (rule_builder host line) (filter (rule_applies rx nic_ignore line) rules)"

interpretation rule_lines: line_reporter "rules_line rx ign host rules" "rule_reports rx ign host rules"
  for rx ign host rules
proof
  fix l s
  show "rules_line rx ign host rules l s = fold emit (rule_reports rx ign host rules l) s"
    unfolding rules_line_def rule_reports_def by (induction rules arbitrary: s) simp_all
qed


section \<open>Properties\<close>

text \<open>Rule compilation is all or nothing: it succeeds exactly when every pattern compiles, and
  then keeps the rules in order with their names, patterns and categories; a severity that is not
  one of the three words counts as info.\<close>

theorem compile_rules_spec:
  "(compile_rules rx rs \<noteq> None \<longleftrightarrow> list_all (\<lambda>r. rx_compiles rx (ru_regex r)) rs)
   \<and> (case compile_rules rx rs of
        None \<Rightarrow> True
      | Some cs \<Rightarrow> map (\<lambda>c. (cr_name c, cr_re c, cr_category c, cr_severity c)) cs
           = map (\<lambda>r. (ru_name r, ru_regex r, ru_category r, rule_severity (ru_severity r))) rs)"
  by (induction rs) (auto split: option.splits)

end
