(* ===== verification/Mod_Lifecycle.thy ===== *)
theory Mod_Lifecycle
  imports Agent_Detect
begin

text \<open>
  \<open>agent/src/modules/lifecycle.rs\<close>: the warning before a shutdown or reboot, from the logind signal
  and from the poll of \<open>/run/systemd/shutdown/scheduled\<close>. The file's text, its presence, the name
  of the default target, the signals and the results of the D-Bus calls are inputs; a signal whose
  payload cannot be read is None. The state has the poll's flag and whether the inhibitor lock is
  held: it is taken when \<open>logind_shutdown_loop\<close> is set up and dropped when that function returns.
\<close>

definition guess_kind_from_scheduled_path :: "string option \<Rightarrow> string option \<Rightarrow> string \<times> string" where
  "guess_kind_from_scheduled_path scheduled default_target =
     (let reboot = (''host_rebooting'', ''Host reboot initiated'');
          shutdown = (''host_shutting_down'', ''Host shutdown initiated'');
          target = (case default_target of Some t \<Rightarrow> t | None \<Rightarrow> []);
          by_target = (if contains target ''reboot'' then reboot
                       else if contains target ''poweroff'' \<or> contains target ''halt'' then shutdown
                       else reboot)
      in case scheduled of
           Some s \<Rightarrow> if contains s ''MODE=reboot'' then reboot
                     else if contains s ''MODE=poweroff'' then shutdown
                     else by_target
         | None \<Rightarrow> by_target)"

definition lifecycle_alert_builder :: "host_id \<Rightarrow> string \<Rightarrow> string \<Rightarrow> string \<Rightarrow> alert_builder" where
  "lifecycle_alert_builder host metric title source =
     (let init = (if source = ''logind.PrepareForShutdown'' then ''by systemd-logind''
                  else if source = ''shutdown.scheduled_file''
                  then ''from /run/systemd/shutdown/scheduled (PrepareForShutdown may lag)''
                  else ''by lifecycle monitor'');
          motion = (if metric = ''host_rebooting'' then ''a controlled reboot sequence''
                    else ''a controlled shutdown sequence'')
      in chain (host_builder host LIFECYCLE metric Warning)
           [with_title title,
            with_message (''Host '' @ ho_hostname host @ '' is entering '' @ motion @ '' ('' @ init @
              ''). Agent will stop in ~5 s.''),
            raw_kv ''source'' (JStr source)])"

section \<open>The two tasks\<close>

datatype logind_error = NoSystemBus | NoLogindProxy | NoInhibitor | NoSignals | StreamEnded

record lifecycle_state =
  lc_alerted_for_presence :: bool
  lc_inhibit_lock :: bool

definition lifecycle_new :: lifecycle_state where
  "lifecycle_new = \<lparr>lc_alerted_for_presence = False, lc_inhibit_lock = False\<rparr>"

text \<open>An attempt to connect, with the results of the four calls; the end of the signal stream; a
  poll; a signal. The texts are those of the two files read to guess the kind of shutdown.\<close>

datatype lifecycle_input =
    LArm bool bool bool bool
  | LStreamEnd
  | LPoll bool "string option" "string option"
  | LSignal "bool option" "string option" "string option"

text \<open>A poll with the presence of the file; the flag remembers that its presence was reported.\<close>

definition scheduled_file_poll ::
  "host_id \<Rightarrow> bool \<Rightarrow> string option \<Rightarrow> string option \<Rightarrow> lifecycle_state \<times> emitter \<Rightarrow> lifecycle_state \<times> emitter" where
  "scheduled_file_poll host present scheduled target st =
     (if present then
        (if \<not> lc_alerted_for_presence (fst st) then
           (case guess_kind_from_scheduled_path scheduled target of
              (metric, title) \<Rightarrow>
                ((fst st)\<lparr>lc_alerted_for_presence := True\<rparr>,
                 emit (lifecycle_alert_builder host metric title ''shutdown.scheduled_file'') (snd st)))
         else st)
      else ((fst st)\<lparr>lc_alerted_for_presence := False\<rparr>, snd st))"

text \<open>The calls before the loop over the signals, in their order.\<close>

definition logind_setup :: "bool \<Rightarrow> bool \<Rightarrow> bool \<Rightarrow> bool \<Rightarrow> logind_error option" where
  "logind_setup connected proxied inhibited subscribed =
     (if \<not> connected then Some NoSystemBus
      else if \<not> proxied then Some NoLogindProxy
      else if \<not> inhibited then Some NoInhibitor
      else if \<not> subscribed then Some NoSignals
      else None)"

text \<open>A signal that is received while the loop runs; the first that announces a shutdown ends it.\<close>

definition logind_signal ::
  "host_id \<Rightarrow> bool option \<Rightarrow> string option \<Rightarrow> string option \<Rightarrow> lifecycle_state \<times> emitter \<Rightarrow> lifecycle_state \<times> emitter" where
  "logind_signal host start scheduled target st =
     (if start = Some True then
        (case guess_kind_from_scheduled_path scheduled target of
           (metric, title) \<Rightarrow>
             ((fst st)\<lparr>lc_inhibit_lock := False\<rparr>,
              emit (lifecycle_alert_builder host metric title ''logind.PrepareForShutdown'') (snd st)))
      else st)"

text \<open>How long \<open>spawn\<close> waits before it calls \<open>logind_shutdown_loop\<close> again.\<close>

definition logind_pause :: "logind_error option \<Rightarrow> duration" where
  "logind_pause r = (case r of None \<Rightarrow> secs 1 | Some e \<Rightarrow> secs 5)"

text \<open>Signals only arrive while the loop is set up.\<close>

primrec lifecycle_step :: "host_id \<Rightarrow> lifecycle_input \<Rightarrow> lifecycle_state \<times> emitter \<Rightarrow> lifecycle_state \<times> emitter" where
  "lifecycle_step host (LArm c p i b) st =
     (if lc_inhibit_lock (fst st) then st
      else ((fst st)\<lparr>lc_inhibit_lock := (logind_setup c p i b = None)\<rparr>, snd st))"
| "lifecycle_step host LStreamEnd st = ((fst st)\<lparr>lc_inhibit_lock := False\<rparr>, snd st)"
| "lifecycle_step host (LPoll present scheduled target) st = scheduled_file_poll host present scheduled target st"
| "lifecycle_step host (LSignal start scheduled target) st =
     (if lc_inhibit_lock (fst st) then logind_signal host start scheduled target st else st)"

definition lifecycle_spawn :: "host_id \<Rightarrow> bool \<Rightarrow> lifecycle_input list \<Rightarrow> emitter \<Rightarrow> emitter" where
  "lifecycle_spawn host enabled inputs s =
     (if \<not> enabled then s else snd (fold (lifecycle_step host) inputs (lifecycle_new, s)))"

lemma lifecycle_step_emits:
  "observes (from_host (ho_machine_id host) {LIFECYCLE}) (snd st) (snd (lifecycle_step host i st))"
  by (cases i)
     (auto simp: scheduled_file_poll_def logind_signal_def lifecycle_alert_builder_def Let_def
        intro!: emits_emit split: prod.splits)

interpretation lifecycle: observer "lifecycle_step host" "ho_machine_id host" "{LIFECYCLE}" for host
  by unfold_locales (rule lifecycle_step_emits)

text \<open>The metric and with it the fingerprint do not depend on which of the two paths reports.\<close>

lemma lifecycle_fingerprint:
  "fingerprint (lifecycle_alert_builder host metric title source) =
     fingerprint_of (ho_machine_id host) LIFECYCLE None metric"
  by (simp add: lifecycle_alert_builder_def Let_def fingerprint_def)



section \<open>Properties\<close>



end
