(* ===== verification/Mod_Boot.thy ===== *)
theory Mod_Boot
  imports Agent_Bus Agent_Host
begin

text \<open>
  \<open>agent/src/modules/boot.rs\<close>: one check when the agent starts. The three files it reads are inputs;
  the state file it writes is part of the result. The alert goes to the sink without the tracker.
\<close>

unbundle bit_operations_syntax

definition taint_hints :: "u64 \<Rightarrow> string list" where
  "taint_hints tainted =
     (if tainted AND 0x80 \<noteq> 0 then [''machine check (MCE)''] else []) @
     (if tainted AND 0x200 \<noteq> 0 then [''warning''] else []) @
     (if tainted AND 0x400 \<noteq> 0 then [''crap module loaded''] else []) @
     (if tainted AND 0x800 \<noteq> 0 then [''bad page reference''] else []) @
     (if tainted AND 0x4000 \<noteq> 0 then [''kernel hard / soft lockup''] else [])"

definition booted_fresh :: "string option \<Rightarrow> string option \<Rightarrow> bool" where
  "booted_fresh prev cur = (case (prev, cur) of (Some p, Some c) \<Rightarrow> p \<noteq> c | _ \<Rightarrow> False)"

definition boot_builder :: "host_id \<Rightarrow> string option \<Rightarrow> string option \<Rightarrow> u64 \<Rightarrow> alert_builder" where
  "boot_builder host prev cur tainted =
     (let hints = taint_hints tainted;
          suggested_cause = (if hints = [] then
              (''no taint bits set '' @ em_dash @
                '' might have been a clean reboot we missed, or a hard power event'')
            else join '', '' hints);
          prev_id = (case prev of Some p \<Rightarrow> p | None \<Rightarrow> ''(none)'');
          cur_id = (case cur of Some c \<Rightarrow> c | None \<Rightarrow> ''(unknown)'')
      in chain (host_builder host BOOT ''unclean_reboot_check'' Warning)
           [with_title ''Host rebooted since last agent run'',
            with_message (''Boot id changed ('' @ prev_id @ '' '' @ arrow @ '' '' @ cur_id @
              '') since the agent last ran. Likely cause: '' @ suggested_cause @
              ''. Check `journalctl -b -1` for the tail of the previous boot.''),
            raw_kv ''tainted'' (JInt (uint tainted)),
            raw_kv ''prev_boot_id'' (JStr prev_id),
            raw_kv ''cur_boot_id'' (JStr cur_id)])"

text \<open>The new content of the state file, and what is sent.\<close>

definition boot_run ::
  "host_id \<Rightarrow> datetime \<Rightarrow> string \<Rightarrow> string option \<Rightarrow> string option \<Rightarrow> string option
     \<Rightarrow> string option \<times> outbound list" where
  "boot_run host now ulid boot_id_file state_file tainted_file =
     (let cur = map_option trim boot_id_file;
          prev = map_option trim state_file;
          state' = (case cur of Some b \<Rightarrow> Some b | None \<Rightarrow> state_file)
      in if \<not> booted_fresh prev cur then (state', [])
         else
           let tainted = (case Option.bind tainted_file (\<lambda>s. parse_u64 (trim s)) of Some t \<Rightarrow> t | None \<Rightarrow> 0)
           in (state', [OAlert (build_firing now ulid (boot_builder host prev cur tainted))]))"

definition boot_spawn ::
  "host_id \<Rightarrow> bool \<Rightarrow> datetime \<Rightarrow> string \<Rightarrow> string option \<Rightarrow> string option \<Rightarrow> string option
     \<Rightarrow> string option \<times> outbound list" where
  "boot_spawn host enabled now ulid boot_id_file state_file tainted_file =
     (if \<not> enabled then (state_file, []) else boot_run host now ulid boot_id_file state_file tainted_file)"


section \<open>Properties\<close>

text \<open>The start-up check sends exactly one alert when the recorded boot id differs from the
  current one and none otherwise (in particular not on the very first run), and records the
  current id, so that a second start within the same boot is silent (for a boot id that is its
  own trimmed text). The taint bits only change the wording: a reboot with none of them set is
  reported as well.\<close>

theorem boot_reports_once:
  assumes "trim cur = cur"
  shows "length (snd (boot_run host now ulid (Some cur) state_file tainted)) =
      (case state_file of Some p \<Rightarrow> if trim p = cur then 0 else 1 | None \<Rightarrow> 0)
    \<and> fst (boot_run host now ulid (Some cur) state_file tainted) = Some cur
    \<and> snd (boot_run host now' ulid' (Some cur) (fst (boot_run host now ulid (Some cur) state_file tainted))
          tainted') = []"
  using assms by (auto simp: boot_run_def booted_fresh_def Let_def split: option.splits)

theorem boot_reports_once_witness:
  "length (snd (boot_run \<lparr>ho_hostname = ''node1'', ho_machine_id = ''4f2a'', ho_primary_ip = []\<rparr> 0 []
     (Some ''b2'') (Some ''b1'') None)) = 1"
proof -
  have "trim ''b2'' = ''b2''" "trim ''b1'' = ''b1''" by (simp_all add: std_defs)
  then show ?thesis
    using boot_reports_once [of "''b2''" "\<lparr>ho_hostname = ''node1'', ho_machine_id = ''4f2a'', ho_primary_ip = []\<rparr>"
        0 "[]" "Some ''b1''" None] by simp
qed

end
