(* ===== verification/Agent_Lanes.thy ===== *)
theory Agent_Lanes
  imports Agent_Detect
begin

text \<open>
  Why critical alerts may overtake others without harm. An alert goes to the lane of its severity,
  so a recovery could be overtaken by a later report of the same condition if the two had different
  severities. The conditions that modules clear have a fixed severity each. \<open>op_lane F\<close> says so of
  an operation: \<open>F\<close> gives the severity of the fingerprints that may be cleared, and only those are.
  The locale \<open>fixed_lane\<close> is the contract of a module, its lemmas the consequence for whole runs.
\<close>

fun op_lane :: "(string \<Rightarrow> severity option) \<Rightarrow> tracker_op \<Rightarrow> bool" where
  "op_lane F (OpObserve b) = (case F (fingerprint b) of None \<Rightarrow> True | Some sev \<Rightarrow> b_severity b = sev)"
| "op_lane F (OpOk fp) = (F fp \<noteq> None)"
| "op_lane F (OpForce fp) = (F fp \<noteq> None)"

definition alert_lane :: "(string \<Rightarrow> severity option) \<Rightarrow> alert \<Rightarrow> bool" where
  "alert_lane F a = (case F (al_fingerprint a) of None \<Rightarrow> al_state a = Firing | Some sev \<Rightarrow> al_severity a = sev)"

definition lane_ok :: "(string \<Rightarrow> severity option) \<Rightarrow> emitter \<Rightarrow> bool" where
  "lane_ok F s \<longleftrightarrow>
     tracker_wf (\<lambda>_ _. True) (em_tracker s)
     \<and> (\<forall>(t, a) \<in> set (em_hist s). alert_lane F a)
     \<and> (\<forall>fp e sev. tr_inner (em_tracker s) fp = Some e \<longrightarrow> F fp = Some sev \<longrightarrow> en_severity e = sev)"

lemma lane_ok_new: "lane_ok F (emitter_new r c clk)"
  by (simp add: lane_ok_def tracker_wf_def)

lemma lane_ok_emit:
  assumes "lane_ok F s" and "op_lane F (OpObserve b)"
  shows "lane_ok F (emit b s)"
proof -
  have a: "alert_lane F (build_firing t u b)" "alert_lane F ((build_firing t u b)\<lparr>al_occurrences := n\<rparr>)" for t u n
    using assms(2) by (auto simp: alert_lane_def build_firing_def split: option.splits)
  have "tracker_wf (\<lambda>_ _. True) (em_tracker (emit b s))"
    using assms(1) by (simp add: lane_ok_def emit_parts tracker_wf_observe)
  moreover have "\<forall>(t, a) \<in> set (em_hist (emit b s)). alert_lane F a"
    using assms(1) a unfolding lane_ok_def emit_parts log_decision_all
    by (auto simp: observe_def Let_def split: option.splits if_splits)
  moreover have "en_severity e = sev" if "tr_inner (em_tracker (emit b s)) fp = Some e" "F fp = Some sev" for fp e sev
    using assms that
    by (auto simp: lane_ok_def emit_parts observe_def Let_def build_firing_def split: option.splits if_splits)
  ultimately show ?thesis by (simp add: lane_ok_def)
qed

lemma lane_ok_clear:
  assumes "lane_ok F s" and "F fp \<noteq> None"
  shows "lane_ok F (emit_ok fp s)" and "lane_ok F (emit_force fp s)"
proof -
  obtain sev where sev: "F fp = Some sev" using assms(2) by blast
  have a: "alert_lane F (build_resolved t u (en_template e) (en_severity e) n)"
    if "tr_inner (em_tracker s) fp = Some e" for t u e n
    using assms(1) that sev tracker_wfD(1) [OF _ that, of "\<lambda>_ _. True"]
    by (auto simp: lane_ok_def alert_lane_def)
  have "tracker_wf (\<lambda>_ _. True) (em_tracker (emit_ok fp s))" "tracker_wf (\<lambda>_ _. True) (em_tracker (emit_force fp s))"
    using assms(1) by (simp_all add: lane_ok_def emit_parts tracker_wf_observe_ok tracker_wf_force_resolve)
  moreover have "\<forall>(t, a) \<in> set (em_hist (emit_ok fp s)). alert_lane F a"
    "\<forall>(t, a) \<in> set (em_hist (emit_force fp s)). alert_lane F a"
    using assms(1) unfolding lane_ok_def emit_parts log_option_all
    by (auto simp: a observe_ok_def force_resolve_def Let_def split: option.splits if_splits)
  moreover have "en_severity e = sev" if "tr_inner (em_tracker (emit_ok fp s)) fp' = Some e" "F fp' = Some sev" for fp' e sev
    using assms(1) that by (auto simp: lane_ok_def emit_parts observe_ok_def Let_def split: option.splits if_splits)
  moreover have "en_severity e = sev" if "tr_inner (em_tracker (emit_force fp s)) fp' = Some e" "F fp' = Some sev" for fp' e sev
    using assms(1) that by (auto simp: lane_ok_def emit_parts force_resolve_def split: option.splits if_splits)
  ultimately show "lane_ok F (emit_ok fp s)" "lane_ok F (emit_force fp s)" by (simp_all add: lane_ok_def)
qed

lemma lane_ok_op: "lane_ok F s \<Longrightarrow> op_lane F op \<Longrightarrow> lane_ok F (run_op op s)"
  by (cases op) (simp_all only: run_op.simps lane_ok_emit lane_ok_clear op_lane.simps simp_thms)

lemma lane_ok_acts: "acts (op_lane F) s s' \<Longrightarrow> lane_ok F s \<Longrightarrow> lane_ok F s'"
proof -
  have "\<forall>op \<in> set ops. op_lane F op \<Longrightarrow> lane_ok F s \<Longrightarrow> lane_ok F (run_ops ops s)" for ops s
    by (induction ops arbitrary: s) (simp_all add: run_ops_def lane_ok_op)
  then show "acts (op_lane F) s s' \<Longrightarrow> lane_ok F s \<Longrightarrow> lane_ok F s'" by (auto simp: acts_def)
qed

locale fixed_lane =
  fixes step :: "'i \<Rightarrow> 'm \<times> emitter \<Rightarrow> 'm \<times> emitter"
    and F :: "string \<Rightarrow> severity option"
  assumes step_lane: "acts (op_lane F) (snd s) (snd (step i s))"
begin

lemma run_lane: "acts (op_lane F) (snd s) (snd (fold step xs s))"
proof (induction xs arbitrary: s)
  case (Cons i xs)
  from step_lane Cons.IH [of "step i s"] show ?case by (metis emits_trans fold_simps(2))
qed simp

text \<open>In any run from a new tracker, an alert of a fingerprint that may be cleared has the severity
  of that fingerprint, and every other alert is firing.\<close>

lemma run_alert_lane:
  assumes "snd s = emitter_new r c clk" and "(t, a) \<in> set (em_hist (snd (fold step xs s)))"
  shows "alert_lane F a"
  using lane_ok_acts [OF run_lane [where s = s and xs = xs]] assms lane_ok_new by (auto simp: lane_ok_def)

end

text \<open>A module that clears nothing keeps the contract with no fingerprint to clear.\<close>

lemma op_obs_lane: "op_obs P op \<Longrightarrow> op_lane (\<lambda>_. None) op"
  by (cases op) simp_all

sublocale observer \<subseteq> fixed_lane step "\<lambda>_. None"
  by unfold_locales (rule acts_mono [OF step_observes op_obs_lane])


section \<open>Fingerprints by metric\<close>

definition metric_lane :: "string \<Rightarrow> severity \<Rightarrow> string \<Rightarrow> severity option" where
  "metric_lane metric sev fp = (if suffix (CHR ''|'' # metric) fp then Some sev else None)"

lemma suffix_metric:
  assumes "no_sep k" and "no_sep m"
  shows "suffix (CHR ''|'' # k) (xs @ CHR ''|'' # m) \<longleftrightarrow> k = m"
proof
  assume "suffix (CHR ''|'' # k) (xs @ CHR ''|'' # m)"
  then obtain zs where "xs @ CHR ''|'' # m = zs @ CHR ''|'' # k" by (auto simp: suffix_def)
  then have "takeWhile (\<lambda>c. c \<noteq> CHR ''|'') (rev (xs @ CHR ''|'' # m)) = takeWhile (\<lambda>c. c \<noteq> CHR ''|'') (rev (zs @ CHR ''|'' # k))"
    by simp
  moreover have "takeWhile (\<lambda>c. c \<noteq> CHR ''|'') (rev (ys @ CHR ''|'' # l)) = rev l" if "no_sep l" for ys l
    using that by (simp, subst takeWhile_append2) auto
  ultimately show "k = m" using assms by simp
qed (simp add: suffix_def)

lemma op_lane_metric:
  assumes "no_sep k" and "no_sep (b_metric b)"
  shows "op_lane (metric_lane k sev) (OpObserve b) \<longleftrightarrow> (b_metric b = k \<longrightarrow> b_severity b = sev)"
proof -
  have "suffix (CHR ''|'' # k) (fingerprint b) \<longleftrightarrow> k = b_metric b"
    using suffix_metric [OF assms, of "b_host_id b @ ''|'' @ b_category b @ ''|'' @
        (case b_device b of None \<Rightarrow> ''-'' | Some d \<Rightarrow> d)"]
    by (simp add: fingerprint_def fingerprint_of_def)
  then show ?thesis by (auto simp: metric_lane_def)
qed

lemma metric_lane_own: "metric_lane k sev (xs @ CHR ''|'' # k) \<noteq> None"
  by (simp add: metric_lane_def suffix_def)


section \<open>Modules that clear one kind of condition\<close>

text \<open>All operations of a module that reports alerts of its host and categories, and clears only
  conditions of the metric \<open>k\<close>, whose alerts have severity \<open>sev\<close>.\<close>

fun clears_op :: "string \<Rightarrow> string set \<Rightarrow> string \<Rightarrow> severity \<Rightarrow> tracker_op \<Rightarrow> bool" where
  "clears_op hid cats k sev (OpObserve b) \<longleftrightarrow>
     from_host hid cats b \<and> no_sep (b_metric b) \<and> (b_metric b = k \<longrightarrow> b_severity b = sev)"
| "clears_op hid cats k sev (OpOk fp) \<longleftrightarrow> suffix (CHR ''|'' # k) fp"
| "clears_op hid cats k sev (OpForce fp) \<longleftrightarrow> suffix (CHR ''|'' # k) fp"

lemma clears_op_sat: "clears_op hid cats k sev op \<Longrightarrow> op_sat (from_host hid cats) op"
  by (cases op) simp_all

lemma clears_op_lane: "no_sep k \<Longrightarrow> clears_op hid cats k sev op \<Longrightarrow> op_lane (metric_lane k sev) op"
  by (cases op) (simp_all del: op_lane.simps(1) add: op_lane_metric metric_lane_def)

locale clearing =
  fixes step :: "'i \<Rightarrow> 'm \<times> emitter \<Rightarrow> 'm \<times> emitter"
    and hid :: string
    and cats :: "string set"
    and k :: string
    and sev :: severity
  assumes metric_plain: "no_sep k"
    and step_clears: "acts (clears_op hid cats k sev) (snd s) (snd (step i s))"

sublocale clearing \<subseteq> detector step hid cats
  by unfold_locales (rule acts_mono [OF step_clears clears_op_sat])

sublocale clearing \<subseteq> fixed_lane step "metric_lane k sev"
  by unfold_locales (rule acts_mono [OF step_clears clears_op_lane [OF metric_plain]])

end
