(* ===== verification/Mod_Nvme.thy ===== *)
theory Mod_Nvme
  imports Agent_Lanes Agent_Config
begin

text \<open>
  \<open>agent/src/modules/nvme.rs\<close>: polls every NVMe drive. The directory listing, how the command
  \<open>nvme smart-log\<close> ends and the files with the drive models are inputs of a poll; \<open>from_json\<close> is the
  reader serde derives for the log (fields that are missing there are zero). The
  module's state is the last number of error-log entries seen per drive. Casts are those of the
  source: the wear percentage is cut to eight bits, the temperature is reinterpreted as signed.
\<close>

unbundle bit_operations_syntax

record nvme_smart_log =
  sl_critical_warning :: u8
  sl_composite_temperature :: u32
  sl_percentage_used :: u32
  sl_media_errors :: u64
  sl_num_err_log_entries :: u64
  sl_available_spare :: u32
  sl_available_spare_threshold :: u32

definition is_drive_name :: "string \<Rightarrow> bool" where
  "is_drive_name s \<longleftrightarrow>
     starts_with s ''nvme'' \<and> contains s ''n'' \<and> \<not> contains s ''p'' \<and> 2 \<le> length (filter is_digit s)"

text \<open>The entries of \<open>/dev\<close>, None when it cannot be listed or an entry cannot be read.\<close>

definition enumerate_drives :: "string list option \<Rightarrow> string list option" where
  "enumerate_drives dev_dir = map_option (\<lambda>names. map (\<lambda>n. ''/dev/'' @
    n) (filter is_drive_name names)) dev_dir"

definition decode_critical_warning :: "u8 \<Rightarrow> string" where
  "decode_critical_warning b =
     (let bits = (if b AND 0x01 \<noteq> 0 then [''spare-below-threshold''] else []) @
                 (if b AND 0x02 \<noteq> 0 then [''temperature-threshold-exceeded''] else []) @
                 (if b AND 0x04 \<noteq> 0 then [''reliability-degraded''] else []) @
                 (if b AND 0x08 \<noteq> 0 then [''read-only''] else []) @
                 (if b AND 0x10 \<noteq> 0 then [''volatile-backup-failed''] else []) @
                 (if b AND 0x20 \<noteq> 0 then [''persistent-memory-region-readonly''] else [])
      in if bits = [] then ''unknown'' else join '', '' bits)"

definition hex_digit :: "nat \<Rightarrow> char" where
  "hex_digit d = (if d < 10 then char_of (48 + d) else char_of (87 + d))"

text \<open>\<open>{:02x}\<close> of a byte.\<close>

definition hex2 :: "u8 \<Rightarrow> string" where
  "hex2 b = [hex_digit (unat b div 16), hex_digit (unat b mod 16)]"

definition nvme_critical_builder :: "host_id \<Rightarrow> string \<Rightarrow> string \<Rightarrow> nvme_smart_log \<Rightarrow> alert_builder" where
  "nvme_critical_builder host dev model smart =
     (let bits = decode_critical_warning (sl_critical_warning smart)
      in chain (host_builder host NVME ''critical_warning'' Critical)
           [with_device dev,
            with_device_model model,
            with_value (''0x'' @ hex2 (sl_critical_warning smart)),
            with_threshold ''0x00'',
            with_title ''NVMe drive reporting reliability degradation'',
            with_message (''NVMe drive '' @ dev @ '' ('' @ model @ '') raised critical_warning 0x'' @
              hex2 (sl_critical_warning smart) @ '' ('' @ bits @ ''). Wear level is '' @
              show_word (sl_percentage_used smart) @ ''%. '' @ show_word (sl_media_errors smart) @
              '' media errors logged. Recommend replacement during the next maintenance window.''),
            raw_kv ''critical_warning'' (JInt (uint (sl_critical_warning smart))),
            raw_kv ''percentage_used'' (JInt (uint (sl_percentage_used smart))),
            raw_kv ''media_errors'' (JInt (uint (sl_media_errors smart)))])"

definition nvme_check_critical :: "host_id \<Rightarrow> string \<Rightarrow> string \<Rightarrow> nvme_smart_log \<Rightarrow> emitter \<Rightarrow> emitter" where
  "nvme_check_critical host dev model smart s =
     (if sl_critical_warning smart \<noteq> 0 then emit (nvme_critical_builder host dev model smart) s
      else emit_ok (ho_machine_id host @ ''|'' @ NVME @ ''|'' @ dev @ ''|critical_warning'') s)"

definition nvme_wear :: "nvme_smart_log \<Rightarrow> u8" where
  "nvme_wear smart = ucast (sl_percentage_used smart)"

definition nvme_wear_severity :: "nvme_cfg \<Rightarrow> u8 \<Rightarrow> severity option" where
  "nvme_wear_severity cfg wear =
     (if wear \<ge> nv_wear_critical_pct cfg then Some Critical
      else if wear \<ge> nv_wear_warn_pct cfg then Some Warning
      else None)"

definition nvme_check_wear :: "host_id \<Rightarrow> nvme_cfg \<Rightarrow> string \<Rightarrow> string \<Rightarrow> nvme_smart_log \<Rightarrow> emitter \<Rightarrow> emitter" where
  "nvme_check_wear host cfg dev model smart s =
     (let wear = nvme_wear smart
      in case nvme_wear_severity cfg wear of
           None \<Rightarrow> s
         | Some sev \<Rightarrow>
             emit (chain (host_builder host NVME ''percentage_used'' sev)
               [with_device dev,
                with_device_model model,
                with_value (show_word wear),
                with_threshold (''warn='' @ show_word (nv_wear_warn_pct cfg) @ ''%, critical='' @
                  show_word (nv_wear_critical_pct cfg) @ ''%''),
                with_title ''NVMe drive wear approaching end-of-life'',
                with_message (''NVMe drive '' @ dev @ '' ('' @ model @ '') reports '' @ show_word wear @
                  ''% of rated write endurance consumed. Plan replacement before it crosses 100%.'')]) s)"

definition nvme_check_media :: "host_id \<Rightarrow> string \<Rightarrow> string \<Rightarrow> nvme_smart_log \<Rightarrow> emitter \<Rightarrow> emitter" where
  "nvme_check_media host dev model smart s =
     (if sl_media_errors smart > 0 then
        emit (chain (host_builder host NVME ''media_errors'' Warning)
          [with_device dev,
           with_device_model model,
           with_value (show_word (sl_media_errors smart)),
           with_threshold ''0'',
           with_title ''NVMe drive reporting media errors'',
           with_message (''NVMe drive '' @ dev @ '' ('' @ model @ '') has '' @
             show_word (sl_media_errors smart) @ '' cumulative media errors. Watch for further growth '' @
             em_dash @ '' this is a leading indicator of failure.'')]) s
      else s)"

definition nvme_check_err_log ::
  "host_id \<Rightarrow> string \<Rightarrow> string \<Rightarrow> nvme_smart_log \<Rightarrow> (string \<rightharpoonup> u64) \<times> emitter \<Rightarrow> (string \<rightharpoonup> u64) \<times> emitter" where
  "nvme_check_err_log host dev model smart st =
     (case st of (last_err_log, s) \<Rightarrow>
       let total = sl_num_err_log_entries smart;
           prev = (case last_err_log dev of Some p \<Rightarrow> p | None \<Rightarrow> total);
           s1 = (if total > prev then
                   emit (chain (host_builder host NVME ''err_log_entries'' Warning)
                     [with_device dev,
                      with_device_model model,
                      with_value (show_word total),
                      with_title ''NVMe controller logged new error entries'',
                      with_message (''NVMe drive '' @ dev @ '' ('' @ model @ '') added '' @
                        show_word (total - prev) @ '' new error log entry(ies); total now '' @
                        show_word total @ ''. Run `nvme error-log '' @ dev @ ''` for details.'')]) s
                 else s)
       in (last_err_log(dev \<mapsto> total), s1))"

definition nvme_temp_c :: "nvme_smart_log \<Rightarrow> int" where
  "nvme_temp_c smart = max (- (2 ^ 31)) (sint (sl_composite_temperature smart) - 273)"

definition nvme_check_temp :: "host_id \<Rightarrow> nvme_cfg \<Rightarrow> string \<Rightarrow> string \<Rightarrow> nvme_smart_log \<Rightarrow> emitter \<Rightarrow> emitter" where
  "nvme_check_temp host cfg dev model smart s =
     (let temp_c = nvme_temp_c smart
      in if temp_c \<ge> nv_temp_critical_c cfg then
           emit (chain (host_builder host NVME ''temperature'' Critical)
             [with_device dev,
              with_device_model model,
              with_value (show_int temp_c @ degree @ ''C''),
              with_threshold (show_int (nv_temp_critical_c cfg) @ degree @ ''C''),
              with_title ''NVMe drive critically hot'',
              with_message (''NVMe drive '' @ dev @ '' ('' @ model @ '') reports composite temperature '' @
                show_int temp_c @ degree @ ''C. Verify chassis airflow and inlet temperature.'')]) s
         else if temp_c \<ge> nv_temp_warn_c cfg then
           emit (chain (host_builder host NVME ''temperature'' Warning)
             [with_device dev,
              with_device_model model,
              with_value (show_int temp_c @ degree @ ''C''),
              with_threshold (show_int (nv_temp_warn_c cfg) @ degree @ ''C''),
              with_title ''NVMe drive running hot'',
              with_message (''NVMe drive '' @ dev @ '' ('' @ model @ '') is at '' @ show_int temp_c @
                degree @ ''C '' @ em_dash @ '' above the configured warning threshold.'')]) s
         else s)"

text \<open>\<open>poll_one\<close>: nothing happens when the smart log cannot be had.\<close>

definition nvme_poll_one ::
  "host_id \<Rightarrow> nvme_cfg \<Rightarrow> (string \<Rightarrow> nvme_smart_log option) \<Rightarrow> (string \<Rightarrow> string option) \<Rightarrow> string
     \<Rightarrow> (string \<rightharpoonup> u64) \<times> emitter \<Rightarrow> (string \<rightharpoonup> u64) \<times> emitter" where
  "nvme_poll_one host cfg smart_log read_model dev st =
     (case smart_log dev of
        None \<Rightarrow> st
      | Some smart \<Rightarrow>
          let model = (case read_model dev of Some m \<Rightarrow> m | None \<Rightarrow> ''unknown'');
              s1 = nvme_check_critical host dev model smart (snd st);
              s2 = nvme_check_wear host cfg dev model smart s1;
              s3 = nvme_check_media host dev model smart s2;
              st4 = nvme_check_err_log host dev model smart (fst st, s3)
          in (fst st4, nvme_check_temp host cfg dev model smart (snd st4)))"

text \<open>One tick of the module: what \<open>/dev\<close> holds, and what the drives answer.\<close>

definition NVME_CMD_TIMEOUT :: duration where "NVME_CMD_TIMEOUT = secs 20"

text \<open>\<open>run_smart_log\<close>: None for every error, which the caller only logs.\<close>

definition run_smart_log ::
  "(string \<Rightarrow> nvme_smart_log option) \<Rightarrow> bool \<Rightarrow> spawn \<Rightarrow> string \<Rightarrow> nvme_smart_log option" where
  "run_smart_log from_json is_root spawn dev =
     (case spawn (priv_command is_root ''nvme'' @ [''smart-log'', dev, ''-o'', ''json'']) NVME_CMD_TIMEOUT of
        Exited out err code \<Rightarrow> if code = Some 0 then from_json out else None
      | SpawnFailed \<Rightarrow> None | WaitFailed \<Rightarrow> None | TimedOut \<Rightarrow> None)"

text \<open>The devices are direct entries of \<open>/dev\<close>, so the file name is the rest of the path.\<close>

definition read_model :: "(string \<Rightarrow> string option) \<Rightarrow> string \<Rightarrow> string option" where
  "read_model read_file dev =
     (let name = drop 5 dev
      in map_option trim (read_file (''/sys/block/'' @ name @ ''/device/model'')))"

type_synonym nvme_input = "string list option \<times> spawn \<times> (string \<Rightarrow> string option)"

definition nvme_tick ::
  "(string \<Rightarrow> nvme_smart_log option) \<Rightarrow> bool \<Rightarrow> host_id \<Rightarrow> nvme_cfg \<Rightarrow> nvme_input
     \<Rightarrow> (string \<rightharpoonup> u64) \<times> emitter \<Rightarrow> (string \<rightharpoonup> u64) \<times> emitter" where
  "nvme_tick from_json is_root host cfg i st =
     (case i of (dev_dir, spawn, read_file) \<Rightarrow>
       (case enumerate_drives dev_dir of
          None \<Rightarrow> st
        | Some drives \<Rightarrow>
            fold (nvme_poll_one host cfg (run_smart_log from_json is_root spawn) (read_model read_file)) drives st))"

definition nvme_spawn ::
  "(string \<Rightarrow> nvme_smart_log option) \<Rightarrow> bool \<Rightarrow> host_id \<Rightarrow> nvme_cfg \<Rightarrow> bool \<Rightarrow> nvme_input list \<Rightarrow> emitter \<Rightarrow> emitter" where
  "nvme_spawn from_json is_root host cfg cmd_exists ticks s =
     (if \<not> nv_enabled cfg \<or> \<not> cmd_exists then s
      else snd (fold (nvme_tick from_json is_root host cfg) ticks (Map.empty, s)))"


section \<open>The module as a detector that clears critical warnings\<close>

abbreviation nvme_emits :: "host_id \<Rightarrow> emitter \<Rightarrow> emitter \<Rightarrow> bool" where
  "nvme_emits host \<equiv> acts (clears_op (ho_machine_id host) {NVME} ''critical_warning'' Critical)"

lemma nvme_checks_emit:
  "nvme_emits host s0 s \<Longrightarrow> nvme_emits host s0 (nvme_check_critical host dev model smart s)"
  "nvme_emits host s0 s \<Longrightarrow> nvme_emits host s0 (nvme_check_wear host cfg dev model smart s)"
  "nvme_emits host s0 s \<Longrightarrow> nvme_emits host s0 (nvme_check_media host dev model smart s)"
  "nvme_emits host s0 s \<Longrightarrow> nvme_emits host s0 (nvme_check_temp host cfg dev model smart s)"
  "nvme_emits host s0 (snd st) \<Longrightarrow> nvme_emits host s0 (snd (nvme_check_err_log host dev model smart st))"
  by (auto simp: suffix_def nvme_check_critical_def nvme_critical_builder_def nvme_check_wear_def nvme_check_media_def
      nvme_check_temp_def nvme_check_err_log_def Let_def intro!: emits_intros split: option.splits prod.splits)

lemma nvme_poll_one_emits:
  "nvme_emits host s0 (snd st) \<Longrightarrow> nvme_emits host s0 (snd (nvme_poll_one host cfg sl rm dev st))"
  unfolding nvme_poll_one_def Let_def
  by (auto intro!: nvme_checks_emit split: option.splits)

lemma nvme_tick_emits: "nvme_emits host (snd st) (snd (nvme_tick fj rt host cfg i st))"
  unfolding nvme_tick_def
  by (auto intro!: emits_fold_snd nvme_poll_one_emits split: prod.splits option.splits)

interpretation nvme: clearing "nvme_tick fj rt host cfg" "ho_machine_id host" "{NVME}" "''critical_warning''" Critical
  for fj rt host cfg
  by unfold_locales (simp, rule nvme_tick_emits)

lemma nvme_recovery_fp:
  "(ho_machine_id host @ ''|'' @ NVME @ ''|'' @ dev @
    ''|critical_warning'') = fingerprint (nvme_critical_builder host dev model smart)"
  by (simp add: nvme_critical_builder_def Let_def fingerprint_def fingerprint_of_def)


section \<open>Properties\<close>

text \<open>The error-log check reports growth only: the first reading of a drive sets its baseline
  without an alert, and a later reading raises one exactly when the counter is larger than at the
  reading before. The number of new entries it states is the true difference, without wrap-around.\<close>

theorem nvme_err_log_delta:
  "fst (nvme_check_err_log host dev model smart (m, s)) dev = Some (sl_num_err_log_entries smart)
   \<and> (snd (nvme_check_err_log host dev model smart (m, s)) \<noteq> s \<longleftrightarrow>
        (\<exists>p. m dev = Some p \<and> p < sl_num_err_log_entries smart))
   \<and> (\<forall>p. p < sl_num_err_log_entries smart \<longrightarrow>
        unat (sl_num_err_log_entries smart - p) = unat (sl_num_err_log_entries smart) - unat p)"
proof -
  have "emit b s \<noteq> s" for b s using emit_clock(2) [of b s] by (metis n_not_Suc_n)
  then show ?thesis
    by (auto simp: nvme_check_err_log_def Let_def unat_sub less_imp_le split: option.splits)
qed

definition sample_smart :: nvme_smart_log where
  "sample_smart = \<lparr>sl_critical_warning = 0, sl_composite_temperature = 300, sl_percentage_used = 5,
     sl_media_errors = 0, sl_num_err_log_entries = 7, sl_available_spare = 100,
     sl_available_spare_threshold = 10\<rparr>"

theorem nvme_err_log_delta_witness:
  "snd (nvme_check_err_log \<lparr>ho_hostname = ''node1'', ho_machine_id = ''4f2a'', ho_primary_ip = []\<rparr> ''/dev/nvme0n1''
     ''m'' sample_smart ([''/dev/nvme0n1'' \<mapsto> 5], emitter_new 15 5 (tick_clock 10))) \<noteq> emitter_new 15 5 (tick_clock 10)
   \<and> unat (sl_num_err_log_entries sample_smart - 5) = 2"
  using nvme_err_log_delta [of "\<lparr>ho_hostname = ''node1'', ho_machine_id = ''4f2a'', ho_primary_ip = []\<rparr>" "''/dev/nvme0n1''"
      "''m''" sample_smart "[''/dev/nvme0n1'' \<mapsto> 5]" "emitter_new 15 5 (tick_clock 10)"]
  by (auto simp: sample_smart_def)

text \<open>Thresholds on wear and temperature: for a percentage that fits a byte the alert is
  critical from the critical threshold on, a warning from the warning threshold on, and absent
  below both; a reading of \<open>T\<close> Kelvin up to the largest signed value is taken as \<open>T - 273\<close> degrees.\<close>

theorem nvme_thresholds:
  assumes "unat (sl_percentage_used smart) < 256" and "unat (sl_composite_temperature smart) < 2 ^ 31"
  shows "nvme_wear_severity cfg (nvme_wear smart) =
      (if unat (nv_wear_critical_pct cfg) \<le> unat (sl_percentage_used smart) then Some Critical
       else if unat (nv_wear_warn_pct cfg) \<le> unat (sl_percentage_used smart) then Some Warning else None)
    \<and> nvme_temp_c smart = int (unat (sl_composite_temperature smart)) - 273"
proof -
  have "unat (nvme_wear smart) = unat (sl_percentage_used smart)"
    using assms(1) by (simp add: nvme_wear_def unsigned_ucast_eq take_bit_nat_eq_self)
  moreover have "sint (sl_composite_temperature smart) = int (unat (sl_composite_temperature smart))"
    using sint_of_nat_small [OF assms(2)] by simp
  ultimately show ?thesis by (simp add: nvme_wear_severity_def nvme_temp_c_def word_le_nat_alt)
qed

theorem nvme_thresholds_witness:
  "nvme_wear_severity nvme_cfg_default (nvme_wear (sample_smart\<lparr>sl_percentage_used := 85\<rparr>)) = Some Warning
   \<and> nvme_temp_c (sample_smart\<lparr>sl_percentage_used := 85\<rparr>) = 27"
  using nvme_thresholds [of "sample_smart\<lparr>sl_percentage_used := 85\<rparr>" nvme_cfg_default]
  by (simp add: sample_smart_def nvme_cfg_default_def)

end
