(* ===== verification/Mod_Disk_Smart.thy ===== *)
theory Mod_Disk_Smart
  imports Agent_Detect Agent_Config "HOL-Library.List_Lexorder" "HOL-Library.Char_ord"
begin

text \<open>
  \<open>agent/src/modules/disk_smart.rs\<close>: SATA and SAS drives through \<open>smartctl\<close>. The names in
  \<open>/sys/block\<close>, which device nodes exist, and the report of each drive (None for any failure to run
  the tool or to read its JSON) are inputs of a poll. The module keeps no state. Names are compared
  byte by byte, as Rust orders strings. The fields of the report that are never read are left out;
  the closing log line is too. The metric of an attribute holds its name in lower case, which is
  exact for the ASCII names drives report.
\<close>

record ata_attr =
  at_id :: u32
  at_name :: string
  at_raw_value :: u64
  at_when_failed :: "string option"

record smart_report =
  rp_passed :: "bool option option"
  rp_table :: "ata_attr list option option"
  rp_model_name :: "string option"

definition is_disk_name :: "string \<Rightarrow> bool" where
  "is_disk_name n \<longleftrightarrow> (starts_with n ''sd'' \<or> starts_with n ''hd'') \<and> \<not> contains n ''boot''"

definition disk_enumerate :: "string list \<Rightarrow> (string \<Rightarrow> bool) \<Rightarrow> string list" where
  "disk_enumerate block_names exists_path =
     filter exists_path (map (\<lambda>n. ''/dev/'' @ n) (sort (filter is_disk_name block_names)))"

definition attr_interesting :: "ata_attr \<Rightarrow> bool" where
  "attr_interesting a \<longleftrightarrow> at_id a = 5 \<or> at_id a = 197 \<or> at_id a = 198 \<or> at_id a = 187"

definition attr_failing :: "ata_attr \<Rightarrow> bool" where
  "attr_failing a \<longleftrightarrow> (case at_when_failed a of Some w \<Rightarrow> w | None \<Rightarrow> ''-'') \<noteq> ''-''"

definition smart_overall_builder :: "host_id \<Rightarrow> string \<Rightarrow> string \<Rightarrow> alert_builder" where
  "smart_overall_builder host dev model =
     chain (host_builder host DISK_SMART ''smart_overall'' Critical)
       [with_device dev,
        with_device_model model,
        with_value ''FAILED'',
        with_threshold ''PASSED'',
        with_title ''SMART overall health FAILED'',
        with_message (''Drive '' @ dev @ '' ('' @ model @
          '') reports SMART overall health FAILED. Replace this drive ASAP.'')]"

definition attr_builder :: "host_id \<Rightarrow> string \<Rightarrow> string \<Rightarrow> ata_attr \<Rightarrow> alert_builder" where
  "attr_builder host dev model a =
     chain (host_builder host DISK_SMART (''attr_'' @ to_lowercase (at_name a))
              (if attr_failing a then Critical else Warning))
       [with_device dev,
        with_device_model model,
        with_value (show_word (at_raw_value a)),
        with_title (''SMART attribute '' @ at_name a @ '' non-zero''),
        with_message (''Drive '' @ dev @ '' ('' @ model @ '') attribute '' @ at_name a @ '' = '' @
          show_word (at_raw_value a) @ (if attr_failing a then '' (FAILING_NOW)'' else []) @ ''.'')]"

definition disk_poll_one ::
  "host_id \<Rightarrow> (string \<Rightarrow> smart_report option) \<Rightarrow> string \<Rightarrow> emitter \<Rightarrow> emitter" where
  "disk_poll_one host smartctl dev s =
     (case smartctl dev of
        None \<Rightarrow> s
      | Some report \<Rightarrow>
          let model = (case rp_model_name report of Some m \<Rightarrow> m | None \<Rightarrow> ''unknown'');
              s1 = (if rp_passed report = Some (Some False) then emit (smart_overall_builder host dev model) s else s)
          in case rp_table report of
               Some (Some table) \<Rightarrow>
                 fold (\<lambda>a s. if (attr_interesting a \<and> at_raw_value a > 0) \<or> attr_failing a
                             then emit (attr_builder host dev model a) s else s) table s1
             | _ \<Rightarrow> s1)"

definition SMARTCTL_TIMEOUT :: duration where "SMARTCTL_TIMEOUT = secs 30"

text \<open>The report of a drive; the exit code is ignored, since smartctl uses it for health.\<close>

definition run_smartctl ::
  "(string \<Rightarrow> smart_report option) \<Rightarrow> bool \<Rightarrow> spawn \<Rightarrow> string \<Rightarrow> smart_report option" where
  "run_smartctl from_json is_root spawn dev =
     (case spawn (priv_command is_root ''smartctl'' @ [''-a'', ''-j'', dev]) SMARTCTL_TIMEOUT of
        Exited out err code \<Rightarrow> from_json out
      | SpawnFailed \<Rightarrow> None | WaitFailed \<Rightarrow> None | TimedOut \<Rightarrow> None)"

type_synonym disk_input = "string list \<times> (string \<Rightarrow> bool) \<times> spawn"

definition disk_tick ::
  "(string \<Rightarrow> smart_report option) \<Rightarrow> bool \<Rightarrow> host_id \<Rightarrow> disk_input \<Rightarrow> emitter \<Rightarrow> emitter" where
  "disk_tick from_json is_root host i s =
     (case i of (names, exists_path, spawn) \<Rightarrow>
       fold (disk_poll_one host (run_smartctl from_json is_root spawn)) (disk_enumerate names exists_path) s)"

definition disk_smart_spawn ::
  "(string \<Rightarrow> smart_report option) \<Rightarrow> bool \<Rightarrow> host_id \<Rightarrow> disk_smart_cfg \<Rightarrow> bool \<Rightarrow> disk_input list \<Rightarrow> emitter \<Rightarrow> emitter" where
  "disk_smart_spawn from_json is_root host cfg has_smartctl ticks s =
     (if \<not> ds_enabled cfg \<or> \<not> has_smartctl then s else fold (disk_tick from_json is_root host) ticks s)"

abbreviation disk_emits :: "host_id \<Rightarrow> emitter \<Rightarrow> emitter \<Rightarrow> bool" where
  "disk_emits host \<equiv> observes (from_host (ho_machine_id host) {DISK_SMART})"

lemma disk_poll_one_emits: "disk_emits host s0 s \<Longrightarrow> disk_emits host s0 (disk_poll_one host smartctl dev s)"
  unfolding disk_poll_one_def Let_def
  by (auto simp: smart_overall_builder_def attr_builder_def intro!: emits_fold emits_emit split: option.splits)

lemma disk_tick_emits: "disk_emits host s (disk_tick fj rt host i s)"
  unfolding disk_tick_def by (auto intro!: emits_fold disk_poll_one_emits split: prod.splits)

interpretation disk_smart: observer "stateless (disk_tick fj rt host)" "ho_machine_id host" "{DISK_SMART}"
  for fj rt host
  by (rule stateless_observer) (rule disk_tick_emits)

lemma disk_enumerate_sorted: "sorted (disk_enumerate names ex)"
proof -
  have "sorted (map (\<lambda>n. ''/dev/'' @ n) xs)" if "sorted xs" for xs :: "string list"
    using that by (induction xs) auto
  from sorted_wrt_filter [OF this [OF sorted_sort]] show ?thesis unfolding disk_enumerate_def .
qed


section \<open>Properties\<close>

text \<open>A poll looks at the disks in increasing order of name, whatever order the directory gives
  them in, each only if its device node exists; and an attribute of a drive raises an alert exactly
  when it is failing, or is one of the four sector counters and not zero, critical in the first
  case and a warning otherwise.\<close>

theorem disk_poll_order_and_rule:
  "sorted (disk_enumerate names exists_path)
   \<and> set (disk_enumerate names exists_path) =
       {''/dev/'' @ n | n. n \<in> set names \<and> is_disk_name n \<and> exists_path (''/dev/'' @ n)}
   \<and> (disk_poll_one host (\<lambda>_. Some \<lparr>rp_passed = None, rp_table = Some (Some [a]), rp_model_name = Some model\<rparr>) dev s =
       (if attr_failing a \<or> (at_id a \<in> {5, 187, 197, 198} \<and> at_raw_value a \<noteq> 0)
        then emit (attr_builder host dev model a) s else s))
   \<and> b_severity (attr_builder host dev model a) = (if attr_failing a then Critical else Warning)"
  using disk_enumerate_sorted [of names exists_path]
  by (auto simp: disk_enumerate_def disk_poll_one_def attr_interesting_def attr_builder_def word_gt_0)

end
