(* ===== verification/Mod_Network_Nic.thy ===== *)
theory Mod_Network_Nic
  imports Agent_Lanes Agent_Config
begin

text \<open>
  \<open>agent/src/modules/network_nic.rs\<close>: link state changes from rtnetlink, and error counters from
  \<open>/proc/net/dev\<close> and \<open>ethtool\<close>. A link message is its interface index and its attributes; the
  text of an operational state is the library's debug text. Both tasks share the tracker. A
  restart of the netlink loop starts with empty maps. \<open>ignore\<close> is the compiled set of patterns as
  a test on names; \<open>nic_ignore\<close> builds it from the configuration with the regex library.
\<close>

datatype link_attr = IfName string | OperState string | OtherAttr

record counter_snapshot =
  cs_crc_errors :: u64
  cs_fec_corrected :: u64
  cs_fec_uncorrected :: u64
  cs_rx_errors :: u64
  cs_tx_errors :: u64

definition counter_default :: counter_snapshot where
  "counter_default = \<lparr>cs_crc_errors = 0, cs_fec_corrected = 0, cs_fec_uncorrected = 0, cs_rx_errors = 0, cs_tx_errors = 0\<rparr>"

record nic_state =
  ns_history :: "u32 \<Rightarrow> (instant \<times> bool) list"
  ns_names :: "u32 \<rightharpoonup> string"
  ns_last_state :: "u32 \<rightharpoonup> string"
  ns_last :: "string \<rightharpoonup> counter_snapshot"
  ns_unsupported :: "string set"

definition nic_new :: nic_state where
  "nic_new = \<lparr>ns_history = (\<lambda>_. []), ns_names = Map.empty, ns_last_state = Map.empty,
     ns_last = Map.empty, ns_unsupported = {}\<rparr>"


section \<open>Link state\<close>

fun link_attrs :: "link_attr list \<Rightarrow> string option \<times> string option \<Rightarrow> string option \<times> string option" where
  "link_attrs [] acc = acc"
| "link_attrs (IfName n # as) acc = link_attrs as (Some n, snd acc)"
| "link_attrs (OperState t # as) acc = link_attrs as (fst acc, Some (to_lowercase t))"
| "link_attrs (OtherAttr # as) acc = link_attrs as acc"

definition pad3 :: "nat \<Rightarrow> string" where
  "pad3 n = (let t = show_nat n in replicate (3 - length t) (CHR ''0'') @ t)"

definition link_down_fp :: "host_id \<Rightarrow> string \<Rightarrow> string" where
  "link_down_fp host iface = (ho_machine_id host @ ''|'' @ NETWORK_NIC @ ''|'' @ iface @ ''|link_down'')"

definition link_down_builder :: "host_id \<Rightarrow> string \<Rightarrow> string option \<Rightarrow> alert_builder" where
  "link_down_builder host iface prev_state =
     chain (host_builder host NETWORK_NIC ''link_down'' Warning)
       [with_device iface,
        with_value ''down'',
        with_threshold ''up'',
        with_title (''Network interface '' @ [CHR 0x27] @ iface @ [CHR 0x27] @ '' went DOWN''),
        with_message (''Interface '' @ iface @ '' transitioned to operstate=down (was '' @
          (case prev_state of Some p \<Rightarrow> p | None \<Rightarrow> ''(unknown)'') @
          ''). Check cable, SFP, switch port, LACP partner, or driver state.'')]"

definition timeline_entry :: "instant \<Rightarrow> instant \<times> bool \<Rightarrow> string" where
  "timeline_entry now e =
     (let dt = now - fst e
      in ((if snd e then ''up'' else ''down'') @ ''@T-'' @ show_nat (dt div 1000000000) @ ''.'' @
        pad3 (dt mod 1000000000 div 1000000) @ ''s''))"

definition link_flapping_builder ::
  "host_id \<Rightarrow> network_nic_cfg \<Rightarrow> string \<Rightarrow> instant \<Rightarrow> (instant \<times> bool) list \<Rightarrow> alert_builder" where
  "link_flapping_builder host cfg iface now win =
     (let transitions = length win;
          timeline = join '', '' (map (timeline_entry now) win)
      in chain (host_builder host NETWORK_NIC ''link_flapping'' Warning)
           [with_device iface,
            with_value (show_nat transitions @ '' transitions''),
            with_threshold (show_word (nn_flap_threshold cfg) @ '' per '' @
              show_word (nn_flap_window_s cfg) @ ''s''),
            with_title ''Network interface flapping'',
            with_message (''Interface '' @ iface @ '' flapped '' @ show_nat transitions @
              '' times in the last '' @ show_word (nn_flap_window_s cfg) @
              ''s window. Recent transitions: '' @ timeline @
              ''. Check cable, SFP, switch port, or LACP partner.''),
            raw_kv ''transitions'' (JInt (int transitions)),
            raw_kv ''timeline'' (JStr timeline)])"

text \<open>What happens on a transition of a monitored interface: the alert or the clearing of the link
  itself, then the flap window.\<close>

definition link_transition_alert ::
  "host_id \<Rightarrow> string \<Rightarrow> string option \<Rightarrow> string \<Rightarrow> emitter \<Rightarrow> emitter" where
  "link_transition_alert host iface prev_state state s =
     (if state \<noteq> ''up'' then emit (link_down_builder host iface prev_state) s
      else if prev_state \<noteq> None then emit_force (link_down_fp host iface) s
      else s)"

definition flap_window :: "network_nic_cfg \<Rightarrow> instant \<Rightarrow> bool \<Rightarrow> (instant \<times> bool) list \<Rightarrow> (instant \<times> bool) list" where
  "flap_window cfg now up win =
     dropWhile (\<lambda>(t, _). t < now - secs (unat (nn_flap_window_s cfg))) (win @ [(now, up)])"

definition link_message ::
  "host_id \<Rightarrow> network_nic_cfg \<Rightarrow> (string \<Rightarrow> bool) \<Rightarrow> u32 \<Rightarrow> link_attr list \<Rightarrow> instant
     \<Rightarrow> nic_state \<times> emitter \<Rightarrow> nic_state \<times> emitter" where
  "link_message host cfg ignore ifindex attrs now st =
     (case (link_attrs attrs (None, None), st) of ((name, operstate), (m, s)) \<Rightarrow>
       let m1 = (case name of Some n \<Rightarrow> m\<lparr>ns_names := (ns_names m)(ifindex \<mapsto> n)\<rparr> | None \<Rightarrow> m)
       in case ns_names m1 ifindex of
            None \<Rightarrow> (m1, s)
          | Some iface \<Rightarrow>
              if ignore iface then (m1, s)
              else (case operstate of
                      None \<Rightarrow> (m1, s)
                    | Some state \<Rightarrow>
                        let prev_state = ns_last_state m1 ifindex;
                            m2 = m1\<lparr>ns_last_state := (ns_last_state m1)(ifindex \<mapsto> state)\<rparr>
                        in if prev_state = Some state then (m2, s)
                           else
                             let s1 = link_transition_alert host iface prev_state state s;
                                 win = flap_window cfg now (state = ''up'') (ns_history m2 ifindex);
                                 m3 = m2\<lparr>ns_history := (ns_history m2)(ifindex := win)\<rparr>
                             in if (of_nat (length win) :: u32) \<ge> nn_flap_threshold cfg
                                then (m3, emit (link_flapping_builder host cfg iface now win) s1)
                                else (m3, s1)))"


section \<open>Counters\<close>

definition check_delta ::
  "host_id \<Rightarrow> string \<Rightarrow> counter_snapshot \<Rightarrow> counter_snapshot \<Rightarrow> emitter \<Rightarrow> emitter" where
  "check_delta host iface prev cur s =
     (let crc_d = saturating_sub (cs_crc_errors cur) (cs_crc_errors prev);
          fec_u_d = saturating_sub (cs_fec_uncorrected cur) (cs_fec_uncorrected prev);
          s1 = (if crc_d > 0 then
                  emit (chain (host_builder host NETWORK_NIC ''crc_errors'' Warning)
                    [with_device iface,
                     with_value (show_word crc_d),
                     with_title ''NIC reporting new CRC errors'',
                     with_message (''Interface '' @ iface @ '' accumulated '' @ show_word crc_d @
                       '' new CRC errors since the last poll. Likely cable, transceiver, or upstream port issue.'')]) s
                else s)
      in if fec_u_d > 0 then
           emit (chain (host_builder host NETWORK_NIC ''fec_uncorrected'' Critical)
             [with_device iface,
              with_value (show_word fec_u_d),
              with_title ''NIC FEC uncorrected errors'',
              with_message (''Interface '' @ iface @ '' reported '' @ show_word fec_u_d @
                '' new uncorrectable FEC errors. Link integrity is degraded; expect packet loss.'')]) s1
         else s1)"

definition parse_u64_or0 :: "string \<Rightarrow> u64" where
  "parse_u64_or0 t = (case parse_u64 t of Some n \<Rightarrow> n | None \<Rightarrow> 0)"

definition proc_net_dev_line :: "string \<Rightarrow> string \<Rightarrow> counter_snapshot \<Rightarrow> counter_snapshot" where
  "proc_net_dev_line iface line snap =
     (case strip_prefix (trim_start line) (iface @ '':'') of
        Some rest \<Rightarrow>
          (let cols = split_whitespace rest
           in if length cols \<ge> 16
              then snap\<lparr>cs_rx_errors := parse_u64_or0 (cols ! 2), cs_tx_errors := parse_u64_or0 (cols ! 10)\<rparr>
              else snap)
      | None \<Rightarrow> snap)"

definition ethtool_line :: "string \<Rightarrow> counter_snapshot \<Rightarrow> counter_snapshot" where
  "ethtool_line line snap =
     (case split_once (trim line) (CHR '':'') of
        None \<Rightarrow> snap
      | Some (k0, v0) \<Rightarrow>
          let k = trim k0; v = parse_u64_or0 (trim v0)
          in if k = ''rx_crc_errors'' \<or> k = ''crc_errors'' then snap\<lparr>cs_crc_errors := v\<rparr>
             else if k = ''fec_corrected_blocks'' \<or> k = ''rx_fec_corrected'' then snap\<lparr>cs_fec_corrected := v\<rparr>
             else if k = ''fec_uncorrectable_blocks'' \<or> k = ''rx_fec_uncorrectable'' then snap\<lparr>cs_fec_uncorrected := v\<rparr>
             else snap)"

text \<open>Inl: the text of the error.\<close>

definition read_counters :: "string option \<Rightarrow> spawn \<Rightarrow> string \<Rightarrow> string + counter_snapshot" where
  "read_counters proc_net_dev spawn iface =
     (let snap = (case proc_net_dev of
             Some t \<Rightarrow> fold (proc_net_dev_line iface) (lines t) counter_default
           | None \<Rightarrow> counter_default);
          out = run spawn ''ethtool'' [''-S'', iface] TIMEOUT_NET
      in case out of
           Inl _ \<Rightarrow> Inr snap
         | Inr o1 \<Rightarrow>
             if co_code o1 = Some 94 \<or> contains (from_utf8_lossy (co_stderr o1)) ''no stats available''
             then Inl ''ethtool: no stats (exit 94)''
             else if co_success o1
             then Inr (fold ethtool_line (lines (from_utf8_lossy (co_stdout o1))) snap)
             else Inr snap)"

definition counter_iface ::
  "host_id \<Rightarrow> (string \<Rightarrow> bool) \<Rightarrow> string option \<Rightarrow> spawn \<Rightarrow> string
     \<Rightarrow> nic_state \<times> emitter \<Rightarrow> nic_state \<times> emitter" where
  "counter_iface host ignore proc_net_dev spawn iface st =
     (case st of (m, s) \<Rightarrow>
       if ignore iface \<or> iface \<in> ns_unsupported m then (m, s)
       else (case read_counters proc_net_dev spawn iface of
               Inl msg \<Rightarrow>
                 if contains msg ''no stats'' \<or> contains msg ''94'' \<or> contains msg ''Operation not supported''
                 then (m\<lparr>ns_unsupported := insert iface (ns_unsupported m)\<rparr>, s)
                 else (m, s)
             | Inr snap \<Rightarrow>
                 let prev = (case ns_last m iface of Some p \<Rightarrow> p | None \<Rightarrow> counter_default)
                 in (m\<lparr>ns_last := (ns_last m)(iface \<mapsto> snap)\<rparr>, check_delta host iface prev snap s)))"


section \<open>The module\<close>

text \<open>The entries of \<open>/sys/class/net\<close>; one that cannot be read is an error of the whole listing.\<close>

fun entry_names :: "string option list \<Rightarrow> string list option" where
  "entry_names [] = Some []"
| "entry_names (None # es) = None"
| "entry_names (Some n # es) = map_option ((#) (from_utf8_lossy n)) (entry_names es)"

definition list_interfaces :: "string option list option \<Rightarrow> string list option" where
  "list_interfaces read_dir = Option.bind read_dir entry_names"

datatype nic_input =
    NicLink u32 "link_attr list" instant
  | NicRestart
  | NicPoll "string option list option" "string option" spawn

definition nic_step ::
  "host_id \<Rightarrow> network_nic_cfg \<Rightarrow> (string \<Rightarrow> bool) \<Rightarrow> nic_input \<Rightarrow> nic_state \<times> emitter \<Rightarrow> nic_state \<times> emitter" where
  "nic_step host cfg ignore i st =
     (case i of
        NicLink ifindex attrs now \<Rightarrow> link_message host cfg ignore ifindex attrs now st
      | NicRestart \<Rightarrow>
          ((fst st)\<lparr>ns_history := (\<lambda>_. []), ns_names := Map.empty, ns_last_state := Map.empty\<rparr>, snd st)
      | NicPoll sys_class_net proc_net_dev spawn \<Rightarrow>
          (case list_interfaces sys_class_net of
             None \<Rightarrow> st
           | Some is \<Rightarrow> fold (counter_iface host ignore proc_net_dev spawn) is st))"

text \<open>\<open>RegexSet::new\<close> fails when one pattern does not compile; the set is then empty.\<close>

definition nic_ignore :: "regex_lib \<Rightarrow> network_nic_cfg \<Rightarrow> string \<Rightarrow> bool" where
  "nic_ignore lib cfg iface =
     (list_all (rx_compiles lib) (nn_ignore_regex cfg)
      \<and> list_ex (\<lambda>p. rx_is_match lib p iface) (nn_ignore_regex cfg))"

definition nic_spawn ::
  "regex_lib \<Rightarrow> host_id \<Rightarrow> network_nic_cfg \<Rightarrow> nic_input list \<Rightarrow> emitter \<Rightarrow> emitter" where
  "nic_spawn lib host cfg inputs s =
     (if \<not> nn_enabled cfg then s
      else snd (fold (nic_step host cfg (nic_ignore lib cfg)) inputs (nic_new, s)))"

abbreviation nic_emits :: "host_id \<Rightarrow> emitter \<Rightarrow> emitter \<Rightarrow> bool" where
  "nic_emits host \<equiv> acts (clears_op (ho_machine_id host) {NETWORK_NIC} ''link_down'' Warning)"

lemma link_transition_emits: "nic_emits host s (link_transition_alert host iface p st s)"
  by (auto simp: link_transition_alert_def link_down_builder_def link_down_fp_def suffix_def intro!: emits_intros)

lemma link_message_emits: "nic_emits host (snd st) (snd (link_message host cfg ign ix attrs now st))"
  unfolding link_message_def Let_def
  by (auto simp: link_flapping_builder_def Let_def intro!: emits_emit link_transition_emits
        split: prod.splits option.splits)

lemma check_delta_emits: "nic_emits host s0 s \<Longrightarrow> nic_emits host s0 (check_delta host iface prev cur s)"
  by (auto simp: check_delta_def Let_def intro!: emits_emit)

lemma counter_iface_emits:
  "nic_emits host s0 (snd st) \<Longrightarrow> nic_emits host s0 (snd (counter_iface host ign pnd spawn iface st))"
  by (auto simp: counter_iface_def Let_def intro!: check_delta_emits split: prod.splits sum.splits)

lemma nic_step_emits: "nic_emits host (snd st) (snd (nic_step host cfg ign i st))"
  by (cases i)
     (auto simp: nic_step_def link_message_emits intro!: emits_fold_snd counter_iface_emits split: option.splits)

interpretation nic: clearing "nic_step host cfg ign" "ho_machine_id host" "{NETWORK_NIC}" "''link_down''" Warning
  for host cfg ign
  by unfold_locales (simp, rule nic_step_emits)


section \<open>Link alerts and flap window\<close>

lemma link_down_fingerprint: "fingerprint (link_down_builder host iface p) = link_down_fp host iface"
  by (simp add: link_down_builder_def link_down_fp_def fingerprint_def fingerprint_of_def)

lemma flapping_not_down:
  "fingerprint (link_flapping_builder host cfg iface now win) \<noteq> link_down_fp host' iface'"
proof
  assume "fingerprint (link_flapping_builder host cfg iface now win) = link_down_fp host' iface'"
  from arg_cong [OF this, of last] show False
    by (simp add: link_flapping_builder_def link_down_fp_def fingerprint_def fingerprint_of_def Let_def)
qed

text \<open>The flap window is a sliding window over the times of an interface's transitions.\<close>

lemma dropWhile_map_fst: "map fst (dropWhile (\<lambda>(t, _). P t) xs) = dropWhile P (map fst xs)"
  by (induction xs) auto

lemma flap_window_times:
  "map fst (flap_window cfg now up win) = pop_old (secs (unat (nn_flap_window_s cfg))) now (map fst win @
    [now])"
  using pop_before_eq [of "secs (unat (nn_flap_window_s cfg))" now "map fst win @ [now]"]
  by (simp add: flap_window_def pop_before_def dropWhile_map_fst)

text \<open>No step of the module takes an entry out of the tracker other than that of a downed link.\<close>

definition keeps_flapping :: "string \<Rightarrow> emitter \<Rightarrow> emitter \<Rightarrow> bool" where
  "keeps_flapping fp s s' \<longleftrightarrow>
     (tr_inner (em_tracker s) fp \<noteq> None \<longrightarrow> tr_inner (em_tracker s') fp \<noteq> None)"

lemma keeps_flapping_emit: "keeps_flapping fp s s' \<Longrightarrow> keeps_flapping fp s (emit b s')"
  using emit_keeps_entry by (simp add: keeps_flapping_def)

lemma keeps_flapping_force:
  "keeps_flapping fp s s' \<Longrightarrow> fp \<noteq> fp' \<Longrightarrow> keeps_flapping fp s (emit_force fp' s')"
  by (simp add: keeps_flapping_def emit_force_keeps_other)

lemma keeps_flapping_counter:
  "keeps_flapping fp s0 (snd st) \<Longrightarrow> keeps_flapping fp s0 (snd (counter_iface host ign pnd spawn iface st))"
  by (auto simp: counter_iface_def check_delta_def Let_def intro!: keeps_flapping_emit
        split: prod.splits sum.splits)

lemma keeps_flapping_counters:
  "keeps_flapping fp s0 (snd st) \<Longrightarrow>
     keeps_flapping fp s0 (snd (fold (counter_iface host ign pnd spawn) is st))"
  by (induction "is" arbitrary: st) (simp_all add: keeps_flapping_counter)

lemma keeps_flapping_link:
  assumes "\<And>h i. fp \<noteq> link_down_fp h i" and "keeps_flapping fp s0 (snd st)"
  shows "keeps_flapping fp s0 (snd (link_message host cfg ign ix attrs now st))"
  using assms unfolding link_message_def Let_def link_transition_alert_def
  by (auto intro!: keeps_flapping_emit keeps_flapping_force split: prod.splits option.splits)

lemma keeps_flapping_run:
  assumes "\<And>h i. fp \<noteq> link_down_fp h i" and "keeps_flapping fp s0 (snd st)"
  shows "keeps_flapping fp s0 (snd (fold (nic_step host cfg ign) is st))"
  using assms(2)
proof (induction "is" arbitrary: st)
  case (Cons i "is")
  have "keeps_flapping fp s0 (snd (nic_step host cfg ign i st))"
    using Cons.prems keeps_flapping_link [OF assms(1)] keeps_flapping_counters
    by (cases i) (auto simp: nic_step_def split: option.splits)
  from Cons.IH [OF this] show ?case by simp
qed simp


section \<open>Properties\<close>


definition sample_nic_host :: host_id where
  "sample_nic_host = \<lparr>ho_hostname = ''node1'', ho_machine_id = ''4f2a'', ho_primary_ip = []\<rparr>"


text \<open>A flapping alert is never cleared by the module: once the condition is open in the
  tracker it stays open through every later input, however long the link is stable (closing a
  condition takes it out of the tracker).\<close>

theorem nic_flapping_never_closed:
  assumes "tr_inner (em_tracker s) (fingerprint (link_flapping_builder host cfg iface now win)) \<noteq> None"
  shows "tr_inner (em_tracker (snd (fold (nic_step host cfg ignore) inputs (m, s))))
           (fingerprint (link_flapping_builder host cfg iface now win)) \<noteq> None"
proof -
  let ?fp = "fingerprint (link_flapping_builder host cfg iface now win)"
  have "keeps_flapping ?fp s (snd (fold (nic_step host cfg ignore) inputs (m, s)))"
    by (rule keeps_flapping_run) (use flapping_not_down in \<open>auto simp: keeps_flapping_def\<close>)
  with assms show ?thesis by (simp add: keeps_flapping_def)
qed

theorem nic_flapping_never_closed_witness:
  "tr_inner (em_tracker (snd (fold (nic_step sample_nic_host network_nic_cfg_default (\<lambda>_. False))
       [NicRestart, NicLink 2 [IfName ''eth0'', OperState ''Up''] 900]
       (nic_new, emit (link_flapping_builder sample_nic_host network_nic_cfg_default ''eth0'' 0 [])
                   (emitter_new 15 5 (tick_clock 10))))))
     (fingerprint (link_flapping_builder sample_nic_host network_nic_cfg_default ''eth0'' 0 [])) \<noteq> None"
  by (rule nic_flapping_never_closed)
     (simp add: emit_parts observe_def Let_def split: option.splits)

text \<open>Counter alerts: the CRC alert is raised exactly when the counter is larger than at the
  previous poll, by the true difference; a counter that went back raises none. An interface polled
  for the first time is compared with zero, so its whole count since boot is reported as new.\<close>

theorem nic_counter_delta:
  "(check_delta host iface prev (cur\<lparr>cs_fec_uncorrected := cs_fec_uncorrected prev\<rparr>) s \<noteq> s
      \<longleftrightarrow> cs_crc_errors prev < cs_crc_errors cur)
   \<and> unat (saturating_sub (cs_crc_errors cur) (cs_crc_errors prev))
       = unat (cs_crc_errors cur) - unat (cs_crc_errors prev)
   \<and> (\<not> ignore iface \<and> iface \<notin> ns_unsupported m \<and> ns_last m iface = None
        \<and> read_counters pnd spawn iface = Inr cur
      \<longrightarrow> snd (counter_iface host ignore pnd spawn iface (m, s)) = check_delta host iface counter_default cur s)"
proof -
  have "emit b s \<noteq> s" for b s using emit_clock(2) [of b s] by (metis n_not_Suc_n)
  moreover have "saturating_sub x y > 0 \<longleftrightarrow> y < x" for x y :: u64
    by (simp add: word_less_nat_alt unat_saturating_sub)
  ultimately show ?thesis
    by (auto simp: check_delta_def Let_def unat_saturating_sub counter_iface_def)
qed

theorem nic_counter_delta_witness:
  "snd (counter_iface sample_nic_host (\<lambda>_. False) None (\<lambda>_ _. SpawnFailed) ''eth0''
      (nic_new, emitter_new 15 5 (tick_clock 10)))
   = check_delta sample_nic_host ''eth0'' counter_default counter_default (emitter_new 15 5 (tick_clock 10))"
proof -
  have "read_counters None (\<lambda>_ _. SpawnFailed) ''eth0'' = Inr counter_default"
    by (simp add: read_counters_def run_def run_cmd_def)
  then show ?thesis
    using nic_counter_delta [of sample_nic_host "''eth0''" counter_default counter_default
        "emitter_new 15 5 (tick_clock 10)" "\<lambda>_. False" nic_new None "\<lambda>_ _. SpawnFailed"]
    by (simp add: nic_new_def)
qed

end
