(* ===== verification/Rust_Float.thy ===== *)
theory Rust_Float
  imports Complex_Main Rust_Std
begin

text \<open>
  The floating-point numbers of the modules that work with temperatures, rates and power:
  \<open>f32\<close> and \<open>f64\<close> as rational numbers, with every operation rounded to nearest, ties to even, in
  the format's precision and exponent range; overflow gives an infinity. The sign of zero is not
  kept (it would show only in the text of a negative zero). \<open>from_str\<close>, casts, comparison and the
  formatting with a fixed number of decimals are those of the standard library.
\<close>

datatype flt = FFin rat | FInf | FNegInf | FNan

record fl_format =
  fl_prec :: nat
  fl_emin :: int
  fl_emax :: nat

definition f32 :: fl_format where
  "f32 = \<lparr>fl_prec = 24, fl_emin = -149, fl_emax = 128\<rparr>"

definition f64 :: fl_format where
  "f64 = \<lparr>fl_prec = 53, fl_emin = -1074, fl_emax = 1024\<rparr>"


section \<open>Rounding\<close>

definition pow2 :: "int \<Rightarrow> rat" where
  "pow2 e = (if 0 \<le> e then 2 ^ nat e else 1 / 2 ^ nat (- e))"

fun nbits :: "nat \<Rightarrow> nat" where
  "nbits n = (if n = 0 then 0 else Suc (nbits (n div 2)))"

declare nbits.simps [simp del]

text \<open>The exponent of the leading bit of a positive number.\<close>

definition ilog2 :: "rat \<Rightarrow> int" where
  "ilog2 q =
     (case quotient_of q of (n, d) \<Rightarrow>
       let k = int (nbits (nat n)) - int (nbits (nat d))
       in if pow2 k \<le> q then k else k - 1)"

definition round_half_even :: "rat \<Rightarrow> int" where
  "round_half_even q =
     (let f = \<lfloor>q\<rfloor>; r = q - of_int f
      in if r < 1 / 2 then f else if 1 / 2 < r then f + 1 else if even f then f else f + 1)"

definition fl_exp :: "fl_format \<Rightarrow> rat \<Rightarrow> int" where
  "fl_exp fmt q = max (fl_emin fmt) (ilog2 q - int (fl_prec fmt) + 1)"

definition fl_round_pos :: "fl_format \<Rightarrow> rat \<Rightarrow> rat" where
  "fl_round_pos fmt q = of_int (round_half_even (q / pow2 (fl_exp fmt q))) * pow2 (fl_exp fmt q)"

definition fl_round :: "fl_format \<Rightarrow> rat \<Rightarrow> flt" where
  "fl_round fmt q =
     (if q = 0 then FFin 0
      else
        let r = fl_round_pos fmt \<bar>q\<bar>
        in if 2 ^ fl_emax fmt \<le> r then (if q < 0 then FNegInf else FInf)
           else FFin (if q < 0 then - r else r))"


section \<open>Operations\<close>

fun fl_add :: "fl_format \<Rightarrow> flt \<Rightarrow> flt \<Rightarrow> flt" where
  "fl_add fmt (FFin a) (FFin b) = fl_round fmt (a + b)"
| "fl_add fmt FNan y = FNan"
| "fl_add fmt x FNan = FNan"
| "fl_add fmt FInf FNegInf = FNan"
| "fl_add fmt FNegInf FInf = FNan"
| "fl_add fmt FInf y = FInf"
| "fl_add fmt x FInf = FInf"
| "fl_add fmt FNegInf y = FNegInf"
| "fl_add fmt x FNegInf = FNegInf"

fun fl_neg :: "flt \<Rightarrow> flt" where
  "fl_neg (FFin a) = FFin (- a)"
| "fl_neg FInf = FNegInf"
| "fl_neg FNegInf = FInf"
| "fl_neg FNan = FNan"

definition fl_sub :: "fl_format \<Rightarrow> flt \<Rightarrow> flt \<Rightarrow> flt" where
  "fl_sub fmt x y = fl_add fmt x (fl_neg y)"

fun fl_sgn :: "flt \<Rightarrow> int" where
  "fl_sgn (FFin a) = (if a < 0 then -1 else if a = 0 then 0 else 1)"
| "fl_sgn FInf = 1"
| "fl_sgn FNegInf = -1"
| "fl_sgn FNan = 0"

definition fl_signed_inf :: "int \<Rightarrow> flt" where
  "fl_signed_inf s = (if s = 0 then FNan else if s < 0 then FNegInf else FInf)"

fun fl_mul :: "fl_format \<Rightarrow> flt \<Rightarrow> flt \<Rightarrow> flt" where
  "fl_mul fmt (FFin a) (FFin b) = fl_round fmt (a * b)"
| "fl_mul fmt FNan y = FNan"
| "fl_mul fmt x FNan = FNan"
| "fl_mul fmt x y = fl_signed_inf (fl_sgn x * fl_sgn y)"

text \<open>A zero divisor counts as positive.\<close>

fun fl_div :: "fl_format \<Rightarrow> flt \<Rightarrow> flt \<Rightarrow> flt" where
  "fl_div fmt (FFin a) (FFin b) = (if b = 0 then fl_signed_inf (fl_sgn (FFin a)) else fl_round fmt (a / b))"
| "fl_div fmt FNan y = FNan"
| "fl_div fmt x FNan = FNan"
| "fl_div fmt (FFin a) y = FFin 0"
| "fl_div fmt x (FFin b) = fl_signed_inf (fl_sgn x * (if b < 0 then -1 else 1))"
| "fl_div fmt x y = FNan"

text \<open>Comparison: false when one side is not a number.\<close>

fun fl_le :: "flt \<Rightarrow> flt \<Rightarrow> bool" where
  "fl_le (FFin a) (FFin b) = (a \<le> b)"
| "fl_le FNan y = False"
| "fl_le x FNan = False"
| "fl_le FNegInf y = True"
| "fl_le x FInf = True"
| "fl_le x y = False"

fun fl_less :: "flt \<Rightarrow> flt \<Rightarrow> bool" where
  "fl_less (FFin a) (FFin b) = (a < b)"
| "fl_less FNan y = False"
| "fl_less x FNan = False"
| "fl_less FNegInf FNegInf = False"
| "fl_less FNegInf y = True"
| "fl_less FInf y = False"
| "fl_less x FInf = True"
| "fl_less x FNegInf = False"

text \<open>\<open>max\<close> ignores an argument that is not a number.\<close>

definition fl_max :: "flt \<Rightarrow> flt \<Rightarrow> flt" where
  "fl_max x y = (if x = FNan then y else if y = FNan then x else if fl_le x y then y else x)"

definition fl_of_word :: "fl_format \<Rightarrow> 'a::len word \<Rightarrow> flt" where
  "fl_of_word fmt w = fl_round fmt (of_nat (unat w))"

definition fl_of_int :: "fl_format \<Rightarrow> int \<Rightarrow> flt" where
  "fl_of_int fmt i = fl_round fmt (of_int i)"

text \<open>\<open>as u64\<close>: truncated and saturating.\<close>

definition fl_as_u64 :: "flt \<Rightarrow> u64" where
  "fl_as_u64 x =
     (case x of
        FFin a \<Rightarrow> if a < 0 then 0 else if 2 ^ 64 \<le> \<lfloor>a\<rfloor> then - 1 else of_int \<lfloor>a\<rfloor>
      | FInf \<Rightarrow> - 1
      | _ \<Rightarrow> 0)"

text \<open>\<open>Duration::as_secs_f32\<close>.\<close>

definition as_secs_f32 :: "duration \<Rightarrow> flt" where
  "as_secs_f32 d =
     fl_add f32 (fl_round f32 (of_nat (d div 1000000000)))
       (fl_div f32 (fl_round f32 (of_nat (d mod 1000000000))) (FFin 1000000000))"


section \<open>Text\<close>

definition parse_digits :: "string \<Rightarrow> nat" where
  "parse_digits ds = foldl (\<lambda>n c. 10 * n + (of_char c - 48)) 0 ds"

definition pow10 :: "int \<Rightarrow> rat" where
  "pow10 e = (if 0 \<le> e then 10 ^ nat e else 1 / 10 ^ nat (- e))"

text \<open>The exponent part: None when the text is not one.\<close>

definition parse_exponent :: "string \<Rightarrow> int option" where
  "parse_exponent s =
     (case s of
        [] \<Rightarrow> Some 0
      | c # cs \<Rightarrow>
          if ascii_lower c \<noteq> CHR ''e'' then None
          else
            let neg = (cs \<noteq> [] \<and> hd cs = CHR ''-'');
                ds = (if cs \<noteq> [] \<and> (hd cs = CHR ''-'' \<or> hd cs = CHR ''+'') then tl cs else cs)
            in if ds = [] \<or> \<not> list_all is_digit ds then None
               else Some (if neg then - int (parse_digits ds) else int (parse_digits ds)))"

definition parse_decimal :: "string \<Rightarrow> rat option" where
  "parse_decimal s =
     (let ip = takeWhile is_digit s; r1 = dropWhile is_digit s;
          dot = (r1 \<noteq> [] \<and> hd r1 = CHR ''.'');
          fp = (if dot then takeWhile is_digit (tl r1) else []);
          r2 = (if dot then dropWhile is_digit (tl r1) else r1)
      in if ip = [] \<and> fp = [] then None
         else map_option (\<lambda>e. of_nat (parse_digits (ip @ fp)) * pow10 (e - int (length fp))) (parse_exponent r2))"

text \<open>\<open>str::parse\<close> for a floating-point type.\<close>

definition parse_float :: "fl_format \<Rightarrow> string \<Rightarrow> flt option" where
  "parse_float fmt s =
     (let neg = (s \<noteq> [] \<and> hd s = CHR ''-'');
          body = (if s \<noteq> [] \<and> (hd s = CHR ''-'' \<or> hd s = CHR ''+'') then tl s else s);
          lower = to_ascii_lowercase body;
          v = (if lower = ''nan'' then Some FNan
               else if lower = ''inf'' \<or> lower = ''infinity'' then Some FInf
               else map_option (fl_round fmt) (parse_decimal body))
      in map_option (\<lambda>x. if neg then fl_neg x else x) v)"

definition pad_zeros :: "nat \<Rightarrow> nat \<Rightarrow> string" where
  "pad_zeros k n = (let t = show_nat n in replicate (k - length t) (CHR ''0'') @ t)"

text \<open>\<open>{:.k}\<close>: the exact value rounded to \<open>k\<close> decimals, ties to even.\<close>

definition fmt_fixed :: "nat \<Rightarrow> flt \<Rightarrow> string" where
  "fmt_fixed k x =
     (case x of
        FNan \<Rightarrow> ''NaN'' | FInf \<Rightarrow> ''inf'' | FNegInf \<Rightarrow> ''-inf''
      | FFin q \<Rightarrow>
          (let n = nat (round_half_even (\<bar>q\<bar> * 10 ^ k))
           in (if q < 0 then ''-'' else []) @ show_nat (n div 10 ^ k)
              @ (if k = 0 then [] else ''.'' @ pad_zeros k (n mod 10 ^ k))))"


text \<open>\<open>{}\<close>: the shortest decimal that rounds to the value, the closest one of them, written without
  an exponent. \<open>j\<close> is the number of decimals (negative: trailing zeros before the point).\<close>

definition dec_candidates :: "fl_format \<Rightarrow> rat \<Rightarrow> int \<Rightarrow> int list" where
  "dec_candidates fmt q j =
     filter (\<lambda>n. 0 < n \<and> fl_round_pos fmt (of_int n / pow10 j) = q) [\<lfloor>q * pow10 j\<rfloor>, \<lfloor>q * pow10 j\<rfloor> + 1]"

definition closest_candidate :: "rat \<Rightarrow> int \<Rightarrow> int list \<Rightarrow> int" where
  "closest_candidate q j ns =
     (case ns of
        [m, n] \<Rightarrow> if \<bar>of_int n / pow10 j - q\<bar> < \<bar>of_int m / pow10 j - q\<bar> then n else m
      | n # _ \<Rightarrow> n
      | [] \<Rightarrow> 0)"

definition show_decimal :: "int \<Rightarrow> int \<Rightarrow> string" where
  "show_decimal n j =
     (if j \<le> 0 then show_nat (nat n * 10 ^ nat (- j))
      else show_nat (nat n div 10 ^ nat j) @ ''.'' @ pad_zeros (nat j) (nat n mod 10 ^ nat j))"

definition fmt_display :: "fl_format \<Rightarrow> flt \<Rightarrow> string" where
  "fmt_display fmt x =
     (case x of
        FNan \<Rightarrow> ''NaN'' | FInf \<Rightarrow> ''inf'' | FNegInf \<Rightarrow> ''-inf''
      | FFin q \<Rightarrow>
          if q = 0 then ''0''
          else (if q < 0 then ''-'' else []) @
            (case find (\<lambda>j. dec_candidates fmt \<bar>q\<bar> j \<noteq> []) [- 400..1100] of
               Some j \<Rightarrow> show_decimal (closest_candidate \<bar>q\<bar> j (dec_candidates fmt \<bar>q\<bar> j)) j
             | None \<Rightarrow> []))"


section \<open>Facts\<close>

lemma pow2_pos [simp]: "0 < pow2 e"
  by (simp add: pow2_def)

lemma pow2_add: "pow2 (a + b) = pow2 a * pow2 b"
proof -
  have eq: "pow2 e = 2 powi e" for e
    by (simp add: pow2_def power_int_def inverse_eq_divide power_one_over)
  show ?thesis by (simp add: eq power_int_add)
qed

lemma pow2_mono: "a \<le> b \<Longrightarrow> pow2 a \<le> pow2 b"
proof -
  assume "a \<le> b"
  have "pow2 b = pow2 a * pow2 (b - a)" by (simp flip: pow2_add)
  moreover have "1 \<le> pow2 (b - a)" using \<open>a \<le> b\<close> by (simp add: pow2_def)
  ultimately show ?thesis using mult_left_mono [of 1 "pow2 (b - a)" "pow2 a"] by (simp add: order_less_imp_le)
qed

lemma nbits_bounds: "0 < n \<Longrightarrow> 2 ^ (nbits n - 1) \<le> n \<and> n < 2 ^ nbits n"
proof (induction n rule: nbits.induct)
  case (1 n)
  show ?case
  proof (cases "n = 1")
    case True
    then show ?thesis by (simp add: nbits.simps)
  next
    case False
    with 1 have IH: "2 ^ (nbits (n div 2) - 1) \<le> n div 2" "n div 2 < 2 ^ nbits (n div 2)" by auto
    have nz: "nbits (n div 2) > 0" using False 1(2) by (subst nbits.simps) auto
    have "nbits n = Suc (nbits (n div 2))" using 1(2) by (simp add: nbits.simps [of n])
    with IH nz show ?thesis by (cases "nbits (n div 2)") auto
  qed
qed

lemma pow2_nat: "pow2 (int n) = of_nat (2 ^ n)"
  by (simp add: pow2_def)

lemma ilog2_le:
  assumes "0 < q"
  shows "pow2 (ilog2 q) \<le> q"
proof -
  obtain n d where nd: "quotient_of q = (n, d)" by (cases "quotient_of q")
  then have q: "q = of_int n / of_int d" and d: "0 < d"
    using quotient_of_div quotient_of_denom_pos by blast+
  with assms have n: "0 < n" by (simp add: zero_less_divide_iff)
  let ?a = "nbits (nat n)" and ?b = "nbits (nat d)"
  have a: "2 ^ (?a - 1) \<le> nat n" and b: "nat d < 2 ^ ?b"
    using nbits_bounds [of "nat n"] nbits_bounds [of "nat d"] n d by auto
  have an: "0 < ?a" using n by (subst nbits.simps) simp
  have "pow2 (int (?a - 1)) \<le> of_int n"
    unfolding pow2_nat using a n by (metis of_int_of_nat_eq of_nat_le_iff int_nat_eq order_less_imp_le)
  moreover have "of_int d \<le> pow2 (int ?b)"
    unfolding pow2_nat using b d by (metis of_int_of_nat_eq of_nat_le_iff int_nat_eq order_less_imp_le)
  ultimately have "pow2 (int (?a - 1)) * of_int d \<le> of_int n * pow2 (int ?b)"
    using d n by (intro mult_mono) auto
  moreover have "pow2 (int ?a - int ?b - 1) * pow2 (int ?b) = pow2 (int (?a - 1))"
    using an by (simp flip: pow2_add add: of_nat_diff)
  ultimately have "pow2 (int ?a - int ?b - 1) * of_int d * pow2 (int ?b) \<le> of_int n * pow2 (int ?b)"
    by (simp add: mult.commute mult.left_commute)
  then have "pow2 (int ?a - int ?b - 1) \<le> q"
    using d by (simp add: q pos_le_divide_eq)
  then show ?thesis using nd by (simp add: ilog2_def Let_def)
qed

lemma round_half_even_bounds: "\<lfloor>q\<rfloor> \<le> round_half_even q \<and> round_half_even q \<le> \<lfloor>q\<rfloor> + 1"
  by (simp add: round_half_even_def Let_def)

lemma round_half_even_int [simp]: "round_half_even (of_int i) = i"
  by (simp add: round_half_even_def)

lemma round_half_even_half:
  assumes "1 \<le> q"
  shows "q / 2 \<le> of_int (round_half_even q) \<and> of_int (round_half_even q) \<le> 2 * q"
proof -
  have f: "1 \<le> \<lfloor>q\<rfloor>" using assms by (simp add: le_floor_iff)
  have "q < of_int \<lfloor>q\<rfloor> + 1" by linarith
  moreover have "(1::rat) \<le> of_int \<lfloor>q\<rfloor>" using f by (metis of_int_1 of_int_le_iff)
  moreover have "(of_int \<lfloor>q\<rfloor> :: rat) \<le> of_int (round_half_even q)"
    "(of_int (round_half_even q) :: rat) \<le> of_int \<lfloor>q\<rfloor> + 1"
    using round_half_even_bounds [of q] by (metis of_int_le_iff, metis of_int_1 of_int_add of_int_le_iff)
  moreover have "of_int \<lfloor>q\<rfloor> \<le> q" by simp
  ultimately show ?thesis using assms by linarith
qed

text \<open>A rounded number is within a factor of two of the exact one (normal range).\<close>

lemma fl_round_pos_half:
  assumes "pow2 (fl_emin fmt) \<le> q" and "0 < fl_prec fmt"
  shows "q / 2 \<le> fl_round_pos fmt q \<and> fl_round_pos fmt q \<le> 2 * q"
proof -
  have q: "0 < q" using assms(1) pow2_pos [of "fl_emin fmt"] by linarith
  have "pow2 (ilog2 q - int (fl_prec fmt) + 1) \<le> pow2 (ilog2 q)" using assms(2) by (intro pow2_mono) simp
  then have "pow2 (fl_exp fmt q) \<le> q"
    using assms(1) ilog2_le [OF q] by (simp add: fl_exp_def max_def)
  then have "1 \<le> q / pow2 (fl_exp fmt q)" by simp
  from round_half_even_half [OF this] show ?thesis
    by (simp add: fl_round_pos_def pos_le_divide_eq pos_divide_le_eq divide_simps)
qed

text \<open>Whole numbers that fit the precision are exact.\<close>

lemma ilog2_less:
  assumes "0 < q" and "q < 2 ^ n"
  shows "ilog2 q < int n"
proof (rule ccontr)
  assume "\<not> ilog2 q < int n"
  then have "pow2 (int n) \<le> pow2 (ilog2 q)" by (intro pow2_mono) simp
  with ilog2_le [OF assms(1)] assms(2) show False by (simp add: pow2_nat)
qed

lemma fl_round_pos_int:
  assumes "0 < i" and "i < 2 ^ fl_prec fmt" and "fl_emin fmt \<le> 0"
  shows "fl_round_pos fmt (of_int i) = of_int i"
proof -
  let ?e = "fl_exp fmt (of_int i)"
  have "(of_int i :: rat) < of_int (2 ^ fl_prec fmt)" using assms(2) by (simp only: of_int_less_iff)
  then have "ilog2 (of_int i) < int (fl_prec fmt)" using assms(1) by (intro ilog2_less) simp_all
  with assms(3) have e: "?e \<le> 0" by (simp add: fl_exp_def)
  then have eq: "of_int i / pow2 ?e = of_int (i * 2 ^ nat (- ?e))" by (simp add: pow2_def)
  show ?thesis
    unfolding fl_round_pos_def eq round_half_even_int unfolding eq [symmetric]
    by (simp add: order_less_imp_not_eq2 [OF pow2_pos])
qed

lemma fl_round_int:
  assumes "\<bar>i\<bar> < 2 ^ fl_prec fmt" and "fl_emin fmt \<le> 0" and "fl_prec fmt \<le> fl_emax fmt"
  shows "fl_round fmt (of_int i) = FFin (of_int i)"
proof (cases "i = 0")
  case False
  then have r: "fl_round_pos fmt \<bar>of_int i\<bar> = of_int \<bar>i\<bar>"
    using fl_round_pos_int [of "\<bar>i\<bar>" fmt] assms by simp
  have "(of_int \<bar>i\<bar> :: rat) < of_int (2 ^ fl_prec fmt)" using assms(1) by (simp only: of_int_less_iff)
  also have "\<dots> \<le> 2 ^ fl_emax fmt" using assms(3) by (simp add: power_increasing)
  finally have "\<not> 2 ^ fl_emax fmt \<le> (of_int \<bar>i\<bar> :: rat)" by simp
  with False r show ?thesis by (auto simp: fl_round_def Let_def)
qed (simp add: fl_round_def)

lemma f32_int: "\<bar>i\<bar> < 2 ^ 24 \<Longrightarrow> fl_round f32 (of_int i) = FFin (of_int i)"
  by (rule fl_round_int) (simp_all add: f32_def)

lemma f64_int: "\<bar>i\<bar> < 2 ^ 53 \<Longrightarrow> fl_round f64 (of_int i) = FFin (of_int i)"
  by (rule fl_round_int) (simp_all add: f64_def)

end
