(* ===== verification/Mod_Mempressure.thy ===== *)
theory Mod_Mempressure
  imports Agent_Lanes Agent_Config Rust_Float
begin

text \<open>
  \<open>agent/src/modules/mempressure.rs\<close>: memory pressure from \<open>/proc/pressure/memory\<close> and kills by the
  kernel's OOM killer. The two tasks share the tracker; a step is a poll of the pressure file
  (its content, None when it cannot be read, and the two clock readings) or a kernel line with the
  clock reading. A pressure is an \<open>f32\<close>; the configured threshold is finite.
\<close>

section \<open>Pressure\<close>

fun psi_token :: "string list \<Rightarrow> string option" where
  "psi_token [] = None"
| "psi_token (tok # toks) = (case strip_prefix tok ''avg10='' of Some v \<Rightarrow> Some v | None \<Rightarrow> psi_token toks)"

fun psi_lines :: "string list \<Rightarrow> flt" where
  "psi_lines [] = FFin 0"
| "psi_lines (line # ls) =
     (case Option.bind (strip_prefix line ''some '') (\<lambda>rest. psi_token (split_whitespace rest)) of
        Some v \<Rightarrow> (case parse_float f32 v of Some x \<Rightarrow> x | None \<Rightarrow> FFin 0)
      | None \<Rightarrow> psi_lines ls)"

definition read_psi :: "string option \<Rightarrow> flt option" where
  "read_psi content = map_option (\<lambda>s. psi_lines (lines s)) content"

record mempressure_state =
  ms_breach_since :: "instant option"
  ms_storm :: "instant list"

definition mempressure_new :: mempressure_state where
  "mempressure_new = \<lparr>ms_breach_since = None, ms_storm = []\<rparr>"

definition psi_builder :: "host_id \<Rightarrow> mempressure_cfg \<Rightarrow> flt \<Rightarrow> alert_builder" where
  "psi_builder host cfg some_avg10 =
     chain (host_builder host MEMORY_PRESSURE ''psi_high'' Warning)
       [with_value (fmt_fixed 1 some_avg10 @ ''%''),
        with_threshold (fmt_fixed 1 (FFin (mp_psi_some_avg10_warn cfg)) @ ''% for '' @
          show_word (mp_sustain_s cfg) @ ''s''),
        with_title ''Sustained memory pressure'',
        with_message (''PSI memory `some avg10` has been '' @ fmt_fixed 1 some_avg10 @
          ''% for at least '' @ show_word (mp_sustain_s cfg) @
          ''s. The kernel is repeatedly stalling tasks waiting on memory; the OOM killer is likely to fire soon.'')]"

text \<open>\<open>t_first\<close> is the clock when a breach begins to be timed, \<open>t_now\<close> the one its age is taken at.\<close>

definition psi_tick ::
  "host_id \<Rightarrow> mempressure_cfg \<Rightarrow> string option \<Rightarrow> instant \<Rightarrow> instant
     \<Rightarrow> mempressure_state \<times> emitter \<Rightarrow> mempressure_state \<times> emitter" where
  "psi_tick host cfg content t_first t_now st =
     (case read_psi content of
        None \<Rightarrow> st
      | Some some_avg10 \<Rightarrow>
          if fl_le (FFin (mp_psi_some_avg10_warn cfg)) some_avg10 then
            let t0 = (case ms_breach_since (fst st) of Some t \<Rightarrow> t | None \<Rightarrow> t_first);
                m = (fst st)\<lparr>ms_breach_since := Some t0\<rparr>
            in if secs (unat (mp_sustain_s cfg)) \<le> t_now - t0
               then (m, emit (psi_builder host cfg some_avg10) (snd st))
               else (m, snd st)
          else ((fst st)\<lparr>ms_breach_since := None\<rparr>,
                emit_ok (ho_machine_id host @ ''|'' @ MEMORY_PRESSURE @ ''|-|psi_high'') (snd st)))"


section \<open>OOM kills\<close>

definition killed_re :: string where
  "killed_re = (''Out of memory: Killed process ('' @ bsl @ ''d+) '' @ bsl @ ''(([^)]+)'' @ bsl @
    '')(.*total-vm:('' @ bsl @ ''d+)kB)?'')"

definition oom_kill_builder :: "host_id \<Rightarrow> (nat \<Rightarrow> string option) \<Rightarrow> string \<Rightarrow> alert_builder" where
  "oom_kill_builder host c text =
     (let pid = (case c 1 of Some p \<Rightarrow> p | None \<Rightarrow> ''?'');
          comm = (case c 2 of Some p \<Rightarrow> p | None \<Rightarrow> ''?'');
          total_vm_kb = Option.bind (c 4) (\<lambda>t. parse_u64 t);
          vm = (case total_vm_kb of Some kb \<Rightarrow> ('' with total-vm='' @ show_word (kb div 1024) @
            ''MB'') | None \<Rightarrow> [])
      in chain (host_builder host MEMORY_PRESSURE ''oom_kill'' Critical)
           [with_device comm,
            with_value (''PID '' @ pid),
            with_title ''OOM killer fired'',
            with_message (''Kernel OOM killer terminated process '' @ pid @ '' ('' @ comm @ '')'' @ vm @
              ''. The host is under heavy memory pressure; investigate the workload that grew unbounded.''),
            raw_kv ''pid'' (JStr pid),
            raw_kv ''comm'' (JStr comm),
            raw_kv ''kmsg'' (JStr text)])"

definition oom_storm_builder :: "host_id \<Rightarrow> mempressure_cfg \<Rightarrow> nat \<Rightarrow> alert_builder" where
  "oom_storm_builder host cfg n =
     chain (host_builder host MEMORY_PRESSURE ''oom_storm'' Critical)
       [with_value (show_nat n @ '' kills / '' @ show_word (mp_oom_storm_window_s cfg) @ ''s''),
        with_threshold (show_word (mp_oom_storm_count cfg) @ '' / '' @
          show_word (mp_oom_storm_window_s cfg) @ ''s''),
        with_title ''OOM kill storm'',
        with_message (show_nat n @ '' processes killed by OOM in the last '' @
          show_word (mp_oom_storm_window_s cfg) @ ''s '' @ em_dash @
          '' the host is in a memory-thrashing loop. Cordoning the node from the orchestrator is recommended.'')]"

definition oom_line ::
  "regex_lib \<Rightarrow> host_id \<Rightarrow> mempressure_cfg \<Rightarrow> kmsg_line \<Rightarrow> instant
     \<Rightarrow> mempressure_state \<times> emitter \<Rightarrow> mempressure_state \<times> emitter" where
  "oom_line rx host cfg line now st =
     (case rx_captures rx killed_re (km_text line) of
        None \<Rightarrow> st
      | Some c \<Rightarrow>
          let s1 = emit (oom_kill_builder host c (km_text line)) (snd st);
              storm = pop_old (secs (unat (mp_oom_storm_window_s cfg))) now (ms_storm (fst st) @ [now]);
              m = (fst st)\<lparr>ms_storm := storm\<rparr>
          in if (of_nat (length storm) :: u32) \<ge> mp_oom_storm_count cfg
             then (m, emit (oom_storm_builder host cfg (length storm)) s1)
             else (m, s1))"


section \<open>The module\<close>

datatype mempressure_input =
    MpPsi "string option" instant instant
  | MpLine kmsg_line instant

definition mempressure_step ::
  "regex_lib \<Rightarrow> host_id \<Rightarrow> mempressure_cfg \<Rightarrow> bool \<Rightarrow> mempressure_input
     \<Rightarrow> mempressure_state \<times> emitter \<Rightarrow> mempressure_state \<times> emitter" where
  "mempressure_step rx host cfg psi_exists i st =
     (case i of
        MpPsi content t_first t_now \<Rightarrow>
          if psi_exists then psi_tick host cfg content t_first t_now st else st
      | MpLine line now \<Rightarrow> oom_line rx host cfg line now st)"

definition mempressure_spawn ::
  "regex_lib \<Rightarrow> host_id \<Rightarrow> mempressure_cfg \<Rightarrow> bool \<Rightarrow> mempressure_input list \<Rightarrow> emitter \<Rightarrow> emitter" where
  "mempressure_spawn rx host cfg psi_exists inputs s =
     (if \<not> mp_enabled cfg then s
      else snd (fold (mempressure_step rx host cfg psi_exists) inputs (mempressure_new, s)))"

lemma mempressure_step_emits:
  "acts (clears_op (ho_machine_id host) {MEMORY_PRESSURE} ''psi_high'' Warning) (snd st)
     (snd (mempressure_step rx host cfg ex i st))"
  by (cases i)
     (auto simp: mempressure_step_def psi_tick_def oom_line_def psi_builder_def oom_kill_builder_def
        oom_storm_builder_def Let_def suffix_def intro!: emits_intros split: option.splits)

interpretation mempressure: clearing "mempressure_step rx host cfg ex" "ho_machine_id host" "{MEMORY_PRESSURE}"
    "''psi_high''" Warning
  for rx host cfg ex
  by unfold_locales (simp, rule mempressure_step_emits)


section \<open>Windows\<close>

definition is_kill :: "regex_lib \<Rightarrow> mempressure_input \<Rightarrow> bool" where
  "is_kill rx i \<longleftrightarrow> (case i of MpLine l _ \<Rightarrow> rx_captures rx killed_re (km_text l) \<noteq> None | MpPsi _ _ _ \<Rightarrow> False)"

fun mp_time :: "mempressure_input \<Rightarrow> instant" where
  "mp_time (MpPsi c t0 t) = t0"
| "mp_time (MpLine l t) = t"

lemma storm_step:
  "ms_storm (fst (mempressure_step rx host cfg ex i st)) =
     (if is_kill rx i
      then pop_old (secs (unat (mp_oom_storm_window_s cfg))) (mp_time i) (ms_storm (fst st) @ [mp_time i])
      else ms_storm (fst st))"
  by (cases i) (auto simp: mempressure_step_def psi_tick_def oom_line_def is_kill_def Let_def split: option.splits)

text \<open>A reading breaches when it is at or above the threshold; \<open>breach\<close> is None for a poll that
  could not be read and for a kernel line.\<close>

definition breach :: "mempressure_cfg \<Rightarrow> mempressure_input \<Rightarrow> bool option" where
  "breach cfg i =
     (case i of
        MpPsi c _ _ \<Rightarrow> map_option (fl_le (FFin (mp_psi_some_avg10_warn cfg))) (read_psi c)
      | MpLine _ _ \<Rightarrow> None)"

text \<open>The time at which the run of breaches that lasts until now began; latest input first.\<close>

fun breach_start :: "mempressure_cfg \<Rightarrow> mempressure_input list \<Rightarrow> instant option" where
  "breach_start cfg [] = None"
| "breach_start cfg (i # is) =
     (case breach cfg i of
        None \<Rightarrow> breach_start cfg is
      | Some False \<Rightarrow> None
      | Some True \<Rightarrow> (case breach_start cfg is of Some t \<Rightarrow> Some t | None \<Rightarrow> Some (mp_time i)))"

lemma breach_step:
  assumes "ms_breach_since (fst st) = breach_start cfg is"
  shows "ms_breach_since (fst (mempressure_step rx host cfg True i st)) = breach_start cfg (i # is)"
  using assms
  by (cases i) (auto simp: mempressure_step_def psi_tick_def oom_line_def breach_def Let_def split: option.splits)

lemma breach_run:
  "ms_breach_since (fst (fold (mempressure_step rx host cfg True) is (mempressure_new, s))) = breach_start cfg (rev is)"
proof (induction "is" rule: rev_induct)
  case Nil
  then show ?case by (simp add: mempressure_new_def)
next
  case (snoc i "is")
  from breach_step [OF snoc] show ?case by simp
qed

lemma breach_start_run:
  assumes "\<forall>i \<in> set is. breach cfg i \<noteq> Some False"
  shows "breach_start cfg (is @ js) =
     (case breach_start cfg js of
        Some t \<Rightarrow> Some t
      | None \<Rightarrow> map_option mp_time (find (\<lambda>i. breach cfg i = Some True) (rev is)))"
  using assms
proof (induction "is")
  case (Cons i "is")
  have "find P (xs @ [y]) = (case find P xs of Some x \<Rightarrow> Some x | None \<Rightarrow> if P y then Some y else None)"
    for P :: "mempressure_input \<Rightarrow> bool" and xs y by (induction xs) auto
  with Cons show ?case by (auto split: option.splits)
qed (simp split: option.splits)


section \<open>Properties\<close>

text \<open>C33. Sustained pressure. Take any run of the module in which the last reading below the
  threshold was \<open>below\<close>, followed by inputs (polls at or above the threshold, polls that could not
  be read, kernel lines), and then a poll that reads a pressure at or above the threshold. This
  poll raises the pressure alert exactly when at least \<open>sustain_s\<close> seconds have passed since the
  first breaching reading after \<open>below\<close>, and changes nothing else.\<close>

theorem psi_alert_needs_sustained_breach:
  assumes "breach cfg below = Some False" and "\<forall>i \<in> set later. breach cfg i \<noteq> Some False"
    and "breach cfg (MpPsi (Some c) t_first t_now) = Some True"
  shows "snd (mempressure_step rx host cfg True (MpPsi (Some c) t_first t_now)
             (fold (mempressure_step rx host cfg True) (pre @ below # later) (mempressure_new, s)))
         = (let s1 = snd (fold (mempressure_step rx host cfg True) (pre @ below # later) (mempressure_new, s));
                t0 = (case find (\<lambda>i. breach cfg i = Some True) later of Some i \<Rightarrow> mp_time i | None \<Rightarrow> t_first)
            in if secs (unat (mp_sustain_s cfg)) \<le> t_now - t0
               then emit (psi_builder host cfg (psi_lines (lines c))) s1 else s1)"
proof -
  let ?st = "fold (mempressure_step rx host cfg True) (pre @ below # later) (mempressure_new, s)"
  have "ms_breach_since (fst ?st) = breach_start cfg (rev later @ below # rev pre)"
    using breach_run [of rx host cfg "pre @ below # later" s] by simp
  also have "\<dots> = map_option mp_time (find (\<lambda>i. breach cfg i = Some True) later)"
    using assms(1,2) by (simp add: breach_start_run)
  finally have t0: "ms_breach_since (fst ?st) = map_option mp_time (find (\<lambda>i. breach cfg i = Some True) later)" .
  show ?thesis
    using assms(3)
    by (auto simp: mempressure_step_def psi_tick_def breach_def read_psi_def Let_def t0 option.map_comp
          simp del: fold_append fold_simps split: option.splits)
qed

definition sample_mp_host :: host_id where
  "sample_mp_host = \<lparr>ho_hostname = ''node1'', ho_machine_id = ''4f2a'', ho_primary_ip = []\<rparr>"

definition no_rx :: regex_lib where
  "no_rx = \<lparr>rx_compiles = (\<lambda>_. True), rx_is_match = (\<lambda>_ _. False), rx_captures = (\<lambda>_ _. None)\<rparr>"

abbreviation psi_60 :: "instant \<Rightarrow> mempressure_input" where
  "psi_60 t \<equiv> MpPsi (Some ''some avg10=60.0'') t t"

lemma psi_60_breaches: "breach mempressure_cfg_default (psi_60 t) = Some True"
proof -
  have "parse_float f32 ''60.0'' = Some (FFin 60)"
    using f32_int [of 60]
    by (simp add: parse_float_def parse_decimal_def parse_exponent_def parse_digits_def pow10_def
        is_digit_def to_ascii_lowercase_def ascii_lower_def)
  then show ?thesis
    by (simp add: breach_def read_psi_def std_defs mempressure_cfg_default_def newline_def strip_cr_def
        is_ascii_ws_def wide_ws_def ws_len_def)
qed

theorem psi_alert_needs_sustained_breach_witness:
  "snd (mempressure_step no_rx sample_mp_host mempressure_cfg_default True (psi_60 (secs 40))
       (fold (mempressure_step no_rx sample_mp_host mempressure_cfg_default True)
          ([] @ MpPsi (Some []) 0 0 # [psi_60 (secs 5), MpPsi None (secs 7) (secs 7)])
          (mempressure_new, emitter_new 15 5 (tick_clock 10))))
   = emit (psi_builder sample_mp_host mempressure_cfg_default (psi_lines (lines ''some avg10=60.0'')))
       (snd (fold (mempressure_step no_rx sample_mp_host mempressure_cfg_default True)
          ([] @ MpPsi (Some []) 0 0 # [psi_60 (secs 5), MpPsi None (secs 7) (secs 7)])
          (mempressure_new, emitter_new 15 5 (tick_clock 10))))"
proof -
  have b: "breach mempressure_cfg_default (MpPsi (Some []) 0 0) = Some False"
    by (simp add: breach_def read_psi_def std_defs mempressure_cfg_default_def)
  have n: "breach mempressure_cfg_default (MpPsi None t t') = None" for t t'
    by (simp add: breach_def read_psi_def)
  have u: "unat (mp_sustain_s mempressure_cfg_default) = 30" by (simp add: mempressure_cfg_default_def)
  show ?thesis
    by (subst psi_alert_needs_sustained_breach [OF b _ psi_60_breaches])
       (simp_all add: psi_60_breaches n u Let_def)
qed

text \<open>OOM storms. When a line reports a kill, the storm window then holds exactly the kills of
  the last \<open>oom_storm_window_s\<close> seconds, this one included, whatever polls and other lines came in
  between; the storm alert follows the kill's own alert exactly when their number has reached the
  configured count (compared as 32-bit numbers).\<close>

theorem oom_storm_window:
  assumes "sorted (map mp_time (is @ [MpLine line now]))"
    and "rx_captures rx killed_re (km_text line) = Some c"
  shows "ms_storm (fst (fold (mempressure_step rx host cfg ex) (is @ [MpLine line now]) (mempressure_new, s))) =
      filter (\<lambda>t. now - t \<le> secs (unat (mp_oom_storm_window_s cfg)))
        (map mp_time (filter (is_kill rx) (is @ [MpLine line now])))
    \<and> snd (fold (mempressure_step rx host cfg ex) (is @ [MpLine line now]) (mempressure_new, s)) =
      (let s1 = emit (oom_kill_builder host c (km_text line))
             (snd (fold (mempressure_step rx host cfg ex) is (mempressure_new, s)));
           n = length (filter (\<lambda>t. now - t \<le> secs (unat (mp_oom_storm_window_s cfg)))
             (map mp_time (filter (is_kill rx) (is @ [MpLine line now]))))
       in if mp_oom_storm_count cfg \<le> of_nat n then emit (oom_storm_builder host cfg n) s1 else s1)"
proof -
  let ?i = "MpLine line now"
  let ?st = "fold (mempressure_step rx host cfg ex) is (mempressure_new, s)"
  have kill: "is_kill rx ?i" using assms(2) by (simp add: is_kill_def)
  have w: "ms_storm (fst (fold (mempressure_step rx host cfg ex) (is @ [?i]) (mempressure_new, s))) =
      filter (\<lambda>t. now - t \<le> secs (unat (mp_oom_storm_window_s cfg)))
        (map mp_time (filter (is_kill rx) (is @ [?i])))"
    using popped.recent_run_last [where win = "\<lambda>st. ms_storm (fst st)" and time = mp_time and hit = "is_kill rx"
        and f = "mempressure_step rx host cfg ex" and st = "(mempressure_new, s)", OF storm_step _ assms(1) kill]
    by (simp add: mempressure_new_def)
  have "ms_storm (fst (mempressure_step rx host cfg ex ?i ?st)) =
      pop_old (secs (unat (mp_oom_storm_window_s cfg))) now (ms_storm (fst ?st) @ [now])"
    using kill by (simp add: storm_step)
  with w assms(2) show ?thesis
    by (simp add: mempressure_step_def oom_line_def Let_def del: filter_append map_append)
qed

definition kill_rx :: regex_lib where
  "kill_rx = no_rx\<lparr>rx_captures := (\<lambda>p t. if p = killed_re \<and> contains t ''Killed'' then Some (\<lambda>_. None) else None)\<rparr>"

definition kill_line :: kmsg_line where
  "kill_line = \<lparr>km_level = 4, km_seq = 1, km_ts_us = 0, km_text = ''Killed''\<rparr>"

lemma kill_line_captures: "rx_captures kill_rx killed_re (km_text kill_line) = Some (\<lambda>_. None)"
  by (simp add: kill_rx_def kill_line_def)

theorem oom_storm_window_witness:
  "ms_storm (fst (fold (mempressure_step kill_rx sample_mp_host mempressure_cfg_default True)
      ([MpLine kill_line 0, MpLine kill_line (secs 100)] @ [MpLine kill_line (secs 350)])
      (mempressure_new, emitter_new 15 5 (tick_clock 10)))) = [secs 100, secs 350]"
proof -
  have s: "sorted (map mp_time ([MpLine kill_line 0, MpLine kill_line (secs 100)] @
    [MpLine kill_line (secs 350)]))"
    by simp
  have k: "is_kill kill_rx (MpLine kill_line t)" for t by (simp add: is_kill_def kill_line_captures)
  have "unat (mp_oom_storm_window_s mempressure_cfg_default) = 300" by (simp add: mempressure_cfg_default_def)
  with oom_storm_window [OF s kill_line_captures] show ?thesis by (simp add: k)
qed

end
