(* ===== verification/Agent_Vendor.thy ===== *)
theory Agent_Vendor
  imports Agent_Host
begin

text \<open>
  \<open>agent/src/vendor_detect.rs\<close>: what the agent finds out about the machine at start-up. The file
  system, the search path and the two commands it runs are inputs: \<open>read_file\<close> gives a file's
  content, \<open>is_file\<close> and \<open>path_exists\<close> test a path, \<open>command\<close> is the outcome of a command (None
  when it cannot be started).
\<close>

record vendor_profile =
  vp_info :: vendor_info
  vp_has_smartctl :: bool
  vp_has_nvme_cli :: bool
  vp_has_ipmitool :: bool
  vp_has_ssacli :: bool
  vp_has_perccli :: bool
  vp_has_storcli :: bool
  vp_has_megacli :: bool
  vp_has_nvml :: bool
  vp_has_rocm_smi :: bool
  vp_has_ethtool :: bool

type_synonym file_reader = "string \<Rightarrow> string option"

definition read_trimmed :: "file_reader \<Rightarrow> string \<Rightarrow> string" where
  "read_trimmed read_file path = (case read_file path of Some s \<Rightarrow> trim s | None \<Rightarrow> [])"

definition read_dmi :: "file_reader \<Rightarrow> string \<Rightarrow> string" where
  "read_dmi read_file field = read_trimmed read_file (''/sys/class/dmi/id/'' @ field)"

definition read_kernel :: "file_reader \<Rightarrow> string" where
  "read_kernel read_file = read_trimmed read_file ''/proc/sys/kernel/osrelease''"

definition trim_matches :: "char \<Rightarrow> string \<Rightarrow> string" where
  "trim_matches c s = rev (dropWhile (\<lambda>x. x = c) (rev (dropWhile (\<lambda>x. x = c) s)))"

fun find_prefixed :: "string \<Rightarrow> string list \<Rightarrow> string option" where
  "find_prefixed p [] = None"
| "find_prefixed p (l # ls) = (case strip_prefix l p of Some v \<Rightarrow> Some v | None \<Rightarrow> find_prefixed p ls)"

definition read_os_release :: "file_reader \<Rightarrow> string" where
  "read_os_release read_file =
     (case Option.bind (read_file ''/etc/os-release'') (\<lambda>s. find_prefixed ''PRETTY_NAME='' (lines s)) of
        Some v \<Rightarrow> trim_matches (CHR 0x22) v
      | None \<Rightarrow> [])"

definition bmc_of_text :: "string \<Rightarrow> string option" where
  "bmc_of_text s =
     (if contains s ''hpe'' \<or> contains s ''hewlett'' then Some ''hpe''
      else if contains s ''dell'' then Some ''dell''
      else if contains s ''supermicro'' then Some ''supermicro''
      else if contains s ''lenovo'' then Some ''lenovo''
      else None)"

definition detect_bmc_vendor :: "file_reader \<Rightarrow> (string list \<Rightarrow> cmd_output option) \<Rightarrow> string" where
  "detect_bmc_vendor read_file command =
     (case bmc_of_text (to_lowercase (read_dmi read_file ''sys_vendor'')) of
        Some v \<Rightarrow> v
      | None \<Rightarrow>
          (case command [''ipmitool'', ''mc'', ''info''] of
             None \<Rightarrow> ''unknown''
           | Some out \<Rightarrow>
               if co_success out
               then (case bmc_of_text (to_lowercase (from_utf8_lossy (co_stdout out))) of
                       Some v \<Rightarrow> v | None \<Rightarrow> ''unknown'')
               else ''unknown''))"

definition detect_gpu_vendors :: "(string list \<Rightarrow> cmd_output option) \<Rightarrow> string list" where
  "detect_gpu_vendors command =
     (case command [''lspci'', ''-nn''] of
        None \<Rightarrow> []
      | Some out \<Rightarrow>
          let s = to_lowercase (from_utf8_lossy (co_stdout out))
          in (if contains s ''nvidia'' then [''nvidia''] else []) @
             (if contains s ''amd/ati'' \<or> (contains s ''advanced micro devices'' \<and> contains s ''vga'')
              then [''amd''] else []) @
             (if contains s ''intel'' \<and> (contains s ''vga'' \<or> contains s ''display'') then [''intel''] else []))"

text \<open>\<open>Path::join\<close> of a directory and a plain name.\<close>

definition path_join :: "string \<Rightarrow> string \<Rightarrow> string" where
  "path_join p b = (if p = [] then b else if last p = CHR ''/'' then p @ b else p @ ''/'' @ b)"

definition which :: "string option \<Rightarrow> (string \<Rightarrow> bool) \<Rightarrow> string \<Rightarrow> bool" where
  "which path_var is_file bin =
     (case path_var of
        Some path \<Rightarrow> list_ex (\<lambda>p. is_file (path_join p bin)) (split_on (CHR '':'') path)
      | None \<Rightarrow> False)"

definition vendor_detect ::
  "file_reader \<Rightarrow> string option \<Rightarrow> (string \<Rightarrow> bool) \<Rightarrow> (string \<Rightarrow> bool) \<Rightarrow> (string list \<Rightarrow> cmd_output option)
     \<Rightarrow> vendor_profile" where
  "vendor_detect read_file path_var is_file path_exists command =
     (let has = which path_var is_file
      in \<lparr>vp_info =
            \<lparr>vi_system_manufacturer = read_dmi read_file ''sys_vendor'',
             vi_system_product_name = read_dmi read_file ''product_name'',
             vi_bios_version = read_dmi read_file ''bios_version'',
             vi_bmc_vendor = detect_bmc_vendor read_file command,
             vi_gpu_vendors = detect_gpu_vendors command,
             vi_kernel = read_kernel read_file,
             vi_os_release = read_os_release read_file\<rparr>,
          vp_has_smartctl = has ''smartctl'',
          vp_has_nvme_cli = has ''nvme'',
          vp_has_ipmitool = has ''ipmitool'',
          vp_has_ssacli = has ''ssacli'',
          vp_has_perccli = (has ''perccli64'' \<or> has ''perccli''),
          vp_has_storcli = (has ''storcli64'' \<or> has ''storcli''),
          vp_has_megacli = (has ''megacli'' \<or> has ''MegaCli64''),
          vp_has_nvml = (path_exists ''/usr/lib/x86_64-linux-gnu/libnvidia-ml.so.1''
                         \<or> path_exists ''/usr/lib64/libnvidia-ml.so.1''
                         \<or> path_exists ''/lib/x86_64-linux-gnu/libnvidia-ml.so.1''),
          vp_has_rocm_smi = has ''rocm-smi'',
          vp_has_ethtool = has ''ethtool''\<rparr>)"


text \<open>The test for a BMC device that two modules make when they start.\<close>

definition ipmi_present :: "(string \<Rightarrow> bool) \<Rightarrow> bool" where
  "ipmi_present path_exists \<longleftrightarrow>
     path_exists ''/dev/ipmi0'' \<or> path_exists ''/dev/ipmi/0'' \<or> path_exists ''/dev/ipmidev/0''"


section \<open>Facts\<close>

lemma detect_gpu_vendors_distinct: "distinct (detect_gpu_vendors command)"
  by (simp add: detect_gpu_vendors_def Let_def split: option.splits)

text \<open>The manufacturer's own name decides before any command is run.\<close>

lemma detect_bmc_vendor_dmi:
  "bmc_of_text (to_lowercase (read_dmi read_file ''sys_vendor'')) = Some v \<Longrightarrow>
     detect_bmc_vendor read_file command = v"
  by (simp add: detect_bmc_vendor_def)

lemma which_iff:
  "which (Some path) is_file bin \<longleftrightarrow> (\<exists>p \<in> set (split_on (CHR '':'') path). is_file (path_join p bin))"
  by (simp add: which_def list_ex_iff)

end
