(* ===== verification/Mod_Thermal.thy ===== *)
theory Mod_Thermal
  imports Agent_Detect Agent_Config Agent_Vendor Rust_Float
begin

text \<open>
  \<open>agent/src/modules/thermal.rs\<close>: CPU throttle counters and the inlet temperature the BMC reports.
  A tick's input is the list of counter files (path and content) in the order \<open>glob\<close> gives them,
  the outcome of commands and the clock. \<open>captures_iter\<close>, all matches of a pattern in a text with
  their groups, is added to the regex library. Temperatures and rates are \<open>f32\<close>; the configured
  thresholds are finite.
\<close>

record regex_iter = regex_lib +
  rx_captures_iter :: "string \<Rightarrow> string \<Rightarrow> (nat \<Rightarrow> string option) list"

section \<open>Throttle counters\<close>

text \<open>The name of the directory two levels above a file.\<close>

definition cpu_of_path :: "string \<Rightarrow> string" where
  "cpu_of_path path =
     (case rev (split_on (CHR ''/'') path) of _ # _ # cpu # _ \<Rightarrow> cpu | _ \<Rightarrow> [])"

definition read_throttle_counters :: "(string \<times> string option) list \<Rightarrow> (string \<times> u64) list" where
  "read_throttle_counters files =
     List.map_filter (\<lambda>(path, content).
       map_option (Pair (cpu_of_path path)) (Option.bind content (\<lambda>t. parse_u64 (trim t)))) files"

record thermal_state =
  ts_last_throttle :: "string \<rightharpoonup> u64"
  ts_last_inlet :: "(instant \<times> flt) option"

definition thermal_new :: thermal_state where
  "thermal_new = \<lparr>ts_last_throttle = Map.empty, ts_last_inlet = None\<rparr>"

definition throttle_builder :: "host_id \<Rightarrow> string \<Rightarrow> u64 \<Rightarrow> u64 \<Rightarrow> alert_builder" where
  "throttle_builder host cpu count prev =
     chain (host_builder host THERMAL ''cpu_throttle'' Warning)
       [with_device cpu,
        with_value (show_word (count - prev)),
        with_title ''CPU thermal throttling'',
        with_message (cpu @ '' throttled '' @ show_word (count - prev) @
          '' more time(s) since the last poll (cumulative '' @ show_word count @
          ''). Check airflow and inlet temperature.'')]"

definition check_throttle ::
  "host_id \<Rightarrow> string \<times> u64 \<Rightarrow> thermal_state \<times> emitter \<Rightarrow> thermal_state \<times> emitter" where
  "check_throttle host c st =
     (case c of (cpu, count) \<Rightarrow>
       let prev = (case ts_last_throttle (fst st) cpu of Some p \<Rightarrow> p | None \<Rightarrow> count);
           m = (fst st)\<lparr>ts_last_throttle := (ts_last_throttle (fst st))(cpu \<mapsto> count)\<rparr>
       in if count > prev then (m, emit (throttle_builder host cpu count prev) (snd st)) else (m, snd st))"


section \<open>Inlet temperature\<close>

definition TEMP_DEG_RE :: string where
  "TEMP_DEG_RE = (''(?i)('' @ bsl @ ''d+(?:'' @ bsl @ ''.'' @ bsl @ ''d+)?)'' @ bsl @ ''s*degrees?'' @
    bsl @ ''s*c'' @ bsl @ ''b'')"

definition RE_DIG_INLET_PREFIX :: string where
  "RE_DIG_INLET_PREFIX = (''(?i)^'' @ bsl @ ''s*'' @ bsl @ ''d+-inlet'' @ bsl @ ''b'')"

definition RE_PSU_INLET :: string where
  "RE_PSU_INLET = (''(?i)p'' @ bsl @ ''s*/'' @ bsl @ ''s*s|power'' @ bsl @ ''s+supply|'' @ bsl @ ''bpsu'' @
    bsl @ ''b'')"

definition parse_degrees_columns :: "regex_iter \<Rightarrow> string \<Rightarrow> flt list" where
  "parse_degrees_columns rx line =
     filter (\<lambda>t. fl_le (FFin (-5)) t \<and> fl_less t (FFin 125))
       (List.map_filter (\<lambda>c. parse_float f32 (grp c 1)) (rx_captures_iter rx TEMP_DEG_RE line))"

definition is_psu_inlet_like :: "regex_iter \<Rightarrow> string \<Rightarrow> bool" where
  "is_psu_inlet_like rx n = rx_is_match rx RE_PSU_INLET n"

definition inlet_sensor_priority :: "regex_iter \<Rightarrow> string \<Rightarrow> (int \<times> bool) option" where
  "inlet_sensor_priority rx name =
     (let n = trim (to_lowercase name)
      in if contains n ''ambient'' \<or> contains n ''ambient temp'' \<or> contains n ''ambient temperature''
         then Some (1000, False)
         else if contains n ''room'' \<or> contains n ''air inlet'' then Some (900, False)
         else if (contains n ''inlet temp'' \<or> contains n ''-inlet'' \<or> rx_is_match rx RE_DIG_INLET_PREFIX n)
              \<and> \<not> is_psu_inlet_like rx n then Some (850, False)
         else if contains n ''inlet'' \<and> is_psu_inlet_like rx n then Some (100, True)
         else if contains n ''inlet'' then Some (300, False)
         else None)"

definition inlet_row :: "regex_iter \<Rightarrow> string \<Rightarrow> (int \<times> bool \<times> flt) option" where
  "inlet_row rx raw =
     (let line = trim raw;
          sensor_name = trim (hd (split_on (CHR ''|'') line))
      in case inlet_sensor_priority rx (to_lowercase sensor_name) of
           None \<Rightarrow> None
         | Some (prio, psu_fallback) \<Rightarrow>
             let temps = parse_degrees_columns rx line
             in if temps = [] then None else Some (prio, psu_fallback, last temps))"

fun pick_row :: "bool \<Rightarrow> (int \<times> bool \<times> flt) list \<Rightarrow> flt option" where
  "pick_row has_true_ambient [] = None"
| "pick_row has_true_ambient ((prio, psu_fallback, t) # rows) =
     (if prio \<ge> 850 then Some t
      else if has_true_ambient \<and> psu_fallback then pick_row has_true_ambient rows
      else if prio \<ge> 300 then Some t
      else pick_row has_true_ambient rows)"

definition choose_inlet :: "(int \<times> bool \<times> flt) list \<Rightarrow> flt option" where
  "choose_inlet rows0 =
     (let rows = sort_key (\<lambda>(p, _, _). - p) rows0;
          has_true_ambient = list_ex (\<lambda>(p, _, _). p \<ge> 850) rows
      in case pick_row has_true_ambient rows of
           Some t \<Rightarrow> Some t
         | None \<Rightarrow> (case rows of [] \<Rightarrow> None | (_, _, t) # _ \<Rightarrow> Some t))"

text \<open>Inl: the command could not be run.\<close>

definition read_inlet_temp :: "regex_iter \<Rightarrow> spawn \<Rightarrow> string + flt option" where
  "read_inlet_temp rx spawn =
     (case run spawn ''ipmitool'' [''sdr'', ''type'', ''Temperature''] TIMEOUT_IPMI of
        Inl e \<Rightarrow> Inl e
      | Inr o1 \<Rightarrow>
          if \<not> co_success o1 then Inr None
          else Inr (choose_inlet (List.map_filter (inlet_row rx) (lines (from_utf8_lossy (co_stdout o1))))))"

definition inlet_rate :: "instant \<Rightarrow> flt \<Rightarrow> (instant \<times> flt) option \<Rightarrow> flt" where
  "inlet_rate now t last_inlet =
     (case last_inlet of
        None \<Rightarrow> FFin 0
      | Some (t0, v0) \<Rightarrow>
          fl_mul f32 (fl_div f32 (fl_sub f32 t v0) (fl_max (as_secs_f32 (now - t0)) (FFin 1))) (FFin 60))"

definition inlet_tier :: "thermal_cfg \<Rightarrow> flt \<Rightarrow> (severity \<times> string \<times> string) option" where
  "inlet_tier cfg t =
     (if fl_le (FFin (th_inlet_emergency_c cfg)) t then Some (Critical, ''EMERGENCY'', ''inlet_temp_emergency'')
      else if fl_le (FFin (th_inlet_critical_c cfg)) t then Some (Critical, ''critical'', ''inlet_temp_critical'')
      else if fl_le (FFin (th_inlet_warn_c cfg)) t then Some (Warning, ''warning'', ''inlet_temp_warning'')
      else None)"

definition est_to_shutdown :: "flt \<Rightarrow> flt \<Rightarrow> string" where
  "est_to_shutdown t rate =
     (if fl_less (FFin 0) rate then
        let to = fl_max (fl_mul f32 (fl_div f32 (fl_sub f32 (FFin 42) t) rate) (FFin 60)) (FFin 0)
        in (''ETA to vendor shutdown (~42'' @ degree @ ''C): '' @ fmt_fixed 0 to @ ''s at +'' @
          fmt_fixed 2 rate @ degree @ ''C/min'')
      else ''Stable or cooling.'')"

definition json_flt :: "flt \<Rightarrow> json" where
  "json_flt x = (case x of FFin q \<Rightarrow> JFloat (quotient_of q) | _ \<Rightarrow> JNull)"

definition inlet_builder ::
  "host_id \<Rightarrow> thermal_cfg \<Rightarrow> flt \<Rightarrow> flt \<Rightarrow> severity \<times> string \<times> string \<Rightarrow> alert_builder" where
  "inlet_builder host cfg t rate tier =
     (case tier of (sev, label, metric) \<Rightarrow>
       chain (host_builder host THERMAL metric sev)
         [with_device ''inlet'',
          with_value (fmt_fixed 1 t @ degree @ ''C''),
          with_threshold (''warn='' @ fmt_display f32 (FFin (th_inlet_warn_c cfg)) @ '', crit='' @
            fmt_display f32 (FFin (th_inlet_critical_c cfg)) @ '', emerg='' @
            fmt_display f32 (FFin (th_inlet_emergency_c cfg))),
          with_title (''Inlet temperature '' @ label),
          with_message (''BMC inlet ambient sensor reads '' @ fmt_fixed 1 t @ degree @ ''C. '' @
            est_to_shutdown t rate @
            ''. Consider migrating workloads off this host before the BMC forces an emergency shutdown.''),
          raw_kv ''rate_c_per_min'' (json_flt rate)])"

definition inlet_tick ::
  "regex_iter \<Rightarrow> host_id \<Rightarrow> thermal_cfg \<Rightarrow> spawn \<Rightarrow> instant \<Rightarrow> thermal_state \<times> emitter \<Rightarrow> thermal_state \<times> emitter" where
  "inlet_tick rx host cfg spawn now st =
     (case read_inlet_temp rx spawn of
        Inr (Some t) \<Rightarrow>
          (let rate = inlet_rate now t (ts_last_inlet (fst st));
               m = (fst st)\<lparr>ts_last_inlet := Some (now, t)\<rparr>
           in case inlet_tier cfg t of
                None \<Rightarrow> (m, snd st)
              | Some tier \<Rightarrow> (m, emit (inlet_builder host cfg t rate tier) (snd st)))
      | _ \<Rightarrow> st)"


section \<open>The module\<close>

type_synonym thermal_input = "(string \<times> string option) list \<times> spawn \<times> instant"

definition thermal_tick ::
  "regex_iter \<Rightarrow> host_id \<Rightarrow> thermal_cfg \<Rightarrow> bool \<Rightarrow> thermal_input \<Rightarrow> thermal_state \<times> emitter
     \<Rightarrow> thermal_state \<times> emitter" where
  "thermal_tick rx host cfg ipmi_available i st =
     (case i of (files, spawn, now) \<Rightarrow>
       let st1 = fold (check_throttle host) (read_throttle_counters files) st
       in if ipmi_available then inlet_tick rx host cfg spawn now st1 else st1)"

definition thermal_spawn ::
  "regex_iter \<Rightarrow> host_id \<Rightarrow> thermal_cfg \<Rightarrow> vendor_profile \<Rightarrow> (string \<Rightarrow> bool) \<Rightarrow> thermal_input list
     \<Rightarrow> emitter \<Rightarrow> emitter" where
  "thermal_spawn rx host cfg vendor path_exists ticks s =
     (if \<not> th_enabled cfg then s
      else snd (fold (thermal_tick rx host cfg (vp_has_ipmitool vendor \<and> ipmi_present path_exists)) ticks
                 (thermal_new, s)))"

abbreviation thermal_obs :: "host_id \<Rightarrow> emitter \<Rightarrow> emitter \<Rightarrow> bool" where
  "thermal_obs host \<equiv> observes (from_host (ho_machine_id host) {THERMAL})"

lemma check_throttle_obs:
  "thermal_obs host s0 (snd st) \<Longrightarrow> thermal_obs host s0 (snd (check_throttle host c st))"
  by (auto simp: check_throttle_def throttle_builder_def Let_def intro!: emits_emit split: prod.splits)

lemma inlet_tick_obs:
  "thermal_obs host s0 (snd st) \<Longrightarrow> thermal_obs host s0 (snd (inlet_tick rx host cfg spawn now st))"
  by (auto simp: inlet_tick_def inlet_builder_def Let_def intro!: emits_emit
        split: sum.splits option.splits prod.splits)

lemma thermal_tick_obs: "thermal_obs host (snd st) (snd (thermal_tick rx host cfg a i st))"
proof -
  obtain files spawn now where i: "i = (files, spawn, now)" by (cases i)
  have "thermal_obs host (snd st) (snd (fold (check_throttle host) (read_throttle_counters files) st))"
    by (rule emits_fold_snd) (simp_all add: check_throttle_obs)
  then show ?thesis by (simp add: thermal_tick_def i Let_def inlet_tick_obs)
qed

interpretation thermal: observer "thermal_tick rx host cfg a" "ho_machine_id host" "{THERMAL}" for rx host cfg a
  by unfold_locales (rule thermal_tick_obs)


section \<open>Choice of the sensor row\<close>

lemma hd_sort_key:
  assumes "xs \<noteq> []"
  shows "\<exists>ys. sort_key f xs = hd (filter (\<lambda>x. f x = Min (f ` set xs)) xs) # ys
    \<and> f (hd (filter (\<lambda>x. f x = Min (f ` set xs)) xs)) = Min (f ` set xs)"
proof -
  obtain h ys where h: "sort_key f xs = h # ys"
    using assms by (metis length_0_conv length_sort neq_Nil_conv)
  have srt: "sorted (map f (h # ys))" using sorted_sort_key [of f xs] by (simp add: h)
  have set: "set xs = set (h # ys)" using set_sort [of f xs] h by simp
  have "f h = Min (f ` set xs)"
    unfolding set using srt by (intro Min_eqI [symmetric]) auto
  then have "filter (\<lambda>x. f x = Min (f ` set xs)) xs = h # filter (\<lambda>x. f x = Min (f ` set xs)) ys"
    using sort_key_stable [of f "Min (f ` set xs)" xs] by (simp add: h)
  with h \<open>f h = Min (f ` set xs)\<close> show ?thesis by simp
qed

lemma pick_row_low: "\<forall>(p, b, t) \<in> set rows. p < 300 \<Longrightarrow> pick_row a rows = None"
  by (induction rows) auto

lemma choose_inlet_hd:
  assumes "sort_key (\<lambda>(p, _, _). - p) rows0 = (p, b, t) # rows" and "\<forall>(q, _, _) \<in> set rows. q \<le> p"
  shows "choose_inlet rows0 = Some t"
proof (cases "300 \<le> p")
  case True
  have "list_ex (\<lambda>(p, _, _). 850 \<le> p) ((p, b, t) # rows) \<longleftrightarrow> 850 \<le> p"
    using assms(2) by (auto simp: list_ex_iff)
  with True assms(1) show ?thesis by (simp add: choose_inlet_def Let_def)
next
  case False
  then have "\<forall>(q, _, _) \<in> set ((p, b, t) # rows). q < 300" using assms(2) by force
  from pick_row_low [OF this] assms(1) show ?thesis by (simp add: choose_inlet_def Let_def)
qed

definition best_rows :: "(int \<times> bool \<times> flt) list \<Rightarrow> (int \<times> bool \<times> flt) list" where
  "best_rows rows = filter (\<lambda>r. fst r = Max (fst ` set rows)) rows"

lemma best_rows_nonempty: "rows \<noteq> [] \<Longrightarrow> best_rows rows \<noteq> []"
proof -
  assume "rows \<noteq> []"
  then have "Max (fst ` set rows) \<in> fst ` set rows" by (intro Max_in) auto
  then obtain r where "r \<in> set rows" "fst r = Max (fst ` set rows)" by (metis imageE)
  then show ?thesis by (auto simp: best_rows_def filter_empty_conv)
qed

lemma choose_inlet_best:
  "choose_inlet rows = (case best_rows rows of [] \<Rightarrow> None | (_, _, t) # _ \<Rightarrow> Some t)"
proof (cases "rows = []")
  case True
  then show ?thesis by (simp add: choose_inlet_def best_rows_def)
next
  case False
  let ?f = "\<lambda>r :: int \<times> bool \<times> flt. - fst r"
  have f: "(\<lambda>(p, _, _). - p) = ?f" by auto
  have min: "Min (?f ` set rows) = - Max (fst ` set rows)"
    using False by (simp add: minus_Max_eq_Min image_image)
  obtain ys where ys: "sort_key ?f rows = hd (best_rows rows) # ys"
    and best: "fst (hd (best_rows rows)) = Max (fst ` set rows)"
    using hd_sort_key [OF False, of ?f] by (auto simp: min best_rows_def)
  obtain p b t where h: "hd (best_rows rows) = (p, b, t)" by (cases "hd (best_rows rows)")
  have "set ys \<subseteq> set rows" using set_sort [of ?f rows] ys by auto
  then have "\<forall>(q, _, _) \<in> set ys. q \<le> p" using best h by (force intro!: Max_ge)
  from choose_inlet_hd [OF _ this, of rows b t] ys h have "choose_inlet rows = Some t" by (simp add: f)
  moreover have "best_rows rows \<noteq> []" using False by (rule best_rows_nonempty)
  ultimately show ?thesis using h by (cases "best_rows rows") auto
qed

lemma inlet_row_prio: "inlet_row rx l = Some (p, b, t) \<Longrightarrow> if b then p = 100 else 300 \<le> p"
  by (auto simp: inlet_row_def inlet_sensor_priority_def Let_def split: option.splits if_splits)


section \<open>Properties\<close>

text \<open>C34. Which sensor decides. The selection loop with its special cases amounts to one rule: the
  reading taken is that of the first row, in the order listed, among those of the highest
  priority. So as long as the listing has any usable row that is not a power supply's inlet, the
  reading is never that of a power supply's inlet.\<close>

theorem inlet_choice_is_best_row:
  "choose_inlet rows = (case filter (\<lambda>r. fst r = Max (fst ` set rows)) rows of [] \<Rightarrow> None | (_, _, t) # _ \<Rightarrow> Some t)
   \<and> ((p, False, t) \<in> set (List.map_filter (inlet_row rx) ls) \<longrightarrow>
        (\<exists>q u. choose_inlet (List.map_filter (inlet_row rx) ls) = Some u
           \<and> (q, False, u) \<in> set (List.map_filter (inlet_row rx) ls) \<and> p \<le> q))"
proof -
  let ?rs = "List.map_filter (inlet_row rx) ls"
  have prio: "if b then q = 100 else 300 \<le> q" if "(q, b, u) \<in> set ?rs" for q b u
    using that inlet_row_prio by (fastforce simp: map_filter_def split: option.splits)
  have "\<exists>q u. choose_inlet ?rs = Some u \<and> (q, False, u) \<in> set ?rs \<and> p \<le> q" if m: "(p, False, t) \<in> set ?rs"
  proof -
    have p: "p \<in> fst ` set ?rs" using m by force
    then have mx: "p \<le> Max (fst ` set ?rs)" by (rule Max_ge [rotated]) simp
    have "best_rows ?rs \<noteq> []" using m by (intro best_rows_nonempty) auto
    then obtain q b u where h: "(q, b, u) = hd (best_rows ?rs)" "(q, b, u) \<in> set (best_rows ?rs)"
      by (metis hd_in_set prod_cases3)
    from h(2) have q: "(q, b, u) \<in> set ?rs" "q = Max (fst ` set ?rs)" by (auto simp: best_rows_def)
    with prio [OF q(1)] prio [OF m] mx have "\<not> b" by (auto split: if_splits)
    moreover have "choose_inlet ?rs = Some u"
      using h \<open>best_rows ?rs \<noteq> []\<close> by (cases "best_rows ?rs") (auto simp: choose_inlet_best)
    ultimately show ?thesis using q mx by auto
  qed
  then show ?thesis using choose_inlet_best [of rows] by (auto simp: best_rows_def)
qed

definition sample_iter :: regex_iter where
  "sample_iter = \<lparr>rx_compiles = (\<lambda>_. True), rx_is_match = (\<lambda>_ _. False), rx_captures = (\<lambda>_ _. None),
     rx_captures_iter = (\<lambda>_ _. [[1 \<mapsto> ''23'']])\<rparr>"

lemma sample_inlet_row: "inlet_row sample_iter ''Inlet'' = Some (300, False, FFin 23)"
proof -
  have "parse_float f32 ''23'' = Some (FFin 23)"
    using f32_int [of 23]
    by (simp add: parse_float_def parse_decimal_def parse_exponent_def parse_digits_def pow10_def
        is_digit_def to_ascii_lowercase_def ascii_lower_def)
  then have d: "parse_degrees_columns sample_iter l = [FFin 23]" for l
    by (simp add: parse_degrees_columns_def sample_iter_def grp_def map_filter_simps)
  have "inlet_sensor_priority sample_iter ''inlet'' = Some (300, False)"
    by (simp add: inlet_sensor_priority_def is_psu_inlet_like_def sample_iter_def std_defs ascii_lower_def
        is_ascii_ws_def wide_ws_def ws_len_def)
  moreover have "to_lowercase (trim (hd (split_on (CHR ''|'') (trim ''Inlet'')))) = ''inlet''"
    by (simp add: std_defs ascii_lower_def is_ascii_ws_def wide_ws_def ws_len_def char_of_def bit_0)
  ultimately show ?thesis by (simp add: inlet_row_def Let_def d)
qed

theorem inlet_choice_is_best_row_witness:
  "\<exists>q u. choose_inlet (List.map_filter (inlet_row sample_iter) [''Inlet'']) = Some u
     \<and> (q, False, u) \<in> set (List.map_filter (inlet_row sample_iter) [''Inlet'']) \<and> 300 \<le> q"
  using inlet_choice_is_best_row [of "[]" 300 "FFin 23" sample_iter "[''Inlet'']"]
  by (simp add: map_filter_simps sample_inlet_row)

end
