(* ===== verification/Mod_Storage_Controller.thy ===== *)
theory Mod_Storage_Controller
  imports Agent_Detect Agent_Config Agent_Vendor
begin

text \<open>
  \<open>agent/src/modules/storage_controller.rs\<close>: storage controllers, by kernel messages and by polling
  the vendors' tools. A table of controllers is an association list by slot, without repeated
  slots; \<open>walk\<close> is the order in which a hash map is enumerated, which the standard library leaves
  open (it has to list the same entries).
\<close>

record controller_view =
  cv_slot :: string
  cv_model :: string
  cv_status :: string
  cv_pci_bdf :: string
  cv_attached_disks :: "string list"

type_synonym controllers = "(string \<times> controller_view) list"

definition lockup_re :: string where
  "lockup_re = (''(?i)(hpsa|smartpqi).*(controller'' @ bsl @ ''s+(lockup'' @ bsl @ ''s+detected|(?:is'' @
    bsl @ ''s+)?offline)|no'' @ bsl @ ''s+controller'' @ bsl @ ''s+heartbeat|hard'' @ bsl @
    ''s+reset|fatal'' @ bsl @ ''s+error|reason'' @ bsl @ ''s+code'' @ bsl @ ''s+0x)'')"

text \<open>A line that only matches the pattern for resets is logged and nothing else.\<close>

definition sc_line :: "regex_lib \<Rightarrow> host_id \<Rightarrow> kmsg_line \<Rightarrow> emitter \<Rightarrow> emitter" where
  "sc_line rx host line s =
     (if rx_is_match rx lockup_re (km_text line) then
        emit (chain (host_builder host STORAGE_CONTROLLER ''controller_lockup_kmsg'' Critical)
          [with_title ''Storage controller lockup (kernel)'',
           with_message (''Kernel logged a SmartArray controller lockup: '' @ quote @ km_text line @
             quote @ ''. Disks behind this controller will be unreachable; Ceph OSDs on those disks will go down. Issue a hot-reset (`echo 1 > /sys/class/scsi_host/hostX/eh_deadline`) or schedule a power cycle.''),
           raw_kv ''kmsg'' (JStr (km_text line))]) s
      else s)"


section \<open>Enumeration\<close>

definition slot_re :: string where
  "slot_re = (''in Slot (['' @ bsl @ ''dA-Za-z'' @ bsl @ ''-]+)'')"

definition model_re :: string where
  "model_re = (''^(.*?)'' @ bsl @ ''s+in Slot'')"

definition count_re :: string where
  "count_re = (''Controller Count'' @ bsl @ ''s*='' @ bsl @ ''s*('' @ bsl @ ''d+)'')"

definition view_of :: "string \<Rightarrow> string \<Rightarrow> string \<Rightarrow> controller_view" where
  "view_of slot model status =
     \<lparr>cv_slot = slot, cv_model = model, cv_status = status, cv_pci_bdf = [], cv_attached_disks = []\<rparr>"

record hpe_parse =
  hp_out :: controllers
  hp_slot :: "string option"
  hp_model :: string
  hp_status :: string

text \<open>The controller read so far goes into the table; its texts are taken over.\<close>

definition hpe_flush :: "hpe_parse \<Rightarrow> hpe_parse" where
  "hpe_flush p =
     (case hp_slot p of
        None \<Rightarrow> p
      | Some slot \<Rightarrow>
          \<lparr>hp_out = AList.update slot (view_of slot (hp_model p) (hp_status p)) (hp_out p),
           hp_slot = None, hp_model = [], hp_status = []\<rparr>)"

definition hpe_line :: "regex_lib \<Rightarrow> string \<Rightarrow> hpe_parse \<Rightarrow> hpe_parse" where
  "hpe_line rx raw p =
     (let line = trim raw
      in if line = [] then p
         else if contains line ''in Slot'' then
           let p1 = hpe_flush p;
               p2 = (case rx_captures rx slot_re line of Some c \<Rightarrow> p1\<lparr>hp_slot := Some (grp c 1)\<rparr> | None \<Rightarrow> p1)
           in (case rx_captures rx model_re line of Some c \<Rightarrow> p2\<lparr>hp_model := grp c 1\<rparr> | None \<Rightarrow> p2)
         else (case strip_prefix line ''Controller Status:'' of
                 Some rest \<Rightarrow> p\<lparr>hp_status := trim rest\<rparr>
               | None \<Rightarrow> p))"

definition parse_hpe :: "regex_lib \<Rightarrow> string \<Rightarrow> controllers" where
  "parse_hpe rx s =
     hp_out (hpe_flush (fold (hpe_line rx) (lines s) \<lparr>hp_out = [], hp_slot = None, hp_model = [], hp_status = []\<rparr>))"

text \<open>None: the error that makes the caller leave the table out.\<close>

definition enumerate_hpe :: "regex_lib \<Rightarrow> spawn \<Rightarrow> controllers option" where
  "enumerate_hpe rx spawn =
     (case run spawn ''ssacli'' [''ctrl'', ''all'', ''show'', ''status''] TIMEOUT_STORAGE of
        Inl _ \<Rightarrow> None
      | Inr o1 \<Rightarrow>
          if \<not> co_success o1 then Some [] else Some (parse_hpe rx (from_utf8_lossy (co_stdout o1))))"

definition perccli_one :: "spawn \<Rightarrow> nat \<Rightarrow> controllers option \<Rightarrow> controllers option" where
  "perccli_one spawn i acc =
     (case acc of
        None \<Rightarrow> None
      | Some out \<Rightarrow>
          (case run spawn ''perccli64'' [(''/c'' @ show_nat i), ''show'', ''all''] TIMEOUT_STORAGE of
             Inl _ \<Rightarrow> None
           | Inr oo \<Rightarrow>
               if \<not> co_success oo then Some out
               else
                 let body = lines (from_utf8_lossy (co_stdout oo));
                     model = (case find_prefixed ''Product Name = '' body of Some v \<Rightarrow> v | None \<Rightarrow> ''PERC'');
                     status = (case find_prefixed ''Controller Status = '' body of Some v \<Rightarrow> v | None \<Rightarrow> ''Unknown'')
                 in Some (AList.update (show_nat i) (view_of (show_nat i) model status) out)))"

definition enumerate_perccli :: "regex_lib \<Rightarrow> spawn \<Rightarrow> controllers option" where
  "enumerate_perccli rx spawn =
     (case run spawn ''perccli64'' [''show'', ''ctrlcount''] TIMEOUT_STORAGE of
        Inl _ \<Rightarrow> Some []
      | Inr o1 \<Rightarrow>
          if \<not> co_success o1 then Some []
          else
            let count = (case Option.bind (rx_captures rx count_re (from_utf8_lossy (co_stdout o1)))
                                (\<lambda>c. parse_uint 10 64 (grp c 1)) of Some n \<Rightarrow> n | None \<Rightarrow> 0)
            in fold (perccli_one spawn) [0..<count] (Some []))"

definition enumerate_storcli :: "regex_lib \<Rightarrow> spawn \<Rightarrow> controllers option" where
  "enumerate_storcli rx spawn = enumerate_perccli rx spawn"

definition extend_ok :: "controllers option \<Rightarrow> controllers \<Rightarrow> controllers" where
  "extend_ok m out = (case m of Some xs \<Rightarrow> fold (\<lambda>(k, v). AList.update k v) xs out | None \<Rightarrow> out)"

definition sc_enumerate :: "regex_lib \<Rightarrow> vendor_profile \<Rightarrow> spawn \<Rightarrow> controllers" where
  "sc_enumerate rx vendor spawn =
     (let out1 = (if vp_has_ssacli vendor then extend_ok (enumerate_hpe rx spawn) [] else []);
          out2 = (if vp_has_perccli vendor then extend_ok (enumerate_perccli rx spawn) out1 else out1)
      in if vp_has_storcli vendor \<and> out2 = [] then extend_ok (enumerate_storcli rx spawn) out2 else out2)"


section \<open>Polling\<close>

definition sc_lockup_builder :: "host_id \<Rightarrow> string \<times> controller_view \<Rightarrow> alert_builder" where
  "sc_lockup_builder host c =
     (case c of (slot, prev_view) \<Rightarrow>
       let disks = (if cv_attached_disks prev_view = [] then ''unknown'' else join '', '' (cv_attached_disks prev_view))
       in chain (host_builder host STORAGE_CONTROLLER ''controller_lockup'' Critical)
            [with_device (''slot='' @ slot),
             with_device_model (cv_model prev_view),
             with_title ''Storage controller no longer enumerable'',
             with_message (''Controller in slot '' @ slot @ '' ('' @ cv_model prev_view @
               '') disappeared from enumeration. Disks lost: '' @ disks @
               ''. This typically means the controller is wedged. Disks will return only after a controller reset or power cycle.''),
             raw_kv ''slot'' (JStr slot),
             raw_kv ''attached_disks'' (JArr (map JStr (cv_attached_disks prev_view))),
             raw_kv ''pci_bdf'' (JStr (cv_pci_bdf prev_view))])"

definition sc_status_ok :: "controller_view \<Rightarrow> bool" where
  "sc_status_ok ctrl \<longleftrightarrow> eq_ignore_ascii_case (cv_status ctrl) ''ok'' \<or> cv_status ctrl = []"

definition sc_status_builder :: "host_id \<Rightarrow> string \<times> controller_view \<Rightarrow> alert_builder" where
  "sc_status_builder host c =
     (case c of (slot, ctrl) \<Rightarrow>
       chain (host_builder host STORAGE_CONTROLLER ''controller_status'' Critical)
         [with_device (''slot='' @ slot),
          with_device_model (cv_model ctrl),
          with_value (cv_status ctrl),
          with_threshold ''OK'',
          with_title ''Storage controller reporting unhealthy status'',
          with_message (''Controller in slot '' @ slot @ '' ('' @ cv_model ctrl @ '') status = '' @
            [CHR 0x27] @ cv_status ctrl @ [CHR 0x27] @
            ''. Inspect `ssacli ctrl all show config` (HPE) or `perccli64 /c0 show all` (Dell) for details.'')])"

definition sc_poll ::
  "host_id \<Rightarrow> (controllers \<Rightarrow> controllers) \<Rightarrow> controllers \<Rightarrow> controllers \<times> emitter \<Rightarrow> controllers \<times> emitter" where
  "sc_poll host walk view st =
     (if view = [] then st
      else
        let gone = filter (\<lambda>(slot, _). slot \<notin> fst ` set view) (walk (fst st));
            s1 = fold (\<lambda>c. emit (sc_lockup_builder host c)) gone (snd st);
            bad = filter (\<lambda>(_, ctrl). \<not> sc_status_ok ctrl) (walk view)
        in (view, fold (\<lambda>c. emit (sc_status_builder host c)) bad s1))"

datatype sc_input = ScLine kmsg_line | ScPoll spawn

definition sc_step ::
  "regex_lib \<Rightarrow> host_id \<Rightarrow> vendor_profile \<Rightarrow> (controllers \<Rightarrow> controllers) \<Rightarrow> sc_input
     \<Rightarrow> controllers \<times> emitter \<Rightarrow> controllers \<times> emitter" where
  "sc_step rx host vendor walk i st =
     (case i of
        ScLine line \<Rightarrow> (fst st, sc_line rx host line (snd st))
      | ScPoll spawn \<Rightarrow> sc_poll host walk (sc_enumerate rx vendor spawn) st)"

definition storage_controller_spawn ::
  "regex_lib \<Rightarrow> host_id \<Rightarrow> storage_controller_cfg \<Rightarrow> vendor_profile \<Rightarrow> (controllers \<Rightarrow> controllers)
     \<Rightarrow> sc_input list \<Rightarrow> emitter \<Rightarrow> emitter" where
  "storage_controller_spawn rx host cfg vendor walk inputs s =
     (if \<not> sc_enabled cfg then s else snd (fold (sc_step rx host vendor walk) inputs ([], s)))"

lemma sc_step_observes:
  "observes (from_host (ho_machine_id host) {STORAGE_CONTROLLER}) (snd st) (snd (sc_step rx host vendor walk i st))"
  by (cases i)
     (auto simp: sc_step_def sc_line_def sc_poll_def sc_lockup_builder_def sc_status_builder_def Let_def
        intro!: emits_fold emits_emit split: prod.splits)

interpretation storage_controller: observer "sc_step rx host vendor walk" "ho_machine_id host" "{STORAGE_CONTROLLER}"
  for rx host vendor walk
  by unfold_locales (rule sc_step_observes)

lemma sc_lockup_fp:
  "fingerprint (sc_lockup_builder host (slot, v)) = (ho_machine_id host @ ''|'' @ STORAGE_CONTROLLER @
    ''|slot='' @ slot @ ''|controller_lockup'')"
  by (simp add: sc_lockup_builder_def Let_def fingerprint_def fingerprint_of_def)


section \<open>Properties\<close>

text \<open>A controller that disappears is reported, also after polls that found nothing at all: if a
  poll lists it, any number of empty polls follow, and then a poll lists other controllers but
  not this one, the lockup condition of its slot is open afterwards. But a machine whose polls
  come back empty, as when its only controller is wedged, reports nothing, however long it lasts:
  an empty poll changes neither the table nor the tracker.\<close>

theorem sc_disappearance_reported:
  assumes "\<And>xs. set (walk xs) = set xs"
    and "(slot, ctrl) \<in> set view1" and "view2 \<noteq> []" and "slot \<notin> fst ` set view2"
  shows "tr_inner (em_tracker (snd (fold (sc_poll host walk) (view1 # replicate n [] @ [view2]) st)))
           (ho_machine_id host @ ''|'' @ STORAGE_CONTROLLER @ ''|slot='' @ slot @
             ''|controller_lockup'') \<noteq> None
    \<and> fold (sc_poll host walk) (replicate n []) st = st"
proof -
  have empty: "fold (sc_poll host walk) (replicate n []) st = st" for st
    by (induction n) (simp_all add: sc_poll_def)
  let ?st = "sc_poll host walk view1 st"
  have last: "fst ?st = view1" using assms(2) by (auto simp: sc_poll_def Let_def)
  let ?gone = "filter (\<lambda>(slot, _). slot \<notin> fst ` set view2) (walk (fst ?st))"
  have "(slot, ctrl) \<in> set ?gone" using assms(1,2,4) by (simp add: last)
  from fold_emit_opens [OF this, of "sc_lockup_builder host" "snd ?st"]
  have "tr_inner (em_tracker (fold (\<lambda>c. emit (sc_lockup_builder host c)) ?gone (snd ?st)))
      (ho_machine_id host @ ''|'' @ STORAGE_CONTROLLER @ ''|slot='' @ slot @
        ''|controller_lockup'') \<noteq> None"
    by (simp add: sc_lockup_fp)
  from fold_emit_keeps_entry [OF this, of "sc_status_builder host"] assms(3) empty
  show ?thesis by (simp add: sc_poll_def [of host walk view2] Let_def)
qed

theorem sc_disappearance_reported_witness:
  "tr_inner (em_tracker (snd (fold (sc_poll \<lparr>ho_hostname = ''node1'', ho_machine_id = ''4f2a'', ho_primary_ip = []\<rparr> id)
       ([(''0'', view_of ''0'' ''P408i'' ''OK''), (''3'', view_of ''3'' ''P408i'' ''OK'')] # replicate 2 []
          @ [[(''0'', view_of ''0'' ''P408i'' ''OK'')]])
       ([], emitter_new 15 5 (tick_clock 10)))))
     (''4f2a'' @ ''|'' @ STORAGE_CONTROLLER @ ''|slot='' @ ''3'' @ ''|controller_lockup'') \<noteq> None"
  using sc_disappearance_reported [of id "''3''" "view_of ''3'' ''P408i'' ''OK''"
      "[(''0'', view_of ''0'' ''P408i'' ''OK''), (''3'', view_of ''3'' ''P408i'' ''OK'')]"
      "[(''0'', view_of ''0'' ''P408i'' ''OK'')]"
      "\<lparr>ho_hostname = ''node1'', ho_machine_id = ''4f2a'', ho_primary_ip = []\<rparr>" 2
      "([], emitter_new 15 5 (tick_clock 10))"]
  by simp

end
