(* ===== verification/Mod_Memory_Ecc.thy ===== *)
theory Mod_Memory_Ecc
  imports Agent_Detect Agent_Config Agent_Vendor Rust_Float
begin

text \<open>
  \<open>agent/src/modules/memory_ecc.rs\<close>: memory error counters from the BMC (\<open>ipmitool sdr type Memory\<close>)
  and from the EDAC directory. Sensor names are ASCII, as IPMI prescribes. \<open>walk\<close> is the order in
  which a hash map is enumerated. Both paths keep the last counts of each sensor; rates are \<open>f64\<close>.
\<close>

section \<open>Reading the sensors\<close>

text \<open>The number a sensor shows; text that is none of the accepted forms counts as zero.\<close>

definition sensor_value :: "string \<Rightarrow> u64" where
  "sensor_value value_str =
     (case parse_u64 value_str of
        Some v \<Rightarrow> v
      | None \<Rightarrow>
          (case parse_u64 (trim_end_char (CHR ''h'') value_str) of
             Some v \<Rightarrow> v
           | None \<Rightarrow>
               (case parse_uint 16 64 (trim_start_matches ''0x'' value_str) of
                  Some n \<Rightarrow> of_nat n
                | None \<Rightarrow> 0)))"

record sdr_parse =
  sd_ce :: "(string \<times> u64) list"
  sd_ue :: "(string \<times> u64) list"
  sd_standalone :: "(string \<times> u64 \<times> u64) list"

definition sdr_line :: "string \<Rightarrow> sdr_parse \<Rightarrow> sdr_parse" where
  "sdr_line raw p =
     (let line = trim raw
      in if line = [] \<or> starts_with line ''#'' then p
         else
           let fields = map trim (splitn_on 5 (CHR ''|'') line)
           in if length fields < 3 then p
              else
                let name = fields ! 0;
                    value = sensor_value (fields ! 1);
                    status = to_lowercase (fields ! 2);
                    name_lower = to_lowercase name
                in if contains status ''ns'' \<or> contains status ''na'' \<or> contains status ''disabled'' then p
                   else if contains name_lower ''ue'' \<or> contains name_lower ''uncorrect''
                   then p\<lparr>sd_ue := AList.update name value (sd_ue p)\<rparr>
                   else if contains name_lower ''ce'' \<or> contains name_lower ''correct''
                   then p\<lparr>sd_ce := AList.update name value (sd_ce p)\<rparr>
                   else if (contains name_lower ''ecc'' \<or> contains name_lower ''error'') \<and> value > 0
                   then p\<lparr>sd_standalone := sd_standalone p @ [(name, value, 0)]\<rparr>
                   else p)"

definition ce_prefix :: "string \<Rightarrow> string" where
  "ce_prefix name =
     trim (replace (replace (replace (replace (to_lowercase name) ''ce count'' []) ''ce_count'' [])
             '' correctable'' []) ''_correctable'' [])"

definition ue_prefix :: "string \<Rightarrow> string" where
  "ue_prefix name =
     trim (replace (replace (replace (replace (to_lowercase name) ''ue count'' []) ''ue_count'' [])
             '' uncorrectable'' []) ''_uncorrectable'' [])"

type_synonym walk_order = "(string \<times> u64) list \<Rightarrow> (string \<times> u64) list"

definition pair_ce :: "walk_order \<Rightarrow> (string \<times> u64) list \<Rightarrow> string \<times> u64 \<Rightarrow> string \<times> u64 \<times> u64" where
  "pair_ce walk ue_sensors c =
     (fst c, snd c,
      (case find (\<lambda>(k, _). contains (to_lowercase k) (ce_prefix (fst c))) (walk ue_sensors) of
         Some (_, v) \<Rightarrow> v | None \<Rightarrow> 0))"

definition parse_ipmi_sdr_output :: "walk_order \<Rightarrow> string \<Rightarrow> (string \<times> u64 \<times> u64) list" where
  "parse_ipmi_sdr_output walk text =
     (let p = fold sdr_line (lines text) \<lparr>sd_ce = [], sd_ue = [], sd_standalone = []\<rparr>;
          paired = map (pair_ce walk (sd_ue p)) (walk (sd_ce p));
          unpaired = filter (\<lambda>(ue_name, _).
              \<not> list_ex (\<lambda>(k, _). contains (to_lowercase k) (ue_prefix ue_name)) (walk (sd_ce p))) (walk (sd_ue p))
      in sd_standalone p @ paired @ map (\<lambda>(ue_name, ue_val). (ue_name, 0, ue_val)) unpaired)"

definition read_ipmi_sdr_memory :: "walk_order \<Rightarrow> cmd_output option \<Rightarrow> (string \<times> u64 \<times> u64) list" where
  "read_ipmi_sdr_memory walk out =
     (case out of
        Some o1 \<Rightarrow> if co_success o1 then parse_ipmi_sdr_output walk (from_utf8_lossy (co_stdout o1)) else []
      | None \<Rightarrow> [])"

text \<open>The entries of the EDAC directory: name and content of the two counter files.\<close>

definition edac_count :: "string option \<Rightarrow> u64" where
  "edac_count content = (case Option.bind content (\<lambda>s. parse_u64 (trim s)) of Some n \<Rightarrow> n | None \<Rightarrow> 0)"

definition read_edac_sysfs :: "(string \<times> string option \<times> string option) list option \<Rightarrow> (string \<times> u64 \<times> u64) list" where
  "read_edac_sysfs dir =
     (case dir of
        None \<Rightarrow> []
      | Some es \<Rightarrow> map (\<lambda>(n, ce, ue). (n, edac_count ce, edac_count ue))
                    (filter (\<lambda>(n, _, _). starts_with n ''mc'') es))"


section \<open>Alerts\<close>

definition ue_ipmi_builder :: "host_id \<Rightarrow> string \<Rightarrow> u64 \<Rightarrow> alert_builder" where
  "ue_ipmi_builder host name new_ue =
     chain (host_builder host MEMORY_ECC ''uncorrectable_ecc_ipmi'' Critical)
       [with_device name,
        with_value (show_word new_ue),
        with_threshold ''0'',
        with_title ''Memory uncorrectable ECC error (IPMI)'',
        with_message (''BMC sensor '' @ [CHR 0x27] @ name @ [CHR 0x27] @ '' reports '' @ show_word new_ue @
          '' new uncorrectable ECC error(s). This typically causes a host reboot or panic. Identify and replace the affected DIMM. Check iLO/iDRAC IML/SEL for DIMM slot details.'')]"

definition ce_ipmi_builder :: "host_id \<Rightarrow> memory_ecc_cfg \<Rightarrow> string \<Rightarrow> u64 \<Rightarrow> alert_builder" where
  "ce_ipmi_builder host cfg name new_ce =
     chain (host_builder host MEMORY_ECC ''ce_rate_high_ipmi'' Warning)
       [with_device name,
        with_value (show_word new_ce @ '' new''),
        with_threshold (show_word (me_ce_per_hour_warn cfg) @ ''/hr threshold''),
        with_title ''Correctable ECC rate elevated (IPMI)'',
        with_message (''BMC sensor '' @ [CHR 0x27] @ name @ [CHR 0x27] @ '' logged '' @ show_word new_ce @
          '' new correctable ECC error(s) in the last '' @ show_word (me_poll_s cfg) @
          '' seconds. Elevated CE rate is a leading indicator of a failing DIMM. Monitor and plan replacement during next maintenance window.'')]"

definition rate_per_hr :: "memory_ecc_cfg \<Rightarrow> u64 \<Rightarrow> flt" where
  "rate_per_hr cfg new_ce =
     fl_div f64 (fl_of_word f64 new_ce) (fl_div f64 (fl_of_word f64 (max (me_poll_s cfg) 1)) (FFin 3600))"

definition ce_ipmi_high :: "memory_ecc_cfg \<Rightarrow> u64 \<Rightarrow> bool" where
  "ce_ipmi_high cfg new_ce \<longleftrightarrow>
     new_ce \<ge> max (me_ce_per_hour_warn cfg div 12) 1
     \<or> fl_as_u64 (rate_per_hr cfg new_ce) \<ge> me_ce_per_hour_warn cfg"

type_synonym ecc_counts = "string \<rightharpoonup> u64 \<times> u64"

definition ipmi_sensor ::
  "host_id \<Rightarrow> memory_ecc_cfg \<Rightarrow> string \<times> u64 \<times> u64 \<Rightarrow> ecc_counts \<times> emitter \<Rightarrow> ecc_counts \<times> emitter" where
  "ipmi_sensor host cfg r st =
     (case r of (name, ce, ue) \<Rightarrow>
       let prev = (case fst st name of Some p \<Rightarrow> p | None \<Rightarrow> (ce, ue));
           new_ce = saturating_sub ce (fst prev);
           new_ue = saturating_sub ue (snd prev);
           s1 = (if new_ue > 0 then emit (ue_ipmi_builder host name new_ue) (snd st) else snd st);
           s2 = (if new_ce > 0 \<and> ce_ipmi_high cfg new_ce then emit (ce_ipmi_builder host cfg name new_ce) s1 else s1)
       in ((fst st)(name \<mapsto> (ce, ue)), s2))"

definition ue_edac_builder :: "host_id \<Rightarrow> string \<Rightarrow> u64 \<Rightarrow> alert_builder" where
  "ue_edac_builder host mc due =
     chain (host_builder host MEMORY_ECC ''uncorrectable_ecc'' Critical)
       [with_device mc,
        with_value (show_word due),
        with_threshold ''0'',
        with_title ''Memory uncorrectable ECC error (EDAC)'',
        with_message (''EDAC reports '' @ show_word due @ '' new uncorrectable ECC error(s) on '' @ mc @
          ''. This usually causes the host to reboot. Replace the affected DIMM.'')]"

definition ce_edac_builder :: "host_id \<Rightarrow> memory_ecc_cfg \<Rightarrow> string \<Rightarrow> flt \<Rightarrow> alert_builder" where
  "ce_edac_builder host cfg mc per_hour =
     chain (host_builder host MEMORY_ECC ''ce_rate_high'' Warning)
       [with_device mc,
        with_value (fmt_fixed 0 per_hour @ ''/hr''),
        with_threshold (show_word (me_ce_per_hour_warn cfg) @ ''/hr''),
        with_title ''Correctable ECC rate elevated (EDAC)'',
        with_message (mc @ '' is logging correctable ECC at ~'' @ fmt_fixed 0 per_hour @ ''/hr '' @
          em_dash @ '' a leading indicator that this DIMM is failing.'')]"

definition edac_per_hour :: "memory_ecc_cfg \<Rightarrow> u64 \<Rightarrow> flt" where
  "edac_per_hour cfg dce =
     fl_mul f64 (fl_div f64 (fl_of_word f64 dce) (fl_of_word f64 (max (me_poll_s cfg) 1))) (FFin 3600)"

definition edac_controller ::
  "host_id \<Rightarrow> memory_ecc_cfg \<Rightarrow> string \<times> u64 \<times> u64 \<Rightarrow> ecc_counts \<times> emitter \<Rightarrow> ecc_counts \<times> emitter" where
  "edac_controller host cfg r st =
     (case r of (mc, ce, ue) \<Rightarrow>
       let prev = (case fst st mc of Some p \<Rightarrow> p | None \<Rightarrow> (ce, ue));
           dce = saturating_sub ce (fst prev);
           due = saturating_sub ue (snd prev);
           s1 = (if due > 0 then emit (ue_edac_builder host mc due) (snd st) else snd st);
           per_hour = edac_per_hour cfg dce;
           s2 = (if dce > 0 \<and> fl_as_u64 per_hour \<ge> me_ce_per_hour_warn cfg
                 then emit (ce_edac_builder host cfg mc per_hour) s1 else s1)
       in ((fst st)(mc \<mapsto> (ce, ue)), s2))"


section \<open>The module\<close>

datatype ecc_input =
    EccIpmi "cmd_output option"
  | EccEdac "(string \<times> string option \<times> string option) list option"

text \<open>The counts of the two paths are separate; \<open>ipmi_on\<close> and \<open>edac_on\<close> say which tasks run.\<close>

definition ecc_step ::
  "host_id \<Rightarrow> memory_ecc_cfg \<Rightarrow> walk_order \<Rightarrow> bool \<Rightarrow> bool \<Rightarrow> ecc_input
     \<Rightarrow> (ecc_counts \<times> ecc_counts) \<times> emitter \<Rightarrow> (ecc_counts \<times> ecc_counts) \<times> emitter" where
  "ecc_step host cfg walk ipmi_on edac_on i st =
     (case st of ((mi, me), s) \<Rightarrow>
       (case i of
          EccIpmi out \<Rightarrow>
            if ipmi_on
            then (case fold (ipmi_sensor host cfg) (read_ipmi_sdr_memory walk out) (mi, s) of
                    (m, s') \<Rightarrow> ((m, me), s'))
            else st
        | EccEdac dir \<Rightarrow>
            if edac_on
            then (case fold (edac_controller host cfg) (read_edac_sysfs dir) (me, s) of
                    (m, s') \<Rightarrow> ((mi, m), s'))
            else st))"

text \<open>Whether the loop over the BMC's sensors starts at all, and the seconds between its polls and
  between those of the other loop.\<close>

definition ipmi_sdr_starts :: "(string \<Rightarrow> bool) \<Rightarrow> bool \<Rightarrow> bool" where
  "ipmi_sdr_starts path_exists which_ipmitool = (ipmi_present path_exists \<and> which_ipmitool)"

definition ipmi_sdr_period_s :: "memory_ecc_cfg \<Rightarrow> u64" where
  "ipmi_sdr_period_s cfg = max (me_poll_s cfg) 30"

definition edac_period_s :: "memory_ecc_cfg \<Rightarrow> u64" where
  "edac_period_s cfg = max (me_poll_s cfg) 2"

text \<open>The rate of correctable errors is computed as if a poll lasted \<open>poll_s\<close>, which is shorter than the
  period of the loop below thirty seconds.\<close>

lemma ipmi_period_differs: "me_poll_s cfg < 30 \<Longrightarrow> max (me_poll_s cfg) 1 < ipmi_sdr_period_s cfg"
  by (auto simp: ipmi_sdr_period_s_def max_def)

definition memory_ecc_spawn ::
  "host_id \<Rightarrow> memory_ecc_cfg \<Rightarrow> walk_order \<Rightarrow> (string \<Rightarrow> bool) \<Rightarrow> bool \<Rightarrow> ecc_input list \<Rightarrow> emitter \<Rightarrow> emitter" where
  "memory_ecc_spawn host cfg walk path_exists which_ipmitool inputs s =
     (if \<not> me_enabled cfg then s
      else snd (fold (ecc_step host cfg walk
             (me_ipmi_sdr_enable cfg \<and> ipmi_sdr_starts path_exists which_ipmitool)
             (me_edac_sysfs_enable cfg)) inputs ((Map.empty, Map.empty), s)))"

abbreviation ecc_obs :: "host_id \<Rightarrow> emitter \<Rightarrow> emitter \<Rightarrow> bool" where
  "ecc_obs host \<equiv> observes (from_host (ho_machine_id host) {MEMORY_ECC})"

lemma ecc_sensor_obs:
  "ecc_obs host s0 (snd st) \<Longrightarrow> ecc_obs host s0 (snd (ipmi_sensor host cfg r st))"
  "ecc_obs host s0 (snd st) \<Longrightarrow> ecc_obs host s0 (snd (edac_controller host cfg r st))"
  by (auto simp: ipmi_sensor_def edac_controller_def ue_ipmi_builder_def ce_ipmi_builder_def
      ue_edac_builder_def ce_edac_builder_def Let_def intro!: emits_emit split: prod.splits)

lemma ecc_step_obs: "ecc_obs host (snd st) (snd (ecc_step host cfg walk a b i st))"
proof -
  obtain mi me s where st: "st = ((mi, me), s)" by (metis prod.collapse)
  have "ecc_obs host s (snd (fold (ipmi_sensor host cfg) rs (mi, s)))"
    "ecc_obs host s (snd (fold (edac_controller host cfg) rs (me, s)))" for rs
    by (rule emits_fold_snd; simp add: ecc_sensor_obs)+
  then show ?thesis
    by (auto simp: st ecc_step_def split: ecc_input.splits prod.splits) (metis snd_conv)+
qed

interpretation memory_ecc: observer "ecc_step host cfg walk a b" "ho_machine_id host" "{MEMORY_ECC}"
  for host cfg walk a b
  by unfold_locales (rule ecc_step_obs)


section \<open>The rate test\<close>

lemma f64_small: "1 / 2 ^ 20 \<le> q \<Longrightarrow> pow2 (fl_emin f64) \<le> q"
proof -
  assume "1 / 2 ^ 20 \<le> q"
  moreover have "pow2 (fl_emin f64) \<le> pow2 (- 20)" by (rule pow2_mono) (simp add: f64_def)
  moreover have "pow2 (- 20) = 1 / 2 ^ 20" by (simp add: pow2_def)
  ultimately show ?thesis by simp
qed

text \<open>Rounding loses at most half of a number.\<close>

lemma f64_round_at_least:
  assumes "1 / 2 ^ 20 \<le> q"
  shows "fl_round f64 q = FInf \<or> (\<exists>r. fl_round f64 q = FFin r \<and> q / 2 \<le> r \<and> r \<le> 2 * q)"
proof -
  have "0 < q" using assms by (meson divide_pos_pos less_le_trans zero_less_numeral zero_less_one zero_less_power)
  moreover have "0 < fl_prec f64" by (simp add: f64_def)
  ultimately show ?thesis
    using fl_round_pos_half [OF f64_small [OF assms]] by (simp add: fl_round_def Let_def)
qed

lemma f64_round_bounded:
  assumes "1 / 2 ^ 20 \<le> q" and "q \<le> 2 ^ 500"
  shows "\<exists>r. fl_round f64 q = FFin r \<and> q / 2 \<le> r \<and> r \<le> 2 * q"
proof -
  have q: "0 < q" using assms(1) by (meson divide_pos_pos less_le_trans zero_less_numeral zero_less_one zero_less_power)
  have "0 < fl_prec f64" by (simp add: f64_def)
  from fl_round_pos_half [OF f64_small [OF assms(1)] this]
  have b: "q / 2 \<le> fl_round_pos f64 q \<and> fl_round_pos f64 q \<le> 2 * q" .
  have "2 * q \<le> 2 ^ Suc 500" using assms(2) unfolding power_Suc by linarith
  also have "\<dots> < 2 ^ fl_emax f64" by (rule power_strict_increasing) (simp_all add: f64_def)
  finally have "\<not> 2 ^ fl_emax f64 \<le> fl_round_pos f64 q" using b by linarith
  with q b show ?thesis by (simp add: fl_round_def Let_def)
qed

lemma fl_as_u64_at_least:
  assumes "x = FInf \<or> (\<exists>r. x = FFin r \<and> of_nat (unat w) \<le> r)"
  shows "w \<le> fl_as_u64 x"
  using assms
proof
  assume "\<exists>r. x = FFin r \<and> of_nat (unat w) \<le> r"
  then obtain r where x: "x = FFin r" and r: "of_nat (unat w) \<le> r" by blast
  have f: "int (unat w) \<le> \<lfloor>r\<rfloor>" using r by (simp add: le_floor_iff)
  have nn: "\<not> r < 0" using r of_nat_0_le_iff [of "unat w", where ?'a = rat] by linarith
  show ?thesis
  proof (cases "2 ^ 64 \<le> \<lfloor>r\<rfloor>")
    case True
    with nn show ?thesis by (simp add: x fl_as_u64_def)
  next
    case False
    have "0 \<le> \<lfloor>r\<rfloor>" using f by linarith
    then have "unat (of_int \<lfloor>r\<rfloor> :: u64) = nat \<lfloor>r\<rfloor>" using False
      by (simp add: unat_eq_nat_uint uint_word_of_int take_bit_int_eq_self)
    moreover have "unat w \<le> nat \<lfloor>r\<rfloor>" using f by linarith
    ultimately have "w \<le> of_int \<lfloor>r\<rfloor>" by (simp add: word_le_nat_alt)
    with False nn show ?thesis by (simp add: x fl_as_u64_def)
  qed
qed (simp add: fl_as_u64_def)

text \<open>With a threshold this low for the configured period, one new error is enough.\<close>

lemma rate_trips:
  assumes "0 < new_ce" and "unat (me_ce_per_hour_warn cfg) * max (unat (me_poll_s cfg)) 1 \<le> 450"
    and "0 < me_ce_per_hour_warn cfg"
  shows "me_ce_per_hour_warn cfg \<le> fl_as_u64 (rate_per_hr cfg new_ce)"
proof (rule fl_as_u64_at_least)
  let ?W = "of_nat (unat (me_ce_per_hour_warn cfg)) :: rat"
  let ?p = "max (unat (me_poll_s cfg)) 1"
  have W: "1 \<le> unat (me_ce_per_hour_warn cfg)" using assms(3) by (simp add: word_less_nat_alt)
  have p450: "?p \<le> 450" using assms(2) W by (metis le_trans mult_le_mono1 nat_mult_1)
  have WpN: "?W * of_nat ?p \<le> 450"
    using assms(2) by (metis of_nat_le_iff of_nat_mult of_nat_numeral)
  have p1: "1 \<le> (of_nat ?p :: rat)" "(of_nat ?p :: rat) \<le> 450"
    using p450 by (simp, metis of_nat_le_iff of_nat_numeral)
  have pw: "unat (max (me_poll_s cfg) 1) = ?p" by (simp add: max_def word_le_nat_alt)
  have p: "fl_of_word f64 (max (me_poll_s cfg) 1) = FFin (of_nat ?p)"
    using f64_int [of "int ?p"] p450 by (simp add: fl_of_word_def pw del: of_nat_max)
  have "1 / 2 ^ 20 \<le> (of_nat ?p / 3600 :: rat)" using p1(1) by simp
  moreover have "(of_nat ?p / 3600 :: rat) \<le> 2 ^ 500"
    using p1(2) one_le_power [of "2 :: rat" 500] by linarith
  ultimately obtain d where d: "fl_round f64 (of_nat ?p / 3600) = FFin d"
    and d_lo: "of_nat ?p / 3600 / 2 \<le> d" and d_hi: "d \<le> 2 * (of_nat ?p / 3600)"
    using f64_round_bounded by blast
  have d0: "0 < d" using d_lo p1(1) by linarith
  have n1: "1 \<le> (of_nat (unat new_ce) :: rat)"
    using assms(1) by (metis One_nat_def Suc_leI of_nat_1 of_nat_le_iff unat_gt_0 word_neq_0_conv)
  have "(of_nat (unat new_ce) :: rat) \<le> 2 ^ 500"
  proof -
    have "unat new_ce \<le> 2 ^ 500"
    proof -
      have "unat new_ce < 2 ^ 64" using unsigned_less [of new_ce, where ?'a = nat] by simp
      also have "\<dots> \<le> 2 ^ 500" by (rule power_increasing) simp_all
      finally show ?thesis by simp
    qed
    then have "(of_nat (unat new_ce) :: rat) \<le> of_nat (2 ^ 500)" by (simp only: of_nat_le_iff)
    then show ?thesis by (simp only: of_nat_power of_nat_numeral)
  qed
  then obtain x where x: "fl_of_word f64 new_ce = FFin x" and x_lo: "of_nat (unat new_ce) / 2 \<le> x"
    using f64_round_bounded [of "of_nat (unat new_ce)"] n1 by (auto simp: fl_of_word_def)
  have x2: "1 / 2 \<le> x" using x_lo n1 by linarith
  have "(1 / 2) / (2 * (of_nat ?p / 3600)) \<le> x / d"
    using x2 d_hi d0 by (intro frac_le) auto
  then have lo: "900 / of_nat ?p \<le> x / d" by simp
  have W2: "2 * ?W \<le> 900 / of_nat ?p" using WpN p1(1) by (simp add: pos_le_divide_eq)
  have "1 \<le> ?W" using W by (metis of_nat_1 of_nat_le_iff)
  then have "1 \<le> x / d" using lo W2 by linarith
  then have "1 / 2 ^ 20 \<le> x / d" by (rule order_trans [rotated]) simp
  moreover have "rate_per_hr cfg new_ce = fl_round f64 (x / d)"
    using d d0 by (simp add: rate_per_hr_def x p)
  ultimately have "rate_per_hr cfg new_ce = FInf \<or> (\<exists>r. rate_per_hr cfg new_ce = FFin r \<and> x / d / 2 \<le> r)"
    using f64_round_at_least [of "x / d"] by auto
  moreover have "?W \<le> x / d / 2"
  proof -
    define y where "y = x / d"
    from lo W2 show ?thesis unfolding y_def [symmetric] by linarith
  qed
  ultimately show "rate_per_hr cfg new_ce = FInf \<or> (\<exists>r. rate_per_hr cfg new_ce = FFin r \<and> ?W \<le> r)"
    by (meson order_trans)
qed


section \<open>Properties\<close>

text \<open>Memory errors reported by the BMC. The first reading of a sensor sets its baseline without
  an alert. Later, an uncorrectable count that grew raises a critical alert with the true
  difference, and one that did not grow raises none. For correctable errors the configured hourly
  rate has no effect when it is low for the poll period (threshold times period at most 450, as
  with the built-in 50 per hour and 5 seconds): then every single new error raises the warning.\<close>

theorem ecc_ipmi_alerts:
  assumes "unat (me_ce_per_hour_warn cfg) * max (unat (me_poll_s cfg)) 1 \<le> 450"
    and "0 < me_ce_per_hour_warn cfg"
  shows "(m name = None \<longrightarrow> ipmi_sensor host cfg (name, ce, ue) (m, s) = (m(name \<mapsto> (ce, ue)), s))
    \<and> (m name = Some (pc, pu) \<longrightarrow>
        ipmi_sensor host cfg (name, ce, ue) (m, s) = (m(name \<mapsto> (ce, ue)),
          (let s1 = (if pu < ue then emit (ue_ipmi_builder host name (ue - pu)) s else s)
           in if pc < ce then emit (ce_ipmi_builder host cfg name (ce - pc)) s1 else s1)))
    \<and> (pu < ue \<longrightarrow> unat (ue - pu) = unat ue - unat pu)"
proof -
  have pos: "0 < saturating_sub x y \<longleftrightarrow> y < x" for x y :: u64
    by (simp add: word_less_nat_alt unat_saturating_sub)
  have sub: "y < x \<Longrightarrow> saturating_sub x y = x - y" for x y :: u64
    by (auto simp: saturating_sub_def)
  have "ce_ipmi_high cfg (saturating_sub ce pc)" if "pc < ce"
    using rate_trips [OF _ assms] that by (simp add: ce_ipmi_high_def pos)
  moreover have "pu < ue \<Longrightarrow> unat (ue - pu) = unat ue - unat pu"
    by (simp add: unat_sub_if' word_less_nat_alt)
  moreover have "saturating_sub x x = 0" for x :: u64 by (simp add: saturating_sub_def)
  ultimately show ?thesis
    by (auto simp: ipmi_sensor_def Let_def pos sub)
qed

definition sample_ecc_host :: host_id where
  "sample_ecc_host = \<lparr>ho_hostname = ''node1'', ho_machine_id = ''4f2a'', ho_primary_ip = []\<rparr>"

theorem ecc_ipmi_alerts_witness:
  "snd (ipmi_sensor sample_ecc_host memory_ecc_cfg_default (''DIMM_A1 CE Count'', 8, 0)
      ([''DIMM_A1 CE Count'' \<mapsto> (7, 0)], emitter_new 15 5 (tick_clock 10)))
   = emit (ce_ipmi_builder sample_ecc_host memory_ecc_cfg_default ''DIMM_A1 CE Count'' 1)
       (emitter_new 15 5 (tick_clock 10))"
proof -
  have "unat (me_ce_per_hour_warn memory_ecc_cfg_default) * max (unat (me_poll_s memory_ecc_cfg_default)) 1 \<le> 450"
    "0 < me_ce_per_hour_warn memory_ecc_cfg_default"
    by (simp_all add: memory_ecc_cfg_default_def)
  from ecc_ipmi_alerts [OF this, of "[''DIMM_A1 CE Count'' \<mapsto> (7, 0)]" "''DIMM_A1 CE Count''" sample_ecc_host 8 0
      "emitter_new 15 5 (tick_clock 10)" 7 0]
  show ?thesis by (simp add: Let_def)
qed

end
