(* ===== verification/Mod_Bmc_Redfish.thy ===== *)
theory Mod_Bmc_Redfish
  imports Agent_Detect Agent_Config
begin

text \<open>
  \<open>agent/src/modules/bmc_redfish.rs\<close>: fans and power supplies by Redfish. \<open>get\<close> is a request with
  the configured credentials followed by reading the body as JSON, None when either fails.
\<close>

type_synonym http_get = "string \<Rightarrow> json option"

definition redfish_severity :: "string \<Rightarrow> severity option" where
  "redfish_severity health =
     (let h = to_ascii_lowercase health
      in if h = ''critical'' then Some Critical else if h = ''warning'' then Some Warning else None)"

definition is_present :: "string \<Rightarrow> bool" where
  "is_present state \<longleftrightarrow>
     to_ascii_lowercase state \<notin> {''absent'', ''unavailable'', ''deferring'', ''standby''}"

text \<open>\<open>Value::pointer\<close> along member names.\<close>

fun jpointer :: "json \<Rightarrow> string list \<Rightarrow> json option" where
  "jpointer v [] = Some v"
| "jpointer v (k # ks) = Option.bind (jget v k) (\<lambda>w. jpointer w ks)"

definition pointer_str :: "json \<Rightarrow> string list \<Rightarrow> string \<Rightarrow> string" where
  "pointer_str v path d = (case Option.bind (jpointer v path) as_str of Some s \<Rightarrow> s | None \<Rightarrow> d)"

definition entry_label :: "json \<Rightarrow> string \<Rightarrow> string" where
  "entry_label entry fallback =
     (case Option.bind (jpointer entry [''Oem'', ''Hpe'', ''BayNumber'']) as_u64 of
        Some bay \<Rightarrow> (fallback @ '' bay '' @ show_word bay)
      | None \<Rightarrow>
          (case Option.bind (jget entry ''MemberId'') as_str of
             Some mid \<Rightarrow> (fallback @ '' '' @ mid) | None \<Rightarrow> fallback))"

definition entry_name :: "json \<Rightarrow> string \<Rightarrow> string" where
  "entry_name entry fallback =
     (case Option.bind (jget entry ''Name'') as_str of
        Some n \<Rightarrow>
          if n \<noteq> [] \<and> n \<noteq> ''HpeServerPowerSupply'' \<and> n \<noteq> ''HpeServerFan'' then n
          else entry_label entry fallback
      | None \<Rightarrow> entry_label entry fallback)"

definition members :: "json \<Rightarrow> string \<Rightarrow> json list" where
  "members j k = (case Option.bind (jget j k) as_array of Some xs \<Rightarrow> xs | None \<Rightarrow> [])"

definition fan_rpm :: "json \<Rightarrow> u64" where
  "fan_rpm f = (case Option.bind (jget f ''Reading'') as_u64 of Some r \<Rightarrow> r | None \<Rightarrow> 0)"

definition fan_builder :: "host_id \<Rightarrow> json \<Rightarrow> severity \<Rightarrow> alert_builder" where
  "fan_builder host f sev =
     (let name = entry_name f ''Fan''; rpm = show_word (fan_rpm f);
          state = pointer_str f [''Status'', ''State''] [];
          health = pointer_str f [''Status'', ''Health''] ''OK''
      in chain (host_builder host BMC_REDFISH ''fan_unhealthy'' sev)
           [with_device name,
            with_value (''rpm='' @ rpm @ '', state='' @ state @ '', health='' @ health),
            with_title ''BMC reports unhealthy fan'',
            with_message (''Fan '' @ name @ '': RPM='' @ rpm @ '', state='' @ state @ '', health='' @
              health @ ''. Replace promptly to avoid thermal escalation.'')])"

definition check_fan :: "host_id \<Rightarrow> json \<Rightarrow> emitter \<Rightarrow> emitter" where
  "check_fan host f s =
     (let state = pointer_str f [''Status'', ''State''] []
      in if \<not> is_present state then s
         else
           let health = pointer_str f [''Status'', ''Health''] ''OK'';
               sev = redfish_severity health;
               stalled = (fan_rpm f = 0 \<and> eq_ignore_ascii_case state ''enabled'' \<and> sev \<noteq> None)
           in case (case sev of Some x \<Rightarrow> Some x | None \<Rightarrow> if stalled then Some Critical else None) of
                Some x \<Rightarrow> emit (fan_builder host f x) s
              | None \<Rightarrow> s)"

definition check_fans :: "host_id \<Rightarrow> json \<Rightarrow> emitter \<Rightarrow> emitter" where
  "check_fans host j s = fold (check_fan host) (members j ''Fans'') s"

definition psu_builder :: "host_id \<Rightarrow> json \<Rightarrow> severity \<Rightarrow> alert_builder" where
  "psu_builder host p sev =
     (let name = entry_name p ''PSU'';
          state = pointer_str p [''Status'', ''State''] [];
          health = pointer_str p [''Status'', ''Health''] ''OK''
      in chain (host_builder host BMC_REDFISH ''psu_unhealthy'' sev)
           [with_device name,
            with_value (''state='' @ state @ '', health='' @ health),
            with_title ''BMC reports unhealthy PSU'',
            with_message (''Power supply '' @ name @ '': state='' @ state @ '', health='' @ health @
              ''. Replace and verify the redundant feed.'')])"

definition check_psu :: "host_id \<Rightarrow> json \<Rightarrow> emitter \<Rightarrow> emitter" where
  "check_psu host p s =
     (if \<not> is_present (pointer_str p [''Status'', ''State''] []) then s
      else (case redfish_severity (pointer_str p [''Status'', ''Health''] ''OK'') of
              None \<Rightarrow> s
            | Some sev \<Rightarrow> emit (psu_builder host p sev) s))"

definition check_psus :: "host_id \<Rightarrow> json \<Rightarrow> emitter \<Rightarrow> emitter" where
  "check_psus host j s = fold (check_psu host) (members j ''PowerSupplies'') s"

definition redfish_base :: "bmc_cfg \<Rightarrow> string" where
  "redfish_base cfg = trim_end_char (CHR ''/'') (bm_redfish_url cfg)"

definition redfish_chassis :: "host_id \<Rightarrow> bmc_cfg \<Rightarrow> http_get \<Rightarrow> json \<Rightarrow> emitter \<Rightarrow> emitter" where
  "redfish_chassis host cfg get m s =
     (case Option.bind (jget m ''@odata.id'') as_str of
        None \<Rightarrow> s
      | Some rel \<Rightarrow>
          let s1 = (case get (redfish_base cfg @ rel @
            ''/Thermal'') of Some j \<Rightarrow> check_fans host j s | None \<Rightarrow> s)
          in (case get (redfish_base cfg @ rel @
            ''/Power'') of Some j \<Rightarrow> check_psus host j s1 | None \<Rightarrow> s1))"

definition poll_redfish :: "host_id \<Rightarrow> bmc_cfg \<Rightarrow> http_get \<Rightarrow> emitter \<Rightarrow> emitter" where
  "poll_redfish host cfg get s =
     (case get (redfish_base cfg @ ''/redfish/v1/Chassis'') of
        None \<Rightarrow> s
      | Some resp \<Rightarrow> fold (redfish_chassis host cfg get) (members resp ''Members'') s)"

definition bmc_redfish_tick :: "host_id \<Rightarrow> bmc_cfg \<Rightarrow> http_get \<Rightarrow> emitter \<Rightarrow> emitter" where
  "bmc_redfish_tick host cfg get s = (if bm_redfish_url cfg \<noteq> [] then poll_redfish host cfg get s else s)"

definition bmc_redfish_spawn :: "host_id \<Rightarrow> bmc_cfg \<Rightarrow> http_get list \<Rightarrow> emitter \<Rightarrow> emitter" where
  "bmc_redfish_spawn host cfg ticks s =
     (if \<not> bm_enabled cfg then s else fold (bmc_redfish_tick host cfg) ticks s)"

abbreviation redfish_obs :: "host_id \<Rightarrow> emitter \<Rightarrow> emitter \<Rightarrow> bool" where
  "redfish_obs host \<equiv> observes (from_host (ho_machine_id host) {BMC_REDFISH})"

lemma check_fan_obs: "redfish_obs host s0 s \<Longrightarrow> redfish_obs host s0 (check_fan host f s)"
  by (auto simp: check_fan_def fan_builder_def Let_def intro!: emits_emit split: option.splits)

lemma check_psu_obs: "redfish_obs host s0 s \<Longrightarrow> redfish_obs host s0 (check_psu host p s)"
  by (auto simp: check_psu_def psu_builder_def Let_def intro!: emits_emit split: option.splits)

lemma redfish_chassis_obs:
  "redfish_obs host s0 s \<Longrightarrow> redfish_obs host s0 (redfish_chassis host cfg get m s)"
  by (auto simp: redfish_chassis_def check_fans_def check_psus_def Let_def
        intro!: emits_fold check_fan_obs check_psu_obs split: option.splits)

lemma bmc_redfish_tick_obs: "redfish_obs host s (bmc_redfish_tick host cfg get s)"
  by (auto simp: bmc_redfish_tick_def poll_redfish_def intro!: emits_fold redfish_chassis_obs split: option.splits)

interpretation bmc_redfish: observer "stateless (bmc_redfish_tick host cfg)" "ho_machine_id host" "{BMC_REDFISH}"
  for host cfg
  by (rule stateless_observer) (rule bmc_redfish_tick_obs)


section \<open>Properties\<close>

text \<open>A fan is reported exactly when its bay is populated and its health is \<open>warning\<close> or
  \<open>critical\<close>, with that severity, and the rule for power supplies is the same. The test for a
  stalled fan decides nothing: at any speed, a fan whose health is neither of the two is not
  reported.\<close>

theorem redfish_reports_health_only:
  "check_fan host f s =
     (if is_present (pointer_str f [''Status'', ''State''] [])
      then (case redfish_severity (pointer_str f [''Status'', ''Health''] ''OK'') of
              Some sev \<Rightarrow> emit (fan_builder host f sev) s | None \<Rightarrow> s)
      else s)
   \<and> (check_psu host f s \<noteq> s \<longleftrightarrow> check_fan host f s \<noteq> s)
   \<and> (redfish_severity h = Some sev \<longleftrightarrow>
        (sev = Critical \<and> eq_ignore_ascii_case h ''critical'') \<or> (sev = Warning \<and> eq_ignore_ascii_case h ''warning''))"
proof -
  have eq: "eq_ignore_ascii_case h w \<longleftrightarrow> to_ascii_lowercase h = to_ascii_lowercase w" for h w
    by (simp add: eq_ignore_ascii_case_def to_ascii_lowercase_def)
  have w: "to_ascii_lowercase ''critical'' = ''critical''" "to_ascii_lowercase ''warning'' = ''warning''"
    by (simp_all add: to_ascii_lowercase_def ascii_lower_def)
  show ?thesis
    using emit_changes
    by (auto simp: check_fan_def check_psu_def redfish_severity_def Let_def eq w split: option.splits)
qed

end
