(* ===== verification/Mod_Bmc_Eventlog.thy ===== *)
theory Mod_Bmc_Eventlog
  imports Agent_Detect Agent_Config "HOL-Library.List_Lexorder" "HOL-Library.Char_ord"
begin

text \<open>
  \<open>agent/src/modules/bmc_eventlog.rs\<close>: the BMC's event logs. \<open>get\<close> is the HTTP client: the JSON of a
  url, or None when the request fails, its status is not a success or the body is not JSON; all
  three make \<open>poll\<close> go on with the next url. \<open>ipmitool\<close> is a command. The state is the newest entry
  id seen per url; ids are compared as Rust compares strings, byte by byte.
\<close>

definition bmc_logs :: "bmc_cfg \<Rightarrow> string list" where
  "bmc_logs cfg =
     (let base = trim_end_char (CHR ''/'') (bm_redfish_url cfg)
      in [(base @ ''/redfish/v1/Systems/1/LogServices/IEL/Entries''),
          (base @ ''/redfish/v1/Systems/1/LogServices/SEL/Entries''),
          (base @ ''/redfish/v1/Managers/1/LogServices/IML/Entries'')])"

definition bmc_severity :: "string \<Rightarrow> severity option" where
  "bmc_severity sev_str =
     (let l = to_lowercase sev_str
      in if l = ''critical'' \<or> l = ''severe'' \<or> l = ''fatal'' then Some Critical
         else if l = ''warning'' \<or> l = ''caution'' then Some Warning
         else None)"

definition bmc_entry_builder :: "host_id \<Rightarrow> string \<Rightarrow> json \<Rightarrow> severity \<Rightarrow> alert_builder" where
  "bmc_entry_builder host url m sev =
     (let id = str_field m ''Id'' [];
          sev_str = str_field m ''Severity'' ''OK'';
          msg = str_field m ''Message'' [];
          created = str_field m ''Created'' []
      in chain (host_builder host BMC_EVENTLOG ''bmc_log_entry'' sev)
           [with_device (last (split_on (CHR ''/'') url)),
            with_value sev_str,
            with_title ''BMC event log entry'',
            with_message (''BMC logged '' @ sev_str @ '' event at '' @ created @ '': '' @ msg),
            raw_kv ''entry_id'' (JStr id),
            raw_kv ''log'' (JStr url)])"

text \<open>One member of a log: \<open>prev\<close> is the id known before this poll, \<open>newest\<close> the largest so far.\<close>

definition bmc_member :: "host_id \<Rightarrow> string \<Rightarrow> string \<Rightarrow> json \<Rightarrow> string \<times> emitter \<Rightarrow> string \<times> emitter" where
  "bmc_member host url prev m st =
     (case st of (newest, s) \<Rightarrow>
       let id = str_field m ''Id'' []
       in if id \<le> prev then (newest, s)
          else
            let newest' = (if id > newest then id else newest)
            in case bmc_severity (str_field m ''Severity'' ''OK'') of
                 None \<Rightarrow> (newest', s)
               | Some sev \<Rightarrow> (newest', emit (bmc_entry_builder host url m sev) s))"

definition bmc_log ::
  "host_id \<Rightarrow> (string \<Rightarrow> json option) \<Rightarrow> string \<Rightarrow> (string \<rightharpoonup> string) \<times> emitter
     \<Rightarrow> (string \<rightharpoonup> string) \<times> emitter" where
  "bmc_log host get url st =
     (case get url of
        None \<Rightarrow> st
      | Some j \<Rightarrow>
          let members = (case Option.bind (jget j ''Members'') as_array of Some ms \<Rightarrow> ms | None \<Rightarrow> []);
              prev = (case fst st url of Some p \<Rightarrow> p | None \<Rightarrow> []);
              r = fold (bmc_member host url prev) members (prev, snd st)
          in ((fst st)(url \<mapsto> fst r), snd r))"

text \<open>\<open>poll\<close>, whose result type allows an error; every failure it meets is skipped.\<close>

definition bmc_poll ::
  "host_id \<Rightarrow> bmc_cfg \<Rightarrow> (string \<Rightarrow> json option) \<Rightarrow> (string \<rightharpoonup> string) \<times> emitter
     \<Rightarrow> string + ((string \<rightharpoonup> string) \<times> emitter)" where
  "bmc_poll host cfg get st = Inr (fold (bmc_log host get) (bmc_logs cfg) st)"

definition poll_ipmi :: "host_id \<Rightarrow> spawn \<Rightarrow> emitter \<Rightarrow> emitter" where
  "poll_ipmi host spawn s =
     (case success_output (run spawn ''ipmitool'' [''sel'', ''elist''] TIMEOUT_IPMI) of
        None \<Rightarrow> s
      | Some out \<Rightarrow>
          let count = length (lines (from_utf8_lossy out))
          in if count > 0 then
               emit (chain (host_builder host BMC_EVENTLOG ''ipmi_sel_count'' Info)
                 [with_value (show_nat count),
                  with_title ''IPMI SEL has entries'',
                  with_message (''ipmitool sel elist returned '' @ show_nat count @
                    '' entries. Configure Redfish for full parsing.'')]) s
             else s)"

type_synonym bmc_input = "(string \<Rightarrow> json option) \<times> spawn"

definition bmc_eventlog_tick ::
  "host_id \<Rightarrow> bmc_cfg \<Rightarrow> bmc_input \<Rightarrow> (string \<rightharpoonup> string) \<times> emitter \<Rightarrow> (string \<rightharpoonup> string) \<times> emitter" where
  "bmc_eventlog_tick host cfg i st =
     (case i of (get, spawn) \<Rightarrow>
       if bm_redfish_url cfg \<noteq> [] then
         (case bmc_poll host cfg get st of
            Inr st' \<Rightarrow> st'
          | Inl e \<Rightarrow> (fst st, poll_ipmi host spawn (snd st)))
       else (fst st, poll_ipmi host spawn (snd st)))"

definition bmc_eventlog_spawn :: "host_id \<Rightarrow> bmc_cfg \<Rightarrow> bmc_input list \<Rightarrow> emitter \<Rightarrow> emitter" where
  "bmc_eventlog_spawn host cfg ticks s =
     (if \<not> bm_enabled cfg then s else snd (fold (bmc_eventlog_tick host cfg) ticks (Map.empty, s)))"

abbreviation bmc_emits :: "host_id \<Rightarrow> emitter \<Rightarrow> emitter \<Rightarrow> bool" where
  "bmc_emits host \<equiv> observes (from_host (ho_machine_id host) {BMC_EVENTLOG})"

lemma bmc_member_emits:
  "bmc_emits host s0 (snd st) \<Longrightarrow> bmc_emits host s0 (snd (bmc_member host url prev m st))"
  by (auto simp: bmc_member_def bmc_entry_builder_def Let_def intro!: emits_emit split: prod.splits option.splits)

lemma bmc_log_emits: "bmc_emits host s0 (snd st) \<Longrightarrow> bmc_emits host s0 (snd (bmc_log host get url st))"
  unfolding bmc_log_def Let_def
  by (auto intro!: emits_fold_snd bmc_member_emits split: option.splits)

lemma poll_ipmi_emits: "bmc_emits host s (poll_ipmi host spawn s)"
  by (auto simp: poll_ipmi_def Let_def intro!: emits_emit split: option.splits)

lemma bmc_eventlog_tick_emits: "bmc_emits host (snd st) (snd (bmc_eventlog_tick host cfg i st))"
  unfolding bmc_eventlog_tick_def bmc_poll_def
  by (auto intro!: emits_fold_snd bmc_log_emits poll_ipmi_emits split: prod.splits)

interpretation bmc_eventlog: observer "bmc_eventlog_tick host cfg" "ho_machine_id host" "{BMC_EVENTLOG}" for host cfg
  by unfold_locales (rule bmc_eventlog_tick_emits)


section \<open>What is remembered\<close>

lemma bmc_member_newest:
  "fst (bmc_member host url prev m (newest, s)) \<ge> newest"
  "str_field m ''Id'' [] \<le> max prev (fst (bmc_member host url prev m (newest, s)))"
  by (auto simp: bmc_member_def Let_def max_def split: option.splits)

lemma bmc_members_newest:
  "prev \<le> newest \<Longrightarrow> newest \<le> fst (fold (bmc_member host url prev) ms (newest, s))
     \<and> (\<forall>m \<in> set ms. str_field m ''Id'' [] \<le> fst (fold (bmc_member host url prev) ms (newest, s)))"
proof (induction ms arbitrary: newest s)
  case (Cons m ms)
  obtain n' s' where st: "bmc_member host url prev m (newest, s) = (n', s')" by force
  have "newest \<le> n'" and "str_field m ''Id'' [] \<le> max prev n'"
    using bmc_member_newest [where newest = newest and host = host and url = url and prev = prev and m = m and s = s] st
    by auto
  moreover from this Cons.prems have "prev \<le> n'" by simp
  ultimately show ?case
    using Cons.IH [of n' s'] by (auto simp: st intro: order_trans)
qed simp

lemma bmc_member_old: "str_field m ''Id'' [] \<le> prev \<Longrightarrow> bmc_member host url prev m st = st"
  by (cases st) (simp add: bmc_member_def Let_def)

lemma bmc_members_old: "\<forall>m \<in> set ms. str_field m ''Id'' [] \<le> prev \<Longrightarrow> fold (bmc_member host url prev) ms st = st"
  by (induction ms arbitrary: st) (simp_all add: bmc_member_old)


section \<open>Properties\<close>

text \<open>Each entry is looked at once: polling a log again while the BMC returns the same members
  raises nothing and changes nothing.\<close>

theorem bmc_second_poll_silent:
  "bmc_log host get url (bmc_log host get url st) = bmc_log host get url st"
proof (cases "get url")
  case (Some j)
  let ?ms = "case Option.bind (jget j ''Members'') as_array of Some ms \<Rightarrow> ms | None \<Rightarrow> []"
  let ?prev = "case fst st url of Some p \<Rightarrow> p | None \<Rightarrow> []"
  let ?r = "fold (bmc_member host url ?prev) ?ms (?prev, snd st)"
  have "\<forall>m \<in> set ?ms. str_field m ''Id'' [] \<le> fst ?r"
    using bmc_members_newest [of ?prev ?prev host url ?ms "snd st"] by blast
  then have "fold (bmc_member host url (fst ?r)) ?ms (fst ?r, snd ?r) = (fst ?r, snd ?r)"
    by (rule bmc_members_old)
  with Some show ?thesis by (simp add: bmc_log_def Let_def)
qed (simp add: bmc_log_def)

text \<open>With a Redfish address configured the \<open>ipmitool\<close> fallback is never used: when every
  request to the BMC fails, a tick does nothing at all, although \<open>ipmitool\<close> might have answered.\<close>

theorem bmc_no_ipmi_fallback:
  assumes "bm_redfish_url cfg \<noteq> []" and "\<And>url. get url = None"
  shows "bmc_eventlog_tick host cfg (get, spawn) st = st"
  using assms by (simp add: bmc_eventlog_tick_def bmc_poll_def bmc_log_def bmc_logs_def Let_def)

theorem bmc_no_ipmi_fallback_witness:
  "bmc_eventlog_tick \<lparr>ho_hostname = ''node1'', ho_machine_id = ''4f2a'', ho_primary_ip = []\<rparr>
     (bmc_cfg_default\<lparr>bm_redfish_url := ''https://bmc''\<rparr>) (\<lambda>_. None, \<lambda>_ _. Exited ''1 | fault'' [] (Some 0))
     (Map.empty, emitter_new 15 5 (tick_clock 10)) = (Map.empty, emitter_new 15 5 (tick_clock 10))"
  by (rule bmc_no_ipmi_fallback) simp_all

text \<open>Entry ids are compared as text, so a numbered log loses entries: once entry 9 has been
  seen, entry 10 counts as old and is skipped, however severe it is.\<close>

theorem bmc_text_order_skips:
  assumes "str_field m ''Id'' [] = ''10''"
  shows "bmc_member host url ''9'' m st = st"
proof -
  have "''10'' \<le> ''9''" by (simp add: less_char_def)
  with assms show ?thesis by (simp add: bmc_member_old)
qed

theorem bmc_text_order_skips_witness:
  "bmc_member \<lparr>ho_hostname = ''node1'', ho_machine_id = ''4f2a'', ho_primary_ip = []\<rparr> ''log'' ''9''
     (JObj [(''Id'', JStr ''10''), (''Severity'', JStr ''Critical'')]) ([], emitter_new 15 5 (tick_clock 10))
   = ([], emitter_new 15 5 (tick_clock 10))"
  by (rule bmc_text_order_skips) (simp add: std_defs)

end
