(* ===== verification/Mod_Gpu.thy ===== *)
theory Mod_Gpu
  imports Agent_Detect Agent_Config Agent_Vendor Rust_Float
begin

text \<open>
  \<open>agent/src/modules/gpu_nvidia.rs\<close> and \<open>agent/src/modules/gpu_amd.rs\<close>: GPUs by the vendors' tools,
  AMD also by sysfs. \<open>parse_json\<close> is the JSON reader (None for an error). Power and temperatures
  read as decimals are \<open>f32\<close>.
\<close>

unbundle bit_operations_syntax

section \<open>NVIDIA\<close>

record gpu_row =
  gr_index :: string
  gr_name :: string
  gr_temp_c :: int
  gr_power_w :: flt
  gr_power_limit_w :: flt
  gr_util :: u32
  gr_ecc_uncorr :: u64
  gr_throttle_reasons :: string

definition or_zero :: "'a::zero option \<Rightarrow> 'a" where
  "or_zero x = (case x of Some v \<Rightarrow> v | None \<Rightarrow> 0)"

definition f32_or_zero :: "string \<Rightarrow> flt" where
  "f32_or_zero s = (case parse_float f32 s of Some x \<Rightarrow> x | None \<Rightarrow> FFin 0)"

definition gpu_line :: "string \<Rightarrow> gpu_row option" where
  "gpu_line line =
     (let cols = map trim (split_on (CHR '','') line)
      in if length cols < 8 then None
         else Some \<lparr>gr_index = cols ! 0, gr_name = cols ! 1,
                gr_temp_c = or_zero (parse_sint 10 32 (cols ! 2)),
                gr_power_w = f32_or_zero (cols ! 3),
                gr_power_limit_w = f32_or_zero (cols ! 4),
                gr_util = or_zero (map_option of_nat (parse_uint 10 32 (cols ! 5))),
                gr_ecc_uncorr = or_zero (parse_u64 (cols ! 6)),
                gr_throttle_reasons = cols ! 7\<rparr>)"

definition read_gpus :: "spawn \<Rightarrow> string + gpu_row list" where
  "read_gpus spawn =
     (case run spawn ''nvidia-smi''
             [''--query-gpu=index,name,temperature.gpu,power.draw,power.limit,utilization.gpu,ecc.errors.uncorrected.volatile.total,clocks_throttle_reasons.active'',
              ''--format=csv,noheader,nounits''] TIMEOUT_GPU of
        Inl e \<Rightarrow> Inl e
      | Inr o1 \<Rightarrow>
          if \<not> co_success o1 then Inl (''nvidia-smi failed: '' @ from_utf8_lossy (co_stderr o1))
          else Inr (List.map_filter gpu_line (lines (from_utf8_lossy (co_stdout o1)))))"

definition parsed_throttle :: "gpu_row \<Rightarrow> u64" where
  "parsed_throttle r =
     or_zero (map_option of_nat (parse_uint 16 64 (trim_start_matches ''0x'' (gr_throttle_reasons r))))"

abbreviation gpu_dev :: "gpu_row \<Rightarrow> string" where
  "gpu_dev r \<equiv> ''gpu'' @ gr_index r"

definition gpu_ecc_builder :: "host_id \<Rightarrow> gpu_row \<Rightarrow> alert_builder" where
  "gpu_ecc_builder host r =
     chain (host_builder host GPU_NVIDIA ''ecc_uncorrected'' Critical)
       [with_device (gpu_dev r), with_device_model (gr_name r),
        with_value (show_word (gr_ecc_uncorr r)),
        with_title ''NVIDIA GPU uncorrectable ECC'',
        with_message (''GPU '' @ gr_index r @ '' ('' @ gr_name r @ '') has '' @
          show_word (gr_ecc_uncorr r) @ '' uncorrectable ECC errors. Replace this GPU.'')]"

definition gpu_temp_builder :: "host_id \<Rightarrow> gpu_row \<Rightarrow> alert_builder" where
  "gpu_temp_builder host r =
     chain (host_builder host GPU_NVIDIA ''temperature'' Critical)
       [with_device (gpu_dev r), with_device_model (gr_name r),
        with_value (show_int (gr_temp_c r) @ degree @ ''C''), with_threshold (''85'' @ degree @ ''C''),
        with_title ''NVIDIA GPU critical temperature'',
        with_message (''GPU '' @ gr_index r @ '' ('' @ gr_name r @ '') at '' @ show_int (gr_temp_c r) @
          degree @ ''C '' @ em_dash @ '' at or above thermal slowdown threshold.'')]"

definition gpu_throttle_builder :: "host_id \<Rightarrow> gpu_row \<Rightarrow> alert_builder" where
  "gpu_throttle_builder host r =
     chain (host_builder host GPU_NVIDIA ''throttling'' Warning)
       [with_device (gpu_dev r), with_device_model (gr_name r),
        with_value (gr_throttle_reasons r),
        with_title ''NVIDIA GPU throttling'',
        with_message (''GPU '' @ gr_index r @ '' ('' @ gr_name r @
          '') actively throttling: clocks_throttle_reasons.active = '' @ gr_throttle_reasons r @ ''.'')]"

definition gpu_power_builder :: "host_id \<Rightarrow> gpu_row \<Rightarrow> alert_builder" where
  "gpu_power_builder host r =
     chain (host_builder host GPU_NVIDIA ''power_at_limit'' Info)
       [with_device (gpu_dev r), with_device_model (gr_name r),
        with_value (fmt_fixed 0 (gr_power_w r) @ ''W / '' @ fmt_fixed 0 (gr_power_limit_w r) @ ''W''),
        with_title ''NVIDIA GPU at power limit'',
        with_message (''GPU '' @ gr_index r @ '' drawing '' @ fmt_fixed 0 (gr_power_w r) @ ''W (98% of '' @
          fmt_fixed 0 (gr_power_limit_w r) @ ''W cap). Util '' @ show_word (gr_util r) @ ''%.'')]"

definition gpu_power_high :: "gpu_row \<Rightarrow> bool" where
  "gpu_power_high r \<longleftrightarrow>
     fl_less (FFin 0) (gr_power_limit_w r)
     \<and> fl_less (fl_mul f32 (gr_power_limit_w r) (fl_round f32 (98 / 100))) (gr_power_w r)"

definition gpu_check :: "host_id \<Rightarrow> gpu_row \<Rightarrow> emitter \<Rightarrow> emitter" where
  "gpu_check host r s =
     (let s1 = (if gr_ecc_uncorr r > 0 then emit (gpu_ecc_builder host r) s else s);
          s2 = (if gr_temp_c r \<ge> 85 then emit (gpu_temp_builder host r) s1 else s1);
          s3 = (if parsed_throttle r AND NOT 1 \<noteq> 0 then emit (gpu_throttle_builder host r) s2 else s2)
      in if gpu_power_high r then emit (gpu_power_builder host r) s3 else s3)"

definition gpu_nvidia_tick :: "host_id \<Rightarrow> spawn \<Rightarrow> emitter \<Rightarrow> emitter" where
  "gpu_nvidia_tick host spawn s =
     (case read_gpus spawn of Inl _ \<Rightarrow> s | Inr rows \<Rightarrow> fold (gpu_check host) rows s)"

definition gpu_nvidia_spawn ::
  "host_id \<Rightarrow> simple_enable \<Rightarrow> vendor_profile \<Rightarrow> spawn list \<Rightarrow> emitter \<Rightarrow> emitter" where
  "gpu_nvidia_spawn host cfg vendor ticks s =
     (if \<not> se_enabled cfg \<or> ''nvidia'' \<notin> set (vi_gpu_vendors (vp_info vendor)) then s
      else fold (gpu_nvidia_tick host) ticks s)"

lemma gpu_check_obs:
  "observes (from_host (ho_machine_id host) {GPU_NVIDIA}) s0 s \<Longrightarrow>
     observes (from_host (ho_machine_id host) {GPU_NVIDIA}) s0 (gpu_check host r s)"
  by (auto simp: gpu_check_def gpu_ecc_builder_def gpu_temp_builder_def gpu_throttle_builder_def
      gpu_power_builder_def Let_def intro!: emits_emit)

lemma gpu_nvidia_tick_obs:
  "observes (from_host (ho_machine_id host) {GPU_NVIDIA}) s (gpu_nvidia_tick host spawn s)"
  by (auto simp: gpu_nvidia_tick_def intro!: emits_fold gpu_check_obs split: sum.splits)

interpretation gpu_nvidia: observer "stateless (gpu_nvidia_tick host)" "ho_machine_id host" "{GPU_NVIDIA}" for host
  by (rule stateless_observer) (rule gpu_nvidia_tick_obs)


section \<open>AMD\<close>

definition rocm_card :: "host_id \<Rightarrow> string \<times> json \<Rightarrow> emitter \<Rightarrow> emitter" where
  "rocm_card host c s =
     (case c of (card_name, body) \<Rightarrow>
       if \<not> starts_with card_name ''card'' then s
       else (case Option.bind (Option.bind (jget body ''Temperature (Sensor edge) (C)'') as_str) (parse_float f32) of
               Some t \<Rightarrow>
                 if fl_le (FFin 95) t then
                   emit (chain (host_builder host GPU_AMD ''temperature'' Critical)
                     [with_device card_name,
                      with_value (fmt_fixed 1 t @ degree @ ''C''),
                      with_threshold (''95'' @ degree @ ''C''),
                      with_title ''AMD GPU critical temperature'',
                      with_message (''AMD '' @ card_name @ '' edge temp '' @ fmt_fixed 1 t @ degree @
                        ''C '' @ em_dash @ '' investigate cooling.'')]) s
                 else s
             | None \<Rightarrow> s))"

definition poll_rocm :: "(string \<Rightarrow> json option) \<Rightarrow> host_id \<Rightarrow> spawn \<Rightarrow> emitter \<Rightarrow> emitter" where
  "poll_rocm parse_json host spawn s =
     (case success_output (run spawn ''rocm-smi'' [''-a'', ''--json''] TIMEOUT_GPU) of
        None \<Rightarrow> s
      | Some out \<Rightarrow>
          (case Option.bind (parse_json out) as_object of
             None \<Rightarrow> s
           | Some cards \<Rightarrow> fold (rocm_card host) cards s))"

text \<open>The entries of \<open>/sys/class/drm\<close>, each with the contents of its temperature files.\<close>

type_synonym drm_dir = "(string \<times> string option list) list option"

definition sysfs_temp :: "host_id \<Rightarrow> string \<Rightarrow> string option \<Rightarrow> emitter \<Rightarrow> emitter" where
  "sysfs_temp host n content s =
     (case Option.bind content (\<lambda>t. parse_sint 10 32 (trim t)) of
        None \<Rightarrow> s
      | Some milli_c \<Rightarrow>
          let c = fl_div f32 (fl_of_int f32 milli_c) (FFin 1000)
          in if fl_le (FFin 95) c then
               emit (chain (host_builder host GPU_AMD ''temperature'' Critical)
                 [with_device n,
                  with_value (fmt_fixed 1 c @ degree @ ''C''),
                  with_title ''AMD GPU critical temperature (sysfs)'',
                  with_message (n @ '' edge temp '' @ fmt_fixed 1 c @ degree @ ''C.'')]) s
             else s)"

definition sysfs_card :: "host_id \<Rightarrow> string \<times> string option list \<Rightarrow> emitter \<Rightarrow> emitter" where
  "sysfs_card host e s =
     (case e of (n, files) \<Rightarrow>
       if \<not> starts_with n ''card'' \<or> CHR ''-'' \<in> set n then s else fold (sysfs_temp host n) files s)"

definition poll_sysfs :: "host_id \<Rightarrow> drm_dir \<Rightarrow> emitter \<Rightarrow> emitter" where
  "poll_sysfs host dir s = (case dir of None \<Rightarrow> s | Some es \<Rightarrow> fold (sysfs_card host) es s)"

definition gpu_amd_tick ::
  "(string \<Rightarrow> json option) \<Rightarrow> host_id \<Rightarrow> bool \<Rightarrow> spawn \<times> drm_dir \<Rightarrow> emitter \<Rightarrow> emitter" where
  "gpu_amd_tick parse_json host has_rocm_smi i s =
     (if has_rocm_smi then poll_rocm parse_json host (fst i) s else poll_sysfs host (snd i) s)"

definition gpu_amd_spawn ::
  "(string \<Rightarrow> json option) \<Rightarrow> host_id \<Rightarrow> simple_enable \<Rightarrow> vendor_profile \<Rightarrow> (spawn \<times> drm_dir) list
     \<Rightarrow> emitter \<Rightarrow> emitter" where
  "gpu_amd_spawn parse_json host cfg vendor ticks s =
     (if \<not> se_enabled cfg \<or> ''amd'' \<notin> set (vi_gpu_vendors (vp_info vendor)) then s
      else fold (gpu_amd_tick parse_json host (vp_has_rocm_smi vendor)) ticks s)"

abbreviation amd_obs :: "host_id \<Rightarrow> emitter \<Rightarrow> emitter \<Rightarrow> bool" where
  "amd_obs host \<equiv> observes (from_host (ho_machine_id host) {GPU_AMD})"

lemma amd_card_obs:
  "amd_obs host s0 s \<Longrightarrow> amd_obs host s0 (rocm_card host c s)"
  "amd_obs host s0 s \<Longrightarrow> amd_obs host s0 (sysfs_temp host n t s)"
  by (auto simp: rocm_card_def sysfs_temp_def Let_def intro!: emits_emit split: prod.splits option.splits)

lemma sysfs_card_obs: "amd_obs host s0 s \<Longrightarrow> amd_obs host s0 (sysfs_card host e s)"
  by (auto simp: sysfs_card_def intro!: emits_fold amd_card_obs split: prod.splits)

lemma gpu_amd_tick_obs: "amd_obs host s (gpu_amd_tick parse_json host r i s)"
  by (auto simp: gpu_amd_tick_def poll_rocm_def poll_sysfs_def intro!: emits_fold amd_card_obs sysfs_card_obs
        split: option.splits)

interpretation gpu_amd: observer "stateless (gpu_amd_tick parse_json host r)" "ho_machine_id host" "{GPU_AMD}"
  for parse_json host r
  by (rule stateless_observer) (rule gpu_amd_tick_obs)


section \<open>Facts\<close>

text \<open>The mask leaves out exactly the idle bit.\<close>

lemma and_not_one: "(w :: u64) AND NOT 1 \<noteq> 0 \<longleftrightarrow> 2 \<le> w"
proof -
  have "w AND NOT 1 = 0 \<longleftrightarrow> (\<forall>n. 0 < n \<longrightarrow> n < 64 \<longrightarrow> \<not> bit w n)"
    by (subst bit_eq_iff [where ?'a = "64 word"]) (auto simp: bit_and_iff bit_not_iff bit_1_iff)
  also have "\<dots> \<longleftrightarrow> take_bit 1 w = w"
    by (subst bit_eq_iff [where ?'a = "64 word"]) (auto simp: bit_take_bit_iff bit_0, metis bit_0 gr0I)
  also have "\<dots> \<longleftrightarrow> unat w mod 2 = unat w"
    by (simp add: word_eq_iff_unsigned [where ?'a = nat] take_bit_eq_mod unat_mod_distrib)
  also have "\<dots> \<longleftrightarrow> w < 2" by (simp add: word_less_nat_alt) presburger
  finally show ?thesis by (simp add: not_less)
qed


section \<open>Properties\<close>

text \<open>A row of the NVIDIA tool raises its four alerts independently and in order: uncorrected
  errors, a temperature of 85 degrees or more, a throttle mask with any bit besides the idle bit
  (that is, a value of two or more), and power above 98 percent of a positive limit.\<close>

theorem gpu_row_alerts:
  "gpu_check host r s =
     fold emit
       ((if 0 < gr_ecc_uncorr r then [gpu_ecc_builder host r] else []) @
        (if 85 \<le> gr_temp_c r then [gpu_temp_builder host r] else []) @
        (if 2 \<le> unat (parsed_throttle r) then [gpu_throttle_builder host r] else []) @
        (if gpu_power_high r then [gpu_power_builder host r] else [])) s"
proof -
  have "parsed_throttle r AND NOT 1 \<noteq> 0 \<longleftrightarrow> 2 \<le> unat (parsed_throttle r)"
    unfolding and_not_one by (simp add: word_le_nat_alt)
  then show ?thesis by (simp only: gpu_check_def Let_def) simp
qed

end
