(* ===== verification/Interleaving.thy ===== *)
theory Interleaving
  imports Main
begin

text \<open>
  Interleavings of sequences, for tasks that run side by side and share one queue: at every point
  the next element comes from the front of one of the sequences.
\<close>

inductive interleaving :: "'a list list \<Rightarrow> 'a list \<Rightarrow> bool" where
  drained: "\<forall>xs \<in> set xss. xs = [] \<Longrightarrow> interleaving xss []"
| take_one: "i < length xss \<Longrightarrow> xss ! i = x # xs \<Longrightarrow> interleaving (xss[i := xs]) ys \<Longrightarrow> interleaving xss (x # ys)"

lemma interleaving_set: "interleaving xss ys \<Longrightarrow> set ys = \<Union> (set ` set xss)"
proof (induction rule: interleaving.induct)
  case (take_one i xss x xs ys)
  have "xss = take i xss @ (x # xs) # drop (Suc i) xss"
    using id_take_nth_drop [OF take_one.hyps(1)] take_one.hyps(2) by simp
  then have "set ` set xss = set ` set (take i xss) \<union> {insert x (set xs)} \<union> set ` set (drop (Suc i) xss)"
    by (metis (no_types) Un_insert_left Un_insert_right image_Un image_insert list.simps(15) set_append sup_bot_right)
  moreover have "set ` set (xss[i := xs]) = set ` set (take i xss) \<union> {set xs} \<union> set ` set (drop (Suc i) xss)"
    using take_one.hyps(1) by (simp add: upd_conv_take_nth_drop image_Un)
  ultimately show ?case using take_one.IH by auto
qed auto

text \<open>What only one source sends comes in the order of that source.\<close>

lemma interleaving_filter:
  "interleaving xss ys \<Longrightarrow> i < length xss \<Longrightarrow> \<forall>j < length xss. j \<noteq> i \<longrightarrow> filter P (xss ! j) = [] \<Longrightarrow>
     filter P ys = filter P (xss ! i)"
proof (induction arbitrary: i rule: interleaving.induct)
  case (drained xss)
  then have "xss ! i = []" by simp
  then show ?case by simp
next
  case (take_one k xss x xs ys)
  have "filter P ys = filter P (xss[k := xs] ! i)"
  proof (rule take_one.IH)
    show "\<forall>j < length (xss[k := xs]). j \<noteq> i \<longrightarrow> filter P (xss[k := xs] ! j) = []"
    proof (intro allI impI)
      fix j assume j: "j < length (xss[k := xs])" "j \<noteq> i"
      with take_one.prems(2) have "filter P (xss ! j) = []" by simp
      with take_one.hyps(1,2) show "filter P (xss[k := xs] ! j) = []"
        by (cases "j = k") (auto split: if_splits)
    qed
  qed (use take_one.prems in simp)
  moreover have "i \<noteq> k \<Longrightarrow> \<not> P x"
    using take_one.prems(2) take_one.hyps(1,2) by (metis filter.simps(2) list.distinct(1))
  ultimately show ?case using take_one.hyps(1,2) by (cases "i = k") auto
qed

text \<open>The tasks may also run one after the other.\<close>

lemma interleaving_concat: "interleaving xss (concat xss)"
proof (induction "length (concat xss)" arbitrary: xss)
  case 0
  then have "\<forall>xs \<in> set xss. xs = []" by simp
  moreover from this have "concat xss = []" by simp
  ultimately show ?case using interleaving.drained [of xss] by (simp only:)
next
  case (Suc n)
  have "concat xss \<noteq> []" using Suc.hyps(2) by (metis list.size(3) nat.distinct(1))
  then obtain zs where "zs \<in> set xss" "zs \<noteq> []" by auto
  then obtain ps q qs where s: "xss = ps @ q # qs" "q \<noteq> []" "\<forall>p \<in> set ps. p = []"
    using split_list_first_prop [of xss "\<lambda>z. z \<noteq> []"] by blast
  then obtain x xs where q: "q = x # xs" by (cases q) auto
  have il: "interleaving (ps @ xs # qs) (concat (ps @ xs # qs))"
    using Suc.hyps(2) s q by (intro Suc.hyps(1)) auto
  have c: "concat xss = x # concat (ps @ xs # qs)"
  proof -
    have "concat ps = []" using s(3) by simp
    then show ?thesis by (simp only: s(1) q concat_append concat.simps append.simps)
  qed
  have at: "length ps < length xss" "xss ! length ps = x # xs" "xss[length ps := xs] = ps @ xs # qs"
    by (simp_all add: s(1) q)
  show ?case unfolding c by (rule interleaving.take_one [OF at(1,2)], unfold at(3), rule il)
qed

end
