(* ===== verification/Agent_Main.thy ===== *)
theory Agent_Main
  imports Mod_Oshang Mod_Pcie_Aer Mod_Cpu_Mce Mod_Storage_Io Mod_Syslog_Rules Mod_Lifecycle Mod_Boot
    Mod_Nvme Mod_Disk_Smart Mod_Network_Nic Mod_Mempressure Mod_Thermal Mod_Storage_Controller
    Mod_Memory_Ecc Mod_Bmc_Redfish Mod_Bmc_Eventlog Mod_Gpu Interleaving
begin

text \<open>
  \<open>agent/src/main.rs\<close>: what the process does at start, the wiring of the modules, the heartbeat and
  the message at the end. \<open>agent_env\<close> collects what the modules ask of libraries and of the machine
  when they start, \<open>agent_inputs\<close> what each of them reads while it runs. Every module gets a tracker
  of its own; the tasks share only the sink, so the messages it receives are an interleaving of the
  messages of the tasks, after the hello that \<open>main\<close> sends before it starts them.

  A module whose kernel or journal channel could not be opened gets a closed receiver. A panic in
  \<open>cpu_mce\<close> ends the process (\<open>Mod_Cpu_Mce\<close>); here the other modules' runs are taken to be as long
  as their inputs say.
\<close>

section \<open>Start\<close>

record cli =
  cl_config :: string
  cl_print_default_config :: bool
  cl_debug_snapshot :: bool

datatype start_action =
    PrintDefaultConfig
  | PrintSnapshot agent_config
  | SnapshotUnsupported
  | RunAgent agent_config

definition load_or_default :: "(string \<Rightarrow> string + agent_config) \<Rightarrow> string \<Rightarrow> agent_config" where
  "load_or_default load path = (case load path of Inr cfg \<Rightarrow> cfg | Inl e \<Rightarrow> default_fallback)"

definition main_start :: "bool \<Rightarrow> (string \<Rightarrow> string + agent_config) \<Rightarrow> cli \<Rightarrow> start_action" where
  "main_start debug_http load c =
     (if cl_print_default_config c then PrintDefaultConfig
      else if cl_debug_snapshot c then
        (if debug_http then PrintSnapshot (load_or_default load (cl_config c)) else SnapshotUnsupported)
      else RunAgent (load_or_default load (cl_config c)))"

definition VERSION :: string where "VERSION = ''4.3.0''"

text \<open>The flag is only read in builds with the maintenance feature.\<close>

definition agent_maintenance :: "bool \<Rightarrow> agent_config \<Rightarrow> bool" where
  "agent_maintenance feature cfg = (feature \<and> maintenance_mode cfg)"

text \<open>The capacities of the two lanes; a channel of capacity zero is a panic.\<close>

definition make_channels :: "agent_config \<Rightarrow> (nat \<times> nat) option" where
  "make_channels cfg =
     (let n = unat (cb_send_queue_size (ac_collector cfg)); c = unat (cb_critical_queue_size (ac_collector cfg))
      in if n = 0 \<or> c = 0 then None else Some (n, c))"

definition make_hello :: "host_id \<Rightarrow> vendor_profile \<Rightarrow> agent_config \<Rightarrow> bool \<Rightarrow> datetime \<Rightarrow> hello" where
  "make_hello host vendor cfg maintenance now =
     \<lparr>hl_host = ho_hostname host, hl_host_id = ho_machine_id host, hl_primary_ip = ho_primary_ip host,
      hl_agent_version = VERSION, hl_started_at = now, hl_vendor = vp_info vendor,
      hl_tags = ac_tags cfg, hl_maintenance = maintenance\<rparr>"

definition make_tracker :: "agent_config \<Rightarrow> (nat \<Rightarrow> stamp) \<Rightarrow> emitter" where
  "make_tracker cfg clk = emitter_new (cfg_re_notify cfg) (cfg_recovery cfg) clk"

definition heartbeat_period_s :: "agent_config \<Rightarrow> u64" where
  "heartbeat_period_s cfg = max (hbk_interval_s (ac_heartbeat cfg)) 1"

definition make_heartbeat :: "host_id \<Rightarrow> datetime \<times> u64 \<Rightarrow> heartbeat" where
  "make_heartbeat host tick =
     \<lparr>hb_host = ho_hostname host, hb_host_id = ho_machine_id host, hb_ts = fst tick,
      hb_uptime_s = snd tick, hb_firing_count = 0, hb_agent_version = VERSION\<rparr>"

definition stopping_builder :: "host_id \<Rightarrow> alert_builder" where
  "stopping_builder host =
     chain (host_builder host AGENT ''agent_stopping'' Info)
       [with_title ''Agent stopping'', with_message ''monitor-agent received a termination signal.'']"

definition debug_listen_addr :: "agent_config \<Rightarrow> string option" where
  "debug_listen_addr cfg =
     (case map_option trim (ab_debug_listen (ac_agent cfg)) of
        Some s \<Rightarrow> if s = [] then None else Some s
      | None \<Rightarrow> None)"


section \<open>The modules\<close>

record agent_env =
  ae_rx :: regex_iter
  ae_controller_walk :: "controllers \<Rightarrow> controllers"
  ae_sensor_walk :: walk_order
  ae_parse_json :: "string \<Rightarrow> json option"
  ae_smart_log_json :: "string \<Rightarrow> nvme_smart_log option"
  ae_smart_report_json :: "string \<Rightarrow> smart_report option"
  ae_root :: bool
  ae_path_exists :: "string \<Rightarrow> bool"
  ae_cmd_exists :: "string \<Rightarrow> bool"
  ae_systemd_bus :: "bool \<times> bool"
  ae_kmsg_ok :: bool
  ae_journal_ok :: bool

record agent_inputs =
  ai_nvme :: "nvme_input list"
  ai_disk_smart :: "disk_input list"
  ai_thermal :: "thermal_input list"
  ai_network_nic :: "nic_input list"
  ai_storage_controller :: "sc_input list"
  ai_storage_io :: "storage_io_input list"
  ai_mempressure :: "mempressure_input list"
  ai_oshang :: "kmsg_line bus_recv list"
  ai_memory_ecc :: "ecc_input list"
  ai_cpu_mce :: "kmsg_line bus_recv list"
  ai_pcie_aer :: "aer_input bus_recv list"
  ai_syslog_rules :: "journal_line bus_recv list"
  ai_gpu_nvidia :: "spawn list"
  ai_gpu_amd :: "(spawn \<times> drm_dir) list"
  ai_bmc_redfish :: "http_get list"
  ai_bmc_eventlog :: "bmc_input list"
  ai_lifecycle :: "lifecycle_input list"

text \<open>A receiver of a channel that was never opened is closed: a module that only receives ends, a
  module with other tasks has no lines among its inputs.\<close>

definition or_dummy :: "bool \<Rightarrow> 'a bus_recv list \<Rightarrow> 'a bus_recv list" where
  "or_dummy open_ok rs = (if open_ok then rs else [BClosed])"

definition or_no_lines :: "bool \<Rightarrow> ('i \<Rightarrow> bool) \<Rightarrow> 'i list \<Rightarrow> 'i list" where
  "or_no_lines open_ok is_line xs = (if open_ok then xs else filter (\<lambda>i. \<not> is_line i) xs)"

datatype agent_module =
    Nvme | DiskSmart | Thermal | NetworkNic | StorageController | StorageIo | Mempressure | Oshang
  | MemoryEcc | CpuMce | PcieAer | SyslogRules | GpuNvidia | GpuAmd | BmcRedfish | BmcEventlog | Lifecycle

definition spawn_order :: "agent_module list" where
  "spawn_order =
     [Nvme, DiskSmart, Thermal, NetworkNic, StorageController, StorageIo, Mempressure, Oshang,
      MemoryEcc, CpuMce, PcieAer, SyslogRules, GpuNvidia, GpuAmd, BmcRedfish, BmcEventlog, Lifecycle]"

abbreviation env_rx :: "agent_env \<Rightarrow> regex_lib" where
  "env_rx env \<equiv> regex_lib.truncate (ae_rx env)"

definition spawn_module ::
  "agent_env \<Rightarrow> agent_config \<Rightarrow> host_id \<Rightarrow> vendor_profile \<Rightarrow> agent_inputs \<Rightarrow> agent_module \<Rightarrow> emitter \<Rightarrow> emitter" where
  "spawn_module env cfg host vendor inp m s =
     (let mb = ac_modules cfg; rx = env_rx env; kmsg = ae_kmsg_ok env in
      case m of
        Nvme \<Rightarrow> nvme_spawn (ae_smart_log_json env) (ae_root env) host (mb_nvme mb) (ae_cmd_exists env ''nvme'') (ai_nvme inp) s
      | DiskSmart \<Rightarrow>
          disk_smart_spawn (ae_smart_report_json env) (ae_root env) host (mb_disk_smart mb) (vp_has_smartctl vendor)
            (ai_disk_smart inp) s
      | Thermal \<Rightarrow> thermal_spawn (ae_rx env) host (mb_thermal mb) vendor (ae_path_exists env) (ai_thermal inp) s
      | NetworkNic \<Rightarrow> nic_spawn rx host (mb_network_nic mb) (ai_network_nic inp) s
      | StorageController \<Rightarrow>
          storage_controller_spawn rx host (mb_storage_controller mb) vendor (ae_controller_walk env)
            (or_no_lines kmsg (\<lambda>i. case i of ScLine _ \<Rightarrow> True | _ \<Rightarrow> False) (ai_storage_controller inp)) s
      | StorageIo \<Rightarrow>
          storage_io_spawn rx host (mb_storage_io mb) (ae_systemd_bus env)
            (or_no_lines kmsg (\<lambda>i. case i of SioLine _ \<Rightarrow> True | _ \<Rightarrow> False) (ai_storage_io inp)) s
      | Mempressure \<Rightarrow>
          mempressure_spawn rx host (mb_mempressure mb) (ae_path_exists env ''/proc/pressure/memory'')
            (or_no_lines kmsg (\<lambda>i. case i of MpLine _ _ \<Rightarrow> True | _ \<Rightarrow> False) (ai_mempressure inp)) s
      | Oshang \<Rightarrow> oshang_spawn rx host (se_enabled (mb_oshang mb)) (or_dummy kmsg (ai_oshang inp)) s
      | MemoryEcc \<Rightarrow>
          memory_ecc_spawn host (mb_memory_ecc mb) (ae_sensor_walk env) (ae_path_exists env)
            (ae_cmd_exists env ''ipmitool'') (ai_memory_ecc inp) s
      | CpuMce \<Rightarrow> snd (mce_spawn rx host (se_enabled (mb_cpu_mce mb)) (or_dummy kmsg (ai_cpu_mce inp)) s)
      | PcieAer \<Rightarrow>
          aer_spawn rx host (pa_enabled (mb_pcie_aer mb)) (pa_corrected_per_min_warn (mb_pcie_aer mb))
            (or_dummy kmsg (ai_pcie_aer inp)) s
      | SyslogRules \<Rightarrow>
          syslog_rules_spawn rx (nic_ignore rx (mb_network_nic mb)) host (mb_syslog_rules mb)
            (or_dummy (ae_journal_ok env) (ai_syslog_rules inp)) s
      | GpuNvidia \<Rightarrow> gpu_nvidia_spawn host (mb_gpu_nvidia mb) vendor (ai_gpu_nvidia inp) s
      | GpuAmd \<Rightarrow> gpu_amd_spawn (ae_parse_json env) host (mb_gpu_amd mb) vendor (ai_gpu_amd inp) s
      | BmcRedfish \<Rightarrow> bmc_redfish_spawn host (mb_bmc_redfish mb) (ai_bmc_redfish inp) s
      | BmcEventlog \<Rightarrow> bmc_eventlog_spawn host (mb_bmc_eventlog mb) (ai_bmc_eventlog inp) s
      | Lifecycle \<Rightarrow> lifecycle_spawn host (se_enabled (mb_lifecycle mb)) (ai_lifecycle inp) s)"


section \<open>Every module is a detector of its categories\<close>

definition module_cats :: "agent_config \<Rightarrow> agent_module \<Rightarrow> string set" where
  "module_cats cfg m =
     (case m of
        Nvme \<Rightarrow> {NVME} | DiskSmart \<Rightarrow> {DISK_SMART} | Thermal \<Rightarrow> {THERMAL} | NetworkNic \<Rightarrow> {NETWORK_NIC}
      | StorageController \<Rightarrow> {STORAGE_CONTROLLER} | StorageIo \<Rightarrow> {STORAGE_IO}
      | Mempressure \<Rightarrow> {MEMORY_PRESSURE} | Oshang \<Rightarrow> {OS_HANG} | MemoryEcc \<Rightarrow> {MEMORY_ECC}
      | CpuMce \<Rightarrow> {CPU_MCE} | PcieAer \<Rightarrow> {PCIE_AER}
      | SyslogRules \<Rightarrow> ru_category ` set (sr_rules (mb_syslog_rules (ac_modules cfg)))
      | GpuNvidia \<Rightarrow> {GPU_NVIDIA} | GpuAmd \<Rightarrow> {GPU_AMD} | BmcRedfish \<Rightarrow> {BMC_REDFISH}
      | BmcEventlog \<Rightarrow> {BMC_EVENTLOG} | Lifecycle \<Rightarrow> {LIFECYCLE})"

text \<open>The modules that clear conditions.\<close>

definition resolves :: "agent_module \<Rightarrow> bool" where
  "resolves m \<longleftrightarrow> m \<in> {Nvme, NetworkNic, Mempressure}"

lemma fold_stateless_observes:
  assumes "observer (stateless f) hid cats"
  shows "observes (from_host hid cats) s (fold f xs s)"
  using observer.run_observes [OF assms, of "((), s)" xs] by (simp add: snd_fold_stateless)

lemma detector_fold: "detector f hid cats \<Longrightarrow> emits (from_host hid cats) s (snd (fold f xs (m, s)))"
  using detector.run_emits [of f hid cats "(m, s)" xs] by simp

lemma observer_fold: "observer f hid cats \<Longrightarrow> observes (from_host hid cats) s (snd (fold f xs (m, s)))"
  using observer.run_observes [of f hid cats "(m, s)" xs] by simp

lemma observes_mono_cats:
  "observes (from_host hid cats) s s' \<Longrightarrow> cats \<subseteq> cats' \<Longrightarrow> observes (from_host hid cats') s s'"
proof (erule acts_mono)
  fix op assume "cats \<subseteq> cats'" "op_obs (from_host hid cats) op"
  then show "op_obs (from_host hid cats') op" by (cases op) (auto simp: from_host_def)
qed

lemma compile_rules_cats: "compile_rules rx rs = Some crs \<Longrightarrow> cr_category ` set crs = ru_category ` set rs"
proof (induction rs arbitrary: crs)
  case (Cons r rs)
  then show ?case by (auto split: option.splits if_splits) (metis imageI)
qed simp

lemma syslog_rules_spawn_observes:
  "observes (from_host (ho_machine_id host) (ru_category ` set (sr_rules cfg))) s
     (syslog_rules_spawn rx ign host cfg rs s)"
  using fold_stateless_observes [OF syslog_rules.observer_axioms]
  by (auto simp: syslog_rules_spawn_def recv_loop_fold compile_rules_cats [symmetric] split: option.splits)

lemmas spawn_defs =
  nvme_spawn_def disk_smart_spawn_def thermal_spawn_def nic_spawn_def storage_controller_spawn_def
  storage_io_spawn_def mempressure_spawn_def oshang_spawn_def memory_ecc_spawn_def mce_spawn_def
  aer_spawn_def gpu_nvidia_spawn_def gpu_amd_spawn_def bmc_redfish_spawn_def bmc_eventlog_spawn_def
  lifecycle_spawn_def

lemma module_observes:
  assumes "\<not> resolves m"
  shows "observes (from_host (ho_machine_id host) (module_cats cfg m)) s (spawn_module env cfg host vendor inp m s)"
  using assms
  by (cases m)
     (simp_all add: spawn_module_def module_cats_def resolves_def Let_def spawn_defs recv_loop_fold
        syslog_rules_spawn_observes
        fold_stateless_observes [OF disk_smart.observer_axioms] observer_fold [OF thermal.observer_axioms]
        observer_fold [OF storage_controller.observer_axioms] observer_fold [OF storage_io.observer_axioms]
        fold_stateless_observes [OF oshang.observer_axioms] observer_fold [OF memory_ecc.observer_axioms]
        observer_fold [OF mce.observer_axioms] observer_fold [OF aer.observer_axioms]
        fold_stateless_observes [OF gpu_nvidia.observer_axioms] fold_stateless_observes [OF gpu_amd.observer_axioms]
        fold_stateless_observes [OF bmc_redfish.observer_axioms] observer_fold [OF bmc_eventlog.observer_axioms]
        observer_fold [OF lifecycle.observer_axioms])

lemma module_emits:
  "emits (from_host (ho_machine_id host) (module_cats cfg m)) s (spawn_module env cfg host vendor inp m s)"
proof (cases "resolves m")
  case True
  then show ?thesis
    by (cases m)
       (simp_all add: spawn_module_def module_cats_def resolves_def Let_def spawn_defs
          detector_fold [OF nvme.detector_axioms] detector_fold [OF nic.detector_axioms]
          detector_fold [OF mempressure.detector_axioms])
next
  case False
  from module_observes [OF this] show ?thesis by (rule acts_mono) (rule op_obs_sat)
qed

text \<open>The severity of the conditions a module may clear, by fingerprint.\<close>

definition module_lane :: "agent_module \<Rightarrow> string \<Rightarrow> severity option" where
  "module_lane m =
     (case m of
        Nvme \<Rightarrow> metric_lane ''critical_warning'' Critical
      | NetworkNic \<Rightarrow> metric_lane ''link_down'' Warning
      | Mempressure \<Rightarrow> metric_lane ''psi_high'' Warning
      | _ \<Rightarrow> (\<lambda>_. None))"

lemma lane_fold: "fixed_lane f F \<Longrightarrow> acts (op_lane F) s (snd (fold f xs (m, s)))"
  using fixed_lane.run_lane [of f F "(m, s)" xs] by simp

lemma module_lanes: "acts (op_lane (module_lane m)) s (spawn_module env cfg host vendor inp m s)"
proof (cases "resolves m")
  case True
  then show ?thesis
    by (cases m)
       (simp_all add: spawn_module_def module_lane_def resolves_def Let_def spawn_defs
          lane_fold [OF nvme.fixed_lane_axioms] lane_fold [OF nic.fixed_lane_axioms]
          lane_fold [OF mempressure.fixed_lane_axioms])
next
  case False
  then have "module_lane m = (\<lambda>_. None)" by (cases m) (simp_all add: module_lane_def resolves_def)
  with module_observes [OF False] op_obs_lane show ?thesis by (metis acts_mono)
qed


section \<open>The messages of the process\<close>

record agent_run =
  ar_inputs :: agent_inputs
  ar_clock :: "agent_module \<Rightarrow> nat \<Rightarrow> stamp"
  ar_started :: datetime
  ar_boot_stamp :: stamp
  ar_boot_id :: "string option"
  ar_boot_state :: "string option"
  ar_tainted :: "string option"
  ar_ticks :: "(datetime \<times> u64) list"
  ar_stop :: "stamp option"

definition module_emitter ::
  "agent_env \<Rightarrow> agent_config \<Rightarrow> host_id \<Rightarrow> vendor_profile \<Rightarrow> agent_run \<Rightarrow> agent_module \<Rightarrow> emitter" where
  "module_emitter env cfg host vendor r m =
     spawn_module env cfg host vendor (ar_inputs r) m (make_tracker cfg (ar_clock r m))"

definition boot_messages :: "agent_config \<Rightarrow> host_id \<Rightarrow> agent_run \<Rightarrow> outbound list" where
  "boot_messages cfg host r =
     snd (boot_spawn host (se_enabled (mb_boot (ac_modules cfg))) (st_utc (ar_boot_stamp r)) (st_ulid (ar_boot_stamp r))
            (ar_boot_id r) (ar_boot_state r) (ar_tainted r))"

definition stop_messages :: "host_id \<Rightarrow> agent_run \<Rightarrow> outbound list" where
  "stop_messages host r =
     (case ar_stop r of
        Some st \<Rightarrow> [OAlert (build_firing (st_utc st) (st_ulid st) (stopping_builder host))]
      | None \<Rightarrow> [])"

definition agent_sources ::
  "agent_env \<Rightarrow> agent_config \<Rightarrow> host_id \<Rightarrow> vendor_profile \<Rightarrow> agent_run \<Rightarrow> outbound list list" where
  "agent_sources env cfg host vendor r =
     map (\<lambda>m. map OAlert (rev (map snd (em_hist (module_emitter env cfg host vendor r m))))) spawn_order
     @ [boot_messages cfg host r, map (\<lambda>t. OHeartbeat (make_heartbeat host t)) (ar_ticks r), stop_messages host r]"

text \<open>The sink is shared by all tasks: it sees an interleaving of what they send.\<close>

definition agent_sends ::
  "bool \<Rightarrow> agent_env \<Rightarrow> agent_config \<Rightarrow> host_id \<Rightarrow> vendor_profile \<Rightarrow> agent_run \<Rightarrow> outbound list \<Rightarrow> bool" where
  "agent_sends feature env cfg host vendor r ms \<longleftrightarrow>
     (\<exists>ys. ms = OHello (make_hello host vendor cfg (agent_maintenance feature cfg) (ar_started r)) # ys
         \<and> interleaving (agent_sources env cfg host vendor r) ys)"


section \<open>Properties\<close>

lemma make_tracker_new: "make_tracker cfg clk = emitter_new (cfg_re_notify cfg) (cfg_recovery cfg) clk"
  by (simp add: make_tracker_def)

lemma module_emitter_ok:
  "emitter_ok (origin (ho_machine_id host) (module_cats cfg m)) (module_emitter env cfg host vendor r m)"
  "tr_re_notify (em_tracker (module_emitter env cfg host vendor r m)) = cfg_re_notify cfg"
proof -
  note e = module_emits [of host cfg m "make_tracker cfg (ar_clock r m)" env vendor "ar_inputs r"]
  show "emitter_ok (origin (ho_machine_id host) (module_cats cfg m)) (module_emitter env cfg host vendor r m)"
    unfolding module_emitter_def using e by (rule emits_keeps_ok) (simp add: make_tracker_new emitter_ok_new)
  from e show "tr_re_notify (em_tracker (module_emitter env cfg host vendor r m)) = cfg_re_notify cfg"
    by (auto simp: module_emitter_def acts_def make_tracker_new)
qed

lemma module_alert_lane:
  assumes "(t, a) \<in> set (em_hist (module_emitter env cfg host vendor r m))"
  shows "alert_lane (module_lane m) a"
proof -
  have "lane_ok (module_lane m) (module_emitter env cfg host vendor r m)"
    unfolding module_emitter_def using module_lanes by (rule lane_ok_acts) (simp add: make_tracker_new lane_ok_new)
  with assms show ?thesis by (auto simp: lane_ok_def)
qed

text \<open>For concrete runs: an agent with default settings that sees a scheduled shutdown.\<close>

definition sample_env :: agent_env where
  "sample_env =
     \<lparr>ae_rx = \<lparr>rx_compiles = (\<lambda>_. True), rx_is_match = (\<lambda>_ _. False), rx_captures = (\<lambda>_ _. None),
               rx_captures_iter = (\<lambda>_ _. [])\<rparr>,
      ae_controller_walk = id, ae_sensor_walk = id, ae_parse_json = (\<lambda>_. None),
      ae_smart_log_json = (\<lambda>_. None), ae_smart_report_json = (\<lambda>_. None), ae_root = True,
      ae_path_exists = (\<lambda>_. False), ae_cmd_exists = (\<lambda>_. False), ae_systemd_bus = (True, True), ae_kmsg_ok = True, ae_journal_ok = True\<rparr>"

definition idle_inputs :: agent_inputs where
  "idle_inputs =
     \<lparr>ai_nvme = [], ai_disk_smart = [], ai_thermal = [], ai_network_nic = [], ai_storage_controller = [],
      ai_storage_io = [], ai_mempressure = [], ai_oshang = [], ai_memory_ecc = [], ai_cpu_mce = [],
      ai_pcie_aer = [], ai_syslog_rules = [], ai_gpu_nvidia = [], ai_gpu_amd = [], ai_bmc_redfish = [],
      ai_bmc_eventlog = [], ai_lifecycle = []\<rparr>"

definition sample_agent_run :: agent_run where
  "sample_agent_run =
     \<lparr>ar_inputs = idle_inputs\<lparr>ai_lifecycle := [LPoll True None None]\<rparr>, ar_clock = (\<lambda>_. tick_clock 1),
      ar_started = 0, ar_boot_stamp = tick_clock 1 0, ar_boot_id = None, ar_boot_state = None,
      ar_tainted = None, ar_ticks = [(5, 5)], ar_stop = None\<rparr>"

definition sample_vendor :: vendor_profile where
  "sample_vendor = vendor_detect (\<lambda>_. None) None (\<lambda>_. False) (\<lambda>_. False) (\<lambda>_. None)"

definition sample_agent_host :: host_id where
  "sample_agent_host = \<lparr>ho_hostname = ''node1'', ho_machine_id = ''4f2a'', ho_primary_ip = ''10.0.0.1''\<rparr>"

abbreviation sample_emitter :: "agent_module \<Rightarrow> emitter" where
  "sample_emitter \<equiv> module_emitter sample_env default_fallback sample_agent_host sample_vendor sample_agent_run"

lemma sample_lifecycle_hist:
  "em_hist (sample_emitter Lifecycle) =
     [(0, build_firing 0 [] (lifecycle_alert_builder sample_agent_host
            (fst (guess_kind_from_scheduled_path None None)) (snd (guess_kind_from_scheduled_path None None))
            ''shutdown.scheduled_file''))]"
  by (simp add: module_emitter_def sample_agent_run_def idle_inputs_def spawn_module_def lifecycle_spawn_def
        default_fallback_def modules_block_default_def simple_enable_default_def scheduled_file_poll_def lifecycle_new_def
        make_tracker_def emit_parts observe_def log_decision_def Let_def split: prod.splits)

text \<open>C19. Every alert the modules send, in any run of the agent with any configuration, satisfies the
  dedup contract of its module's tracker: in the history of each module a firing alert repeats at
  the earliest after the configured \<open>re_notify_after_s\<close>, a resolved alert closes an open condition;
  and it carries the machine id of this host and a category of its module (for the syslog rules,
  one that the configuration names).\<close>

theorem agent_modules_contract:
  "history_ok (cfg_re_notify cfg) (em_hist (module_emitter env cfg host vendor r m))
   \<and> (\<forall>(t, a) \<in> set (em_hist (module_emitter env cfg host vendor r m)).
        al_host_id a = ho_machine_id host \<and> al_category a \<in> module_cats cfg m)"
  using module_emitter_ok(1) [of host cfg m env vendor r]
  by (simp add: emitter_ok_def origin_def module_emitter_ok(2))

theorem agent_modules_contract_witness:
  "\<exists>t a. em_hist (sample_emitter Lifecycle) = [(t, a)] \<and> al_host_id a = ''4f2a'' \<and> al_category a = LIFECYCLE"
proof -
  have "ho_machine_id sample_agent_host = ''4f2a''" by (simp add: sample_agent_host_def)
  with agent_modules_contract [of default_fallback sample_env sample_agent_host sample_vendor sample_agent_run Lifecycle]
  show ?thesis by (simp add: sample_lifecycle_hist module_cats_def)
qed

text \<open>C21. Recovery is only ever reported by three modules: in any run of the agent, every alert of a
  module other than \<open>nvme\<close>, \<open>network_nic\<close> and \<open>mempressure\<close> is firing. A condition of any other
  module stays open at the collector until an operator resolves it.\<close>

theorem only_three_modules_resolve:
  assumes "m \<notin> {Nvme, NetworkNic, Mempressure}"
    and "(t, a) \<in> set (em_hist (module_emitter env cfg host vendor r m))"
  shows "al_state a = Firing"
proof -
  have "\<not> resolves m" using assms(1) by (simp add: resolves_def)
  from observes_firing [OF module_observes [OF this, of host cfg "make_tracker cfg (ar_clock r m)" env vendor "ar_inputs r"]]
    assms(2)
  show ?thesis by (auto simp: module_emitter_def make_tracker_new)
qed

theorem only_three_modules_resolve_witness:
  "\<exists>t a. (t, a) \<in> set (em_hist (sample_emitter Lifecycle)) \<and> al_state a = Firing"
  using only_three_modules_resolve [of Lifecycle 0 _ sample_env default_fallback sample_agent_host sample_vendor sample_agent_run]
  by (fastforce simp: sample_lifecycle_hist)

end
