(* ===== verification/Coll_State.thy ===== *)
theory Coll_State
  imports Uma_Shared
begin

text \<open>
  \<open>collector/src/state.rs\<close>: the collector's in-memory state \<open>AppState\<close>. The firing map and the
  host map are association lists (their values are enumerated by \<open>snapshot\<close> and by the offline
  watcher). \<open>fanout.send\<close> never fails visibly (its result is dropped), so the broadcast channel
  is the sequence of envelopes sent on it, oldest first. Both maps are behind locks that an
  operation holds while it works on them, so an operation is a function on the state.

  \<open>num_seconds\<close> stands for chrono's \<open>TimeDelta::num_seconds\<close> on a difference of two times; it is
  a parameter of the operations that compare times.
\<close>

record host_info =
  hi_host :: string
  hi_host_id :: string
  hi_primary_ip :: string
  hi_last_seen :: datetime
  hi_tags :: "string \<rightharpoonup> string"
  hi_vendor :: vendor_info
  hi_firing_count :: u32
  hi_agent_version :: string
  hi_maintenance :: bool

record app_state =
  ap_firing :: "(string \<times> alert) list"
  ap_hosts :: "(string \<times> host_info) list"
  ap_fanout :: "envelope list"
  ap_offline_after_s :: u64

definition app_new :: "u64 \<Rightarrow> app_state" where
  "app_new offline_after_s =
     \<lparr>ap_firing = [], ap_hosts = [], ap_fanout = [], ap_offline_after_s = offline_after_s\<rparr>"

text \<open>\<open>(now - last_seen).num_seconds() <= after_s as i64\<close>\<close>

definition is_online :: "(int \<Rightarrow> int) \<Rightarrow> u64 \<Rightarrow> datetime \<Rightarrow> datetime \<Rightarrow> bool" where
  "is_online num_seconds after_s now last_seen \<longleftrightarrow> num_seconds (now - last_seen) \<le> sint after_s"

definition app_snapshot :: "(int \<Rightarrow> int) \<Rightarrow> datetime \<Rightarrow> app_state \<Rightarrow> snapshot" where
  "app_snapshot num_seconds now s =
     \<lparr>sn_generated_at = now,
      sn_alerts = map snd (ap_firing s),
      sn_hosts = map (\<lambda>(_, h).
        \<lparr>hst_host = hi_host h, hst_host_id = hi_host_id h, hst_primary_ip = hi_primary_ip h,
         hst_online = is_online num_seconds (ap_offline_after_s s) now (hi_last_seen h),
         hst_last_seen = hi_last_seen h, hst_firing_count = hi_firing_count h,
         hst_tags = hi_tags h, hst_agent_version = hi_agent_version h,
         hst_maintenance = hi_maintenance h\<rparr>) (ap_hosts s)\<rparr>"

text \<open>\<open>firing_count as i32 + delta\<close> at 32 bits, then \<open>max(0) as u32\<close>.\<close>

definition bump_host_count :: "string \<Rightarrow> 32 word \<Rightarrow> app_state \<Rightarrow> app_state" where
  "bump_host_count host_id delta s =
     (case map_of (ap_hosts s) host_id of
        None \<Rightarrow> s
      | Some h \<Rightarrow>
          (let n = hi_firing_count h + delta;
               m = (if sint n < 0 then 0 else n)
           in s\<lparr>ap_hosts := AList.update host_id (h\<lparr>hi_firing_count := m\<rparr>) (ap_hosts s)\<rparr>))"

definition apply_alert :: "alert \<Rightarrow> app_state \<Rightarrow> bool \<times> app_state" where
  "apply_alert a s =
     (case al_state a of
        Firing \<Rightarrow>
          (let was_new = (map_of (ap_firing s) (al_fingerprint a) = None);
               s1 = s\<lparr>ap_firing := AList.update (al_fingerprint a) a (ap_firing s)\<rparr>
           in (True, if was_new then bump_host_count (al_host_id a) 1 s1 else s1))
      | Resolved \<Rightarrow>
          (case map_of (ap_firing s) (al_fingerprint a) of
             Some _ \<Rightarrow>
               (True, bump_host_count (al_host_id a) (- 1)
                        (s\<lparr>ap_firing := AList.delete (al_fingerprint a) (ap_firing s)\<rparr>))
           | None \<Rightarrow> (False, s)))"

definition touch_host :: "string \<Rightarrow> string \<Rightarrow> datetime \<Rightarrow> string \<Rightarrow> app_state \<Rightarrow> app_state" where
  "touch_host host host_id ts agent_version s =
     (let entry = (case map_of (ap_hosts s) host_id of
             Some h \<Rightarrow> h
           | None \<Rightarrow> \<lparr>hi_host = host, hi_host_id = host_id, hi_primary_ip = [], hi_last_seen = ts,
                      hi_tags = Map.empty, hi_vendor = vendor_info_default, hi_firing_count = 0,
                      hi_agent_version = agent_version, hi_maintenance = False\<rparr>);
          e1 = entry\<lparr>hi_last_seen := ts, hi_host := host\<rparr>;
          e2 = (if agent_version \<noteq> [] then e1\<lparr>hi_agent_version := agent_version\<rparr> else e1)
      in s\<lparr>ap_hosts := AList.update host_id e2 (ap_hosts s)\<rparr>)"

definition register_hello :: "hello \<Rightarrow> app_state \<Rightarrow> app_state" where
  "register_hello h s =
     (let entry = (case map_of (ap_hosts s) (hl_host_id h) of
             Some e \<Rightarrow> e
           | None \<Rightarrow> \<lparr>hi_host = hl_host h, hi_host_id = hl_host_id h, hi_primary_ip = hl_primary_ip h,
                      hi_last_seen = hl_started_at h, hi_tags = hl_tags h, hi_vendor = hl_vendor h,
                      hi_firing_count = 0, hi_agent_version = hl_agent_version h,
                      hi_maintenance = hl_maintenance h\<rparr>);
          e1 = entry\<lparr>hi_tags := hl_tags h, hi_vendor := hl_vendor h,
                     hi_agent_version := hl_agent_version h, hi_host := hl_host h,
                     hi_maintenance := hl_maintenance h\<rparr>;
          e2 = (if hl_primary_ip h \<noteq> [] then e1\<lparr>hi_primary_ip := hl_primary_ip h\<rparr> else e1)
      in s\<lparr>ap_hosts := AList.update (hl_host_id h) e2 (ap_hosts s)\<rparr>)"

definition host_primary_ip :: "string \<Rightarrow> app_state \<Rightarrow> string" where
  "host_primary_ip host_id s =
     (case map_of (ap_hosts s) host_id of Some h \<Rightarrow> hi_primary_ip h | None \<Rightarrow> [])"

definition host_in_maintenance :: "string \<Rightarrow> app_state \<Rightarrow> bool" where
  "host_in_maintenance host_id s =
     (case map_of (ap_hosts s) host_id of Some h \<Rightarrow> hi_maintenance h | None \<Rightarrow> False)"

definition host_status_of :: "(int \<Rightarrow> int) \<Rightarrow> datetime \<Rightarrow> string \<Rightarrow> app_state \<Rightarrow> host_status option" where
  "host_status_of num_seconds now host_id s =
     map_option (\<lambda>h.
        \<lparr>hs_host = hi_host h, hs_host_id = hi_host_id h,
         hs_online = is_online num_seconds (ap_offline_after_s s) now (hi_last_seen h),
         hs_last_seen = hi_last_seen h, hs_firing_count = hi_firing_count h\<rparr>)
       (map_of (ap_hosts s) host_id)"

definition broadcast :: "envelope \<Rightarrow> app_state \<Rightarrow> app_state" where
  "broadcast env s = s\<lparr>ap_fanout := ap_fanout s @ [env]\<rparr>"

lemmas app_defs =
  app_new_def bump_host_count_def apply_alert_def touch_host_def register_hello_def broadcast_def
  host_primary_ip_def host_in_maintenance_def Let_def


section \<open>Frame conditions\<close>

lemma app_frames [simp]:
  "ap_firing (bump_host_count hid d s) = ap_firing s"
  "ap_fanout (bump_host_count hid d s) = ap_fanout s"
  "ap_offline_after_s (bump_host_count hid d s) = ap_offline_after_s s"
  "ap_firing (touch_host h hid ts v s) = ap_firing s"
  "ap_fanout (touch_host h hid ts v s) = ap_fanout s"
  "ap_firing (register_hello hl s) = ap_firing s"
  "ap_fanout (register_hello hl s) = ap_fanout s"
  "ap_fanout (snd (apply_alert a s)) = ap_fanout s"
  "ap_firing (broadcast env s) = ap_firing s"
  "ap_hosts (broadcast env s) = ap_hosts s"
  "ap_fanout (broadcast env s) = ap_fanout s @ [env]"
  by (auto simp: app_defs split: option.splits alert_state.splits)

lemma firing_apply_alert:
  "ap_firing (snd (apply_alert a s)) =
     (case al_state a of
        Firing \<Rightarrow> AList.update (al_fingerprint a) a (ap_firing s)
      | Resolved \<Rightarrow> AList.delete (al_fingerprint a) (ap_firing s))"
  by (auto simp: apply_alert_def Let_def map_of_eq_None_iff delete_id
        split: alert_state.splits option.splits)

lemma fst_apply_alert:
  "fst (apply_alert a s) \<longleftrightarrow>
     al_state a = Firing \<or> map_of (ap_firing s) (al_fingerprint a) \<noteq> None"
  by (auto simp: apply_alert_def Let_def split: alert_state.splits option.splits)

end
