(* ===== verification/Coll_Invariant.thy ===== *)
theory Coll_Invariant
  imports Coll_State
begin

text \<open>
  The invariants of \<open>AppState\<close>. \<open>state_wf\<close> is structural: the firing map is keyed by fingerprint
  and holds firing alerts only, the host map is keyed by host id. \<open>counts_ok\<close> relates the two: the
  firing count kept for every host (what the heat map shows) is the number of alerts of that
  host in the firing map. The relation needs the fingerprint of an alert to determine its host,
  which is so for the fingerprints agents build as long as host ids hold no separator
  (\<open>keyed_alert\<close>), and fewer than \<open>2^31\<close> firing alerts, since the count is an \<open>i32\<close> in between.
\<close>

section \<open>Structural invariant\<close>

definition firing_wf :: "(string \<times> alert) list \<Rightarrow> bool" where
  "firing_wf fs \<longleftrightarrow>
     distinct (map fst fs) \<and> (\<forall>(k, a) \<in> set fs. al_fingerprint a = k \<and> al_state a = Firing)"

definition hosts_wf :: "(string \<times> host_info) list \<Rightarrow> bool" where
  "hosts_wf hs \<longleftrightarrow> distinct (map fst hs) \<and> (\<forall>(k, h) \<in> set hs. hi_host_id h = k)"

definition state_wf :: "app_state \<Rightarrow> bool" where
  "state_wf s \<longleftrightarrow> firing_wf (ap_firing s) \<and> hosts_wf (ap_hosts s)"

lemma firing_wf_update:
  "firing_wf fs \<Longrightarrow> al_state a = Firing \<Longrightarrow> firing_wf (AList.update (al_fingerprint a) a fs)"
  by (auto simp: firing_wf_def distinct_update set_update_distinct)

lemma firing_wf_delete: "firing_wf fs \<Longrightarrow> firing_wf (AList.delete k fs)"
  by (auto simp: firing_wf_def distinct_delete set_delete)

lemma hosts_wf_update:
  "hosts_wf hs \<Longrightarrow> hi_host_id h = k \<Longrightarrow> hosts_wf (AList.update k h hs)"
  by (auto simp: hosts_wf_def distinct_update set_update_distinct)

lemma hosts_wf_lookup: "hosts_wf hs \<Longrightarrow> map_of hs k = Some h \<Longrightarrow> hi_host_id h = k"
  by (auto simp: hosts_wf_def dest!: map_of_SomeD)

lemma state_wf_new: "state_wf (app_new n)"
  by (simp add: state_wf_def app_new_def firing_wf_def hosts_wf_def)

lemma state_wf_bump: "state_wf s \<Longrightarrow> state_wf (bump_host_count hid d s)"
  by (auto simp: state_wf_def bump_host_count_def Let_def
        intro!: hosts_wf_update dest: hosts_wf_lookup split: option.splits)

lemma state_wf_touch: "state_wf s \<Longrightarrow> state_wf (touch_host h hid ts v s)"
  by (auto simp: state_wf_def touch_host_def Let_def
        intro!: hosts_wf_update dest: hosts_wf_lookup split: option.splits)

lemma state_wf_hello: "state_wf s \<Longrightarrow> state_wf (register_hello hl s)"
  by (auto simp: state_wf_def register_hello_def Let_def
        intro!: hosts_wf_update dest: hosts_wf_lookup split: option.splits)

lemma state_wf_broadcast [simp]: "state_wf (broadcast e s) = state_wf s"
  by (simp add: state_wf_def)

lemma state_wf_firing:
  "state_wf s \<Longrightarrow> firing_wf fs \<Longrightarrow> state_wf (s\<lparr>ap_firing := fs\<rparr>)"
  by (simp add: state_wf_def)

lemma state_wf_apply:
  assumes "state_wf s"
  shows "state_wf (snd (apply_alert a s))"
proof -
  have "firing_wf (ap_firing s)" using assms by (simp add: state_wf_def)
  with assms show ?thesis
    unfolding apply_alert_def Let_def
    by (auto intro!: state_wf_bump state_wf_firing firing_wf_update firing_wf_delete
          split: alert_state.splits option.splits)
qed

lemmas state_wf_intros =
  state_wf_new state_wf_bump state_wf_touch state_wf_hello state_wf_apply


section \<open>Counting invariant\<close>

definition count_for :: "string \<Rightarrow> (string \<times> alert) list \<Rightarrow> nat" where
  "count_for hid fs = length (filter (\<lambda>(_, a). al_host_id a = hid) fs)"

definition keyed_alert :: "alert \<Rightarrow> bool" where
  "keyed_alert a \<longleftrightarrow>
     al_fingerprint a = fingerprint_of (al_host_id a) (al_category a) (al_device a) (al_metric a)
     \<and> no_sep (al_host_id a)"

definition counts_ok :: "app_state \<Rightarrow> bool" where
  "counts_ok s \<longleftrightarrow>
     (\<forall>(k, h) \<in> set (ap_hosts s). hi_firing_count h = of_nat (count_for k (ap_firing s)))
     \<and> (\<forall>(k, a) \<in> set (ap_firing s). keyed_alert a \<and> al_host_id a \<in> fst ` set (ap_hosts s))"

lemma keyed_alert_same_host:
  "keyed_alert a \<Longrightarrow> keyed_alert b \<Longrightarrow> al_fingerprint a = al_fingerprint b \<Longrightarrow> al_host_id a = al_host_id b"
  by (auto simp: keyed_alert_def dest: fingerprint_of_host_id)

lemma count_up:
  "n + 1 < 2 ^ 31 \<Longrightarrow>
     (let m = (of_nat n :: 32 word) + 1 in if sint m < 0 then 0 else m) = of_nat (Suc n)"
  using sint_of_nat_small [of "Suc n"] by (simp add: add.commute)

lemma count_down:
  "0 < n \<Longrightarrow> n < 2 ^ 31 \<Longrightarrow>
     (let m = (of_nat n :: 32 word) - 1 in if sint m < 0 then 0 else m) = of_nat (n - 1)"
  using sint_of_nat_small [of "n - 1"] by (cases n) simp_all

lemma count_for_le: "count_for hid fs \<le> length fs"
  by (simp add: count_for_def)

lemma count_for_update_new:
  "k \<notin> fst ` set fs \<Longrightarrow>
     count_for hid (AList.update k a fs) = count_for hid fs + (if al_host_id a = hid then 1 else 0)"
  unfolding count_for_def by (subst length_filter_update_new) auto

lemma count_for_update_old:
  "distinct (map fst fs) \<Longrightarrow> (k, a0) \<in> set fs \<Longrightarrow> al_host_id a0 = al_host_id a \<Longrightarrow>
     count_for hid (AList.update k a fs) = count_for hid fs"
  unfolding count_for_def by (subst length_filter_update_old [of _ _ a0]) auto

lemma count_for_delete:
  "distinct (map fst fs) \<Longrightarrow> (k, a0) \<in> set fs \<Longrightarrow>
     count_for hid (AList.delete k fs) = count_for hid fs - (if al_host_id a0 = hid then 1 else 0)"
  unfolding count_for_def by (subst length_filter_delete [of _ _ a0]) auto

lemma count_for_pos: "(k, a) \<in> set fs \<Longrightarrow> 0 < count_for (al_host_id a) fs"
  unfolding count_for_def by (auto simp: length_greater_0_conv filter_empty_conv)

lemma hosts_bump:
  assumes "hosts_wf (ap_hosts s)" and "(hid, h) \<in> set (ap_hosts s)"
  shows "ap_hosts (bump_host_count hid d s) =
     AList.update hid (h\<lparr>hi_firing_count := (let m = hi_firing_count h + d in if sint m < 0 then 0 else m)\<rparr>)
       (ap_hosts s)"
proof -
  have "map_of (ap_hosts s) hid = Some h"
    using assms by (simp add: hosts_wf_def map_of_in_set)
  then show ?thesis by (simp add: bump_host_count_def Let_def)
qed

text \<open>Changing the firing map together with the count of one host.\<close>

lemma counts_ok_change:
  assumes ok: "counts_ok s" and wf: "state_wf s" and h: "(hid, h) \<in> set (ap_hosts s)"
    and c: "hi_firing_count h' = of_nat (count_for hid fs)"
    and other: "\<And>k. k \<noteq> hid \<Longrightarrow> count_for k fs = count_for k (ap_firing s)"
    and keyed: "\<forall>(k, a) \<in> set fs. keyed_alert a \<and> al_host_id a \<in> fst ` set (ap_hosts s)"
    and s': "ap_hosts s' = AList.update hid h' (ap_hosts s)" "ap_firing s' = fs"
  shows "counts_ok s'"
proof -
  have d: "distinct (map fst (ap_hosts s))" using wf by (simp add: state_wf_def hosts_wf_def)
  have "\<forall>(k, g) \<in> set (AList.update hid h' (ap_hosts s)). hi_firing_count g = of_nat (count_for k fs)"
    using ok c other by (auto simp: set_update_distinct [OF d] counts_ok_def)
  moreover have "fst ` set (AList.update hid h' (ap_hosts s)) = fst ` set (ap_hosts s)"
    using h by (force simp: set_update_distinct [OF d])
  ultimately show ?thesis using keyed by (simp add: counts_ok_def s')
qed

lemma known_host:
  "counts_ok s \<Longrightarrow> (k, a) \<in> set (ap_firing s) \<Longrightarrow> \<exists>h. (al_host_id a, h) \<in> set (ap_hosts s)"
  by (fastforce simp: counts_ok_def)

lemma counts_ok_fire:
  assumes ok: "counts_ok s" and wf: "state_wf s" and a: "keyed_alert a" "al_state a = Firing"
    and known: "(al_host_id a, h) \<in> set (ap_hosts s)"
    and bound: "length (ap_firing s) + 1 < 2 ^ 31"
  shows "counts_ok (snd (apply_alert a s))"
proof (cases "map_of (ap_firing s) (al_fingerprint a)")
  case None
  let ?fs = "AList.update (al_fingerprint a) a (ap_firing s)"
  let ?s1 = "s\<lparr>ap_firing := ?fs\<rparr>"
  from None have new: "al_fingerprint a \<notin> fst ` set (ap_firing s)" by (simp add: map_of_eq_None_iff)
  have d: "distinct (map fst (ap_firing s))" using wf by (simp add: state_wf_def firing_wf_def)
  have hc: "hi_firing_count h = of_nat (count_for (al_host_id a) (ap_firing s))"
    using ok known by (auto simp: counts_ok_def)
  have lt: "count_for (al_host_id a) (ap_firing s) + 1 < 2 ^ 31"
    using bound count_for_le [of "al_host_id a" "ap_firing s"] by linarith
  have eq: "snd (apply_alert a s) = bump_host_count (al_host_id a) 1 ?s1"
    using a(2) None by (simp add: apply_alert_def)
  have hosts: "ap_hosts (snd (apply_alert a s)) = AList.update (al_host_id a)
      (h\<lparr>hi_firing_count := (let m = hi_firing_count h + 1 in if sint m < 0 then 0 else m)\<rparr>) (ap_hosts s)"
    unfolding eq using hosts_bump [of ?s1 "al_host_id a" h 1] wf known by (simp add: state_wf_def)
  show ?thesis
  proof (rule counts_ok_change [OF ok wf known _ _ _ hosts])
    show "ap_firing (snd (apply_alert a s)) = ?fs" by (simp add: firing_apply_alert a(2))
    show "hi_firing_count (h\<lparr>hi_firing_count := (let m = hi_firing_count h + 1 in if sint m < 0 then 0 else m)\<rparr>)
        = of_nat (count_for (al_host_id a) ?fs)"
      using count_up [OF lt] hc by (simp add: count_for_update_new [OF new])
    show "\<And>k. k \<noteq> al_host_id a \<Longrightarrow> count_for k ?fs = count_for k (ap_firing s)"
      by (simp add: count_for_update_new [OF new])
    show "\<forall>(k, x) \<in> set ?fs. keyed_alert x \<and> al_host_id x \<in> fst ` set (ap_hosts s)"
      using ok a(1) known by (force simp: set_update_distinct [OF d] counts_ok_def)
  qed
next
  case (Some a0)
  have d: "distinct (map fst (ap_firing s))" using wf by (simp add: state_wf_def firing_wf_def)
  have in0: "(al_fingerprint a, a0) \<in> set (ap_firing s)" using Some by (rule map_of_SomeD)
  then have "al_host_id a0 = al_host_id a"
    using ok a(1) wf by (intro keyed_alert_same_host) (auto simp: counts_ok_def state_wf_def firing_wf_def)
  then have cnt: "count_for k (AList.update (al_fingerprint a) a (ap_firing s)) = count_for k (ap_firing s)" for k
    using count_for_update_old [OF d in0] by simp
  have eq: "snd (apply_alert a s) = s\<lparr>ap_firing := AList.update (al_fingerprint a) a (ap_firing s)\<rparr>"
    using a(2) Some by (simp add: apply_alert_def)
  show ?thesis
    unfolding eq using ok a(1) known cnt
    by (force simp: counts_ok_def set_update_distinct [OF d])
qed

text \<open>Removing an alert from the firing map and taking one off its host's count.\<close>

lemma counts_ok_remove:
  assumes ok: "counts_ok s" and wf: "state_wf s" and in0: "(k, a0) \<in> set (ap_firing s)"
    and known: "(al_host_id a0, h) \<in> set (ap_hosts s)"
    and c: "hi_firing_count h' = of_nat (count_for (al_host_id a0) (ap_firing s) - 1)"
    and s': "ap_hosts s' = AList.update (al_host_id a0) h' (ap_hosts s)"
            "ap_firing s' = AList.delete k (ap_firing s)"
  shows "counts_ok s'"
proof -
  have d: "distinct (map fst (ap_firing s))" using wf by (simp add: state_wf_def firing_wf_def)
  show ?thesis
    by (rule counts_ok_change [OF ok wf known _ _ _ s'])
       (use ok c in \<open>auto simp: count_for_delete [OF d in0] counts_ok_def set_delete\<close>)
qed

lemma counts_ok_resolve:
  assumes ok: "counts_ok s" and wf: "state_wf s" and a: "keyed_alert a" "al_state a = Resolved"
    and bound: "length (ap_firing s) < 2 ^ 31"
  shows "counts_ok (snd (apply_alert a s))"
proof (cases "map_of (ap_firing s) (al_fingerprint a)")
  case None
  then have "snd (apply_alert a s) = s" using a(2) by (simp add: apply_alert_def)
  with ok show ?thesis by simp
next
  case (Some a0)
  let ?s1 = "s\<lparr>ap_firing := AList.delete (al_fingerprint a) (ap_firing s)\<rparr>"
  have in0: "(al_fingerprint a, a0) \<in> set (ap_firing s)" using Some by (rule map_of_SomeD)
  then have same: "al_host_id a0 = al_host_id a"
    using ok a(1) wf by (intro keyed_alert_same_host) (auto simp: counts_ok_def state_wf_def firing_wf_def)
  obtain h where h: "(al_host_id a0, h) \<in> set (ap_hosts s)" using known_host [OF ok in0] by blast
  have hc: "hi_firing_count h = of_nat (count_for (al_host_id a0) (ap_firing s))"
    using ok h by (auto simp: counts_ok_def)
  have lt: "count_for (al_host_id a0) (ap_firing s) < 2 ^ 31"
    using bound count_for_le [of "al_host_id a0" "ap_firing s"] by linarith
  have eq: "snd (apply_alert a s) = bump_host_count (al_host_id a0) (- 1) ?s1"
    using a(2) Some same by (simp add: apply_alert_def)
  show ?thesis
  proof (rule counts_ok_remove [OF ok wf in0 h])
    show "ap_hosts (snd (apply_alert a s)) = AList.update (al_host_id a0)
        (h\<lparr>hi_firing_count := (let m = hi_firing_count h + - 1 in if sint m < 0 then 0 else m)\<rparr>) (ap_hosts s)"
      unfolding eq using hosts_bump [of ?s1 "al_host_id a0" h "- 1"] wf h by (simp add: state_wf_def)
    show "hi_firing_count (h\<lparr>hi_firing_count := (let m = hi_firing_count h + - 1 in if sint m < 0 then 0 else m)\<rparr>)
        = of_nat (count_for (al_host_id a0) (ap_firing s) - 1)"
      using count_down [OF count_for_pos [OF in0] lt] hc by simp
    show "ap_firing (snd (apply_alert a s)) = AList.delete (al_fingerprint a) (ap_firing s)"
      by (simp add: firing_apply_alert a(2))
  qed
qed

text \<open>Creating or refreshing a host entry keeps the counts: a new entry starts at zero, and no
  alert of an unknown host is firing.\<close>

lemma count_for_unknown:
  assumes "counts_ok s" and "hid \<notin> fst ` set (ap_hosts s)"
  shows "count_for hid (ap_firing s) = 0"
  using assms by (auto simp: count_for_def counts_ok_def filter_empty_conv)

lemma counts_ok_host_update:
  assumes ok: "counts_ok s" and wf: "state_wf s"
    and c: "hi_firing_count h' =
       (case map_of (ap_hosts s) hid of Some h \<Rightarrow> hi_firing_count h | None \<Rightarrow> 0)"
  shows "counts_ok (s\<lparr>ap_hosts := AList.update hid h' (ap_hosts s)\<rparr>)"
proof -
  have d: "distinct (map fst (ap_hosts s))" using wf by (simp add: state_wf_def hosts_wf_def)
  have "hi_firing_count h' = of_nat (count_for hid (ap_firing s))"
  proof (cases "map_of (ap_hosts s) hid")
    case None
    then have "hid \<notin> fst ` set (ap_hosts s)" by (simp add: map_of_eq_None_iff)
    from count_for_unknown [OF ok this] c None show ?thesis by (simp del: map_of_eq_None_iff)
  next
    case (Some h)
    then show ?thesis using c ok by (auto simp: counts_ok_def dest!: map_of_SomeD)
  qed
  then show ?thesis
    using ok by (fastforce simp: counts_ok_def set_update_distinct [OF d] image_iff)
qed

lemma counts_ok_touch:
  assumes "counts_ok s" and "state_wf s"
  shows "counts_ok (touch_host h hid ts v s)"
  unfolding touch_host_def Let_def
  by (rule counts_ok_host_update [OF assms]) (simp split: option.splits)

lemma counts_ok_hello:
  assumes "counts_ok s" and "state_wf s"
  shows "counts_ok (register_hello hl s)"
  unfolding register_hello_def Let_def
  by (rule counts_ok_host_update [OF assms]) (simp split: option.splits)

lemma counts_ok_broadcast [simp]: "counts_ok (broadcast e s) = counts_ok s"
  by (simp add: counts_ok_def)

lemma counts_ok_new: "counts_ok (app_new n)"
  by (simp add: counts_ok_def app_new_def)

lemma touch_host_known: "\<exists>e. (hid, e) \<in> set (ap_hosts (touch_host h hid ts v s))"
proof -
  have "\<exists>g. (hid, g) \<in> set (AList.update hid e hs)" for e and hs :: "(string \<times> host_info) list"
    by (induction hs) auto
  then show ?thesis unfolding touch_host_def Let_def by (simp del: update.simps)
qed

end
