(* ===== verification/Coll_Feed.thy ===== *)
theory Coll_Feed
  imports Coll_Invariant
begin

text \<open>
  The contract between the collector's state and the browsers that watch it. \<open>gui_handle\<close> is the
  function \<open>handle\<close> of \<open>gui/app.js\<close>, as far as it keeps the two tables the page shows (alerts by
  fingerprint, hosts by host id); the history list, notifications and rendering are left out. A
  JavaScript object of a host that was first seen by a heartbeat or status message has no agent
  version, which is the empty string here.

  The locale \<open>collector_op\<close> is the interface every writer of \<open>AppState\<close> fulfils (ingest, the
  offline watcher, the operator's resolve, the syslog listener): it keeps the structural
  invariant, and what it broadcasts takes a page that shows the firing map to one that shows the
  new firing map. A page merges the first-seen time and the occurrence count of repeated alerts,
  so two alerts are compared without these two fields (\<open>alert_core\<close>).
\<close>

record gui_view =
  gv_alerts :: "string \<rightharpoonup> alert"
  gv_hosts :: "string \<rightharpoonup> host_state"

definition gui_empty :: gui_view where
  "gui_empty = \<lparr>gv_alerts = Map.empty, gv_hosts = Map.empty\<rparr>"

text \<open>\<open>x || 1\<close> on a number.\<close>

definition or_one :: "u64 \<Rightarrow> u64" where
  "or_one n = (if n = 0 then 1 else n)"

definition gui_alert :: "alert \<Rightarrow> gui_view \<Rightarrow> gui_view" where
  "gui_alert a v =
     (case al_state a of
        Resolved \<Rightarrow> v\<lparr>gv_alerts := (gv_alerts v)(al_fingerprint a := None)\<rparr>
      | Firing \<Rightarrow>
          (let a1 = (case gv_alerts v (al_fingerprint a) of
               None \<Rightarrow> a
             | Some e \<Rightarrow> a\<lparr>al_first_seen := al_first_seen e,
                 al_occurrences := max (or_one (al_occurrences a)) (or_one (al_occurrences e))\<rparr>)
           in v\<lparr>gv_alerts := (gv_alerts v)(al_fingerprint a \<mapsto> a1)\<rparr>))"

definition gui_heartbeat :: "heartbeat \<Rightarrow> gui_view \<Rightarrow> gui_view" where
  "gui_heartbeat hb v =
     (let h = (case gv_hosts v (hb_host_id hb) of
          Some h \<Rightarrow> h
        | None \<Rightarrow> \<lparr>hst_host = hb_host hb, hst_host_id = hb_host_id hb, hst_primary_ip = [],
                   hst_online = True, hst_last_seen = hb_ts hb, hst_firing_count = 0,
                   hst_tags = Map.empty, hst_agent_version = [], hst_maintenance = False\<rparr>)
      in v\<lparr>gv_hosts := (gv_hosts v)(hb_host_id hb \<mapsto>
             h\<lparr>hst_last_seen := hb_ts hb, hst_firing_count := hb_firing_count hb\<rparr>)\<rparr>)"

definition gui_host_status :: "host_status \<Rightarrow> gui_view \<Rightarrow> gui_view" where
  "gui_host_status st v =
     (let h = (case gv_hosts v (hs_host_id st) of
          Some h \<Rightarrow> h\<lparr>hst_online := hs_online st, hst_last_seen := hs_last_seen st,
                       hst_firing_count := hs_firing_count st\<rparr>
        | None \<Rightarrow> \<lparr>hst_host = hs_host st, hst_host_id = hs_host_id st, hst_primary_ip = [],
                   hst_online = hs_online st, hst_last_seen = hs_last_seen st,
                   hst_firing_count = hs_firing_count st, hst_tags = Map.empty,
                   hst_agent_version = [], hst_maintenance = False\<rparr>)
      in v\<lparr>gv_hosts := (gv_hosts v)(hs_host_id st \<mapsto> h)\<rparr>)"

definition gui_hello :: "hello \<Rightarrow> gui_view \<Rightarrow> gui_view" where
  "gui_hello hl v =
     (let h = (case gv_hosts v (hl_host_id hl) of
          None \<Rightarrow> \<lparr>hst_host = hl_host hl, hst_host_id = hl_host_id hl,
                   hst_primary_ip = hl_primary_ip hl, hst_online = True,
                   hst_last_seen = hl_started_at hl, hst_firing_count = 0,
                   hst_tags = hl_tags hl, hst_agent_version = [],
                   hst_maintenance = hl_maintenance hl\<rparr>
        | Some h \<Rightarrow> h\<lparr>hst_primary_ip := (if hl_primary_ip hl \<noteq> [] then hl_primary_ip hl else hst_primary_ip h),
                       hst_tags := hl_tags hl,
                       hst_host := (if hl_host hl \<noteq> [] then hl_host hl else hst_host h),
                       hst_maintenance := hl_maintenance hl\<rparr>)
      in v\<lparr>gv_hosts := (gv_hosts v)(hl_host_id hl \<mapsto> h)\<rparr>)"

definition gui_snapshot :: "snapshot \<Rightarrow> gui_view" where
  "gui_snapshot sn =
     \<lparr>gv_alerts = fold (\<lambda>a m. m(al_fingerprint a \<mapsto> a)) (sn_alerts sn) Map.empty,
      gv_hosts = fold (\<lambda>h m. m(hst_host_id h \<mapsto> h)) (sn_hosts sn) Map.empty\<rparr>"

primrec gui_handle :: "envelope \<Rightarrow> gui_view \<Rightarrow> gui_view" where
  "gui_handle (ESnapshot sn) v = gui_snapshot sn"
| "gui_handle (EAlert a) v = gui_alert a v"
| "gui_handle (EHeartbeat hb) v = gui_heartbeat hb v"
| "gui_handle (EHostStatus st) v = gui_host_status st v"
| "gui_handle (EHello hl) v = gui_hello hl v"


section \<open>When a page shows the firing map\<close>

definition alert_core :: "alert \<Rightarrow> alert" where
  "alert_core a = a\<lparr>al_first_seen := 0, al_occurrences := 0\<rparr>"

definition view_shows :: "gui_view \<Rightarrow> app_state \<Rightarrow> bool" where
  "view_shows v s \<longleftrightarrow>
     (\<forall>fp. map_option alert_core (gv_alerts v fp) = map_option alert_core (map_of (ap_firing s) fp))"

text \<open>\<open>s'\<close> comes after \<open>s\<close>, and the broadcasts in between carry the change.\<close>

definition publishes :: "app_state \<Rightarrow> app_state \<Rightarrow> bool" where
  "publishes s s' \<longleftrightarrow>
     (\<exists>new. ap_fanout s' = ap_fanout s @ new \<and>
        (\<forall>v. view_shows v s \<longrightarrow> view_shows (fold gui_handle new v) s'))"

lemma publishes_refl [simp, intro]: "publishes s s"
  by (simp add: publishes_def)

lemma publishes_trans [trans]: "publishes s s' \<Longrightarrow> publishes s' s'' \<Longrightarrow> publishes s s''"
  unfolding publishes_def by (metis append.assoc comp_apply fold_append)

lemma publishes_same_firing:
  assumes "ap_firing s' = ap_firing s" and "ap_fanout s' = ap_fanout s"
  shows "publishes s s'"
  using assms by (simp add: publishes_def view_shows_def)

lemma gui_alerts_frame [simp]:
  "gv_alerts (gui_heartbeat hb v) = gv_alerts v"
  "gv_alerts (gui_host_status st v) = gv_alerts v"
  "gv_alerts (gui_hello hl v) = gv_alerts v"
  by (simp_all add: gui_heartbeat_def gui_host_status_def gui_hello_def Let_def)

text \<open>Broadcasting anything but an alert or a snapshot does not change what is shown.\<close>

lemma publishes_broadcast_host:
  assumes "publishes s s'" and "\<And>a. env \<noteq> EAlert a" and "\<And>sn. env \<noteq> ESnapshot sn"
  shows "publishes s (broadcast env s')"
  by (rule publishes_trans [OF assms(1)], unfold publishes_def, rule exI [of _ "[env]"])
     (use assms(2,3) in \<open>cases env; auto simp: view_shows_def\<close>)

lemma alert_core_simps [simp]:
  "alert_core (a\<lparr>al_first_seen := t\<rparr>) = alert_core a"
  "alert_core (a\<lparr>al_occurrences := n\<rparr>) = alert_core a"
  by (simp_all add: alert_core_def)

lemma gui_alert_shows:
  assumes "view_shows v s"
    and "map_of (ap_firing s') = (map_of (ap_firing s))
           (al_fingerprint a := (case al_state a of Firing \<Rightarrow> Some a | Resolved \<Rightarrow> None))"
  shows "view_shows (gui_alert a v) s'"
  using assms
  by (auto simp: view_shows_def gui_alert_def Let_def split: alert_state.splits option.splits)

text \<open>Changing the firing map by an alert and broadcasting that alert.\<close>

lemma publishes_alert:
  assumes "ap_fanout s' = ap_fanout s @ [EAlert a]"
    and "map_of (ap_firing s') = (map_of (ap_firing s))
           (al_fingerprint a := (case al_state a of Firing \<Rightarrow> Some a | Resolved \<Rightarrow> None))"
  shows "publishes s s'"
  unfolding publishes_def using assms by (intro exI [of _ "[EAlert a]"]) (auto intro: gui_alert_shows)

lemma publishes_apply_broadcast:
  "publishes s (broadcast (EAlert a) (snd (apply_alert a s)))"
  by (rule publishes_alert [of _ _ a])
     (auto simp: firing_apply_alert update_conv' delete_conv' split: alert_state.splits)

lemma publishes_apply_unchanged:
  "\<not> fst (apply_alert a s) \<Longrightarrow> publishes s (snd (apply_alert a s))"
  by (rule publishes_same_firing)
     (auto simp: apply_alert_def Let_def split: alert_state.splits option.splits)

lemma fold_update_map_of:
  assumes "firing_wf fs"
  shows "fold (\<lambda>a m. m(al_fingerprint a \<mapsto> a)) (map snd fs) m = m ++ map_of fs"
  using assms
proof (induction fs arbitrary: m)
  case (Cons x fs)
  obtain k a where x: "x = (k, a)" by force
  with Cons.prems have k: "k = al_fingerprint a" and "firing_wf fs" and "k \<notin> fst ` set fs"
    by (auto simp: firing_wf_def)
  then have "map_of fs k = None" by (simp add: map_of_eq_None_iff)
  then have "m(k \<mapsto> a) ++ map_of fs = m ++ (map_of fs)(k \<mapsto> a)"
    by (auto simp: map_add_def fun_eq_iff split: option.splits)
  with Cons.IH [OF \<open>firing_wf fs\<close>, of "m(k \<mapsto> a)"] show ?case
    by (simp only: x k list.map snd_conv fold_simps map_of.simps fst_conv)
qed simp

text \<open>A snapshot shows the state it was taken of, whatever the page showed before.\<close>

lemma snapshot_shows:
  "state_wf s \<Longrightarrow> view_shows (gui_snapshot (app_snapshot num_seconds now s)) s"
  by (simp add: view_shows_def gui_snapshot_def app_snapshot_def state_wf_def fold_update_map_of)

lemma publishes_snapshot:
  assumes "state_wf s"
  shows "publishes s (broadcast (ESnapshot (app_snapshot num_seconds now s)) s)"
  unfolding publishes_def
  by (rule exI [of _ "[ESnapshot (app_snapshot num_seconds now s)]"])
     (use snapshot_shows [OF assms] in \<open>simp add: view_shows_def\<close>)

lemmas publishes_intros =
  publishes_broadcast_host publishes_apply_broadcast publishes_apply_unchanged publishes_snapshot


section \<open>The interface of an operation on the collector's state\<close>

locale collector_op =
  fixes app :: "'s \<Rightarrow> app_state"
    and op :: "'i \<Rightarrow> 's \<Rightarrow> 's"
  assumes op_wf: "state_wf (app s) \<Longrightarrow> state_wf (app (op i s))"
    and op_publishes: "state_wf (app s) \<Longrightarrow> publishes (app s) (app (op i s))"
begin

lemma run_wf: "state_wf (app s) \<Longrightarrow> state_wf (app (fold op xs s))"
  by (induction xs arbitrary: s) (simp_all add: op_wf)

lemma run_publishes:
  assumes "state_wf (app s)"
  shows "publishes (app s) (app (fold op xs s))"
  using assms
proof (induction xs arbitrary: s)
  case (Cons x xs)
  have "publishes (app s) (app (op x s))" by (rule op_publishes [OF Cons.prems])
  also have "publishes \<dots> (app (fold op xs (op x s)))" by (rule Cons.IH [OF op_wf [OF Cons.prems]])
  finally show ?case by simp
qed simp

text \<open>A page that took its snapshot in \<open>s\<close> and received every later broadcast shows the firing
  map of the last state.\<close>

lemma run_feed:
  assumes "state_wf (app s)"
  shows "view_shows
     (fold gui_handle (drop (length (ap_fanout (app s))) (ap_fanout (app (fold op xs s))))
        (gui_snapshot (app_snapshot num_seconds now (app s))))
     (app (fold op xs s))"
proof -
  from run_publishes [OF assms, of xs] obtain new
    where "ap_fanout (app (fold op xs s)) = ap_fanout (app s) @ new"
      and "\<And>v. view_shows v (app s) \<Longrightarrow> view_shows (fold gui_handle new v) (app (fold op xs s))"
    by (auto simp: publishes_def)
  then show ?thesis using snapshot_shows [OF assms] by simp
qed

end

end
