(* ===== verification/Coll_Ingest.thy ===== *)
theory Coll_Ingest
  imports Coll_Feed
begin

text \<open>
  \<open>collector/src/ws_ingest.rs\<close>: one agent connection. The state of a connection is the shared
  \<open>AppState\<close>, the sender of the store writer and the host that said hello on it. What is not in
  the repository is a parameter: \<open>decode\<close> is \<open>serde_json::from_str\<close> on an envelope (None for an
  error), \<open>try_send\<close> is the bounded channel's \<open>try_send\<close> (None when the message is refused, so
  the alert is not persisted).
\<close>

datatype ws_message =
    RecvErr
  | MText string
  | MBinary string
  | MPing
  | MPong
  | MClose

record 'w ingest_conn =
  cn_app :: app_state
  cn_writer :: 'w
  cn_host :: "(string \<times> string) option"

type_synonym 'w sender = "'w \<Rightarrow> alert \<Rightarrow> 'w option"

text \<open>A refused send leaves the channel as it was; the loss is only logged.\<close>

definition writer_send :: "'w sender \<Rightarrow> alert \<Rightarrow> 'w \<Rightarrow> 'w" where
  "writer_send try_send a w = (case try_send w a of Some w' \<Rightarrow> w' | None \<Rightarrow> w)"

definition ingest_hello :: "hello \<Rightarrow> 'w ingest_conn \<Rightarrow> 'w ingest_conn" where
  "ingest_hello h c =
     c\<lparr>cn_app := broadcast (EHello h) (register_hello h (cn_app c)),
       cn_host := Some (hl_host h, hl_host_id h)\<rparr>"

text \<open>The lookup of the host status after a heartbeat only feeds a debug message.\<close>

definition ingest_heartbeat :: "heartbeat \<Rightarrow> 'w ingest_conn \<Rightarrow> 'w ingest_conn" where
  "ingest_heartbeat hb c =
     c\<lparr>cn_app := broadcast (EHeartbeat hb)
        (touch_host (hb_host hb) (hb_host_id hb) (hb_ts hb) (hb_agent_version hb) (cn_app c))\<rparr>"

definition stamp_primary_ip :: "app_state \<Rightarrow> alert \<Rightarrow> alert" where
  "stamp_primary_ip s a =
     (if al_primary_ip a = [] then a\<lparr>al_primary_ip := host_primary_ip (al_host_id a) s\<rparr> else a)"

definition ingest_alert :: "'w sender \<Rightarrow> alert \<Rightarrow> 'w ingest_conn \<Rightarrow> 'w ingest_conn" where
  "ingest_alert try_send a c =
     (if host_in_maintenance (al_host_id a) (cn_app c) then c
      else
        let s1 = touch_host (al_host a) (al_host_id a) (al_ts a) [] (cn_app c);
            a1 = stamp_primary_ip s1 a;
            (changed, s2) = apply_alert a1 s1;
            w' = writer_send try_send a1 (cn_writer c);
            s3 = (if changed then broadcast (EAlert a1) s2 else s2)
        in c\<lparr>cn_app := s3, cn_writer := w'\<rparr>)"

primrec ingest_envelope :: "'w sender \<Rightarrow> envelope \<Rightarrow> 'w ingest_conn \<Rightarrow> 'w ingest_conn" where
  "ingest_envelope try_send (EHello h) c = ingest_hello h c"
| "ingest_envelope try_send (EHeartbeat hb) c = ingest_heartbeat hb c"
| "ingest_envelope try_send (EAlert a) c = ingest_alert try_send a c"
| "ingest_envelope try_send (ESnapshot s) c = c"
| "ingest_envelope try_send (EHostStatus s) c = c"

definition ingest_text ::
  "(string \<Rightarrow> envelope option) \<Rightarrow> 'w sender \<Rightarrow> string \<Rightarrow> 'w ingest_conn \<Rightarrow> 'w ingest_conn" where
  "ingest_text decode try_send text c =
     (case decode text of None \<Rightarrow> c | Some env \<Rightarrow> ingest_envelope try_send env c)"

text \<open>One round of the receive loop: None when it leaves the loop.\<close>

primrec ingest_message ::
  "(string \<Rightarrow> envelope option) \<Rightarrow> 'w sender \<Rightarrow> ws_message \<Rightarrow> 'w ingest_conn \<Rightarrow> 'w ingest_conn option" where
  "ingest_message decode try_send RecvErr c = None"
| "ingest_message decode try_send (MText t) c = Some (ingest_text decode try_send t c)"
| "ingest_message decode try_send (MBinary b) c =
     Some (ingest_text decode try_send (from_utf8_lossy b) c)"
| "ingest_message decode try_send MPing c = Some c"
| "ingest_message decode try_send MPong c = Some c"
| "ingest_message decode try_send MClose c = None"

definition ingest_disconnect :: "datetime \<Rightarrow> 'w ingest_conn \<Rightarrow> 'w ingest_conn" where
  "ingest_disconnect now c =
     (case cn_host c of
        None \<Rightarrow> c
      | Some (host, host_id) \<Rightarrow>
          c\<lparr>cn_app := broadcast (EHostStatus \<lparr>hs_host = host, hs_host_id = host_id, hs_online = False,
              hs_last_seen = now, hs_firing_count = 0\<rparr>) (cn_app c)\<rparr>)"

text \<open>The whole connection on the messages it receives; the stream ends after the last one.\<close>

fun handle_socket ::
  "(string \<Rightarrow> envelope option) \<Rightarrow> 'w sender \<Rightarrow> datetime \<Rightarrow> ws_message list \<Rightarrow> 'w ingest_conn
     \<Rightarrow> 'w ingest_conn" where
  "handle_socket decode try_send now [] c = ingest_disconnect now c"
| "handle_socket decode try_send now (m # ms) c =
     (case ingest_message decode try_send m c of
        None \<Rightarrow> ingest_disconnect now c
      | Some c' \<Rightarrow> handle_socket decode try_send now ms c')"

lemmas ingest_defs =
  ingest_hello_def ingest_heartbeat_def ingest_alert_def ingest_text_def ingest_disconnect_def
  stamp_primary_ip_def


section \<open>Facts\<close>

lemma stamp_simps [simp]:
  "al_fingerprint (stamp_primary_ip s a) = al_fingerprint a"
  "al_state (stamp_primary_ip s a) = al_state a"
  "al_host_id (stamp_primary_ip s a) = al_host_id a"
  "al_host (stamp_primary_ip s a) = al_host a"
  "keyed_alert (stamp_primary_ip s a) = keyed_alert a"
  by (auto simp: stamp_primary_ip_def keyed_alert_def)

lemma ingest_alert_held:
  "host_in_maintenance (al_host_id a) (cn_app c) \<Longrightarrow> ingest_alert try_send a c = c"
  by (simp add: ingest_alert_def)

text \<open>The state after an alert that is not held back by maintenance, in one equation.\<close>

lemma ingest_alert_accepted:
  assumes "\<not> host_in_maintenance (al_host_id a) (cn_app c)"
  shows "ingest_alert try_send a c =
    (let s1 = touch_host (al_host a) (al_host_id a) (al_ts a) [] (cn_app c);
         a1 = stamp_primary_ip s1 a
     in c\<lparr>cn_app := (if al_state a = Firing \<or> map_of (ap_firing (cn_app c)) (al_fingerprint a) \<noteq> None
                     then broadcast (EAlert a1) (snd (apply_alert a1 s1)) else snd (apply_alert a1 s1)),
          cn_writer := writer_send try_send a1 (cn_writer c)\<rparr>)"
  using assms by (simp add: ingest_alert_def Let_def fst_apply_alert split: prod.splits)
    (auto simp: fst_apply_alert dest!: arg_cong [of _ _ fst])

lemma state_wf_ingest_alert:
  "state_wf (cn_app c) \<Longrightarrow> state_wf (cn_app (ingest_alert try_send a c))"
  by (cases "host_in_maintenance (al_host_id a) (cn_app c)")
     (simp_all add: ingest_alert_held ingest_alert_accepted Let_def state_wf_touch state_wf_apply)

lemma state_wf_ingest_envelope:
  "state_wf (cn_app c) \<Longrightarrow> state_wf (cn_app (ingest_envelope try_send env c))"
  by (cases env)
     (simp_all add: state_wf_ingest_alert ingest_hello_def ingest_heartbeat_def
        state_wf_hello state_wf_touch)

lemma state_wf_ingest_message:
  "state_wf (cn_app c) \<Longrightarrow> ingest_message decode try_send m c = Some c' \<Longrightarrow> state_wf (cn_app c')"
  by (cases m) (auto simp: ingest_text_def state_wf_ingest_envelope split: option.splits)

lemma ingest_disconnect_frames [simp]:
  "ap_firing (cn_app (ingest_disconnect now c)) = ap_firing (cn_app c)"
  "ap_hosts (cn_app (ingest_disconnect now c)) = ap_hosts (cn_app c)"
  by (simp_all add: ingest_disconnect_def split: option.splits prod.splits)

lemma state_wf_disconnect [simp]:
  "state_wf (cn_app (ingest_disconnect now c)) = state_wf (cn_app c)"
  by (simp add: state_wf_def)

lemma counts_ok_disconnect [simp]:
  "counts_ok (cn_app (ingest_disconnect now c)) = counts_ok (cn_app c)"
  by (simp add: counts_ok_def)

lemma counts_ok_ingest_alert:
  assumes "counts_ok (cn_app c)" and "state_wf (cn_app c)" and "keyed_alert a"
    and "length (ap_firing (cn_app c)) + 1 < 2 ^ 31"
  shows "counts_ok (cn_app (ingest_alert try_send a c))"
proof (cases "host_in_maintenance (al_host_id a) (cn_app c)")
  case True
  with assms show ?thesis by (simp add: ingest_alert_def)
next
  case False
  let ?s1 = "touch_host (al_host a) (al_host_id a) (al_ts a) [] (cn_app c)"
  let ?a1 = "stamp_primary_ip ?s1 a"
  have s1: "counts_ok ?s1" "state_wf ?s1" using assms by (simp_all add: counts_ok_touch state_wf_touch)
  obtain h where "(al_host_id ?a1, h) \<in> set (ap_hosts ?s1)" using touch_host_known by force
  then have "counts_ok (snd (apply_alert ?a1 ?s1))"
    using s1 assms by (cases "al_state a") (auto intro: counts_ok_fire counts_ok_resolve)
  with False show ?thesis by (simp add: ingest_alert_accepted Let_def)
qed

definition keyed_envelope :: "envelope \<Rightarrow> bool" where
  "keyed_envelope env = (case env of EAlert a \<Rightarrow> keyed_alert a | _ \<Rightarrow> True)"

lemma counts_ok_ingest_envelope:
  assumes "counts_ok (cn_app c)" and "state_wf (cn_app c)" and "keyed_envelope env"
    and "length (ap_firing (cn_app c)) + 1 < 2 ^ 31"
  shows "counts_ok (cn_app (ingest_envelope try_send env c))"
  using assms
  by (cases env)
     (simp_all add: counts_ok_ingest_alert ingest_hello_def ingest_heartbeat_def
        counts_ok_hello counts_ok_touch keyed_envelope_def)

lemma length_update: "length (AList.update k v xs) \<le> Suc (length xs)"
  by (induction xs) auto

lemma length_delete: "length (AList.delete k xs) \<le> length xs"
  by (simp add: AList.delete_eq)

lemma firing_ingest_alert:
  "ap_firing (cn_app (ingest_alert try_send a c)) =
     (if host_in_maintenance (al_host_id a) (cn_app c) then ap_firing (cn_app c)
      else (case al_state a of
        Firing \<Rightarrow> AList.update (al_fingerprint a)
           (stamp_primary_ip (touch_host (al_host a) (al_host_id a) (al_ts a) [] (cn_app c)) a)
           (ap_firing (cn_app c))
      | Resolved \<Rightarrow> AList.delete (al_fingerprint a) (ap_firing (cn_app c))))"
  by (cases "host_in_maintenance (al_host_id a) (cn_app c)")
     (simp_all add: ingest_alert_held ingest_alert_accepted Let_def firing_apply_alert
        split: alert_state.splits)

lemma length_firing_ingest_envelope:
  "length (ap_firing (cn_app (ingest_envelope try_send env c))) \<le> length (ap_firing (cn_app c)) + 1"
  by (cases env)
     (auto simp: ingest_hello_def ingest_heartbeat_def firing_ingest_alert length_update
        intro: le_SucI length_delete split: alert_state.splits)


section \<open>The connection as an operation on the collector's state\<close>

lemma publishes_ingest_alert: "publishes (cn_app c) (cn_app (ingest_alert try_send a c))"
proof (cases "host_in_maintenance (al_host_id a) (cn_app c)")
  case False
  let ?s1 = "touch_host (al_host a) (al_host_id a) (al_ts a) [] (cn_app c)"
  have "publishes (cn_app c) ?s1" by (rule publishes_same_firing) simp_all
  also have "publishes ?s1 (cn_app (ingest_alert try_send a c))"
    using publishes_apply_broadcast [of ?s1] publishes_apply_unchanged [of _ ?s1]
    by (simp add: ingest_alert_accepted [OF False] Let_def fst_apply_alert)
  finally show ?thesis .
qed (simp add: ingest_alert_held)

lemma publishes_ingest_envelope:
  "publishes (cn_app c) (cn_app (ingest_envelope try_send env c))"
  by (cases env)
     (auto simp: publishes_ingest_alert ingest_hello_def ingest_heartbeat_def
        intro!: publishes_broadcast_host [OF publishes_same_firing])

interpretation ingest: collector_op cn_app "ingest_envelope try_send" for try_send
  by unfold_locales (simp_all add: state_wf_ingest_envelope publishes_ingest_envelope)

text \<open>A connection is a run of the envelopes its messages decode to, then the disconnect.\<close>

fun received :: "(string \<Rightarrow> envelope option) \<Rightarrow> ws_message list \<Rightarrow> envelope list" where
  "received decode [] = []"
| "received decode (m # ms) =
     (case m of
        RecvErr \<Rightarrow> [] | MClose \<Rightarrow> []
      | MText t \<Rightarrow> (case decode t of None \<Rightarrow> [] | Some e \<Rightarrow> [e]) @ received decode ms
      | MBinary b \<Rightarrow> (case decode (from_utf8_lossy b) of None \<Rightarrow> [] | Some e \<Rightarrow> [e]) @ received decode ms
      | MPing \<Rightarrow> received decode ms
      | MPong \<Rightarrow> received decode ms)"

lemma handle_socket_run:
  "handle_socket decode try_send now ms c =
     ingest_disconnect now (fold (ingest_envelope try_send) (received decode ms) c)"
  by (induction ms arbitrary: c)
     (auto simp: ingest_text_def split: ws_message.splits option.splits)

lemma publishes_disconnect: "publishes (cn_app c) (cn_app (ingest_disconnect now c))"
  by (auto simp: ingest_disconnect_def intro!: publishes_broadcast_host split: option.splits)

lemma handle_socket_wf:
  "state_wf (cn_app c) \<Longrightarrow> state_wf (cn_app (handle_socket decode try_send now ms c))"
  by (simp add: handle_socket_run ingest.run_wf)

lemma handle_socket_publishes:
  "state_wf (cn_app c) \<Longrightarrow> publishes (cn_app c) (cn_app (handle_socket decode try_send now ms c))"
  unfolding handle_socket_run by (metis ingest.run_publishes publishes_disconnect publishes_trans)

lemma counts_ok_run:
  assumes "counts_ok (cn_app c)" and "state_wf (cn_app c)" and "\<forall>env \<in> set es. keyed_envelope env"
    and "length (ap_firing (cn_app c)) + length es < 2 ^ 31"
  shows "counts_ok (cn_app (fold (ingest_envelope try_send) es c))"
  using assms
proof (induction es arbitrary: c)
  case (Cons e es)
  have "counts_ok (cn_app (ingest_envelope try_send e c))"
    using Cons.prems by (intro counts_ok_ingest_envelope) auto
  moreover have "state_wf (cn_app (ingest_envelope try_send e c))"
    using Cons.prems(2) by (rule state_wf_ingest_envelope)
  ultimately show ?case
    using Cons.IH Cons.prems length_firing_ingest_envelope [of try_send e c] by simp
qed simp

end
