(* ===== verification/Coll_Http.thy ===== *)
theory Coll_Http
  imports Coll_Ingest
begin

text \<open>
  \<open>collector/src/http.rs\<close>: the routes of the GUI port. A handler returns a status and a body. The
  database, the configuration file and the formatting of times are parameters: \<open>list_recent\<close> and
  \<open>clear_all\<close> are the two calls on the store, \<open>read_file\<close> and \<open>write_file\<close> the file operations,
  \<open>to_rfc3339\<close> chrono's formatter, \<open>parse_webhooks\<close> the TOML parser followed by the selection of the
  configured webhooks as (name, kind, severity minimum). Routes that serve static files are not
  modelled.
\<close>

datatype status_code =
  OK | NO_CONTENT | BAD_REQUEST | NOT_FOUND | INTERNAL_SERVER_ERROR

record webhook_summary =
  ws_name :: string
  ws_kind :: string
  ws_sev_min :: string
  ws_active :: bool

datatype body =
    BEmpty
  | BText string
  | BSnapshot snapshot
  | BAlerts "alert list"
  | BHosts "host_state list"
  | BDeleted u64
  | BWebhooks "webhook_summary list"

record 'w http_gui =
  gs_app :: app_state
  gs_writer :: 'w

definition api_snapshot :: "(int \<Rightarrow> int) \<Rightarrow> datetime \<Rightarrow> 'w http_gui \<Rightarrow> body" where
  "api_snapshot num_seconds now g = BSnapshot (app_snapshot num_seconds now (gs_app g))"

definition api_hosts :: "(int \<Rightarrow> int) \<Rightarrow> datetime \<Rightarrow> 'w http_gui \<Rightarrow> body" where
  "api_hosts num_seconds now g = BHosts (sn_hosts (app_snapshot num_seconds now (gs_app g)))"

definition default_limit :: int where "default_limit = 500"

definition clamp :: "int \<Rightarrow> int \<Rightarrow> int \<Rightarrow> int" where
  "clamp x lo hi = (if x < lo then lo else if hi < x then hi else x)"

definition api_alerts :: "(int \<Rightarrow> string + alert list) \<Rightarrow> int option \<Rightarrow> status_code \<times> body" where
  "api_alerts list_recent limit =
     (case list_recent (clamp (case limit of Some l \<Rightarrow> l | None \<Rightarrow> default_limit) 1 5000) of
        Inr as \<Rightarrow> (OK, BAlerts as)
      | Inl e \<Rightarrow> (INTERNAL_SERVER_ERROR, BText e))"

definition resolved_record ::
  "(datetime \<Rightarrow> string) \<Rightarrow> datetime \<Rightarrow> string \<Rightarrow> string \<Rightarrow> alert \<Rightarrow> alert" where
  "resolved_record to_rfc3339 now ulid by_name a =
     a\<lparr>al_id := ulid, al_state := Resolved, al_last_seen := now, al_ts := now,
       al_title := (if starts_with (al_title a) ''Resolved:'' then al_title a
                    else ''Resolved: '' @ al_title a),
       al_message := ''Manually resolved by operator'' @
          (if by_name = [] then [] else [CHR '' '', CHR 0x27] @ by_name @ [CHR 0x27]) @
          ''. Original alert had '' @ show_word (al_occurrences a) @ '' occurrence(s) since '' @
          to_rfc3339 (al_first_seen a) @ ''.'',
       al_raw := (al_raw a)(''resolved_by'' \<mapsto> JStr (if by_name = [] then ''operator'' else by_name),
                            ''resolved_via'' \<mapsto> JStr ''gui'')\<rparr>"

definition decrement_count :: "string \<Rightarrow> app_state \<Rightarrow> app_state" where
  "decrement_count host_id s =
     (case map_of (ap_hosts s) host_id of
        None \<Rightarrow> s
      | Some h \<Rightarrow>
          if hi_firing_count h > 0
          then s\<lparr>ap_hosts := AList.update host_id (h\<lparr>hi_firing_count := hi_firing_count h - 1\<rparr>) (ap_hosts s)\<rparr>
          else s)"

definition api_resolve ::
  "(datetime \<Rightarrow> string) \<Rightarrow> 'w sender \<Rightarrow> datetime \<Rightarrow> string \<Rightarrow> string \<Rightarrow> string \<Rightarrow> 'w http_gui
     \<Rightarrow> (status_code \<times> body) \<times> 'w http_gui" where
  "api_resolve to_rfc3339 try_send now ulid fp by_name g =
     (case map_of (ap_firing (gs_app g)) fp of
        None \<Rightarrow> ((NOT_FOUND, BText ''fingerprint not in firing map''), g)
      | Some a \<Rightarrow>
          let s1 = (gs_app g)\<lparr>ap_firing := AList.delete fp (ap_firing (gs_app g))\<rparr>;
              s2 = decrement_count (al_host_id a) s1;
              r = resolved_record to_rfc3339 now ulid by_name a
          in ((NO_CONTENT, BEmpty),
              g\<lparr>gs_app := broadcast (EAlert r) s2,
                gs_writer := writer_send try_send r (gs_writer g)\<rparr>))"

definition api_clear_history ::
  "(int \<Rightarrow> int) \<Rightarrow> datetime \<Rightarrow> string + u64 \<Rightarrow> 'w http_gui \<Rightarrow> (status_code \<times> body) \<times> 'w http_gui" where
  "api_clear_history num_seconds now cleared g =
     (case cleared of
        Inr n \<Rightarrow> ((OK, BDeleted n),
          g\<lparr>gs_app := broadcast (ESnapshot (app_snapshot num_seconds now (gs_app g))) (gs_app g)\<rparr>)
      | Inl e \<Rightarrow> ((INTERNAL_SERVER_ERROR, BText e), g))"

definition api_get_config :: "string + string \<Rightarrow> status_code \<times> body" where
  "api_get_config read_file =
     (case read_file of Inr text \<Rightarrow> (OK, BText text) | Inl e \<Rightarrow> (INTERNAL_SERVER_ERROR, BText e))"

definition api_post_config ::
  "(string \<Rightarrow> 'f \<Rightarrow> string + 'f) \<Rightarrow> string \<Rightarrow> 'f \<Rightarrow> (status_code \<times> body) \<times> 'f" where
  "api_post_config write_file bytes f =
     (case from_utf8 bytes of
        None \<Rightarrow> ((BAD_REQUEST, BText ''Body must be valid UTF-8''), f)
      | Some text \<Rightarrow>
          if \<not> contains text ''='' then ((BAD_REQUEST, BText ''Does not look like a valid TOML config''), f)
          else (case write_file text f of
                  Inr f' \<Rightarrow> ((NO_CONTENT, BEmpty), f')
                | Inl e \<Rightarrow> ((INTERNAL_SERVER_ERROR, BText e), f)))"

definition api_webhooks ::
  "(string \<Rightarrow> string + (string \<times> string \<times> string) list) \<Rightarrow> string + string \<Rightarrow> body" where
  "api_webhooks parse_webhooks read_file =
     BWebhooks (case read_file of
        Inr text \<Rightarrow>
          (case parse_webhooks text of
             Inr ws \<Rightarrow> map (\<lambda>(name, kind, sev).
                \<lparr>ws_name = name, ws_kind = kind, ws_sev_min = sev, ws_active = True\<rparr>) ws
           | Inl _ \<Rightarrow> [])
      | Inl _ \<Rightarrow> [])"


section \<open>Contract\<close>

lemma resolved_record_simps [simp]:
  "al_state (resolved_record f now u n a) = Resolved"
  "al_fingerprint (resolved_record f now u n a) = al_fingerprint a"
  by (simp_all add: resolved_record_def)

lemma decrement_frames [simp]:
  "ap_firing (decrement_count hid s) = ap_firing s"
  "ap_fanout (decrement_count hid s) = ap_fanout s"
  by (simp_all add: decrement_count_def split: option.splits)

lemma state_wf_decrement: "state_wf s \<Longrightarrow> state_wf (decrement_count hid s)"
  by (auto simp: state_wf_def decrement_count_def intro!: hosts_wf_update
        dest: hosts_wf_lookup split: option.splits)

lemma firing_api_resolve:
  "ap_firing (gs_app (snd (api_resolve f ts now u fp n g))) = AList.delete fp (ap_firing (gs_app g))"
  by (auto simp: api_resolve_def Let_def map_of_eq_None_iff delete_id split: option.splits)

lemma api_resolve_wf:
  assumes "state_wf (gs_app g)"
  shows "state_wf (gs_app (snd (api_resolve f ts now u fp n g)))"
proof -
  have "firing_wf (AList.delete fp (ap_firing (gs_app g)))"
    using assms by (simp add: state_wf_def firing_wf_delete)
  then have "state_wf ((gs_app g)\<lparr>ap_firing := AList.delete fp (ap_firing (gs_app g))\<rparr>)"
    by (rule state_wf_firing [OF assms])
  with assms show ?thesis
    by (simp add: api_resolve_def Let_def state_wf_decrement split: option.splits)
qed

lemma api_resolve_publishes:
  assumes "state_wf (gs_app g)"
  shows "publishes (gs_app g) (gs_app (snd (api_resolve f ts now u fp n g)))"
proof (cases "map_of (ap_firing (gs_app g)) fp")
  case (Some a)
  then have "al_fingerprint a = fp"
    using assms by (auto simp: state_wf_def firing_wf_def dest!: map_of_SomeD)
  with Some show ?thesis
    by (intro publishes_alert [of _ _ "resolved_record f now u n a"])
       (simp_all add: api_resolve_def Let_def delete_conv')
qed (simp add: api_resolve_def)

lemma decrement_word: "0 < n \<Longrightarrow> n < 2 ^ 31 \<Longrightarrow> (0::u32) < of_nat n"
  by (simp add: word_less_nat_alt unat_of_nat)

lemma api_resolve_counts:
  assumes ok: "counts_ok (gs_app g)" and wf: "state_wf (gs_app g)"
    and bound: "length (ap_firing (gs_app g)) < 2 ^ 31"
  shows "counts_ok (gs_app (snd (api_resolve f ts now u fp n g)))"
proof (cases "map_of (ap_firing (gs_app g)) fp")
  case None
  with ok show ?thesis by (simp add: api_resolve_def)
next
  case (Some a)
  let ?s = "gs_app g"
  have in0: "(fp, a) \<in> set (ap_firing ?s)" using Some by (rule map_of_SomeD)
  obtain h where h: "(al_host_id a, h) \<in> set (ap_hosts ?s)" using known_host [OF ok in0] by blast
  then have look: "map_of (ap_hosts ?s) (al_host_id a) = Some h"
    using wf by (simp add: state_wf_def hosts_wf_def map_of_in_set)
  have hc: "hi_firing_count h = of_nat (count_for (al_host_id a) (ap_firing ?s))"
    using ok h by (auto simp: counts_ok_def)
  have pos: "0 < count_for (al_host_id a) (ap_firing ?s)" using count_for_pos [OF in0] .
  then have gt: "hi_firing_count h > 0"
    unfolding hc using bound count_for_le [of "al_host_id a" "ap_firing ?s"]
    by (intro decrement_word) auto
  show ?thesis
  proof (rule counts_ok_remove [OF ok wf in0 h])
    show "ap_hosts (gs_app (snd (api_resolve f ts now u fp n g))) = AList.update (al_host_id a)
        (h\<lparr>hi_firing_count := hi_firing_count h - 1\<rparr>) (ap_hosts ?s)"
      using Some look gt by (simp add: api_resolve_def Let_def decrement_count_def)
    show "hi_firing_count (h\<lparr>hi_firing_count := hi_firing_count h - 1\<rparr>) =
        of_nat (count_for (al_host_id a) (ap_firing ?s) - 1)"
      using pos by (simp add: hc)
  qed (rule firing_api_resolve)
qed

text \<open>The two routes that change the state, as one operation.\<close>

datatype http_request =
    ReqResolve datetime string string string
  | ReqClear datetime "string + u64"

fun http_step ::
  "(int \<Rightarrow> int) \<Rightarrow> (datetime \<Rightarrow> string) \<Rightarrow> 'w sender \<Rightarrow> http_request \<Rightarrow> 'w http_gui \<Rightarrow> 'w http_gui" where
  "http_step num_seconds to_rfc3339 try_send (ReqResolve now ulid fp by_name) g =
     snd (api_resolve to_rfc3339 try_send now ulid fp by_name g)"
| "http_step num_seconds to_rfc3339 try_send (ReqClear now cleared) g =
     snd (api_clear_history num_seconds now cleared g)"

lemma http_step_wf: "state_wf (gs_app g) \<Longrightarrow> state_wf (gs_app (http_step ns f ts r g))"
  by (cases r) (simp_all add: api_resolve_wf api_clear_history_def split: sum.splits)

lemma http_step_publishes: "state_wf (gs_app g) \<Longrightarrow> publishes (gs_app g) (gs_app (http_step ns f ts r g))"
  by (cases r)
     (simp_all add: api_resolve_publishes api_clear_history_def publishes_snapshot split: sum.splits)

interpretation http: collector_op gs_app "http_step num_seconds to_rfc3339 try_send"
  for num_seconds to_rfc3339 try_send
  by unfold_locales (simp_all add: http_step_wf http_step_publishes)

end
