(* ===== verification/Coll_Watcher.thy ===== *)
theory Coll_Watcher
  imports Coll_Feed
begin

text \<open>
  The offline watcher of \<open>collector/src/main.rs\<close>. Every two seconds it compares each host's last
  contact with the clock, broadcasts a status when the outcome differs from the one it remembers,
  and raises or clears the host-offline alert. The alert it raises goes through \<open>apply_alert\<close>;
  the one it clears is taken out of the firing map directly, without touching the host's count.
  \<open>fresh\<close> gives the clock reading and the identifier each built alert gets.
\<close>

definition host_offline_alert :: "u64 \<Rightarrow> datetime \<Rightarrow> datetime \<times> string \<Rightarrow> host_info \<Rightarrow> alert" where
  "host_offline_alert after_s now fresh h =
     (build_firing (fst fresh) (snd fresh)
        (chain (builder_new (hi_host h) (hi_host_id h) COLLECTOR ''host_offline'' Critical)
          [with_title ''Host went offline'',
           with_message (''No heartbeat from '' @ hi_host h @ '' for over '' @ show_word after_s @
             ''s. Either the agent stopped, the network is gone, or the host crashed.'')]))
       \<lparr>al_ts := now\<rparr>"

definition host_offline_fp :: "string \<Rightarrow> string" where
  "host_offline_fp host_id = host_id @ ''|'' @ COLLECTOR @ ''|-|host_offline''"

definition watcher_resolve :: "datetime \<Rightarrow> string \<Rightarrow> app_state \<Rightarrow> app_state" where
  "watcher_resolve now fp s =
     (case map_of (ap_firing s) fp of
        None \<Rightarrow> s
      | Some a \<Rightarrow>
          broadcast (EAlert (a\<lparr>al_state := Resolved, al_title := ''Resolved: '' @ al_title a, al_ts := now\<rparr>))
            (s\<lparr>ap_firing := AList.delete fp (ap_firing s)\<rparr>))"

text \<open>One host of the list the tick has copied: what is remembered (\<open>last_seen_online\<close>) and the
  shared state.\<close>

definition watcher_host ::
  "(int \<Rightarrow> int) \<Rightarrow> u64 \<Rightarrow> datetime \<Rightarrow> (string \<Rightarrow> datetime \<times> string) \<Rightarrow> host_info
     \<Rightarrow> (string \<rightharpoonup> bool) \<times> app_state \<Rightarrow> (string \<rightharpoonup> bool) \<times> app_state" where
  "watcher_host num_seconds after_s now fresh h st =
     (let online = is_online num_seconds after_s now (hi_last_seen h);
          prev = fst st (hi_host_id h);
          lso = (fst st)(hi_host_id h \<mapsto> online)
      in if Some online = prev then (lso, snd st)
         else
           let s1 = broadcast (EHostStatus \<lparr>hs_host = hi_host h, hs_host_id = hi_host_id h,
                      hs_online = online, hs_last_seen = hi_last_seen h,
                      hs_firing_count = hi_firing_count h\<rparr>) (snd st)
           in if \<not> online then
                let a = host_offline_alert after_s now (fresh (hi_host_id h)) h
                in (lso, broadcast (EAlert a) (snd (apply_alert a s1)))
              else (lso, watcher_resolve now (host_offline_fp (hi_host_id h)) s1))"

definition watcher_tick ::
  "(int \<Rightarrow> int) \<Rightarrow> u64 \<Rightarrow> datetime \<Rightarrow> (string \<Rightarrow> datetime \<times> string)
     \<Rightarrow> (string \<rightharpoonup> bool) \<times> app_state \<Rightarrow> (string \<rightharpoonup> bool) \<times> app_state" where
  "watcher_tick num_seconds after_s now fresh st =
     fold (watcher_host num_seconds after_s now fresh) (map snd (ap_hosts (snd st))) st"


section \<open>Contract\<close>

lemma host_offline_alert_simps [simp]:
  "al_state (host_offline_alert n now f h) = Firing"
  "al_fingerprint (host_offline_alert n now f h) = host_offline_fp (hi_host_id h)"
  "al_host_id (host_offline_alert n now f h) = hi_host_id h"
  "al_severity (host_offline_alert n now f h) = Critical"
  by (simp_all add: host_offline_alert_def host_offline_fp_def fingerprint_def fingerprint_of_def)

lemma watcher_resolve_firing [simp]:
  "ap_firing (watcher_resolve now fp s) = AList.delete fp (ap_firing s)"
  "ap_hosts (watcher_resolve now fp s) = ap_hosts s"
  by (auto simp: watcher_resolve_def map_of_eq_None_iff delete_id split: option.splits)

lemma state_wf_watcher_resolve: "state_wf s \<Longrightarrow> state_wf (watcher_resolve now fp s)"
  by (simp add: state_wf_def firing_wf_delete)

lemma publishes_watcher_resolve:
  assumes "state_wf s"
  shows "publishes s (watcher_resolve now fp s)"
proof (cases "map_of (ap_firing s) fp")
  case (Some a)
  then have "al_fingerprint a = fp"
    using assms by (auto simp: state_wf_def firing_wf_def dest!: map_of_SomeD)
  with Some show ?thesis
    by (intro publishes_alert
          [of _ _ "a\<lparr>al_state := Resolved, al_title := ''Resolved: '' @ al_title a, al_ts := now\<rparr>"])
       (simp_all add: watcher_resolve_def delete_conv')
qed (simp add: watcher_resolve_def)

lemma watcher_host_wf:
  "state_wf (snd st) \<Longrightarrow> state_wf (snd (watcher_host ns n now fresh h st))"
  by (simp add: watcher_host_def Let_def state_wf_apply state_wf_watcher_resolve)

lemma watcher_host_publishes:
  assumes "state_wf (snd st)"
  shows "publishes (snd st) (snd (watcher_host ns n now fresh h st))"
proof -
  let ?s1 = "broadcast (EHostStatus \<lparr>hs_host = hi_host h, hs_host_id = hi_host_id h,
     hs_online = is_online ns n now (hi_last_seen h), hs_last_seen = hi_last_seen h,
     hs_firing_count = hi_firing_count h\<rparr>) (snd st)"
  have "publishes (snd st) ?s1" by (rule publishes_broadcast_host) simp_all
  note step = publishes_trans [OF this publishes_apply_broadcast]
    publishes_trans [OF this publishes_watcher_resolve]
  from assms show ?thesis
    by (cases "is_online ns n now (hi_last_seen h)") (use step in \<open>auto simp: watcher_host_def Let_def\<close>)
qed

interpretation watcher: collector_op snd "watcher_host num_seconds after_s now fresh"
  for num_seconds after_s now fresh
  by unfold_locales (simp_all add: watcher_host_wf watcher_host_publishes)

lemma watcher_tick_wf: "state_wf (snd st) \<Longrightarrow> state_wf (snd (watcher_tick ns n now fresh st))"
  unfolding watcher_tick_def by (rule watcher.run_wf)

lemma watcher_tick_publishes:
  "state_wf (snd st) \<Longrightarrow> publishes (snd st) (snd (watcher_tick ns n now fresh st))"
  unfolding watcher_tick_def by (rule watcher.run_publishes)


section \<open>What a tick establishes\<close>

text \<open>What is remembered agrees with the firing map: a host known to be offline has its offline
  alert firing.\<close>

definition offline_fires :: "(string \<rightharpoonup> bool) \<times> app_state \<Rightarrow> bool" where
  "offline_fires st \<longleftrightarrow>
     (\<forall>hid. fst st hid = Some False \<longrightarrow> map_of (ap_firing (snd st)) (host_offline_fp hid) \<noteq> None)
     \<and> (\<forall>hid. fst st hid = Some True \<longrightarrow> map_of (ap_firing (snd st)) (host_offline_fp hid) = None)"

lemma host_offline_fp_inject [simp]: "host_offline_fp h = host_offline_fp h' \<longleftrightarrow> h = h'"
  by (simp add: host_offline_fp_def)

lemma offline_fires_host:
  assumes "offline_fires st"
  shows "offline_fires (watcher_host ns n now fresh h st)"
proof -
  have eq: "host_offline_fp hid = host_offline_fp (hi_host_id h) \<longleftrightarrow> hid = hi_host_id h" for hid
    by simp
  from assms show ?thesis
    by (auto simp: offline_fires_def watcher_host_def Let_def firing_apply_alert update_conv'
          delete_conv' eq simp del: host_offline_fp_inject)
qed

lemma fst_watcher_host:
  "fst (watcher_host ns n now fresh h st) =
     (fst st)(hi_host_id h \<mapsto> is_online ns n now (hi_last_seen h))"
  by (simp add: watcher_host_def Let_def)

lemma offline_fires_run:
  "offline_fires st \<Longrightarrow> offline_fires (fold (watcher_host ns n now fresh) hs st)"
  by (induction hs arbitrary: st) (simp_all add: offline_fires_host)

lemma fst_watcher_run:
  "distinct (map hi_host_id hs) \<Longrightarrow> h \<in> set hs \<Longrightarrow>
     fst (fold (watcher_host ns n now fresh) hs st) (hi_host_id h)
       = Some (is_online ns n now (hi_last_seen h))"
proof (induction hs arbitrary: st)
  case (Cons g hs)
  have keep: "hid \<notin> hi_host_id ` set hs \<Longrightarrow>
      fst (fold (watcher_host ns n now fresh) hs st) hid = fst st hid" for hid st
    by (induction hs arbitrary: st) (simp_all add: fst_watcher_host)
  show ?case
  proof (cases "h = g")
    case True
    with Cons.prems keep show ?thesis by (simp add: fst_watcher_host)
  next
    case False
    with Cons show ?thesis by simp
  qed
qed simp

lemma hosts_wf_ids: "hosts_wf hs \<Longrightarrow> map hi_host_id (map snd hs) = map fst hs"
  by (induction hs) (auto simp: hosts_wf_def)


lemma watcher_tick_memory:
  assumes "state_wf (snd st)" and "(hid, h) \<in> set (ap_hosts (snd st))"
  shows "fst (watcher_tick ns n now fresh st) hid = Some (is_online ns n now (hi_last_seen h))"
proof -
  let ?hs = "map snd (ap_hosts (snd st))"
  have wf: "hosts_wf (ap_hosts (snd st))" using assms(1) by (simp add: state_wf_def)
  have hid: "hi_host_id h = hid" using wf assms(2) by (auto simp: hosts_wf_def)
  have "distinct (map hi_host_id ?hs)" using wf unfolding hosts_wf_ids [OF wf] by (simp add: hosts_wf_def)
  moreover have "h \<in> set ?hs" using assms(2) by force
  ultimately show ?thesis unfolding watcher_tick_def hid [symmetric] by (rule fst_watcher_run)
qed

lemma offline_fires_tick: "offline_fires st \<Longrightarrow> offline_fires (watcher_tick ns n now fresh st)"
  unfolding watcher_tick_def by (rule offline_fires_run)

lemma watcher_tick_offline:
  assumes "state_wf (snd st)" and "offline_fires st" and "(hid, h) \<in> set (ap_hosts (snd st))"
  shows "map_of (ap_firing (snd (watcher_tick ns n now fresh st))) (host_offline_fp hid) \<noteq> None
            \<longleftrightarrow> \<not> is_online ns n now (hi_last_seen h)"
  using offline_fires_tick [OF assms(2), of ns n now fresh] watcher_tick_memory [OF assms(1,3), of ns n now fresh]
  by (cases "is_online ns n now (hi_last_seen h)") (auto simp: offline_fires_def)


section \<open>Properties\<close>


definition sample_host :: host_info where
  "sample_host = \<lparr>hi_host = ''node1'', hi_host_id = ''4f2a'', hi_primary_ip = [], hi_last_seen = 0,
     hi_tags = Map.empty, hi_vendor = vendor_info_default, hi_firing_count = 0,
     hi_agent_version = [], hi_maintenance = False\<rparr>"

definition sample_state :: app_state where
  "sample_state = (app_new 10)\<lparr>ap_hosts := [(''4f2a'', sample_host)]\<rparr>"

lemma sample_state_wf: "state_wf sample_state"
  by (simp add: sample_state_def sample_host_def state_wf_def firing_wf_def hosts_wf_def app_new_def)


text \<open>C37. An outage leaves a trace in the count. Take a host the collector knows, whose offline alert
  is not firing and which the watcher does not remember as offline. A tick that finds it offline,
  followed by one that finds it online again, gives back the same firing map, but the firing count
  the collector keeps for the host is one higher than before.\<close>

theorem watcher_outage_raises_count:
  assumes "map_of (ap_hosts s) hid = Some h" and "hi_host_id h = hid" and "hi_host_id h' = hid"
    and "map_of (ap_firing s) (host_offline_fp hid) = None" and "lso hid \<noteq> Some False"
    and "\<not> is_online ns n t1 (hi_last_seen h)" and "is_online ns n t2 (hi_last_seen h')"
    and "unat (hi_firing_count h) + 1 < 2 ^ 31"
  shows "(let s' = snd (watcher_host ns n t2 fresh2 h' (watcher_host ns n t1 fresh1 h (lso, s)))
          in map_of (ap_firing s') = map_of (ap_firing s)
           \<and> map_option hi_firing_count (map_of (ap_hosts s') hid) = Some (hi_firing_count h + 1))"
proof -
  have "sint (hi_firing_count h + 1) = 1 + uint (hi_firing_count h)"
    using sint_of_nat_small [of "Suc (unat (hi_firing_count h))"] assms(8) by (simp add: add.commute)
  moreover have "0 \<le> uint (hi_firing_count h)" by simp
  ultimately have "\<not> sint (hi_firing_count h + 1) < 0" by linarith
  with assms show ?thesis
    by (auto simp: watcher_host_def Let_def apply_alert_def bump_host_count_def update_conv' delete_conv'
          fun_eq_iff)
qed

theorem watcher_outage_raises_count_witness:
  "map_option hi_firing_count (map_of (ap_hosts (snd (watcher_host (\<lambda>d. d div 1000000000) 10 62000000000
       (\<lambda>_. (0, [])) (sample_host\<lparr>hi_last_seen := 61000000000\<rparr>)
       (watcher_host (\<lambda>d. d div 1000000000) 10 60000000000 (\<lambda>_. (0, [])) sample_host
          (Map.empty, sample_state))))) ''4f2a'') = Some 1"
  using watcher_outage_raises_count [of sample_state "''4f2a''" sample_host
      "sample_host\<lparr>hi_last_seen := 61000000000\<rparr>" Map.empty "\<lambda>d. d div 1000000000" 10 60000000000
      62000000000 "\<lambda>_. (0, [])" "\<lambda>_. (0, [])"]
  by (simp add: Let_def sample_state_def sample_host_def is_online_def app_new_def)

end
