(* ===== verification/Coll_Syslog.thy ===== *)
theory Coll_Syslog
  imports Coll_Feed
begin

text \<open>
  \<open>collector/src/syslog_in.rs\<close>: BMC syslog lines become alerts. The two listeners hand each
  datagram, or each line of a connection, to \<open>handle_line\<close>; binding and accepting sockets is I/O. The
  local map \<open>tags\<close> of \<open>parse_to_alert\<close> is built and never used. \<open>build_now\<close> is the clock reading
  of \<open>build_firing\<close>, \<open>now\<close> the one stored in \<open>ts\<close>.
\<close>

text \<open>The value between \<open><\<close> and \<open>>\<close> modulo eight, and the rest of the line.\<close>

definition split_pri :: "string \<Rightarrow> u8 \<times> string" where
  "split_pri line =
     (case strip_prefix line ''<'' of
        Some stripped \<Rightarrow>
          (case split_once stripped (CHR ''>'') of
             Some (digits, rest) \<Rightarrow>
               ((case parse_u8 digits of Some v \<Rightarrow> v | None \<Rightarrow> 13) mod 8, rest)
           | None \<Rightarrow> (6, line))
      | None \<Rightarrow> (6, line))"

definition pri_severity :: "u8 \<Rightarrow> severity" where
  "pri_severity pri = (if pri \<le> 2 then Critical else if pri \<le> 4 then Warning else Info)"

definition syslog_category :: "string \<Rightarrow> string" where
  "syslog_category body =
     (let lower = to_lowercase body
      in if contains lower ''ilo'' \<or> contains lower ''iml'' then BMC_EVENTLOG
         else if contains lower ''idrac'' \<or> contains lower ''dell'' then BMC_EVENTLOG
         else SYSLOG)"

definition parse_to_alert :: "datetime \<Rightarrow> datetime \<Rightarrow> string \<Rightarrow> string \<Rightarrow> string \<Rightarrow> alert" where
  "parse_to_alert build_now now ulid line peer =
     (case split_pri line of
        (pri, body) \<Rightarrow>
          (build_firing build_now ulid
             (chain (builder_new peer peer (syslog_category body) ''syslog_event'' (pri_severity pri))
               [with_title ''BMC syslog event'', with_message body,
                raw_kv ''peer'' (JStr peer), raw_kv ''raw'' (JStr line)]))
            \<lparr>al_ts := now\<rparr>)"

definition handle_line ::
  "datetime \<Rightarrow> datetime \<Rightarrow> string \<Rightarrow> string \<Rightarrow> string \<Rightarrow> app_state \<Rightarrow> app_state" where
  "handle_line build_now now ulid bytes peer s =
     (let line = trim (from_utf8_lossy bytes)
      in if line = [] then s
         else let a = parse_to_alert build_now now ulid line peer
              in broadcast (EAlert a) (snd (apply_alert a s)))"

lemma parse_to_alert_simps [simp]:
  "al_state (parse_to_alert bn now u line peer) = Firing"
  "al_host_id (parse_to_alert bn now u line peer) = peer"
  "al_ts (parse_to_alert bn now u line peer) = now"
  "al_severity (parse_to_alert bn now u line peer) = pri_severity (fst (split_pri line))"
  "al_message (parse_to_alert bn now u line peer) = snd (split_pri line)"
  by (simp_all add: parse_to_alert_def build_firing_def split: prod.splits)

lemma syslog_category_cases: "syslog_category body = BMC_EVENTLOG \<or> syslog_category body = SYSLOG"
  by (simp add: syslog_category_def Let_def)

text \<open>One received line: clock readings, identifier, bytes and peer address.\<close>

type_synonym syslog_input = "datetime \<times> datetime \<times> string \<times> string \<times> string"

definition syslog_step :: "syslog_input \<Rightarrow> app_state \<Rightarrow> app_state" where
  "syslog_step i s = (case i of (bn, now, u, bytes, peer) \<Rightarrow> handle_line bn now u bytes peer s)"

text \<open>The UDP listener: a datagram fills at most its buffer, an error of the socket is skipped.\<close>

definition UDP_BUF :: nat where "UDP_BUF = 8192"

definition udp_loop :: "(datetime \<times> datetime \<times> string \<times> string \<times> string) option list \<Rightarrow> app_state \<Rightarrow> app_state" where
  "udp_loop rs s =
     fold (\<lambda>r s. case r of
             Some (bn, now, u, bytes, peer) \<Rightarrow> handle_line bn now u (take UDP_BUF bytes) peer s
           | None \<Rightarrow> s) rs s"

text \<open>A TCP connection: \<open>read_line\<close> gives the bytes up to and with each newline; a line that is not
  UTF-8 is an error and ends the loop, as does the end of the stream.\<close>

fun read_lines :: "string \<Rightarrow> string list" where
  "read_lines [] = []"
| "read_lines (c # cs) =
     (if c = newline then [c] # read_lines cs
      else (case read_lines cs of [] \<Rightarrow> [[c]] | l # ls \<Rightarrow> (c # l) # ls))"

definition tcp_lines :: "string \<Rightarrow> string list" where
  "tcp_lines stream = takeWhile (\<lambda>l. from_utf8 l \<noteq> None) (read_lines stream)"

definition tcp_connection ::
  "(nat \<Rightarrow> datetime \<times> datetime \<times> string) \<Rightarrow> string \<Rightarrow> string \<Rightarrow> app_state \<Rightarrow> app_state" where
  "tcp_connection clock peer stream s =
     fold (\<lambda>(i, line) s. case clock i of (bn, now, u) \<Rightarrow> handle_line bn now u line peer s)
       (enumerate 0 (tcp_lines stream)) s"

lemma read_lines_concat: "concat (read_lines s) = s"
  by (induction s) (auto split: list.splits)

lemma read_lines_nonempty: "[] \<notin> set (read_lines s)"
  by (induction s) (auto split: list.splits)

text \<open>Both listeners are sequences of steps.\<close>

lemma udp_loop_steps:
  "udp_loop rs s = fold syslog_step
     (map (\<lambda>(bn, now, u, bytes, peer). (bn, now, u, take UDP_BUF bytes, peer)) (List.map_filter id rs)) s"
  by (induction rs arbitrary: s) (auto simp: udp_loop_def syslog_step_def map_filter_simps split: option.splits prod.splits)

lemma tcp_connection_steps:
  "tcp_connection clock peer stream s = fold syslog_step
     (map (\<lambda>(i, line). case clock i of (bn, now, u) \<Rightarrow> (bn, now, u, line, peer)) (enumerate 0 (tcp_lines stream))) s"
proof -
  have "fold (\<lambda>(i, line) s. case clock i of (bn, now, u) \<Rightarrow> handle_line bn now u line peer s) xs s =
      fold syslog_step (map (\<lambda>(i, line). case clock i of (bn, now, u) \<Rightarrow> (bn, now, u, line, peer)) xs) s" for xs
    by (induction xs arbitrary: s) (auto simp: syslog_step_def split: prod.splits)
  then show ?thesis by (simp add: tcp_connection_def)
qed

lemma syslog_step_wf: "state_wf s \<Longrightarrow> state_wf (syslog_step i s)"
  by (auto simp: syslog_step_def handle_line_def Let_def state_wf_apply split: prod.splits)

lemma syslog_step_publishes: "publishes s (syslog_step i s)"
  by (auto simp: syslog_step_def handle_line_def Let_def publishes_apply_broadcast split: prod.splits)

interpretation syslog: collector_op "\<lambda>s. s" syslog_step
  by unfold_locales (simp_all add: syslog_step_wf syslog_step_publishes)


section \<open>Properties\<close>

lemma pri_severity_bounds:
  "n < 192 \<Longrightarrow> pri_severity ((of_nat n :: u8) mod 8) =
     (if n mod 8 \<le> 2 then Critical else if n mod 8 \<le> 4 then Warning else Info)"
  by (simp add: pri_severity_def word_le_nat_alt unat_mod unat_of_nat)

text \<open>C18. A line \<open><PRI>body\<close> whose priority is a number of at most 191 (the largest the protocol
  defines) gets the severity of the priority modulo eight (0 to 2 critical, 3 and 4 warning, the
  rest info), and its message is the body.\<close>

theorem syslog_pri_roundtrip:
  assumes "n < 192"
  shows "split_pri (''<'' @ show_nat n @ ''>'' @ body) = (of_nat n mod 8, body) \<and>
    al_severity (parse_to_alert bn now u (''<'' @ show_nat n @ ''>'' @ body) peer) =
      (if n mod 8 \<le> 2 then Critical else if n mod 8 \<le> 4 then Warning else Info) \<and>
    al_message (parse_to_alert bn now u (''<'' @ show_nat n @ ''>'' @ body) peer) = body"
proof -
  have "CHR ''>'' \<notin> set (show_nat n)" by (rule show_nat_no_char) (simp add: is_digit_def)
  then have "split_once (show_nat n @ CHR ''>'' # body) (CHR ''>'') = Some (show_nat n, body)" by simp
  moreover have "parse_uint 10 8 (show_nat n) = Some n"
    using assms by (intro parse_uint_show_nat) simp
  ultimately have "split_pri (''<'' @ show_nat n @ ''>'' @ body) = (of_nat n mod 8, body)"
    by (simp add: split_pri_def strip_prefix_def)
  then show ?thesis by (simp add: pri_severity_bounds [OF assms])
qed

theorem syslog_pri_roundtrip_witness:
  "al_severity (parse_to_alert 0 0 [] (''<'' @ show_nat 34 @ ''>'' @ ''fan 3 failed'') ''10.0.0.9'') = Critical"
  using syslog_pri_roundtrip [of 34 "''fan 3 failed''" 0 0 "[]" "''10.0.0.9''"]
  by (simp del: parse_to_alert_simps)

end
