(* ===== verification/Coll_System.thy ===== *)
theory Coll_System
  imports Coll_Http Coll_Watcher Coll_Syslog
begin

text \<open>
  The collector as a whole: agent connections, the offline watcher, the syslog listener, the GUI
  routes and the GUI subscribers run as concurrent tasks over one \<open>AppState\<close>. \<open>coll_step\<close> is the
  interleaving of their steps, each the definition of its component. The watcher copies the host
  list when a tick starts and works it off host by host, so other tasks run in between. A
  subscriber (\<open>collector/src/ws_subscribe.rs\<close>) first takes and sends a snapshot and only then
  subscribes to the broadcast channel, which are two steps; afterwards it forwards what was
  broadcast since its subscription, in order, and may be dropped at any time (lag, close, error).
  \<open>cl_snap\<close> and \<open>cl_sub\<close> record how many broadcasts had been made at these two moments.
\<close>

record client =
  cl_view :: gui_view
  cl_snap :: nat
  cl_sub :: "nat option"
  cl_pos :: nat

record 'w collector =
  co_app :: app_state
  co_writer :: 'w
  co_conns :: "nat \<rightharpoonup> (string \<times> string) option"
  co_watch :: "string \<rightharpoonup> bool"
  co_pending :: "host_info list"
  co_now :: datetime
  co_clients :: "nat \<rightharpoonup> client"

definition collector_new :: "u64 \<Rightarrow> 'w \<Rightarrow> 'w collector" where
  "collector_new offline_after_s w =
     \<lparr>co_app = app_new offline_after_s, co_writer = w, co_conns = Map.empty, co_watch = Map.empty,
      co_pending = [], co_now = 0, co_clients = Map.empty\<rparr>"

definition conn_of :: "(string \<times> string) option \<Rightarrow> 'w collector \<Rightarrow> 'w ingest_conn" where
  "conn_of h s = \<lparr>cn_app = co_app s, cn_writer = co_writer s, cn_host = h\<rparr>"

definition client_new :: "(int \<Rightarrow> int) \<Rightarrow> datetime \<Rightarrow> app_state \<Rightarrow> client" where
  "client_new num_seconds now s =
     \<lparr>cl_view = gui_handle (ESnapshot (app_snapshot num_seconds now s)) gui_empty,
      cl_snap = length (ap_fanout s), cl_sub = None, cl_pos = 0\<rparr>"

definition client_subscribe :: "app_state \<Rightarrow> client \<Rightarrow> client" where
  "client_subscribe s c = c\<lparr>cl_sub := Some (length (ap_fanout s)), cl_pos := length (ap_fanout s)\<rparr>"

definition client_recv :: "app_state \<Rightarrow> client \<Rightarrow> client" where
  "client_recv s c =
     c\<lparr>cl_view := gui_handle (ap_fanout s ! cl_pos c) (cl_view c), cl_pos := Suc (cl_pos c)\<rparr>"

inductive coll_step ::
  "(int \<Rightarrow> int) \<Rightarrow> (string \<Rightarrow> envelope option) \<Rightarrow> (datetime \<Rightarrow> string) \<Rightarrow> 'w sender
     \<Rightarrow> 'w collector \<Rightarrow> 'w collector \<Rightarrow> bool"
  for num_seconds decode to_rfc3339 try_send where
  accept: "co_conns s i = None \<Longrightarrow>
     coll_step num_seconds decode to_rfc3339 try_send s (s\<lparr>co_conns := (co_conns s)(i \<mapsto> None)\<rparr>)"
| message: "co_conns s i = Some h \<Longrightarrow>
     ingest_message decode try_send m (conn_of h s) = Some c \<Longrightarrow>
     coll_step num_seconds decode to_rfc3339 try_send s
       (s\<lparr>co_app := cn_app c, co_writer := cn_writer c, co_conns := (co_conns s)(i \<mapsto> cn_host c)\<rparr>)"
| disconnect: "co_conns s i = Some h \<Longrightarrow>
     coll_step num_seconds decode to_rfc3339 try_send s
       (s\<lparr>co_app := cn_app (ingest_disconnect now (conn_of h s)), co_conns := (co_conns s)(i := None)\<rparr>)"
| tick: "co_pending s = [] \<Longrightarrow>
     coll_step num_seconds decode to_rfc3339 try_send s
       (s\<lparr>co_pending := map snd (ap_hosts (co_app s)), co_now := now\<rparr>)"
| watch: "co_pending s = h # hs \<Longrightarrow>
     watcher_host num_seconds (ap_offline_after_s (co_app s)) (co_now s) fresh h (co_watch s, co_app s)
       = (lso, app) \<Longrightarrow>
     coll_step num_seconds decode to_rfc3339 try_send s
       (s\<lparr>co_app := app, co_watch := lso, co_pending := hs\<rparr>)"
| syslog: "coll_step num_seconds decode to_rfc3339 try_send s
       (s\<lparr>co_app := handle_line build_now now ulid bytes peer (co_app s)\<rparr>)"
| http: "http_step num_seconds to_rfc3339 try_send r \<lparr>gs_app = co_app s, gs_writer = co_writer s\<rparr> = g \<Longrightarrow>
     coll_step num_seconds decode to_rfc3339 try_send s
       (s\<lparr>co_app := gs_app g, co_writer := gs_writer g\<rparr>)"
| snapshot: "co_clients s j = None \<Longrightarrow>
     coll_step num_seconds decode to_rfc3339 try_send s
       (s\<lparr>co_clients := (co_clients s)(j \<mapsto> client_new num_seconds now (co_app s))\<rparr>)"
| subscribe: "co_clients s j = Some c \<Longrightarrow> cl_sub c = None \<Longrightarrow>
     coll_step num_seconds decode to_rfc3339 try_send s
       (s\<lparr>co_clients := (co_clients s)(j \<mapsto> client_subscribe (co_app s) c)\<rparr>)"
| recv: "co_clients s j = Some c \<Longrightarrow> cl_sub c = Some n \<Longrightarrow> cl_pos c < length (ap_fanout (co_app s)) \<Longrightarrow>
     coll_step num_seconds decode to_rfc3339 try_send s
       (s\<lparr>co_clients := (co_clients s)(j \<mapsto> client_recv (co_app s) c)\<rparr>)"
| leave: "coll_step num_seconds decode to_rfc3339 try_send s
       (s\<lparr>co_clients := (co_clients s)(j := None)\<rparr>)"

inductive coll_reach ::
  "(int \<Rightarrow> int) \<Rightarrow> (string \<Rightarrow> envelope option) \<Rightarrow> (datetime \<Rightarrow> string) \<Rightarrow> 'w sender
     \<Rightarrow> u64 \<Rightarrow> 'w \<Rightarrow> 'w collector \<Rightarrow> bool"
  for num_seconds decode to_rfc3339 try_send offline_after_s w where
  init: "coll_reach num_seconds decode to_rfc3339 try_send offline_after_s w
           (collector_new offline_after_s w)"
| step: "coll_reach num_seconds decode to_rfc3339 try_send offline_after_s w s \<Longrightarrow>
     coll_step num_seconds decode to_rfc3339 try_send s s' \<Longrightarrow>
     coll_reach num_seconds decode to_rfc3339 try_send offline_after_s w s'"

inductive_cases coll_stepE: "coll_step num_seconds decode to_rfc3339 try_send s s'"


section \<open>Every step keeps the invariant and publishes its change\<close>

text \<open>A step either works on the shared state and leaves the subscribers alone, or the converse.\<close>

lemma ingest_message_publishes:
  "ingest_message decode try_send m c = Some c' \<Longrightarrow> publishes (cn_app c) (cn_app c')"
  by (cases m) (auto simp: ingest_text_def publishes_ingest_envelope split: option.splits)

lemma handle_line_step: "handle_line bn now u bytes peer s = syslog_step (bn, now, u, bytes, peer) s"
  by (simp add: syslog_step_def)

lemma coll_step_app:
  assumes "coll_step num_seconds decode to_rfc3339 try_send s s'" and "state_wf (co_app s)"
  shows "state_wf (co_app s') \<and> publishes (co_app s) (co_app s')"
  using assms
proof (induction rule: coll_step.induct)
  case (message s i h m c)
  then have "state_wf (cn_app (conn_of h s))" by (simp add: conn_of_def)
  with message show ?case
    using state_wf_ingest_message ingest_message_publishes by (fastforce simp: conn_of_def)
next
  case (disconnect s i h now)
  then show ?case
    using publishes_disconnect [of "conn_of h s"] by (simp add: conn_of_def)
next
  case (watch s h hs fresh lso app)
  then have "app = snd (watcher_host num_seconds (ap_offline_after_s (co_app s)) (co_now s) fresh h
      (co_watch s, co_app s))" by simp
  with watch.prems show ?case
    by (simp add: watcher_host_wf watcher_host_publishes [where st = "(co_watch s, co_app s)", simplified])
next
  case (syslog s bn now u bytes peer)
  then show ?case by (simp add: handle_line_step syslog_step_wf syslog_step_publishes)
next
  case (http r s g)
  let ?g = "\<lparr>gs_app = co_app s, gs_writer = co_writer s\<rparr>"
  from http show ?case
    using http_step_wf [of ?g] http_step_publishes [of ?g] by auto
qed simp_all

text \<open>What a subscriber will show once it has received everything broadcast so far.\<close>

definition client_ok :: "app_state \<Rightarrow> client \<Rightarrow> bool" where
  "client_ok s c \<longleftrightarrow>
     (let p = (case cl_sub c of None \<Rightarrow> cl_snap c | Some _ \<Rightarrow> cl_pos c)
      in p \<le> length (ap_fanout s) \<and>
         (cl_sub c = None \<or> cl_sub c = Some (cl_snap c) \<longrightarrow>
            view_shows (fold gui_handle (drop p (ap_fanout s)) (cl_view c)) s))"

definition clients_ok :: "'w collector \<Rightarrow> bool" where
  "clients_ok s \<longleftrightarrow> (\<forall>j c. co_clients s j = Some c \<longrightarrow> client_ok (co_app s) c)"

lemma client_ok_publishes:
  assumes "client_ok s c" and "publishes s s'"
  shows "client_ok s' c"
  using assms by (auto simp: client_ok_def publishes_def Let_def)

lemma client_ok_new: "state_wf s \<Longrightarrow> client_ok s (client_new num_seconds now s)"
  by (simp add: client_ok_def client_new_def snapshot_shows)

lemma client_ok_subscribe:
  "client_ok s c \<Longrightarrow> cl_sub c = None \<Longrightarrow> client_ok s (client_subscribe s c)"
  by (auto simp: client_ok_def client_subscribe_def)

lemma client_ok_recv:
  "client_ok s c \<Longrightarrow> cl_sub c = Some n \<Longrightarrow> cl_pos c < length (ap_fanout s) \<Longrightarrow>
     client_ok s (client_recv s c)"
  by (auto simp: client_ok_def client_recv_def Let_def simp flip: Cons_nth_drop_Suc)

lemma clients_ok_upd:
  "clients_ok s \<Longrightarrow> client_ok (co_app s) c \<Longrightarrow> clients_ok (s\<lparr>co_clients := (co_clients s)(j \<mapsto> c)\<rparr>)"
  by (simp add: clients_ok_def)

lemma clients_ok_app:
  "clients_ok s \<Longrightarrow> publishes (co_app s) (co_app s') \<Longrightarrow> co_clients s' = co_clients s \<Longrightarrow> clients_ok s'"
  by (auto simp: clients_ok_def intro: client_ok_publishes)

lemma coll_step_clients:
  assumes "coll_step num_seconds decode to_rfc3339 try_send s s'"
    and "state_wf (co_app s)" and "clients_ok s"
  shows "clients_ok s'"
proof -
  have pub: "publishes (co_app s) (co_app s')" using coll_step_app [OF assms(1,2)] by blast
  from assms(1) show ?thesis
  proof cases
    case (snapshot j now)
    then show ?thesis using assms(2,3) by (auto intro: clients_ok_upd client_ok_new)
  next
    case (subscribe j c)
    then have "client_ok (co_app s) c" using assms(3) by (simp add: clients_ok_def)
    with subscribe assms(3) show ?thesis by (auto intro: clients_ok_upd client_ok_subscribe)
  next
    case (recv j c n)
    then have "client_ok (co_app s) c" using assms(3) by (simp add: clients_ok_def)
    with recv assms(3) show ?thesis by (auto intro: clients_ok_upd client_ok_recv)
  next
    case leave
    then show ?thesis using assms(3) by (auto simp: clients_ok_def)
  qed (use assms(3) pub in \<open>auto elim: clients_ok_app\<close>)
qed

lemma coll_reach_ok:
  "coll_reach num_seconds decode to_rfc3339 try_send offline_after_s w s \<Longrightarrow>
     state_wf (co_app s) \<and> clients_ok s"
proof (induction rule: coll_reach.induct)
  case init
  then show ?case by (simp add: collector_new_def state_wf_new clients_ok_def)
next
  case (step s s')
  then show ?case using coll_step_app coll_step_clients by blast
qed


section \<open>Properties\<close>



text \<open>For concrete runs: a line from a BMC, a channel that takes everything, and the states of a
  browser that connects while nothing, or one syslog line, arrives.\<close>

definition sample_send :: "nat sender" where
  "sample_send w a = Some (Suc w)"

definition after_snapshot :: "nat collector" where
  "after_snapshot =
     (collector_new 10 0)\<lparr>co_clients := [0 \<mapsto> client_new id 0 (app_new 10)]\<rparr>"

lemma reach_after_snapshot:
  "coll_reach id (\<lambda>_. None) (\<lambda>_. []) sample_send 10 0 after_snapshot"
proof -
  let ?s = "collector_new 10 (0::nat)"
  have "coll_step id (\<lambda>_. None) (\<lambda>_. []) sample_send ?s
     (?s\<lparr>co_clients := (co_clients ?s)(0 \<mapsto> client_new id 0 (co_app ?s))\<rparr>)"
    by (rule coll_step.snapshot) (simp add: collector_new_def)
  from coll_reach.step [OF coll_reach.init this] show ?thesis
    by (simp add: after_snapshot_def collector_new_def)
qed

definition after_subscribe :: "nat collector \<Rightarrow> nat collector" where
  "after_subscribe s =
     s\<lparr>co_clients := (co_clients s)(0 \<mapsto> client_subscribe (co_app s) (the (co_clients s 0)))\<rparr>"

lemma reach_after_subscribe:
  assumes "coll_reach id (\<lambda>_. None) (\<lambda>_. []) sample_send 10 0 s"
    and "co_clients s 0 = Some c" and "cl_sub c = None"
  shows "coll_reach id (\<lambda>_. None) (\<lambda>_. []) sample_send 10 0 (after_subscribe s)"
  using coll_reach.step [OF assms(1) coll_step.subscribe [OF assms(2,3)]] assms(2)
  by (simp add: after_subscribe_def)


lemma client_after_snapshot:
  "co_clients after_snapshot 0 = Some (client_new id 0 (app_new 10))"
  by (simp add: after_snapshot_def)


definition missed_alert :: "nat collector" where
  "missed_alert = after_snapshot\<lparr>co_app := handle_line 0 0 [] ''x'' ''10.0.0.9'' (co_app after_snapshot)\<rparr>"

lemma missed_alert_app:
  "co_app missed_alert = broadcast (EAlert (parse_to_alert 0 0 [] ''x'' ''10.0.0.9''))
     (snd (apply_alert (parse_to_alert 0 0 [] ''x'' ''10.0.0.9'') (app_new 10)))"
proof -
  have "trim (from_utf8_lossy ''x'') = ''x''" by (simp add: std_defs)
  then show ?thesis
    by (simp add: missed_alert_def handle_line_def Let_def after_snapshot_def collector_new_def)
qed

text \<open>C38. The two steps of a subscription leave a gap: an alert that is broadcast after the
  snapshot was taken and before the subscription is in the firing map but is never delivered.
  There is a reachable state in which a browser has received everything it will ever get and
  does not show a firing alert.\<close>

theorem subscribe_gap_loses_alert:
  "\<exists>s c fp. coll_reach id (\<lambda>_. None) (\<lambda>_. []) sample_send 10 0 s \<and> co_clients s 0 = Some c \<and>
     cl_sub c \<noteq> None \<and> cl_pos c = length (ap_fanout (co_app s)) \<and>
     map_of (ap_firing (co_app s)) fp \<noteq> None \<and> gv_alerts (cl_view c) fp = None"
proof -
  let ?a = "parse_to_alert 0 0 [] ''x'' ''10.0.0.9''"
  let ?s = "after_subscribe missed_alert"
  let ?c0 = "client_new id 0 (app_new 10)"
  have r: "coll_reach id (\<lambda>_. None) (\<lambda>_. []) sample_send 10 0 missed_alert"
    unfolding missed_alert_def by (rule coll_reach.step [OF reach_after_snapshot coll_step.syslog])
  have c0: "co_clients missed_alert 0 = Some ?c0"
    by (simp add: missed_alert_def client_after_snapshot)
  have "coll_reach id (\<lambda>_. None) (\<lambda>_. []) sample_send 10 0 ?s"
    by (rule reach_after_subscribe [OF r c0]) (simp add: client_new_def)
  moreover have "co_clients ?s 0 = Some (client_subscribe (co_app missed_alert) ?c0)"
    by (simp add: after_subscribe_def c0)
  moreover have "map_of (ap_firing (co_app ?s)) (al_fingerprint ?a) \<noteq> None"
    by (simp add: after_subscribe_def missed_alert_app firing_apply_alert update_conv' app_new_def)
  moreover have "co_app ?s = co_app missed_alert" by (simp add: after_subscribe_def)
  moreover have "gv_alerts (cl_view (client_subscribe (co_app missed_alert) ?c0)) (al_fingerprint ?a) = None"
    by (simp add: client_subscribe_def client_new_def gui_snapshot_def app_snapshot_def app_new_def)
  ultimately show ?thesis
    by (intro exI [of _ ?s] exI [of _ "client_subscribe (co_app missed_alert) ?c0"]
          exI [of _ "al_fingerprint ?a"]) (simp add: client_subscribe_def)
qed



text \<open>C14. Over a whole agent connection, the firing count the collector keeps for every host stays
  equal to the number of its alerts in the firing map, if it was at the start, provided the
  alerts carry the fingerprints agents build (host ids without the separator) and fewer than
  \<open>2^31\<close> alerts are firing or received. An operator's resolve keeps it as well.\<close>

theorem firing_counts_exact:
  assumes "counts_ok (cn_app c)" and "state_wf (cn_app c)"
    and "\<forall>env \<in> set (received decode ms). keyed_envelope env"
    and "length (ap_firing (cn_app c)) + length (received decode ms) < 2 ^ 31"
  shows "counts_ok (cn_app (handle_socket decode try_send now ms c))
    \<and> counts_ok (gs_app (snd (api_resolve to_rfc3339 try_send now ulid fp by_name
          \<lparr>gs_app = cn_app c, gs_writer = cn_writer c\<rparr>)))"
  using counts_ok_run [OF assms] api_resolve_counts [of "\<lparr>gs_app = cn_app c, gs_writer = cn_writer c\<rparr>"] assms
  by (simp add: handle_socket_run)

definition sample_decode :: "string \<Rightarrow> envelope option" where
  "sample_decode t = (if t = ''a'' then Some (EAlert (build_firing 0 []
      (builder_new ''node1'' ''4f2a'' NVME ''media_errors'' Warning))) else None)"

theorem firing_counts_exact_witness:
  "counts_ok (cn_app (handle_socket sample_decode sample_send 0 [MText ''a'', MText ''b'', MText ''a'']
     (conn_of None (collector_new 10 0))))"
proof -
  have "counts_ok (cn_app (conn_of None (collector_new 10 (0::nat))))"
    "state_wf (cn_app (conn_of None (collector_new 10 (0::nat))))"
    by (simp_all add: conn_of_def collector_new_def counts_ok_new state_wf_new)
  moreover have "\<forall>env \<in> set (received sample_decode [MText ''a'', MText ''b'', MText ''a'']). keyed_envelope env"
    by (simp add: sample_decode_def keyed_envelope_def keyed_alert_def fingerprint_def)
  moreover have "length (ap_firing (cn_app (conn_of None (collector_new 10 (0::nat)))))
      + length (received sample_decode [MText ''a'', MText ''b'', MText ''a'']) < 2 ^ 31"
    by (simp add: sample_decode_def conn_of_def collector_new_def app_new_def)
  ultimately show ?thesis using firing_counts_exact by blast
qed

end
