(* ===== verification/Fleet.thy ===== *)
theory Fleet
  imports Agent_Emitter Coll_System
begin

text \<open>
  The two halves together: the alerts an agent's tracker decides to send (\<open>Agent_Emitter\<close>) and the
  firing map the collector builds from them (\<open>Coll_Ingest\<close>). \<open>history_ok\<close> and \<open>keyed_alert\<close> are the
  interface: the first part proves that agents keep it, the second that it is enough for the
  collector to mirror the agent.
\<close>

section \<open>Alerts of an agent carry the fingerprint of their own fields\<close>

definition self_keyed :: "alert \<Rightarrow> bool" where
  "self_keyed a \<longleftrightarrow>
     al_fingerprint a = fingerprint_of (al_host_id a) (al_category a) (al_device a) (al_metric a)"

lemma self_keyed_build [simp]:
  "self_keyed (build_firing t u b)" "self_keyed ((build_firing t u b)\<lparr>al_occurrences := n\<rparr>)"
  "self_keyed (build_resolved t u sp sev occ)"
  by (simp_all add: self_keyed_def build_resolved_def build_firing_def fingerprint_def)

lemma run_op_self_keyed:
  assumes "\<forall>(t, a) \<in> set (em_hist s). self_keyed a"
  shows "\<forall>(t, a) \<in> set (em_hist (run_op op s)). self_keyed a"
  using assms
  by (cases op)
     (auto simp: emit_parts tracker_defs log_decision_def log_option_def split: option.splits if_splits)

lemma run_ops_self_keyed:
  "\<forall>(t, a) \<in> set (em_hist s). self_keyed a \<Longrightarrow> \<forall>(t, a) \<in> set (em_hist (run_ops ops s)). self_keyed a"
proof (induction ops arbitrary: s)
  case (Cons op ops)
  from Cons.IH [OF run_op_self_keyed [OF Cons.prems]] show ?case by (simp add: run_ops_Cons)
qed (simp add: run_ops_def)

text \<open>All builders of the operations are of one host.\<close>

definition of_host :: "string \<Rightarrow> tracker_op \<Rightarrow> bool" where
  "of_host hid op = op_sat (\<lambda>b. b_host_id b = hid) op"

lemma run_ops_host:
  assumes "\<forall>op \<in> set ops. of_host hid op"
  shows "\<forall>(t, a) \<in> set (em_hist (run_ops ops (emitter_new r c clk))). al_host_id a = hid"
  using run_ops_keeps_ok [of "\<lambda>h _. h = hid" "emitter_new r c clk" ops] assms emitter_ok_new
  by (simp add: emitter_ok_def of_host_def)

lemma run_ops_keyed:
  assumes "\<forall>op \<in> set ops. of_host hid op" and "no_sep hid"
  shows "\<forall>(t, a) \<in> set (em_hist (run_ops ops (emitter_new r c clk))). keyed_alert a"
  using run_ops_host [OF assms(1), of r c clk] run_ops_self_keyed [of "emitter_new r c clk" ops] assms(2)
  by (auto simp: keyed_alert_def self_keyed_def)


section \<open>What a connection does to one fingerprint\<close>

fun alerts_of :: "envelope list \<Rightarrow> alert list" where
  "alerts_of [] = []"
| "alerts_of (EAlert a # es) = a # alerts_of es"
| "alerts_of (e # es) = alerts_of es"

text \<open>The state of a fingerprint after a sequence of alerts, latest first.\<close>

fun open_after :: "string \<Rightarrow> alert list \<Rightarrow> bool" where
  "open_after fp [] = False"
| "open_after fp (a # as) = (if al_fingerprint a = fp then al_state a = Firing else open_after fp as)"

lemma active_since_open: "active_since fp h \<noteq> None \<longleftrightarrow> open_after fp (map snd h)"
  by (induction h) (auto split: alert_state.splits)

lemma alerts_of_append [simp]: "alerts_of (xs @ ys) = alerts_of xs @ alerts_of ys"
  by (induction xs rule: alerts_of.induct) simp_all

definition keeps_watch :: "string \<Rightarrow> envelope \<Rightarrow> bool" where
  "keeps_watch hid env =
     (case env of EHello h \<Rightarrow> hl_host_id h = hid \<longrightarrow> \<not> hl_maintenance h | _ \<Rightarrow> True)"

lemma maintenance_touch [simp]:
  "host_in_maintenance hid (touch_host h hid' ts v s) = host_in_maintenance hid s"
  by (auto simp: host_in_maintenance_def touch_host_def Let_def update_conv' split: option.splits)

lemma maintenance_bump [simp]:
  "host_in_maintenance hid (bump_host_count hid' d s) = host_in_maintenance hid s"
  by (auto simp: host_in_maintenance_def bump_host_count_def Let_def update_conv' split: option.splits)

lemma maintenance_broadcast [simp]:
  "host_in_maintenance hid (broadcast env s) = host_in_maintenance hid s"
  by (simp add: host_in_maintenance_def)

lemma maintenance_apply [simp]:
  "host_in_maintenance hid (snd (apply_alert a s)) = host_in_maintenance hid s"
proof -
  have "host_in_maintenance hid (s\<lparr>ap_firing := f\<rparr>) = host_in_maintenance hid s" for f
    by (simp add: host_in_maintenance_def)
  then show ?thesis
    by (auto simp: apply_alert_def Let_def split: alert_state.splits option.splits)
qed

lemma maintenance_hello:
  "host_in_maintenance hid (register_hello h s)
     = (if hl_host_id h = hid then hl_maintenance h else host_in_maintenance hid s)"
  by (auto simp: host_in_maintenance_def register_hello_def Let_def update_conv' split: option.splits)

lemma maintenance_ingest_alert [simp]:
  "host_in_maintenance hid (cn_app (ingest_alert try_send a c)) = host_in_maintenance hid (cn_app c)"
  by (cases "host_in_maintenance (al_host_id a) (cn_app c)")
     (simp_all add: ingest_alert_held ingest_alert_accepted Let_def)

lemma maintenance_ingest:
  assumes "keeps_watch hid env" and "\<not> host_in_maintenance hid (cn_app c)"
  shows "\<not> host_in_maintenance hid (cn_app (ingest_envelope try_send env c))"
  using assms
  by (cases env) (simp_all add: ingest_hello_def ingest_heartbeat_def maintenance_hello keeps_watch_def)

lemma firing_ingest_other:
  "\<nexists>a. env = EAlert a \<Longrightarrow> ap_firing (cn_app (ingest_envelope try_send env c)) = ap_firing (cn_app c)"
  by (cases env) (auto simp: ingest_hello_def ingest_heartbeat_def)

lemma alert_in_alerts_of: "EAlert a \<in> set es \<Longrightarrow> a \<in> set (alerts_of es)"
  by (induction es rule: alerts_of.induct) auto

lemma firing_after_run_from:
  assumes "\<forall>env \<in> set envs. keeps_watch hid env" and "\<forall>a \<in> set (alerts_of envs). al_host_id a = hid"
    and "\<not> host_in_maintenance hid (cn_app c)" and "map_of (ap_firing (cn_app c)) fp \<noteq> None \<longleftrightarrow> open_after fp as"
  shows "\<not> host_in_maintenance hid (cn_app (fold (ingest_envelope try_send) envs c))
    \<and> (map_of (ap_firing (cn_app (fold (ingest_envelope try_send) envs c))) fp \<noteq> None
         \<longleftrightarrow> open_after fp (rev (alerts_of envs) @ as))"
  using assms(1,2)
proof (induction envs rule: rev_induct)
  case Nil
  with assms(3,4) show ?case by simp
next
  case (snoc env envs)
  let ?c = "fold (ingest_envelope try_send) envs c"
  from snoc have IH: "\<not> host_in_maintenance hid (cn_app ?c)"
    "map_of (ap_firing (cn_app ?c)) fp \<noteq> None \<longleftrightarrow> open_after fp (rev (alerts_of envs) @ as)" by simp_all
  have m: "\<not> host_in_maintenance hid (cn_app (ingest_envelope try_send env ?c))"
    using snoc.prems(1) IH(1) by (simp add: maintenance_ingest)
  show ?case
  proof (cases "\<exists>a. env = EAlert a")
    case True
    with m IH snoc.prems(2) show ?thesis
      by (auto simp: firing_ingest_alert update_conv' delete_conv' split: alert_state.splits if_splits)
  next
    case False
    then have "alerts_of [env] = []" by (cases env) auto
    moreover have "ap_firing (cn_app (ingest_envelope try_send env ?c)) = ap_firing (cn_app ?c)"
      using False by (rule firing_ingest_other)
    ultimately show ?thesis using m IH(2) by simp
  qed
qed

lemma firing_after_run:
  assumes "\<forall>env \<in> set envs. keeps_watch hid env" and "\<forall>a \<in> set (alerts_of envs). al_host_id a = hid"
    and "\<not> host_in_maintenance hid (cn_app c)" and "map_of (ap_firing (cn_app c)) fp = None"
  shows "map_of (ap_firing (cn_app (fold (ingest_envelope try_send) envs c))) fp \<noteq> None
    \<longleftrightarrow> open_after fp (rev (alerts_of envs))"
  using firing_after_run_from [OF assms(1-3), of fp "[]" try_send] assms(4) by simp

text \<open>Connections of one agent served one after the other; each starts without a known host.\<close>

fun serve_connections ::
  "(string \<Rightarrow> envelope option) \<Rightarrow> 'w sender \<Rightarrow> (datetime \<times> ws_message list) list \<Rightarrow> 'w ingest_conn \<Rightarrow> 'w ingest_conn" where
  "serve_connections decode try_send [] c = c"
| "serve_connections decode try_send ((now, ms) # conns) c =
     serve_connections decode try_send conns (handle_socket decode try_send now ms (c\<lparr>cn_host := None\<rparr>))"

lemma firing_after_connections:
  assumes "\<forall>(now, ms) \<in> set conns. \<forall>env \<in> set (received decode ms). keeps_watch hid env"
    and "\<forall>(now, ms) \<in> set conns. \<forall>a \<in> set (alerts_of (received decode ms)). al_host_id a = hid"
    and "\<not> host_in_maintenance hid (cn_app c)" and "map_of (ap_firing (cn_app c)) fp \<noteq> None \<longleftrightarrow> open_after fp as"
  shows "map_of (ap_firing (cn_app (serve_connections decode try_send conns c))) fp \<noteq> None
    \<longleftrightarrow> open_after fp (rev (alerts_of (concat (map (\<lambda>(now, ms). received decode ms) conns))) @ as)"
  using assms
proof (induction conns arbitrary: c as)
  case (Cons x conns)
  obtain now ms where x: "x = (now, ms)" by force
  let ?c = "handle_socket decode try_send now ms (c\<lparr>cn_host := None\<rparr>)"
  have "\<not> host_in_maintenance hid (cn_app ?c)
      \<and> (map_of (ap_firing (cn_app ?c)) fp \<noteq> None \<longleftrightarrow> open_after fp (rev (alerts_of (received decode ms)) @ as))"
    using firing_after_run_from [of "received decode ms" hid "c\<lparr>cn_host := None\<rparr>" fp as try_send] Cons.prems
    by (simp add: x handle_socket_run host_in_maintenance_def)
  with Cons.IH [of ?c "rev (alerts_of (received decode ms)) @ as"] Cons.prems(1,2) show ?case by (simp add: x)
qed simp


section \<open>Properties\<close>

text \<open>The collector mirrors the agent. Take any sequence of tracker operations of one host,
  from a new tracker, and a connection that delivers the alerts they sent in the order they were
  sent (between other envelopes, none of which puts the host into maintenance), to a collector
  in which the host is not in maintenance. Then, at the end of the connection, a fingerprint that
  was not in the collector's firing map before is in it exactly when the agent's tracker has the
  condition open. If moreover the host id has no separator and the collector's counts were exact,
  they are exact afterwards.\<close>

theorem collector_mirrors_tracker:
  assumes "\<forall>op \<in> set ops. of_host hid op" and "no_sep hid"
    and "\<forall>env \<in> set (received decode ms). keeps_watch hid env"
    and "alerts_of (received decode ms) = rev (map snd (em_hist (run_ops ops (emitter_new r c clk))))"
    and "\<not> host_in_maintenance hid (cn_app conn)" and "map_of (ap_firing (cn_app conn)) fp = None"
    and "counts_ok (cn_app conn)" and "state_wf (cn_app conn)"
    and "length (ap_firing (cn_app conn)) + length (received decode ms) < 2 ^ 31"
  shows "(map_of (ap_firing (cn_app (handle_socket decode try_send now ms conn))) fp \<noteq> None
            \<longleftrightarrow> tr_inner (em_tracker (run_ops ops (emitter_new r c clk))) fp \<noteq> None)
    \<and> counts_ok (cn_app (handle_socket decode try_send now ms conn))"
proof -
  let ?s = "run_ops ops (emitter_new r c clk)"
  have host: "\<forall>a \<in> set (alerts_of (received decode ms)). al_host_id a = hid"
    using run_ops_host [OF assms(1), of r c clk] by (auto simp: assms(4))
  have "map_option en_last_emitted (tr_inner (em_tracker ?s) fp) = active_since fp (em_hist ?s)"
    using run_ops_ok_new [of ops r c clk] by (simp add: emitter_ok_def represents_def)
  then have opened: "tr_inner (em_tracker ?s) fp \<noteq> None \<longleftrightarrow> open_after fp (map snd (em_hist ?s))"
    by (metis active_since_open map_option_is_None)
  have keyed: "\<forall>env \<in> set (received decode ms). keyed_envelope env"
  proof
    fix env
    assume env: "env \<in> set (received decode ms)"
    show "keyed_envelope env"
    proof (cases env)
      case (EAlert a)
      with env have "a \<in> set (alerts_of (received decode ms))" by (simp add: alert_in_alerts_of)
      with run_ops_keyed [OF assms(1,2), of r c clk] have "keyed_alert a" by (auto simp: assms(4))
      then show ?thesis by (simp add: EAlert keyed_envelope_def)
    qed (simp_all add: keyed_envelope_def)
  qed
  from firing_after_run [OF assms(3) host assms(5,6), of try_send] opened
    counts_ok_run [OF assms(7,8) keyed assms(9), of try_send]
  show ?thesis by (simp add: handle_socket_run assms(4))
qed

theorem collector_mirrors_tracker_witness:
  "map_of (ap_firing (cn_app (handle_socket sample_decode sample_send 0 [MText ''a'']
     (conn_of None (collector_new 10 0))))) (fingerprint sample_builder) \<noteq> None"
proof -
  let ?s = "run_ops [OpObserve sample_builder] (emitter_new 15 5 (tick_clock 10))"
  have hist: "em_hist ?s = [(0, build_firing 0 [] sample_builder)]"
    and inner: "tr_inner (em_tracker ?s) (fingerprint sample_builder) \<noteq> None"
    by (simp_all add: run_eval)
  have dec: "sample_decode ''a'' = Some (EAlert (build_firing 0 [] sample_builder))"
    by (simp add: sample_decode_def sample_builder_def)
  have "counts_ok (cn_app (conn_of None (collector_new 10 (0::nat))))"
    "state_wf (cn_app (conn_of None (collector_new 10 (0::nat))))"
    by (simp_all add: conn_of_def collector_new_def counts_ok_new state_wf_new)
  moreover have "ap_firing (cn_app (conn_of None (collector_new 10 (0::nat)))) = []"
    "\<not> host_in_maintenance ''4f2a'' (cn_app (conn_of None (collector_new 10 (0::nat))))"
    by (simp_all add: conn_of_def collector_new_def app_new_def host_in_maintenance_def)
  moreover have "no_sep ''4f2a''" "of_host ''4f2a'' (OpObserve sample_builder)"
    by (simp_all add: of_host_def sample_builder_def)
  ultimately show ?thesis
    using collector_mirrors_tracker [of "[OpObserve sample_builder]" "''4f2a''" sample_decode "[MText ''a'']"
        15 5 "tick_clock 10" "conn_of None (collector_new 10 0)" "fingerprint sample_builder" sample_send 0] inner
    by (simp add: dec hist keeps_watch_def)
qed

end
