(* ===== verification/Wire_Format.thy ===== *)
theory Wire_Format
  imports Uma_Shared "HOL-Library.Multiset" "HOL-Library.List_Lexorder" "HOL-Library.Char_ord"
    "HOL-Library.Monad_Syntax"
begin

text \<open>
  The JSON form of the messages, as the attributes in \<open>shared/src/lib.rs\<close> fix it: the names of the
  members, the tag \<open>type\<close> of an envelope, lower-case and snake-case names of variants, and the values
  that stand for missing members (\<open>serde(default)\<close>). How a JSON value becomes text is serde's part,
  how a time becomes text chrono's: \<open>show_ts\<close> and \<open>parse_ts\<close> are parameters.

  A decoder takes the members in any order and ignores members it does not know; a known member that
  occurs twice is an error. Forms that no encoder writes (a struct as an array, a variant as an
  object) are left out.
\<close>

section \<open>Codecs\<close>

text \<open>An encoder with a decoder that undoes it on the values that can occur.\<close>

locale codec =
  fixes enc :: "'a \<Rightarrow> json" and dec :: "json \<Rightarrow> 'a option" and ok :: "'a \<Rightarrow> bool"
  assumes dec_enc: "ok x \<Longrightarrow> dec (enc x) = Some x"
begin

lemma enc_inject: "ok x \<Longrightarrow> ok y \<Longrightarrow> enc x = enc y \<longleftrightarrow> x = y"
  by (metis dec_enc option.inject)

end

definition list_to_json :: "('a \<Rightarrow> json) \<Rightarrow> 'a list \<Rightarrow> json" where
  "list_to_json enc xs = JArr (map enc xs)"

definition list_of_json :: "(json \<Rightarrow> 'a option) \<Rightarrow> json \<Rightarrow> 'a list option" where
  "list_of_json dec j = (case j of JArr js \<Rightarrow> those (map dec js) | _ \<Rightarrow> None)"

text \<open>A \<open>BTreeMap\<close> is written in the order of its keys; when it is read, the last value of a key stays.\<close>

definition map_to_json :: "('a \<Rightarrow> json) \<Rightarrow> (string \<rightharpoonup> 'a) \<Rightarrow> json" where
  "map_to_json enc m = JObj (map (\<lambda>k. (k, enc (the (m k)))) (sorted_list_of_set (dom m)))"

definition member_of_json :: "(json \<Rightarrow> 'a option) \<Rightarrow> string \<times> json \<Rightarrow> (string \<times> 'a) option" where
  "member_of_json dec kv = map_option (Pair (fst kv)) (dec (snd kv))"

definition map_of_json :: "(json \<Rightarrow> 'a option) \<Rightarrow> json \<Rightarrow> (string \<rightharpoonup> 'a) option" where
  "map_of_json dec j =
     (case j of JObj kvs \<Rightarrow> map_option (\<lambda>xs. map_of (rev xs)) (those (map (member_of_json dec) kvs)) | _ \<Rightarrow> None)"

lemma those_map_Some: "(\<And>x. x \<in> set xs \<Longrightarrow> f x = Some (g x)) \<Longrightarrow> those (map f xs) = Some (map g xs)"
  by (induction xs) simp_all

context codec
begin

lemma list_dec_enc: "list_all ok xs \<Longrightarrow> list_of_json dec (list_to_json enc xs) = Some xs"
  by (induction xs) (auto simp: list_of_json_def list_to_json_def dec_enc)

lemma map_dec_enc:
  assumes "finite (dom m)" and "\<forall>v \<in> ran m. ok v"
  shows "map_of_json dec (map_to_json enc m) = Some m"
proof -
  let ?ks = "sorted_list_of_set (dom m)"
  have "dec (enc (the (m k))) = Some (the (m k))" if "k \<in> set ?ks" for k
    using that assms by (intro dec_enc) (auto intro: ranI)
  then have "those (map (member_of_json dec) (map (\<lambda>k. (k, enc (the (m k)))) ?ks))
      = Some (map (\<lambda>k. (k, the (m k))) ?ks)"
    unfolding map_map by (intro those_map_Some) (simp add: member_of_json_def)
  moreover have "map_of (rev (map (\<lambda>k. (k, the (m k))) ?ks)) = m"
    unfolding rev_map map_of_map_restrict using assms(1) by (auto simp: restrict_map_def fun_eq_iff domIff)
  ultimately show ?thesis by (simp add: map_of_json_def map_to_json_def)
qed

end

text \<open>The leaves.\<close>

definition string_of_json :: "json \<Rightarrow> string option" where
  "string_of_json j = (case j of JStr s \<Rightarrow> Some s | _ \<Rightarrow> None)"

definition bool_of_json :: "json \<Rightarrow> bool option" where
  "bool_of_json j = (case j of JBool b \<Rightarrow> Some b | _ \<Rightarrow> None)"

definition word_to_json :: "'w::len word \<Rightarrow> json" where
  "word_to_json w = JInt (uint w)"

definition word_of_json :: "json \<Rightarrow> 'w::len word option" where
  "word_of_json j =
     (case j of JInt i \<Rightarrow> if 0 \<le> i \<and> i < 2 ^ LENGTH('w) then Some (word_of_int i) else None | _ \<Rightarrow> None)"

definition option_to_json :: "string option \<Rightarrow> json" where
  "option_to_json x = (case x of None \<Rightarrow> JNull | Some s \<Rightarrow> JStr s)"

definition option_of_json :: "json \<Rightarrow> string option option" where
  "option_of_json j = (case j of JNull \<Rightarrow> Some None | _ \<Rightarrow> map_option Some (string_of_json j))"

definition severity_to_json :: "severity \<Rightarrow> json" where
  "severity_to_json s = JStr (case s of Info \<Rightarrow> ''info'' | Warning \<Rightarrow> ''warning'' | Critical \<Rightarrow> ''critical'')"

definition severity_of_json :: "json \<Rightarrow> severity option" where
  "severity_of_json j =
     Option.bind (string_of_json j) (map_of [(''info'', Info), (''warning'', Warning), (''critical'', Critical)])"

definition state_to_json :: "alert_state \<Rightarrow> json" where
  "state_to_json s = JStr (case s of Firing \<Rightarrow> ''firing'' | Resolved \<Rightarrow> ''resolved'')"

definition state_of_json :: "json \<Rightarrow> alert_state option" where
  "state_of_json j = Option.bind (string_of_json j) (map_of [(''firing'', Firing), (''resolved'', Resolved)])"

interpretation str: codec JStr string_of_json "\<lambda>_. True"
  by unfold_locales (simp add: string_of_json_def)

interpretation truth: codec JBool bool_of_json "\<lambda>_. True"
  by unfold_locales (simp add: bool_of_json_def)

interpretation words: codec "word_to_json :: 'w::len word \<Rightarrow> json" word_of_json "\<lambda>_. True"
  by unfold_locales (simp add: word_of_json_def word_to_json_def)

interpretation opt: codec option_to_json option_of_json "\<lambda>_. True"
  by unfold_locales (simp add: option_to_json_def option_of_json_def string_of_json_def split: option.splits)

interpretation sev: codec severity_to_json severity_of_json "\<lambda>_. True"
  by unfold_locales (simp add: severity_to_json_def severity_of_json_def string_of_json_def split: severity.splits)

interpretation st: codec state_to_json state_of_json "\<lambda>_. True"
  by unfold_locales (simp add: state_to_json_def state_of_json_def string_of_json_def split: alert_state.splits)

interpretation raw: codec "\<lambda>j. j" Some "\<lambda>_. True"
  by unfold_locales simp

lemmas leaf_codecs [simp] =
  str.dec_enc [OF TrueI] truth.dec_enc [OF TrueI] words.dec_enc [OF TrueI] opt.dec_enc [OF TrueI] sev.dec_enc [OF TrueI]
  st.dec_enc [OF TrueI]

text \<open>The names the derived code gives to severities are those of \<open>as_str\<close>.\<close>

lemma severity_names_agree: "severity_to_json s = JStr (severity_as_str s)"
  by (cases s) (simp_all add: severity_to_json_def)


section \<open>Structs\<close>

text \<open>A member that must be there, one with a default, and the check that no known member is repeated.\<close>

definition required :: "(json \<Rightarrow> 'a option) \<Rightarrow> (string \<times> json) list \<Rightarrow> string \<Rightarrow> 'a option" where
  "required dec kvs k = Option.bind (map_of kvs k) dec"

definition defaulted :: "'a \<Rightarrow> (json \<Rightarrow> 'a option) \<Rightarrow> (string \<times> json) list \<Rightarrow> string \<Rightarrow> 'a option" where
  "defaulted d dec kvs k = (case map_of kvs k of None \<Rightarrow> Some d | Some j \<Rightarrow> dec j)"

definition known_once :: "string list \<Rightarrow> (string \<times> json) list \<Rightarrow> bool" where
  "known_once names kvs \<longleftrightarrow> list_all (\<lambda>k. length (filter (\<lambda>kv. fst kv = k) kvs) \<le> 1) names"

definition members_of_json :: "json \<Rightarrow> (string \<times> json) list option" where
  "members_of_json j = (case j of JObj kvs \<Rightarrow> Some kvs | _ \<Rightarrow> None)"

subsection \<open>Alerts\<close>

definition alert_members :: "(datetime \<Rightarrow> string) \<Rightarrow> alert \<Rightarrow> (string \<times> json) list" where
  "alert_members show_ts a =
     [(''id'', JStr (al_id a)), (''ts'', JStr (show_ts (al_ts a))), (''host'', JStr (al_host a)),
      (''host_id'', JStr (al_host_id a)), (''primary_ip'', JStr (al_primary_ip a)), (''category'', JStr (al_category a)),
      (''subsystem'', option_to_json (al_subsystem a)), (''severity'', severity_to_json (al_severity a)),
      (''state'', state_to_json (al_state a)), (''device'', option_to_json (al_device a)),
      (''device_model'', option_to_json (al_device_model a)), (''metric'', JStr (al_metric a)),
      (''value'', option_to_json (al_value a)), (''threshold'', option_to_json (al_threshold a)),
      (''title'', JStr (al_title a)), (''message'', JStr (al_message a)), (''fingerprint'', JStr (al_fingerprint a)),
      (''first_seen'', JStr (show_ts (al_first_seen a))), (''last_seen'', JStr (show_ts (al_last_seen a))),
      (''occurrences'', word_to_json (al_occurrences a)), (''raw'', map_to_json (\<lambda>j. j) (al_raw a)),
      (''correlated'', list_to_json JStr (al_correlated a))]"

definition alert_fields :: "string list" where
  "alert_fields =
     [''id'', ''ts'', ''host'', ''host_id'', ''primary_ip'', ''category'', ''subsystem'', ''severity'', ''state'', ''device'',
      ''device_model'', ''metric'', ''value'', ''threshold'', ''title'', ''message'', ''fingerprint'', ''first_seen'',
      ''last_seen'', ''occurrences'', ''raw'', ''correlated'']"

definition alert_optional :: "string list" where
  "alert_optional =
     [''primary_ip'', ''subsystem'', ''device'', ''device_model'', ''value'', ''threshold'', ''occurrences'', ''raw'',
      ''correlated'']"

definition ts_of_json :: "(string \<Rightarrow> datetime option) \<Rightarrow> json \<Rightarrow> datetime option" where
  "ts_of_json parse_ts j = Option.bind (string_of_json j) parse_ts"

definition alert_of_members :: "(string \<Rightarrow> datetime option) \<Rightarrow> (string \<times> json) list \<Rightarrow> alert option" where
  "alert_of_members parse_ts kvs =
     (if \<not> known_once alert_fields kvs then None
      else do {
        id \<leftarrow> required string_of_json kvs ''id'';
        ts \<leftarrow> required (ts_of_json parse_ts) kvs ''ts'';
        host \<leftarrow> required string_of_json kvs ''host'';
        host_id \<leftarrow> required string_of_json kvs ''host_id'';
        primary_ip \<leftarrow> defaulted [] string_of_json kvs ''primary_ip'';
        category \<leftarrow> required string_of_json kvs ''category'';
        subsystem \<leftarrow> defaulted None option_of_json kvs ''subsystem'';
        severity \<leftarrow> required severity_of_json kvs ''severity'';
        state \<leftarrow> required state_of_json kvs ''state'';
        device \<leftarrow> defaulted None option_of_json kvs ''device'';
        device_model \<leftarrow> defaulted None option_of_json kvs ''device_model'';
        metric \<leftarrow> required string_of_json kvs ''metric'';
        val \<leftarrow> defaulted None option_of_json kvs ''value'';
        threshold \<leftarrow> defaulted None option_of_json kvs ''threshold'';
        title \<leftarrow> required string_of_json kvs ''title'';
        message \<leftarrow> required string_of_json kvs ''message'';
        fp \<leftarrow> required string_of_json kvs ''fingerprint'';
        first_seen \<leftarrow> required (ts_of_json parse_ts) kvs ''first_seen'';
        last_seen \<leftarrow> required (ts_of_json parse_ts) kvs ''last_seen'';
        occurrences \<leftarrow> defaulted 1 word_of_json kvs ''occurrences'';
        raw \<leftarrow> defaulted Map.empty (map_of_json Some) kvs ''raw'';
        correlated \<leftarrow> defaulted [] (list_of_json string_of_json) kvs ''correlated'';
        Some \<lparr>al_id = id, al_ts = ts, al_host = host, al_host_id = host_id, al_primary_ip = primary_ip,
          al_category = category, al_subsystem = subsystem, al_severity = severity, al_state = state,
          al_device = device, al_device_model = device_model, al_metric = metric, al_value = val,
          al_threshold = threshold, al_title = title, al_message = message, al_fingerprint = fp,
          al_first_seen = first_seen, al_last_seen = last_seen, al_occurrences = occurrences,
          al_raw = raw, al_correlated = correlated\<rparr>
      })"

text \<open>What can be written and read back: a map with finitely many keys, and times that chrono's text
  keeps, here a set \<open>T\<close> on which its parser undoes its printer.\<close>

definition chrono_law :: "(datetime \<Rightarrow> string) \<Rightarrow> (string \<Rightarrow> datetime option) \<Rightarrow> datetime set \<Rightarrow> bool" where
  "chrono_law show_ts parse_ts T \<longleftrightarrow> (\<forall>t \<in> T. parse_ts (show_ts t) = Some t)"

definition alert_ok :: "datetime set \<Rightarrow> alert \<Rightarrow> bool" where
  "alert_ok T a \<longleftrightarrow> finite (dom (al_raw a)) \<and> {al_ts a, al_first_seen a, al_last_seen a} \<subseteq> T"

text \<open>An alert without the optional members \<open>D\<close>.\<close>

definition alert_without :: "string set \<Rightarrow> alert \<Rightarrow> alert" where
  "alert_without D a =
     a\<lparr>al_primary_ip := if ''primary_ip'' \<in> D then [] else al_primary_ip a,
       al_subsystem := if ''subsystem'' \<in> D then None else al_subsystem a,
       al_device := if ''device'' \<in> D then None else al_device a,
       al_device_model := if ''device_model'' \<in> D then None else al_device_model a,
       al_value := if ''value'' \<in> D then None else al_value a,
       al_threshold := if ''threshold'' \<in> D then None else al_threshold a,
       al_occurrences := if ''occurrences'' \<in> D then 1 else al_occurrences a,
       al_raw := if ''raw'' \<in> D then Map.empty else al_raw a,
       al_correlated := if ''correlated'' \<in> D then [] else al_correlated a\<rparr>"

lemma ts_dec: "chrono_law show_ts parse_ts T \<Longrightarrow> t \<in> T \<Longrightarrow> ts_of_json parse_ts (JStr (show_ts t)) = Some t"
  by (simp add: ts_of_json_def string_of_json_def chrono_law_def)

lemma defaulted_old:
  "map_of kvs k = (if k \<in> D then None else Some j) \<Longrightarrow> dec j = Some x \<Longrightarrow>
     defaulted d dec kvs k = Some (if k \<in> D then d else x)"
  by (simp add: defaulted_def)

text \<open>Members \<open>kvs\<close> that say of the known names what \<open>ms\<close> says, less those in \<open>D\<close>.\<close>

definition says :: "string list \<Rightarrow> string set \<Rightarrow> (string \<times> json) list \<Rightarrow> (string \<times> json) list \<Rightarrow> bool" where
  "says names D ms kvs \<longleftrightarrow>
     known_once names kvs \<and> (\<forall>k \<in> set names. map_of kvs k = (if k \<in> D then None else map_of ms k))"

lemma says_required:
  "says names D ms kvs \<Longrightarrow> D \<subseteq> set opts \<Longrightarrow> k \<in> set names \<Longrightarrow> k \<notin> set opts \<Longrightarrow> map_of ms k = Some j \<Longrightarrow>
     dec j = Some x \<Longrightarrow> required dec kvs k = Some x"
  by (auto simp: says_def required_def split: if_splits)

lemma says_defaulted:
  "says names D ms kvs \<Longrightarrow> k \<in> set names \<Longrightarrow> map_of ms k = Some j \<Longrightarrow> dec j = Some x \<Longrightarrow>
     defaulted d dec kvs k = Some (if k \<in> D then d else x)"
  by (rule defaulted_old) (simp_all add: says_def)

lemma alert_of_members_says:
  assumes "chrono_law show_ts parse_ts T" and "alert_ok T a" and "D \<subseteq> set alert_optional"
    and "says alert_fields D (alert_members show_ts a) kvs"
  shows "alert_of_members parse_ts kvs = Some (alert_without D a)"
proof -
  note r = says_required [OF assms(4,3)] and d = says_defaulted [OF assms(4)]
  have fin: "finite (dom (al_raw a))" using assms(2) by (simp add: alert_ok_def)
  have ts: "ts_of_json parse_ts (JStr (show_ts t)) = Some t"
    if "t \<in> {al_ts a, al_first_seen a, al_last_seen a}" for t
    using assms(2) that by (auto simp: alert_ok_def intro: ts_dec [OF assms(1)])
  have req: "required string_of_json kvs ''id'' = Some (al_id a)"
    "required (ts_of_json parse_ts) kvs ''ts'' = Some (al_ts a)"
    "required string_of_json kvs ''host'' = Some (al_host a)"
    "required string_of_json kvs ''host_id'' = Some (al_host_id a)"
    "required string_of_json kvs ''category'' = Some (al_category a)"
    "required severity_of_json kvs ''severity'' = Some (al_severity a)"
    "required state_of_json kvs ''state'' = Some (al_state a)"
    "required string_of_json kvs ''metric'' = Some (al_metric a)"
    "required string_of_json kvs ''title'' = Some (al_title a)"
    "required string_of_json kvs ''message'' = Some (al_message a)"
    "required string_of_json kvs ''fingerprint'' = Some (al_fingerprint a)"
    "required (ts_of_json parse_ts) kvs ''first_seen'' = Some (al_first_seen a)"
    "required (ts_of_json parse_ts) kvs ''last_seen'' = Some (al_last_seen a)"
    by (rule r, simp add: alert_fields_def, simp add: alert_optional_def, simp add: alert_members_def, simp add: ts)+
  have dft: "defaulted [] string_of_json kvs ''primary_ip'' = Some (if ''primary_ip'' \<in> D then [] else al_primary_ip a)"
    "defaulted None option_of_json kvs ''subsystem'' = Some (if ''subsystem'' \<in> D then None else al_subsystem a)"
    "defaulted None option_of_json kvs ''device'' = Some (if ''device'' \<in> D then None else al_device a)"
    "defaulted None option_of_json kvs ''device_model'' = Some (if ''device_model'' \<in> D then None else al_device_model a)"
    "defaulted None option_of_json kvs ''value'' = Some (if ''value'' \<in> D then None else al_value a)"
    "defaulted None option_of_json kvs ''threshold'' = Some (if ''threshold'' \<in> D then None else al_threshold a)"
    "defaulted 1 word_of_json kvs ''occurrences'' = Some (if ''occurrences'' \<in> D then 1 else al_occurrences a)"
    "defaulted Map.empty (map_of_json Some) kvs ''raw'' = Some (if ''raw'' \<in> D then Map.empty else al_raw a)"
    "defaulted [] (list_of_json string_of_json) kvs ''correlated'' = Some (if ''correlated'' \<in> D then [] else al_correlated a)"
    by (rule d, simp add: alert_fields_def, simp add: alert_members_def,
        simp add: raw.map_dec_enc fin str.list_dec_enc list_all_iff)+
  show ?thesis using assms(4) unfolding alert_of_members_def req dft by (simp add: says_def alert_without_def)
qed


subsection \<open>Heartbeats, hosts and the hello\<close>

definition heartbeat_members :: "(datetime \<Rightarrow> string) \<Rightarrow> heartbeat \<Rightarrow> (string \<times> json) list" where
  "heartbeat_members show_ts h =
     [(''host'', JStr (hb_host h)), (''host_id'', JStr (hb_host_id h)), (''ts'', JStr (show_ts (hb_ts h))),
      (''uptime_s'', word_to_json (hb_uptime_s h)), (''firing_count'', word_to_json (hb_firing_count h)),
      (''agent_version'', JStr (hb_agent_version h))]"

definition heartbeat_fields :: "string list" where
  "heartbeat_fields = [''host'', ''host_id'', ''ts'', ''uptime_s'', ''firing_count'', ''agent_version'']"

definition heartbeat_optional :: "string list" where
  "heartbeat_optional = [''firing_count'', ''agent_version'']"

definition heartbeat_of_members :: "(string \<Rightarrow> datetime option) \<Rightarrow> (string \<times> json) list \<Rightarrow> heartbeat option" where
  "heartbeat_of_members parse_ts kvs =
     (if \<not> known_once heartbeat_fields kvs then None
      else do {
        host \<leftarrow> required string_of_json kvs ''host'';
        host_id \<leftarrow> required string_of_json kvs ''host_id'';
        ts \<leftarrow> required (ts_of_json parse_ts) kvs ''ts'';
        uptime_s \<leftarrow> required word_of_json kvs ''uptime_s'';
        firing_count \<leftarrow> defaulted 0 word_of_json kvs ''firing_count'';
        agent_version \<leftarrow> defaulted [] string_of_json kvs ''agent_version'';
        Some \<lparr>hb_host = host, hb_host_id = host_id, hb_ts = ts, hb_uptime_s = uptime_s,
          hb_firing_count = firing_count, hb_agent_version = agent_version\<rparr>
      })"

definition vendor_members :: "vendor_info \<Rightarrow> (string \<times> json) list" where
  "vendor_members v =
     [(''system_manufacturer'', JStr (vi_system_manufacturer v)), (''system_product_name'', JStr (vi_system_product_name v)),
      (''bios_version'', JStr (vi_bios_version v)), (''bmc_vendor'', JStr (vi_bmc_vendor v)),
      (''gpu_vendors'', list_to_json JStr (vi_gpu_vendors v)), (''kernel'', JStr (vi_kernel v)),
      (''os_release'', JStr (vi_os_release v))]"

definition vendor_fields :: "string list" where
  "vendor_fields =
     [''system_manufacturer'', ''system_product_name'', ''bios_version'', ''bmc_vendor'', ''gpu_vendors'', ''kernel'',
      ''os_release'']"

definition vendor_of_json :: "json \<Rightarrow> vendor_info option" where
  "vendor_of_json j = do {
     kvs \<leftarrow> members_of_json j;
     (if \<not> known_once vendor_fields kvs then None
      else do {
        system_manufacturer \<leftarrow> defaulted [] string_of_json kvs ''system_manufacturer'';
        system_product_name \<leftarrow> defaulted [] string_of_json kvs ''system_product_name'';
        bios_version \<leftarrow> defaulted [] string_of_json kvs ''bios_version'';
        bmc_vendor \<leftarrow> defaulted [] string_of_json kvs ''bmc_vendor'';
        gpu_vendors \<leftarrow> defaulted [] (list_of_json string_of_json) kvs ''gpu_vendors'';
        kernel \<leftarrow> defaulted [] string_of_json kvs ''kernel'';
        os_release \<leftarrow> defaulted [] string_of_json kvs ''os_release'';
        Some \<lparr>vi_system_manufacturer = system_manufacturer, vi_system_product_name = system_product_name,
          vi_bios_version = bios_version, vi_bmc_vendor = bmc_vendor, vi_gpu_vendors = gpu_vendors,
          vi_kernel = kernel, vi_os_release = os_release\<rparr>
      })
   }"

definition hello_members :: "(datetime \<Rightarrow> string) \<Rightarrow> hello \<Rightarrow> (string \<times> json) list" where
  "hello_members show_ts h =
     [(''host'', JStr (hl_host h)), (''host_id'', JStr (hl_host_id h)), (''primary_ip'', JStr (hl_primary_ip h)),
      (''agent_version'', JStr (hl_agent_version h)), (''started_at'', JStr (show_ts (hl_started_at h))),
      (''vendor'', JObj (vendor_members (hl_vendor h))), (''tags'', map_to_json JStr (hl_tags h)),
      (''maintenance'', JBool (hl_maintenance h))]"

definition hello_fields :: "string list" where
  "hello_fields =
     [''host'', ''host_id'', ''primary_ip'', ''agent_version'', ''started_at'', ''vendor'', ''tags'', ''maintenance'']"

definition hello_optional :: "string list" where
  "hello_optional = [''primary_ip'', ''tags'', ''maintenance'']"

definition hello_of_members :: "(string \<Rightarrow> datetime option) \<Rightarrow> (string \<times> json) list \<Rightarrow> hello option" where
  "hello_of_members parse_ts kvs =
     (if \<not> known_once hello_fields kvs then None
      else do {
        host \<leftarrow> required string_of_json kvs ''host'';
        host_id \<leftarrow> required string_of_json kvs ''host_id'';
        primary_ip \<leftarrow> defaulted [] string_of_json kvs ''primary_ip'';
        agent_version \<leftarrow> required string_of_json kvs ''agent_version'';
        started_at \<leftarrow> required (ts_of_json parse_ts) kvs ''started_at'';
        vendor \<leftarrow> required vendor_of_json kvs ''vendor'';
        tags \<leftarrow> defaulted Map.empty (map_of_json string_of_json) kvs ''tags'';
        maintenance \<leftarrow> defaulted False bool_of_json kvs ''maintenance'';
        Some \<lparr>hl_host = host, hl_host_id = host_id, hl_primary_ip = primary_ip, hl_agent_version = agent_version,
          hl_started_at = started_at, hl_vendor = vendor, hl_tags = tags, hl_maintenance = maintenance\<rparr>
      })"

definition host_state_members :: "(datetime \<Rightarrow> string) \<Rightarrow> host_state \<Rightarrow> (string \<times> json) list" where
  "host_state_members show_ts h =
     [(''host'', JStr (hst_host h)), (''host_id'', JStr (hst_host_id h)), (''primary_ip'', JStr (hst_primary_ip h)),
      (''online'', JBool (hst_online h)), (''last_seen'', JStr (show_ts (hst_last_seen h))),
      (''firing_count'', word_to_json (hst_firing_count h)), (''tags'', map_to_json JStr (hst_tags h)),
      (''agent_version'', JStr (hst_agent_version h)), (''maintenance'', JBool (hst_maintenance h))]"

definition host_state_fields :: "string list" where
  "host_state_fields =
     [''host'', ''host_id'', ''primary_ip'', ''online'', ''last_seen'', ''firing_count'', ''tags'', ''agent_version'',
      ''maintenance'']"

definition host_state_of_json :: "(string \<Rightarrow> datetime option) \<Rightarrow> json \<Rightarrow> host_state option" where
  "host_state_of_json parse_ts j = do {
     kvs \<leftarrow> members_of_json j;
     (if \<not> known_once host_state_fields kvs then None
      else do {
        host \<leftarrow> required string_of_json kvs ''host'';
        host_id \<leftarrow> required string_of_json kvs ''host_id'';
        primary_ip \<leftarrow> defaulted [] string_of_json kvs ''primary_ip'';
        online \<leftarrow> required bool_of_json kvs ''online'';
        last_seen \<leftarrow> required (ts_of_json parse_ts) kvs ''last_seen'';
        firing_count \<leftarrow> required word_of_json kvs ''firing_count'';
        tags \<leftarrow> defaulted Map.empty (map_of_json string_of_json) kvs ''tags'';
        agent_version \<leftarrow> defaulted [] string_of_json kvs ''agent_version'';
        maintenance \<leftarrow> defaulted False bool_of_json kvs ''maintenance'';
        Some \<lparr>hst_host = host, hst_host_id = host_id, hst_primary_ip = primary_ip, hst_online = online,
          hst_last_seen = last_seen, hst_firing_count = firing_count, hst_tags = tags,
          hst_agent_version = agent_version, hst_maintenance = maintenance\<rparr>
      })
   }"

definition host_status_members :: "(datetime \<Rightarrow> string) \<Rightarrow> host_status \<Rightarrow> (string \<times> json) list" where
  "host_status_members show_ts h =
     [(''host'', JStr (hs_host h)), (''host_id'', JStr (hs_host_id h)), (''online'', JBool (hs_online h)),
      (''last_seen'', JStr (show_ts (hs_last_seen h))), (''firing_count'', word_to_json (hs_firing_count h))]"

definition host_status_fields :: "string list" where
  "host_status_fields = [''host'', ''host_id'', ''online'', ''last_seen'', ''firing_count'']"

definition host_status_of_members :: "(string \<Rightarrow> datetime option) \<Rightarrow> (string \<times> json) list \<Rightarrow> host_status option" where
  "host_status_of_members parse_ts kvs =
     (if \<not> known_once host_status_fields kvs then None
      else do {
        host \<leftarrow> required string_of_json kvs ''host'';
        host_id \<leftarrow> required string_of_json kvs ''host_id'';
        online \<leftarrow> required bool_of_json kvs ''online'';
        last_seen \<leftarrow> required (ts_of_json parse_ts) kvs ''last_seen'';
        firing_count \<leftarrow> required word_of_json kvs ''firing_count'';
        Some \<lparr>hs_host = host, hs_host_id = host_id, hs_online = online, hs_last_seen = last_seen,
          hs_firing_count = firing_count\<rparr>
      })"

definition alert_of_json :: "(string \<Rightarrow> datetime option) \<Rightarrow> json \<Rightarrow> alert option" where
  "alert_of_json parse_ts j = Option.bind (members_of_json j) (alert_of_members parse_ts)"

definition snapshot_members :: "(datetime \<Rightarrow> string) \<Rightarrow> snapshot \<Rightarrow> (string \<times> json) list" where
  "snapshot_members show_ts s =
     [(''generated_at'', JStr (show_ts (sn_generated_at s))),
      (''alerts'', list_to_json (\<lambda>a. JObj (alert_members show_ts a)) (sn_alerts s)),
      (''hosts'', list_to_json (\<lambda>h. JObj (host_state_members show_ts h)) (sn_hosts s))]"

definition snapshot_fields :: "string list" where
  "snapshot_fields = [''generated_at'', ''alerts'', ''hosts'']"

definition snapshot_of_members :: "(string \<Rightarrow> datetime option) \<Rightarrow> (string \<times> json) list \<Rightarrow> snapshot option" where
  "snapshot_of_members parse_ts kvs =
     (if \<not> known_once snapshot_fields kvs then None
      else do {
        generated_at \<leftarrow> required (ts_of_json parse_ts) kvs ''generated_at'';
        alerts \<leftarrow> required (list_of_json (alert_of_json parse_ts)) kvs ''alerts'';
        hosts \<leftarrow> required (list_of_json (host_state_of_json parse_ts)) kvs ''hosts'';
        Some \<lparr>sn_generated_at = generated_at, sn_alerts = alerts, sn_hosts = hosts\<rparr>
      })"


section \<open>Envelopes\<close>

text \<open>The tag is written first; it may be read anywhere in the object.\<close>

primrec envelope_to_json :: "(datetime \<Rightarrow> string) \<Rightarrow> envelope \<Rightarrow> json" where
  "envelope_to_json show_ts (EAlert a) = JObj ((''type'', JStr ''alert'') # alert_members show_ts a)"
| "envelope_to_json show_ts (EHeartbeat h) = JObj ((''type'', JStr ''heartbeat'') # heartbeat_members show_ts h)"
| "envelope_to_json show_ts (EHello h) = JObj ((''type'', JStr ''hello'') # hello_members show_ts h)"
| "envelope_to_json show_ts (ESnapshot s) = JObj ((''type'', JStr ''snapshot'') # snapshot_members show_ts s)"
| "envelope_to_json show_ts (EHostStatus h) = JObj ((''type'', JStr ''host_status'') # host_status_members show_ts h)"

definition envelope_of_json :: "(string \<Rightarrow> datetime option) \<Rightarrow> json \<Rightarrow> envelope option" where
  "envelope_of_json parse_ts j = do {
     all \<leftarrow> members_of_json j;
     tag \<leftarrow> (if known_once [''type''] all then required string_of_json all ''type'' else None);
     let kvs = filter (\<lambda>kv. fst kv \<noteq> ''type'') all
     in if tag = ''alert'' then map_option EAlert (alert_of_members parse_ts kvs)
        else if tag = ''heartbeat'' then map_option EHeartbeat (heartbeat_of_members parse_ts kvs)
        else if tag = ''hello'' then map_option EHello (hello_of_members parse_ts kvs)
        else if tag = ''snapshot'' then map_option ESnapshot (snapshot_of_members parse_ts kvs)
        else if tag = ''host_status'' then map_option EHostStatus (host_status_of_members parse_ts kvs)
        else None
   }"

text \<open>A frame holds the text of the JSON value: \<open>print_json\<close> and \<open>read_json\<close> are serde's. Writing these
  types never fails, as the keys of all maps are strings.\<close>

definition wire_encode :: "(json \<Rightarrow> string) \<Rightarrow> (datetime \<Rightarrow> string) \<Rightarrow> envelope \<Rightarrow> string option" where
  "wire_encode print_json show_ts env = Some (print_json (envelope_to_json show_ts env))"

definition wire_decode ::
  "(string \<Rightarrow> json option) \<Rightarrow> (string \<Rightarrow> datetime option) \<Rightarrow> string \<Rightarrow> envelope option" where
  "wire_decode read_json parse_ts s = Option.bind (read_json s) (envelope_of_json parse_ts)"

text \<open>What is relied on of serde's text: reading undoes writing on the values in \<open>J\<close>.\<close>

definition text_law :: "(json \<Rightarrow> string) \<Rightarrow> (string \<Rightarrow> json option) \<Rightarrow> json set \<Rightarrow> bool" where
  "text_law print_json read_json J \<longleftrightarrow> (\<forall>j \<in> J. read_json (print_json j) = Some j)"

end
