(* ===== verification/Wire_Roundtrip.thy ===== *)
theory Wire_Roundtrip
  imports Wire_Format
begin

text \<open>
  What is written is read back, in any order of the members, with unknown members added and with
  optional ones left out: the theorems of the JSON form of \<open>Wire_Format\<close>.
\<close>

section \<open>Members in any order\<close>

lemma map_of_filter_head:
  "map_of kvs k = (case filter (\<lambda>kv. fst kv = k) kvs of [] \<Rightarrow> None | kv # _ \<Rightarrow> Some (snd kv))"
  by (induction kvs) auto

lemma map_of_unique:
  assumes "mset kvs = mset kvs'" and "length (filter (\<lambda>kv. fst kv = k) kvs') \<le> 1"
  shows "length (filter (\<lambda>kv. fst kv = k) kvs) \<le> 1 \<and> map_of kvs k = map_of kvs' k"
proof -
  let ?f = "filter (\<lambda>kv. fst kv = k)"
  have m: "mset (?f kvs) = mset (?f kvs')" using assms(1) by (simp add: mset_filter)
  then have l: "length (?f kvs) \<le> 1" using assms(2) by (metis size_mset)
  have "?f kvs = ?f kvs'"
    using m assms(2) l by (cases "?f kvs"; cases "?f kvs'") (auto simp: size_eq_0_iff_empty [symmetric] length_Suc_conv)
  with l show ?thesis by (simp add: map_of_filter_head)
qed

lemma distinct_keys_once: "distinct (map fst ms) \<Longrightarrow> length (filter (\<lambda>kv. fst kv = k) ms) \<le> 1"
proof (induction ms)
  case (Cons kv ms)
  moreover have "filter (\<lambda>kv'. fst kv' = fst kv) ms = []"
    using Cons.prems by (auto simp: filter_empty_conv image_iff)
  ultimately show ?case by auto
qed simp

lemma map_of_filter_keys: "map_of (filter (\<lambda>kv. P (fst kv)) ms) k = (if P k then map_of ms k else None)"
  by (induction ms) auto

text \<open>The members \<open>ms\<close> without those in \<open>D\<close> and with unknown ones added, in any order.\<close>

lemma says_any_order:
  assumes "map fst ms = names" and "distinct names" and "fst ` set extra \<inter> set names = {}"
    and "mset kvs = mset (filter (\<lambda>kv. fst kv \<notin> D) ms @ extra)"
  shows "says names D ms kvs"
proof -
  let ?all = "filter (\<lambda>kv. fst kv \<notin> D) ms @ extra"
  have k: "length (filter (\<lambda>kv. fst kv = k) ?all) \<le> 1 \<and> map_of ?all k = (if k \<in> D then None else map_of ms k)"
    if "k \<in> set names" for k
  proof -
    have none: "filter (\<lambda>kv. fst kv = k) extra = []" using that assms(3) by (auto simp: filter_empty_conv)
    then have "map_of extra k = None" by (simp add: map_of_filter_head)
    moreover have "distinct (map fst (filter (\<lambda>kv. fst kv \<notin> D) ms))"
      using assms(1,2) by (simp add: distinct_map_filter)
    then have "length (filter (\<lambda>kv. fst kv = k) (filter (\<lambda>kv. fst kv \<notin> D) ms)) \<le> 1" by (rule distinct_keys_once)
    ultimately show ?thesis
      using none map_of_filter_keys [of "\<lambda>k. k \<notin> D" ms k] by (auto simp: map_add_def split: option.splits)
  qed
  from map_of_unique [OF assms(4)] k show ?thesis by (simp add: says_def known_once_def list_all_iff)
qed

lemma says_self: "map fst ms = names \<Longrightarrow> distinct names \<Longrightarrow> says names {} ms ms"
  by (rule says_any_order [where extra = "[]"]) simp_all

lemma field_names:
  "map fst (alert_members show_ts a) = alert_fields" "distinct alert_fields" "''type'' \<notin> set alert_fields"
  "map fst (heartbeat_members show_ts h) = heartbeat_fields" "distinct heartbeat_fields" "''type'' \<notin> set heartbeat_fields"
  "map fst (vendor_members v) = vendor_fields" "distinct vendor_fields"
  "map fst (hello_members show_ts l) = hello_fields" "distinct hello_fields" "''type'' \<notin> set hello_fields"
  "map fst (host_state_members show_ts s) = host_state_fields" "distinct host_state_fields"
  "map fst (host_status_members show_ts u) = host_status_fields" "distinct host_status_fields" "''type'' \<notin> set host_status_fields"
  "map fst (snapshot_members show_ts n) = snapshot_fields" "distinct snapshot_fields" "''type'' \<notin> set snapshot_fields"
  by (simp_all add: alert_members_def alert_fields_def heartbeat_members_def heartbeat_fields_def vendor_members_def
      vendor_fields_def hello_members_def hello_fields_def host_state_members_def host_state_fields_def
      host_status_members_def host_status_fields_def snapshot_members_def snapshot_fields_def)


section \<open>Structs\<close>

lemma heartbeat_of_members_says:
  assumes "chrono_law show_ts parse_ts T" and "hb_ts h \<in> T" and "D \<subseteq> set heartbeat_optional"
    and "says heartbeat_fields D (heartbeat_members show_ts h) kvs"
  shows "heartbeat_of_members parse_ts kvs =
     Some (h\<lparr>hb_firing_count := if ''firing_count'' \<in> D then 0 else hb_firing_count h,
             hb_agent_version := if ''agent_version'' \<in> D then [] else hb_agent_version h\<rparr>)"
proof -
  note r = says_required [OF assms(4,3)] and d = says_defaulted [OF assms(4)]
  have "required string_of_json kvs ''host'' = Some (hb_host h)"
    "required string_of_json kvs ''host_id'' = Some (hb_host_id h)"
    "required (ts_of_json parse_ts) kvs ''ts'' = Some (hb_ts h)"
    "required word_of_json kvs ''uptime_s'' = Some (hb_uptime_s h)"
    by (rule r, simp add: heartbeat_fields_def, simp add: heartbeat_optional_def, simp add: heartbeat_members_def,
        simp add: ts_dec [OF assms(1,2)])+
  moreover have "defaulted 0 word_of_json kvs ''firing_count'' = Some (if ''firing_count'' \<in> D then 0 else hb_firing_count h)"
    "defaulted [] string_of_json kvs ''agent_version'' = Some (if ''agent_version'' \<in> D then [] else hb_agent_version h)"
    by (rule d, simp add: heartbeat_fields_def, simp add: heartbeat_members_def, simp)+
  ultimately show ?thesis using assms(4) by (simp add: heartbeat_of_members_def says_def)
qed

interpretation vendor: codec "\<lambda>v. JObj (vendor_members v)" vendor_of_json "\<lambda>_. True"
proof
  fix v
  have s: "says vendor_fields {} (vendor_members v) (vendor_members v)" by (rule says_self) (simp_all add: field_names)
  note d = says_defaulted [OF s]
  have "defaulted [] string_of_json (vendor_members v) ''system_manufacturer'' = Some (vi_system_manufacturer v)"
    "defaulted [] string_of_json (vendor_members v) ''system_product_name'' = Some (vi_system_product_name v)"
    "defaulted [] string_of_json (vendor_members v) ''bios_version'' = Some (vi_bios_version v)"
    "defaulted [] string_of_json (vendor_members v) ''bmc_vendor'' = Some (vi_bmc_vendor v)"
    "defaulted [] (list_of_json string_of_json) (vendor_members v) ''gpu_vendors'' = Some (vi_gpu_vendors v)"
    "defaulted [] string_of_json (vendor_members v) ''kernel'' = Some (vi_kernel v)"
    "defaulted [] string_of_json (vendor_members v) ''os_release'' = Some (vi_os_release v)"
    by (subst d, simp add: vendor_fields_def, simp add: vendor_members_def,
        rule str.dec_enc str.list_dec_enc, simp add: list_all_iff, simp)+
  then show "vendor_of_json (JObj (vendor_members v)) = Some v"
    using s by (simp add: vendor_of_json_def members_of_json_def says_def)
qed

lemma hello_of_members_says:
  assumes "chrono_law show_ts parse_ts T" and "hl_started_at h \<in> T" and "finite (dom (hl_tags h))"
    and "D \<subseteq> set hello_optional" and "says hello_fields D (hello_members show_ts h) kvs"
  shows "hello_of_members parse_ts kvs =
     Some (h\<lparr>hl_primary_ip := if ''primary_ip'' \<in> D then [] else hl_primary_ip h,
             hl_tags := if ''tags'' \<in> D then Map.empty else hl_tags h,
             hl_maintenance := if ''maintenance'' \<in> D then False else hl_maintenance h\<rparr>)"
proof -
  note r = says_required [OF assms(5,4)] and d = says_defaulted [OF assms(5)]
  have "required string_of_json kvs ''host'' = Some (hl_host h)"
    "required string_of_json kvs ''host_id'' = Some (hl_host_id h)"
    "required string_of_json kvs ''agent_version'' = Some (hl_agent_version h)"
    "required (ts_of_json parse_ts) kvs ''started_at'' = Some (hl_started_at h)"
    "required vendor_of_json kvs ''vendor'' = Some (hl_vendor h)"
    by (rule r, simp add: hello_fields_def, simp add: hello_optional_def, simp add: hello_members_def,
        simp add: ts_dec [OF assms(1,2)] vendor.dec_enc)+
  moreover have "defaulted [] string_of_json kvs ''primary_ip'' = Some (if ''primary_ip'' \<in> D then [] else hl_primary_ip h)"
    "defaulted Map.empty (map_of_json string_of_json) kvs ''tags'' = Some (if ''tags'' \<in> D then Map.empty else hl_tags h)"
    "defaulted False bool_of_json kvs ''maintenance'' = Some (if ''maintenance'' \<in> D then False else hl_maintenance h)"
    by (rule d, simp add: hello_fields_def, simp add: hello_members_def, simp add: str.map_dec_enc assms(3))+
  ultimately show ?thesis using assms(5) by (simp add: hello_of_members_def says_def)
qed

lemma host_state_codec:
  assumes "chrono_law show_ts parse_ts T"
  shows "codec (\<lambda>h. JObj (host_state_members show_ts h)) (host_state_of_json parse_ts)
    (\<lambda>h. hst_last_seen h \<in> T \<and> finite (dom (hst_tags h)))"
proof
  fix h :: host_state assume ok: "hst_last_seen h \<in> T \<and> finite (dom (hst_tags h))"
  let ?ms = "host_state_members show_ts h"
  have s: "says host_state_fields {} ?ms ?ms" by (rule says_self) (simp_all add: field_names)
  have t: "ts_of_json parse_ts (JStr (show_ts (hst_last_seen h))) = Some (hst_last_seen h)" using ts_dec [OF assms] ok by blast
  note r = says_required [OF s, where opts = "[]", simplified] and d = says_defaulted [OF s, simplified]
  have "required string_of_json ?ms ''host'' = Some (hst_host h)"
    "required string_of_json ?ms ''host_id'' = Some (hst_host_id h)"
    "required bool_of_json ?ms ''online'' = Some (hst_online h)"
    "required (ts_of_json parse_ts) ?ms ''last_seen'' = Some (hst_last_seen h)"
    "required word_of_json ?ms ''firing_count'' = Some (hst_firing_count h)"
    by (rule r, simp add: host_state_fields_def, simp add: host_state_members_def, simp add: t)+
  moreover have "defaulted [] string_of_json ?ms ''primary_ip'' = Some (hst_primary_ip h)"
    "defaulted Map.empty (map_of_json string_of_json) ?ms ''tags'' = Some (hst_tags h)"
    "defaulted [] string_of_json ?ms ''agent_version'' = Some (hst_agent_version h)"
    "defaulted False bool_of_json ?ms ''maintenance'' = Some (hst_maintenance h)"
    by (rule d, simp add: host_state_fields_def, simp add: host_state_members_def, simp add: str.map_dec_enc ok)+
  ultimately show "host_state_of_json parse_ts (JObj ?ms) = Some h"
    using s by (simp add: host_state_of_json_def members_of_json_def says_def)
qed

lemma host_status_of_members_says:
  assumes "chrono_law show_ts parse_ts T" and "hs_last_seen h \<in> T"
    and "says host_status_fields {} (host_status_members show_ts h) kvs"
  shows "host_status_of_members parse_ts kvs = Some h"
proof -
  note r = says_required [OF assms(3), where opts = "[]", simplified]
  have "required string_of_json kvs ''host'' = Some (hs_host h)"
    "required string_of_json kvs ''host_id'' = Some (hs_host_id h)"
    "required bool_of_json kvs ''online'' = Some (hs_online h)"
    "required (ts_of_json parse_ts) kvs ''last_seen'' = Some (hs_last_seen h)"
    "required word_of_json kvs ''firing_count'' = Some (hs_firing_count h)"
    by (rule r, simp add: host_status_fields_def, simp add: host_status_members_def, simp add: ts_dec [OF assms(1,2)])+
  then show ?thesis using assms(3) by (simp add: host_status_of_members_def says_def)
qed

lemma alert_without_none [simp]: "alert_without {} a = a"
  by (simp add: alert_without_def)

lemma alert_codec:
  assumes "chrono_law show_ts parse_ts T"
  shows "codec (\<lambda>a. JObj (alert_members show_ts a)) (alert_of_json parse_ts) (alert_ok T)"
proof
  fix a assume "alert_ok T a"
  from alert_of_members_says [OF assms this, of "{}", OF _ says_self]
  show "alert_of_json parse_ts (JObj (alert_members show_ts a)) = Some a"
    by (simp add: alert_of_json_def members_of_json_def field_names)
qed

definition snapshot_ok :: "datetime set \<Rightarrow> snapshot \<Rightarrow> bool" where
  "snapshot_ok T s \<longleftrightarrow>
     sn_generated_at s \<in> T \<and> list_all (alert_ok T) (sn_alerts s)
     \<and> list_all (\<lambda>h. hst_last_seen h \<in> T \<and> finite (dom (hst_tags h))) (sn_hosts s)"

lemma snapshot_of_members_says:
  assumes "chrono_law show_ts parse_ts T" and "snapshot_ok T s"
    and "says snapshot_fields {} (snapshot_members show_ts s) kvs"
  shows "snapshot_of_members parse_ts kvs = Some s"
proof -
  note r = says_required [OF assms(3), where opts = "[]", simplified]
  have "ts_of_json parse_ts (JStr (show_ts (sn_generated_at s))) = Some (sn_generated_at s)"
    using ts_dec [OF assms(1)] assms(2) by (simp add: snapshot_ok_def)
  moreover have "list_of_json (alert_of_json parse_ts) (list_to_json (\<lambda>a. JObj (alert_members show_ts a)) (sn_alerts s))
      = Some (sn_alerts s)"
    using codec.list_dec_enc [OF alert_codec [OF assms(1)]] assms(2) by (simp add: snapshot_ok_def)
  moreover have "list_of_json (host_state_of_json parse_ts)
      (list_to_json (\<lambda>h. JObj (host_state_members show_ts h)) (sn_hosts s)) = Some (sn_hosts s)"
    using codec.list_dec_enc [OF host_state_codec [OF assms(1)]] assms(2) by (simp add: snapshot_ok_def)
  ultimately have "required (ts_of_json parse_ts) kvs ''generated_at'' = Some (sn_generated_at s)"
    "required (list_of_json (alert_of_json parse_ts)) kvs ''alerts'' = Some (sn_alerts s)"
    "required (list_of_json (host_state_of_json parse_ts)) kvs ''hosts'' = Some (sn_hosts s)"
    by - (rule r, simp add: snapshot_fields_def, simp add: snapshot_members_def, simp)+
  then show ?thesis using assms(3) by (simp add: snapshot_of_members_def says_def)
qed


section \<open>Envelopes\<close>

primrec envelope_ok :: "datetime set \<Rightarrow> envelope \<Rightarrow> bool" where
  "envelope_ok T (EAlert a) = alert_ok T a"
| "envelope_ok T (EHeartbeat h) = (hb_ts h \<in> T)"
| "envelope_ok T (EHello h) = (hl_started_at h \<in> T \<and> finite (dom (hl_tags h)))"
| "envelope_ok T (ESnapshot s) = snapshot_ok T s"
| "envelope_ok T (EHostStatus h) = (hs_last_seen h \<in> T)"

text \<open>The names of the members of an envelope besides its tag, those that may be missing, and the
  envelope as it is understood without some of them.\<close>

primrec envelope_fields :: "envelope \<Rightarrow> string list" where
  "envelope_fields (EAlert a) = alert_fields"
| "envelope_fields (EHeartbeat h) = heartbeat_fields"
| "envelope_fields (EHello h) = hello_fields"
| "envelope_fields (ESnapshot s) = snapshot_fields"
| "envelope_fields (EHostStatus h) = host_status_fields"

primrec envelope_optional :: "envelope \<Rightarrow> string list" where
  "envelope_optional (EAlert a) = alert_optional"
| "envelope_optional (EHeartbeat h) = heartbeat_optional"
| "envelope_optional (EHello h) = hello_optional"
| "envelope_optional (ESnapshot s) = []"
| "envelope_optional (EHostStatus h) = []"

primrec envelope_without :: "string set \<Rightarrow> envelope \<Rightarrow> envelope" where
  "envelope_without D (EAlert a) = EAlert (alert_without D a)"
| "envelope_without D (EHeartbeat h) =
     EHeartbeat (h\<lparr>hb_firing_count := if ''firing_count'' \<in> D then 0 else hb_firing_count h,
                   hb_agent_version := if ''agent_version'' \<in> D then [] else hb_agent_version h\<rparr>)"
| "envelope_without D (EHello h) =
     EHello (h\<lparr>hl_primary_ip := if ''primary_ip'' \<in> D then [] else hl_primary_ip h,
               hl_tags := if ''tags'' \<in> D then Map.empty else hl_tags h,
               hl_maintenance := if ''maintenance'' \<in> D then False else hl_maintenance h\<rparr>)"
| "envelope_without D (ESnapshot s) = ESnapshot s"
| "envelope_without D (EHostStatus h) = EHostStatus h"

lemma envelope_without_none [simp]: "envelope_without {} e = e"
  by (cases e) simp_all

primrec envelope_members :: "(datetime \<Rightarrow> string) \<Rightarrow> envelope \<Rightarrow> (string \<times> json) list" where
  "envelope_members show_ts (EAlert a) = alert_members show_ts a"
| "envelope_members show_ts (EHeartbeat h) = heartbeat_members show_ts h"
| "envelope_members show_ts (EHello h) = hello_members show_ts h"
| "envelope_members show_ts (ESnapshot s) = snapshot_members show_ts s"
| "envelope_members show_ts (EHostStatus h) = host_status_members show_ts h"

primrec envelope_tag :: "envelope \<Rightarrow> string" where
  "envelope_tag (EAlert a) = ''alert''"
| "envelope_tag (EHeartbeat h) = ''heartbeat''"
| "envelope_tag (EHello h) = ''hello''"
| "envelope_tag (ESnapshot s) = ''snapshot''"
| "envelope_tag (EHostStatus h) = ''host_status''"

lemma envelope_to_json_members:
  "envelope_to_json show_ts env = JObj ((''type'', JStr (envelope_tag env)) # envelope_members show_ts env)"
  by (cases env) simp_all

lemma envelope_names:
  "map fst (envelope_members show_ts env) = envelope_fields env" "distinct (envelope_fields env)"
  "''type'' \<notin> set (envelope_fields env)"
  by (cases env; simp add: field_names)+

primrec of_members :: "(string \<Rightarrow> datetime option) \<Rightarrow> envelope \<Rightarrow> (string \<times> json) list \<Rightarrow> envelope option" where
  "of_members parse_ts (EAlert a) kvs = map_option EAlert (alert_of_members parse_ts kvs)"
| "of_members parse_ts (EHeartbeat h) kvs = map_option EHeartbeat (heartbeat_of_members parse_ts kvs)"
| "of_members parse_ts (EHello h) kvs = map_option EHello (hello_of_members parse_ts kvs)"
| "of_members parse_ts (ESnapshot s) kvs = map_option ESnapshot (snapshot_of_members parse_ts kvs)"
| "of_members parse_ts (EHostStatus h) kvs = map_option EHostStatus (host_status_of_members parse_ts kvs)"

lemma of_members_says:
  assumes "chrono_law show_ts parse_ts T" and "envelope_ok T env" and "D \<subseteq> set (envelope_optional env)"
    and "says (envelope_fields env) D (envelope_members show_ts env) kvs"
  shows "of_members parse_ts env kvs = Some (envelope_without D env)"
  using assms
  by (cases env)
     (simp_all add: alert_of_members_says heartbeat_of_members_says hello_of_members_says snapshot_of_members_says
        host_status_of_members_says)

lemma required_missing: "map_of kvs k = None \<Longrightarrow> required dec kvs k = None"
  by (simp add: required_def)

lemma of_members_missing:
  assumes "k \<in> set (envelope_fields env)" and "k \<notin> set (envelope_optional env)" and "map_of kvs k = None"
  shows "of_members parse_ts env kvs = None"
proof (cases env)
  case (EAlert a)
  with assms have "k \<in> {''id'', ''ts'', ''host'', ''host_id'', ''category'', ''severity'', ''state'', ''metric'', ''title'',
      ''message'', ''fingerprint'', ''first_seen'', ''last_seen''}"
    by (auto simp: alert_fields_def alert_optional_def)
  with EAlert assms(3) show ?thesis by (auto simp: alert_of_members_def required_missing)
next
  case (EHeartbeat h)
  with assms have "k \<in> {''host'', ''host_id'', ''ts'', ''uptime_s''}"
    by (auto simp: heartbeat_fields_def heartbeat_optional_def)
  with EHeartbeat assms(3) show ?thesis by (auto simp: heartbeat_of_members_def required_missing)
next
  case (EHello h)
  with assms have "k \<in> {''host'', ''host_id'', ''agent_version'', ''started_at'', ''vendor''}"
    by (auto simp: hello_fields_def hello_optional_def)
  with EHello assms(3) show ?thesis by (auto simp: hello_of_members_def required_missing)
next
  case (ESnapshot s)
  with assms show ?thesis by (auto simp: snapshot_fields_def snapshot_of_members_def required_missing)
next
  case (EHostStatus h)
  with assms show ?thesis by (auto simp: host_status_fields_def host_status_of_members_def required_missing)
qed

text \<open>The tag is found wherever it stands; what remains are the members.\<close>

lemma envelope_of_json_members:
  assumes "mset kvs = mset ((''type'', JStr (envelope_tag env)) # rest)" and "''type'' \<notin> fst ` set rest"
  shows "\<exists>ms. mset ms = mset rest \<and> envelope_of_json parse_ts (JObj kvs) = of_members parse_ts env ms"
proof -
  let ?tagged = "(''type'', JStr (envelope_tag env)) # rest"
  let ?ms = "filter (\<lambda>kv. fst kv \<noteq> ''type'') kvs"
  have "filter (\<lambda>kv. fst kv = ''type'') rest = []" using assms(2) by (auto simp: filter_empty_conv image_iff)
  then have "length (filter (\<lambda>kv. fst kv = ''type'') ?tagged) \<le> 1" by simp
  from map_of_unique [OF assms(1) this]
  have tag: "known_once [''type''] kvs" "required string_of_json kvs ''type'' = Some (envelope_tag env)"
    by (simp_all add: known_once_def required_def)
  have "mset ?ms = mset (filter (\<lambda>kv. fst kv \<noteq> ''type'') ?tagged)"
    unfolding mset_filter assms(1) ..
  also have "filter (\<lambda>kv. fst kv \<noteq> ''type'') ?tagged = rest" using assms(2) by (auto simp: filter_id_conv image_iff)
  finally have "mset ?ms = mset rest" .
  moreover have "envelope_of_json parse_ts (JObj kvs) = of_members parse_ts env ?ms"
    by (cases env) (use tag in \<open>simp_all add: envelope_of_json_def members_of_json_def\<close>)
  ultimately show ?thesis by blast
qed

lemma decode_any_order:
  assumes "fst ` set extra \<inter> insert ''type'' (set (envelope_fields env)) = {}"
    and "mset kvs = mset ((''type'', JStr (envelope_tag env)) # filter (\<lambda>kv. fst kv \<notin> D) (envelope_members show_ts env) @ extra)"
  obtains ms where "says (envelope_fields env) D (envelope_members show_ts env) ms"
    "envelope_of_json parse_ts (JObj kvs) = of_members parse_ts env ms"
proof -
  have "fst ` set (envelope_members show_ts env) = set (envelope_fields env)"
    using envelope_names(1) [of show_ts env] by (metis set_map)
  then have "''type'' \<notin> fst ` set (filter (\<lambda>kv. fst kv \<notin> D) (envelope_members show_ts env) @ extra)"
    using assms(1) envelope_names(3) [of env] by auto
  from envelope_of_json_members [OF assms(2) this]
  obtain ms where ms: "mset ms = mset (filter (\<lambda>kv. fst kv \<notin> D) (envelope_members show_ts env) @ extra)"
    "envelope_of_json parse_ts (JObj kvs) = of_members parse_ts env ms" by blast
  have "fst ` set extra \<inter> set (envelope_fields env) = {}" using assms(1) by blast
  with that [OF says_any_order [OF envelope_names(1,2) this ms(1)] ms(2)] show thesis by blast
qed


lemma envelope_roundtrip:
  assumes "chrono_law show_ts parse_ts T" and "envelope_ok T e"
  shows "envelope_of_json parse_ts (envelope_to_json show_ts e) = Some e"
proof -
  have self: "mset ((''type'', JStr (envelope_tag e)) # envelope_members show_ts e)
      = mset ((''type'', JStr (envelope_tag e)) # filter (\<lambda>kv. fst kv \<notin> {}) (envelope_members show_ts e) @ [])" by simp
  obtain ms where "says (envelope_fields e) {} (envelope_members show_ts e) ms"
    "envelope_of_json parse_ts (envelope_to_json show_ts e) = of_members parse_ts e ms"
    unfolding envelope_to_json_members by (rule decode_any_order [OF _ self]) simp
  with of_members_says [OF assms empty_subsetI] show ?thesis by simp
qed

text \<open>The times of a message; \<open>envelope_ok UNIV\<close> says that its maps are finite.\<close>

primrec envelope_times :: "envelope \<Rightarrow> datetime set" where
  "envelope_times (EAlert a) = {al_ts a, al_first_seen a, al_last_seen a}"
| "envelope_times (EHeartbeat h) = {hb_ts h}"
| "envelope_times (EHello h) = {hl_started_at h}"
| "envelope_times (ESnapshot s) =
     insert (sn_generated_at s) ((\<Union>a \<in> set (sn_alerts s). {al_ts a, al_first_seen a, al_last_seen a})
       \<union> hst_last_seen ` set (sn_hosts s))"
| "envelope_times (EHostStatus h) = {hs_last_seen h}"

lemma envelope_ok_iff: "envelope_ok T e \<longleftrightarrow> envelope_ok UNIV e \<and> envelope_times e \<subseteq> T"
  by (cases e) (auto simp: alert_ok_def snapshot_ok_def list_all_iff)

lemma wire_decode_encode:
  assumes "chrono_law show_ts parse_ts T" and "text_law print_json read_json J"
    and "envelope_to_json show_ts e \<in> J" and "envelope_ok UNIV e" and "envelope_times e \<subseteq> T"
  shows "\<exists>s. wire_encode print_json show_ts e = Some s \<and> wire_decode read_json parse_ts s = Some e"
  using assms envelope_roundtrip [OF assms(1), of e] envelope_ok_iff [of T e]
  by (simp add: wire_encode_def wire_decode_def text_law_def)

section \<open>Properties\<close>

text \<open>C9. Round trip of the wire format: every message whose maps are finite and whose times chrono's text
  keeps is read back, from the JSON value that is written for it, exactly as it was, for all five
  kinds of message and every field of them; so the collector, the store and the browser see what was
  sent, and two different messages never have the same JSON form.\<close>

theorem wire_roundtrip:
  assumes "chrono_law show_ts parse_ts T" and "envelope_ok T env" and "envelope_ok T env'"
  shows "envelope_of_json parse_ts (envelope_to_json show_ts env) = Some env
    \<and> (envelope_to_json show_ts env = envelope_to_json show_ts env' \<longleftrightarrow> env = env')"
  using envelope_roundtrip [OF assms(1,2)] envelope_roundtrip [OF assms(1,3)] by (metis option.inject)

text \<open>C10. Messages of older and newer versions: the members of a message may come in any order and with
  members that this version does not know. If members marked as optional are missing, the message is
  understood with their defaults (one occurrence, empty lists, maps and texts, no maintenance); if
  any other member is missing, it is refused.\<close>

theorem wire_versions:
  assumes "chrono_law show_ts parse_ts T" and "envelope_ok T env" and "D \<subseteq> set (envelope_fields env)"
    and "fst ` set extra \<inter> insert ''type'' (set (envelope_fields env)) = {}"
    and "mset kvs = mset ((''type'', JStr (envelope_tag env)) # filter (\<lambda>kv. fst kv \<notin> D) (envelope_members show_ts env) @ extra)"
  shows "envelope_of_json parse_ts (JObj kvs) =
    (if D \<subseteq> set (envelope_optional env) then Some (envelope_without D env) else None)"
proof -
  obtain ms where says: "says (envelope_fields env) D (envelope_members show_ts env) ms"
    and dec: "envelope_of_json parse_ts (JObj kvs) = of_members parse_ts env ms"
    using decode_any_order [OF assms(4,5)] .
  show ?thesis
  proof (cases "D \<subseteq> set (envelope_optional env)")
    case True
    with of_members_says [OF assms(1,2) _ says] show ?thesis by (simp add: dec)
  next
    case False
    then obtain k where k: "k \<in> D" "k \<notin> set (envelope_optional env)" by blast
    then have "map_of ms k = None" "k \<in> set (envelope_fields env)" using says assms(3) by (auto simp: says_def)
    from of_members_missing [OF this(2) k(2) this(1)] False show ?thesis by (simp add: dec)
  qed
qed

text \<open>For concrete messages: times as sign and decimal digits.\<close>

definition sample_show_ts :: "datetime \<Rightarrow> string" where
  "sample_show_ts t = show_int t"

definition sample_parse_ts :: "string \<Rightarrow> datetime option" where
  "sample_parse_ts s = (if s = show_int 0 then Some 0 else if s = show_int 5 then Some 5 else None)"

definition sample_old_beat :: heartbeat where
  "sample_old_beat = \<lparr>hb_host = ''node1'', hb_host_id = ''4f2a'', hb_ts = 5, hb_uptime_s = 9, hb_firing_count = 3,
     hb_agent_version = ''4.3.0''\<rparr>"

lemma sample_chrono: "chrono_law sample_show_ts sample_parse_ts {0, 5}"
  by (simp add: chrono_law_def sample_show_ts_def sample_parse_ts_def show_int_def show_nat.simps digit_char_def)

theorem wire_roundtrip_witness:
  "envelope_of_json sample_parse_ts (envelope_to_json sample_show_ts (EHeartbeat sample_old_beat)) = Some (EHeartbeat sample_old_beat)"
  using wire_roundtrip [OF sample_chrono, of "EHeartbeat sample_old_beat" "EHeartbeat sample_old_beat"]
  by (simp add: sample_old_beat_def)

theorem wire_versions_witness:
  "envelope_of_json sample_parse_ts (JObj
     [(''uptime_s'', JInt 9), (''mood'', JNull), (''ts'', JStr (show_int 5)), (''host'', JStr ''node1''),
      (''type'', JStr ''heartbeat''), (''host_id'', JStr ''4f2a'')])
   = Some (EHeartbeat (sample_old_beat\<lparr>hb_firing_count := 0, hb_agent_version := []\<rparr>))"
  using wire_versions [OF sample_chrono, of "EHeartbeat sample_old_beat" "{''firing_count'', ''agent_version''}"
      "[(''mood'', JNull)]"
      "[(''uptime_s'', JInt 9), (''mood'', JNull), (''ts'', JStr (show_int 5)), (''host'', JStr ''node1''),
        (''type'', JStr ''heartbeat''), (''host_id'', JStr ''4f2a'')]"]
  by (simp add: sample_old_beat_def heartbeat_fields_def heartbeat_optional_def heartbeat_members_def sample_show_ts_def
      word_to_json_def add_mset_commute)

end
