(* ===== verification/End_To_End.thy ===== *)
theory End_To_End
  imports Agent_Main Fleet Wire_Roundtrip
begin

text \<open>
  From a module's tracker to the collector's firing map: the modules' alerts are interleaved at the
  sink, split over two lanes, merged again by the pump, sent as text and decoded by the collector.
  Critical alerts overtake the others on the way, so the order of all alerts is not kept; what the
  collector needs is the order of the alerts of one fingerprint. That is kept when they are all of
  one lane, and does not matter when none of them is a recovery; by \<open>Agent_Lanes\<close> one of the two
  holds for every fingerprint.
\<close>

section \<open>On the wire\<close>

definition wire_texts :: "frame list \<Rightarrow> string list" where
  "wire_texts fs = [t. FText t c \<leftarrow> fs]"

lemma wire_texts_simps [simp]:
  "wire_texts [] = []" "wire_texts (FText t c # fs) = t # wire_texts fs" "wire_texts (FPing # fs) = wire_texts fs"
  by (simp_all add: wire_texts_def)

lemma lane_texts_Cons [simp]:
  "lane_texts c (FText t d # fs) = (if c = d then [t] else []) @ lane_texts c fs"
  "lane_texts c (FPing # fs) = lane_texts c fs"
  by (simp_all add: lane_texts_def)

text \<open>Texts that only one lane carries come in the order of that lane.\<close>

lemma wire_filter_lane:
  "\<forall>t \<in> set (lane_texts (\<not> c) fs). \<not> P t \<Longrightarrow> filter P (wire_texts fs) = filter P (lane_texts c fs)"
proof (induction fs)
  case (Cons f fs)
  then show ?case by (cases f) (auto split: if_splits)
qed simp

lemma wire_texts_lanes: "set (wire_texts fs) = set (lane_texts True fs) \<union> set (lane_texts False fs)"
proof (induction fs)
  case (Cons f fs)
  then show ?case by (cases f) auto
qed simp

text \<open>A sink whose channels refuse nothing.\<close>

definition open_send :: "outbound list \<Rightarrow> outbound \<Rightarrow> outbound list option" where
  "open_send q m = Some (q @ [m])"

lemma sink_open_lanes:
  "sk_critical (fold (sink_send open_send) ms (sink_new [] [] [] False)) = filter is_critical ms"
  "sk_normal (fold (sink_send open_send) ms (sink_new [] [] [] False)) = filter (\<lambda>m. \<not> is_critical m) ms"
proof -
  have "sk_critical (fold (sink_send open_send) ms s) = sk_critical s @ filter is_critical ms
      \<and> sk_normal (fold (sink_send open_send) ms s) = sk_normal s @ filter (\<lambda>m. \<not> is_critical m) ms"
    if "\<not> sk_suppress_alerts s" for s
    using that
  proof (induction ms arbitrary: s)
    case (Cons m ms)
    have "\<not> sk_suppress_alerts (sink_send open_send m s)"
      "sk_critical (sink_send open_send m s) = sk_critical s @ (if is_critical m then [m] else [])"
      "sk_normal (sink_send open_send m s) = sk_normal s @ (if is_critical m then [] else [m])"
      using Cons.prems by (auto simp: sink_send_def open_send_def Let_def split: outbound.splits)
    with Cons.IH show ?case by simp
  qed simp
  from this [of "sink_new [] [] [] False"]
  show "sk_critical (fold (sink_send open_send) ms (sink_new [] [] [] False)) = filter is_critical ms"
    "sk_normal (fold (sink_send open_send) ms (sink_new [] [] [] False)) = filter (\<lambda>m. \<not> is_critical m) ms"
    by (simp_all add: sink_new_def)
qed


section \<open>What the collector receives of one fingerprint\<close>

definition fp_message :: "string \<Rightarrow> outbound \<Rightarrow> bool" where
  "fp_message fp m = (case m of OAlert a \<Rightarrow> al_fingerprint a = fp | _ \<Rightarrow> False)"

definition fp_envelope :: "string \<Rightarrow> envelope \<Rightarrow> bool" where
  "fp_envelope fp e = (case e of EAlert a \<Rightarrow> al_fingerprint a = fp | _ \<Rightarrow> False)"

lemma fp_into_envelope [simp]: "fp_envelope fp (into_envelope m) = fp_message fp m"
  by (cases m) (simp_all add: fp_envelope_def fp_message_def)

lemma received_texts:
  "received parse (map MText ts) = List.map_filter parse ts"
  by (induction ts) (auto simp: map_filter_simps split: option.splits)

lemma alerts_of_fp:
  "filter (\<lambda>a. al_fingerprint a = fp) (alerts_of es) = alerts_of (filter (fp_envelope fp) es)"
  by (induction es rule: alerts_of.induct) (auto simp: fp_envelope_def)

lemma alerts_of_set: "a \<in> set (alerts_of es) \<Longrightarrow> EAlert a \<in> set es"
  by (induction es rule: alerts_of.induct) auto

lemma open_after_fp: "open_after fp as = open_after fp (filter (\<lambda>a. al_fingerprint a = fp) as)"
  by (induction as) auto

lemma map_filter_filter:
  "filter Q (List.map_filter f xs) = List.map_filter f (filter (\<lambda>x. \<exists>y. f x = Some y \<and> Q y) xs)"
  by (induction xs) (auto simp: map_filter_simps split: option.splits)

text \<open>Messages of one lane survive the way in their order.\<close>

lemma delivered_fp:
  assumes "lane_texts True fs = map (text_of encode) (filter is_critical ms)"
    and "lane_texts False fs = map (text_of encode) (filter (\<lambda>m. \<not> is_critical m) ms)"
    and de: "\<forall>m \<in> set ms. parse (text_of encode m) = Some (into_envelope m)"
    and lane: "\<forall>m \<in> set ms. fp_message fp m \<longrightarrow> is_critical m = c"
  shows "filter (fp_envelope fp) (received parse (map MText (wire_texts fs))) =
    map into_envelope (filter (fp_message fp) ms)"
proof -
  let ?P = "\<lambda>t. \<exists>e. parse t = Some e \<and> fp_envelope fp e"
  have texts: "lane_texts d fs = map (text_of encode) (filter (\<lambda>m. is_critical m = d) ms)" for d
    using assms(1,2) by (cases d) simp_all
  have P: "?P (text_of encode m) \<longleftrightarrow> fp_message fp m" if "m \<in> set ms" for m
    using de that by simp
  have "filter ?P (wire_texts fs) = filter ?P (lane_texts c fs)"
    using P lane by (intro wire_filter_lane) (auto simp: texts)
  also have "\<dots> = map (text_of encode) (filter (fp_message fp) (filter (\<lambda>m. is_critical m = c) ms))"
    unfolding texts filter_map using P by (intro arg_cong [of _ _ "map (text_of encode)"] filter_cong) auto
  also have "filter (fp_message fp) (filter (\<lambda>m. is_critical m = c) ms) = filter (fp_message fp) ms"
    using lane by (induction ms) auto
  finally have w: "filter ?P (wire_texts fs) = map (text_of encode) (filter (fp_message fp) ms)" .
  have "List.map_filter parse (map (text_of encode) xs) = map into_envelope xs" if "set xs \<subseteq> set ms" for xs
    using that de by (induction xs) (auto simp: map_filter_simps)
  then show ?thesis by (simp add: received_texts map_filter_filter w)
qed


section \<open>Where the alerts of a fingerprint come from\<close>

lemma spawn_order_all: "m \<in> set spawn_order"
  by (cases m) (simp_all add: spawn_order_def)

lemma spawn_order_distinct: "distinct spawn_order"
  by (simp add: spawn_order_def)

lemma module_alert_keyed:
  assumes "(t, a) \<in> set (em_hist (module_emitter env cfg host vendor r m))"
  shows "\<exists>cat. cat \<in> module_cats cfg m
    \<and> al_fingerprint a = fingerprint_of (ho_machine_id host) cat (al_device a) (al_metric a)"
proof -
  let ?s0 = "make_tracker cfg (ar_clock r m)"
  obtain ops where "module_emitter env cfg host vendor r m = run_ops ops ?s0"
    using module_emits [of host cfg m ?s0 env vendor "ar_inputs r"] by (auto simp: module_emitter_def acts_def)
  then have "self_keyed a"
    using run_ops_self_keyed [of ?s0 ops] assms by (auto simp: make_tracker_new)
  moreover have "al_host_id a = ho_machine_id host" "al_category a \<in> module_cats cfg m"
    using module_emitter_ok(1) [of host cfg m env vendor r] assms by (auto simp: emitter_ok_def origin_def)
  ultimately show ?thesis by (metis self_keyed_def)
qed

text \<open>The categories a configuration uses; those of the syslog rules come from its file.\<close>

definition plain_rules :: "agent_config \<Rightarrow> bool" where
  "plain_rules cfg = list_all (\<lambda>ru. no_sep (ru_category ru)) (sr_rules (mb_syslog_rules (ac_modules cfg)))"

lemma plain_rules_map:
  "plain_rules cfg = list_all (\<lambda>c. no_sep c) (map ru_category (sr_rules (mb_syslog_rules (ac_modules cfg))))"
  by (simp add: plain_rules_def list_all_iff)

lemma module_cats_no_sep:
  assumes "plain_rules cfg" and "cat \<in> module_cats cfg m"
  shows "no_sep cat"
  using assms
  by (cases m)
     (auto simp: module_cats_def plain_rules_def list_all_iff NVME_def DISK_SMART_def MEMORY_ECC_def CPU_MCE_def
        PCIE_AER_def THERMAL_def GPU_NVIDIA_def GPU_AMD_def NETWORK_NIC_def STORAGE_CONTROLLER_def STORAGE_IO_def
        MEMORY_PRESSURE_def OS_HANG_def BMC_REDFISH_def BMC_EVENTLOG_def LIFECYCLE_def)

definition sole_module :: "agent_config \<Rightarrow> string \<Rightarrow> agent_module \<Rightarrow> bool" where
  "sole_module cfg cat m \<longleftrightarrow>
     cat \<notin> {BOOT, AGENT} \<and> list_all (\<lambda>m'. m' = m \<or> cat \<notin> module_cats cfg m') spawn_order"

lemma other_source_silent:
  assumes "no_sep (ho_machine_id host)" and "plain_rules cfg" and "no_sep cat" and "sole_module cfg cat m"
    and "fp = fingerprint_of (ho_machine_id host) cat dev metric"
  shows "m' \<noteq> m \<Longrightarrow> filter (fp_message fp) (map OAlert (rev (map snd (em_hist (module_emitter env cfg host vendor r m'))))) = []"
    and "filter (fp_message fp) (boot_messages cfg host r) = []"
    and "filter (fp_message fp) (stop_messages host r) = []"
    and "filter (fp_message fp) (map (\<lambda>t. OHeartbeat (make_heartbeat host t)) ts) = []"
proof -
  have other: "al_fingerprint a \<noteq> fp"
    if "al_fingerprint a = fingerprint_of (ho_machine_id host) cat' d k" "no_sep cat'" "cat' \<noteq> cat" for a cat' d k
    using fingerprint_of_category [OF assms(1) assms(1) that(2) assms(3), of d k dev metric] that(1,3) assms(5) by auto
  have fixed: "no_sep BOOT" "no_sep AGENT" "cat \<noteq> BOOT" "cat \<noteq> AGENT"
    using assms(4) by (simp_all add: BOOT_def AGENT_def sole_module_def)
  show "filter (fp_message fp) (map OAlert (rev (map snd (em_hist (module_emitter env cfg host vendor r m'))))) = []"
    if "m' \<noteq> m"
  proof -
    have "al_fingerprint a \<noteq> fp" if "(t, a) \<in> set (em_hist (module_emitter env cfg host vendor r m'))" for t a
    proof -
      from module_alert_keyed [OF that] obtain cat' where c: "cat' \<in> module_cats cfg m'"
        "al_fingerprint a = fingerprint_of (ho_machine_id host) cat' (al_device a) (al_metric a)" by blast
      moreover have "cat' \<noteq> cat"
        using c(1) assms(4) \<open>m' \<noteq> m\<close> spawn_order_all [of m'] by (auto simp: sole_module_def list_all_iff)
      ultimately show ?thesis using other module_cats_no_sep [OF assms(2) c(1)] by blast
    qed
    then show ?thesis unfolding filter_empty_conv fp_message_def by (auto, blast)
  qed
  have "al_fingerprint (build_firing t u (boot_builder host p c w)) \<noteq> fp" for t u p c w
    using fixed by (intro other [of _ BOOT]) (auto simp: build_firing_def fingerprint_def boot_builder_def Let_def)
  then show "filter (fp_message fp) (boot_messages cfg host r) = []"
    by (auto simp: boot_messages_def boot_spawn_def boot_run_def Let_def fp_message_def)
  have "al_fingerprint (build_firing t u (stopping_builder host)) \<noteq> fp" for t u
    using fixed by (intro other [of _ AGENT]) (auto simp: build_firing_def fingerprint_def stopping_builder_def)
  then show "filter (fp_message fp) (stop_messages host r) = []"
    by (auto simp: stop_messages_def fp_message_def split: option.splits)
  show "filter (fp_message fp) (map (\<lambda>t. OHeartbeat (make_heartbeat host t)) ts) = []"
    by (induction ts) (simp_all add: fp_message_def)
qed


lemma module_source:
  assumes "i < length spawn_order"
  shows "agent_sources env cfg host vendor r ! i =
    map OAlert (rev (map snd (em_hist (module_emitter env cfg host vendor r (spawn_order ! i)))))"
  using assms by (simp add: agent_sources_def nth_append)

lemma sent_fp:
  assumes "agent_sends feature env cfg host vendor r ms"
    and "no_sep (ho_machine_id host)" and "plain_rules cfg" and "no_sep cat" and "sole_module cfg cat m"
    and "fp = fingerprint_of (ho_machine_id host) cat dev metric"
  shows "filter (fp_message fp) ms =
    filter (fp_message fp) (map OAlert (rev (map snd (em_hist (module_emitter env cfg host vendor r m)))))"
proof -
  note silent = other_source_silent [OF assms(2-6)]
  obtain i where i: "i < length spawn_order" "spawn_order ! i = m"
    using spawn_order_all [of m] by (auto simp: in_set_conv_nth)
  obtain ys where ys: "ms = OHello (make_hello host vendor cfg (agent_maintenance feature cfg) (ar_started r)) # ys"
    "interleaving (agent_sources env cfg host vendor r) ys" using assms(1) by (auto simp: agent_sends_def)
  have "filter (fp_message fp) (agent_sources env cfg host vendor r ! j) = []"
    if "j < length (agent_sources env cfg host vendor r)" "j \<noteq> i" for j
  proof (cases "j < length spawn_order")
    case True
    then have "spawn_order ! j \<noteq> m"
      using i that(2) spawn_order_distinct nth_eq_iff_index_eq by metis
    then show ?thesis unfolding module_source [OF True] by (rule silent(1))
  next
    case False
    then have "agent_sources env cfg host vendor r ! j \<in> set [boot_messages cfg host r,
        map (\<lambda>t. OHeartbeat (make_heartbeat host t)) (ar_ticks r), stop_messages host r]"
      using that(1) unfolding agent_sources_def nth_append by (simp del: set_simps)
    then show ?thesis using silent(2-4) by auto
  qed
  then have "filter (fp_message fp) ys = filter (fp_message fp) (agent_sources env cfg host vendor r ! i)"
    using i by (intro interleaving_filter [OF ys(2)]) (auto simp: agent_sources_def)
  then show ?thesis using i module_source [OF i(1)] by (simp add: ys(1) fp_message_def)
qed

lemma sent_host:
  assumes "agent_sends feature env cfg host vendor r ms" and "OAlert a \<in> set ms"
  shows "al_host_id a = ho_machine_id host"
proof -
  obtain xs where xs: "xs \<in> set (agent_sources env cfg host vendor r)" "OAlert a \<in> set xs"
    using assms by (auto simp: agent_sends_def dest!: interleaving_set)
  then consider (module) t m where "(t, a) \<in> set (em_hist (module_emitter env cfg host vendor r m))"
    | (boot) "OAlert a \<in> set (boot_messages cfg host r)" | (stop) "OAlert a \<in> set (stop_messages host r)"
    by (auto simp: agent_sources_def)
  then show ?thesis
  proof cases
    case module
    with module_emitter_ok(1) [of host cfg m env vendor r] show ?thesis by (auto simp: emitter_ok_def origin_def)
  qed (auto simp: boot_messages_def boot_spawn_def boot_run_def boot_builder_def stop_messages_def
      stopping_builder_def build_firing_def Let_def split: option.splits if_splits)
qed

text \<open>All messages can be written and read back: their maps are finite.\<close>

lemma sent_maps_finite:
  assumes "agent_sends feature env cfg host vendor r ms" and "finite (dom (ac_tags cfg))" and "x \<in> set ms"
  shows "envelope_ok UNIV (into_envelope x)"
proof (cases "x = OHello (make_hello host vendor cfg (agent_maintenance feature cfg) (ar_started r))")
  case False
  then obtain xs where xs: "xs \<in> set (agent_sources env cfg host vendor r)" "x \<in> set xs"
    using assms(1,3) by (auto simp: agent_sends_def dest!: interleaving_set)
  then consider (module) t a m where "(t, a) \<in> set (em_hist (module_emitter env cfg host vendor r m))" "x = OAlert a"
    | (boot) "x \<in> set (boot_messages cfg host r)" | (stop) "x \<in> set (stop_messages host r)"
    | (beat) tk where "x = OHeartbeat (make_heartbeat host tk)"
    by (auto simp: agent_sources_def)
  then show ?thesis
  proof cases
    case module
    have "raw_finite (make_tracker cfg (ar_clock r m))" by (simp add: raw_finite_def make_tracker_def emitter_new_def)
    then have "raw_finite (module_emitter env cfg host vendor r m)"
      unfolding module_emitter_def by (rule emits_raw_finite [OF module_emits])
    with module show ?thesis by (force simp: raw_finite_def alert_ok_def)
  qed (auto simp: boot_messages_def boot_spawn_def boot_run_def boot_builder_def stop_messages_def
      stopping_builder_def build_firing_def alert_ok_def Let_def split: option.splits if_splits)
qed (simp add: make_hello_def assms(2))

lemma sent_texts:
  assumes "agent_sends feature env cfg host vendor r ms" and "finite (dom (ac_tags cfg))"
    and "chrono_law show_ts parse_ts T" and "(\<Union>x \<in> set ms. envelope_times (into_envelope x)) \<subseteq> T"
    and "text_law print_json read_json ((\<lambda>x. envelope_to_json show_ts (into_envelope x)) ` set ms)"
  shows "\<forall>x \<in> set ms. wire_decode read_json parse_ts (text_of (wire_encode print_json show_ts) x) = Some (into_envelope x)"
proof
  fix x assume x: "x \<in> set ms"
  have "envelope_times (into_envelope x) \<subseteq> T" using assms(4) x by blast
  from wire_decode_encode [OF assms(3,5) _ sent_maps_finite [OF assms(1,2) x] this] x
  show "wire_decode read_json parse_ts (text_of (wire_encode print_json show_ts) x) = Some (into_envelope x)"
    by (auto simp: text_of_def)
qed

lemma sent_hello:
  "agent_sends feature env cfg host vendor r ms \<Longrightarrow> OHello h \<in> set ms \<Longrightarrow>
     hl_maintenance h = agent_maintenance feature cfg"
  by (auto simp: agent_sends_def make_hello_def agent_sources_def boot_messages_def boot_spawn_def boot_run_def
      stop_messages_def Let_def dest!: interleaving_set split: option.splits if_splits)


lemma sent_keeps_watch:
  assumes "agent_sends feature env cfg host vendor r ms" and "\<not> agent_maintenance feature cfg" and "x \<in> set ms"
  shows "keeps_watch hid (into_envelope x)"
proof (cases x)
  case (OHello h)
  with assms sent_hello [OF assms(1), of h] show ?thesis by (simp add: keeps_watch_def)
qed (simp_all add: keeps_watch_def)


section \<open>Properties\<close>

lemma delivered_open:
  assumes "filter (fp_envelope fp) es = map into_envelope (filter (fp_message fp) ms)"
    and "filter (fp_message fp) ms = filter (fp_message fp) (map OAlert (rev (map snd h)))"
  shows "open_after fp (rev (alerts_of es)) = open_after fp (map snd h)"
proof -
  have conv: "alerts_of (map into_envelope (filter (fp_message fp) (map OAlert as))) = filter (\<lambda>a. al_fingerprint a = fp) as"
    for as by (induction as) (auto simp: fp_message_def)
  have "filter (\<lambda>a. al_fingerprint a = fp) (alerts_of es) = filter (\<lambda>a. al_fingerprint a = fp) (rev (map snd h))"
    unfolding alerts_of_fp assms(1) unfolding assms(2) by (rule conv)
  then have "filter (\<lambda>a. al_fingerprint a = fp) (rev (alerts_of es)) = filter (\<lambda>a. al_fingerprint a = fp) (map snd h)"
    by (simp add: rev_filter [symmetric] rev_map [symmetric])
  then show ?thesis using open_after_fp by metis
qed

lemma pump_all_sent:
  assumes "pump_loop encode is \<lparr>pm_normal = [], pm_critical = [], pm_wire = []\<rparr> =
      (None, \<lparr>pm_normal = [], pm_critical = [], pm_wire = wire\<rparr>)"
  shows "lane_texts True wire = map (text_of encode) (concat (map ri_critical is))"
    and "lane_texts False wire = map (text_of encode) (concat (map ri_normal is))"
proof -
  have "in_order encode [] [] \<lparr>pm_normal = [], pm_critical = [], pm_wire = []\<rparr>" by (simp add: in_order_def)
  from pump_loop_in_order [OF this assms]
  show "lane_texts True wire = map (text_of encode) (concat (map ri_critical is))"
    "lane_texts False wire = map (text_of encode) (concat (map ri_normal is))"
    by (simp_all add: in_order_def)
qed

lemma received_sent:
  assumes "lane_texts True wire = map (text_of encode) (filter is_critical ms)"
    and "lane_texts False wire = map (text_of encode) (filter (\<lambda>m. \<not> is_critical m) ms)"
    and "\<forall>x \<in> set ms. parse (text_of encode x) = Some (into_envelope x)"
    and "e \<in> set (received parse (map MText (wire_texts wire)))"
  shows "\<exists>x \<in> set ms. e = into_envelope x"
proof -
  from assms(4) obtain t where t: "t \<in> set (wire_texts wire)" "parse t = Some e"
    by (auto simp: received_texts map_filter_def)
  then obtain x where "x \<in> set ms" "t = text_of encode x"
    by (auto simp: wire_texts_lanes assms(1,2))
  with assms(3) t show ?thesis by force
qed

lemma module_open:
  "tr_inner (em_tracker (module_emitter env cfg host vendor r m)) fp \<noteq> None
     \<longleftrightarrow> open_after fp (map snd (em_hist (module_emitter env cfg host vendor r m)))"
proof -
  have "represents (em_tracker (module_emitter env cfg host vendor r m)) (em_hist (module_emitter env cfg host vendor r m))"
    using module_emitter_ok(1) [of host cfg m env vendor r] by (simp add: emitter_ok_def)
  then show ?thesis unfolding represents_def by (metis active_since_open map_option_is_None)
qed

lemma open_after_firing:
  "\<forall>a \<in> set as. al_fingerprint a = fp \<longrightarrow> al_state a = Firing \<Longrightarrow>
     open_after fp as \<longleftrightarrow> (\<exists>a \<in> set as. al_fingerprint a = fp)"
  by (induction as) auto

lemma received_alert:
  assumes "lane_texts True wire = map (text_of encode) (filter is_critical ms)"
    and "lane_texts False wire = map (text_of encode) (filter (\<lambda>m. \<not> is_critical m) ms)"
    and "\<forall>x \<in> set ms. parse (text_of encode x) = Some (into_envelope x)"
  shows "a \<in> set (alerts_of (received parse (map MText (wire_texts wire)))) \<longleftrightarrow> OAlert a \<in> set ms"
proof
  assume "a \<in> set (alerts_of (received parse (map MText (wire_texts wire))))"
  from received_sent [OF assms alerts_of_set [OF this]] obtain x where x: "x \<in> set ms" "EAlert a = into_envelope x" by blast
  have "x = OAlert a" using x(2) by (cases x) simp_all
  with x(1) show "OAlert a \<in> set ms" by simp
next
  have in_alerts: "EAlert a \<in> set es \<Longrightarrow> a \<in> set (alerts_of es)" for es
    by (induction es rule: alerts_of.induct) auto
  assume x: "OAlert a \<in> set ms"
  then have "text_of encode (OAlert a) \<in> set (wire_texts wire)"
    by (cases "is_critical (OAlert a)") (auto simp: wire_texts_lanes assms(1,2))
  moreover have "parse (text_of encode (OAlert a)) = Some (EAlert a)" using assms(3) x by force
  ultimately have "EAlert a \<in> set (received parse (map MText (wire_texts wire)))"
    by (force simp: received_texts map_filter_def)
  then show "a \<in> set (alerts_of (received parse (map MText (wire_texts wire))))" by (rule in_alerts)
qed

text \<open>The last word on a fingerprint is the same at both ends.\<close>

lemma last_word_kept:
  assumes lanes: "lane_texts True wire = map (text_of encode) (filter is_critical ms)"
      "lane_texts False wire = map (text_of encode) (filter (\<lambda>x. \<not> is_critical x) ms)"
    and parse: "\<forall>x \<in> set ms. parse (text_of encode x) = Some (into_envelope x)"
    and own: "filter (fp_message fp) ms = filter (fp_message fp) (map OAlert (rev (map snd h)))"
    and lane: "\<forall>(t, a) \<in> set h. alert_lane F a"
  shows "open_after fp (rev (alerts_of (received parse (map MText (wire_texts wire))))) = open_after fp (map snd h)"
proof (cases "F fp")
  case None
  have sent: "OAlert a \<in> set ms \<longleftrightarrow> a \<in> snd ` set h" if "al_fingerprint a = fp" for a
    using arg_cong [OF own, of set] that by (auto simp: fp_message_def set_eq_iff split: outbound.splits)
  have firing: "al_state a = Firing" if "a \<in> snd ` set h" "al_fingerprint a = fp" for a
    using lane that None by (auto simp: alert_lane_def)
  note rec = received_alert [OF lanes parse]
  have "open_after fp (map snd h) \<longleftrightarrow> (\<exists>a \<in> snd ` set h. al_fingerprint a = fp)"
    using firing by (subst open_after_firing) (auto simp: image_def)
  also have "\<dots> \<longleftrightarrow> (\<exists>a \<in> set (alerts_of (received parse (map MText (wire_texts wire)))). al_fingerprint a = fp)"
    unfolding Bex_def rec using sent by blast
  also have "\<dots> \<longleftrightarrow> open_after fp (rev (alerts_of (received parse (map MText (wire_texts wire)))))"
    using firing sent by (subst open_after_firing) (auto simp: rec)
  finally show ?thesis by simp
next
  case (Some sev)
  have "is_critical x = (sev = Critical)" if "x \<in> set ms" "fp_message fp x" for x
  proof -
    have "x \<in> set (filter (fp_message fp) (map OAlert (rev (map snd h))))"
      using that unfolding own [symmetric] by simp
    then obtain t a where ta: "(t, a) \<in> set h" "x = OAlert a" "al_fingerprint a = fp" by (auto simp: fp_message_def)
    from bspec [OF lane ta(1)] ta(3) Some show ?thesis by (auto simp: ta(2) is_critical_def alert_lane_def)
  qed
  then have "filter (fp_envelope fp) (received parse (map MText (wire_texts wire))) = map into_envelope (filter (fp_message fp) ms)"
    by (intro delivered_fp [OF lanes parse, where c = "sev = Critical"]) simp
  from delivered_open [OF this own] show ?thesis .
qed

text \<open>With any encoding that the collector decodes.\<close>

lemma delivered_state:
  assumes sends: "agent_sends feature env cfg host vendor r ms" and "\<not> agent_maintenance feature cfg"
    and "no_sep (ho_machine_id host)" and "plain_rules cfg" and "no_sep cat" and "sole_module cfg cat m"
    and fp: "fp = fingerprint_of (ho_machine_id host) cat dev metric"
    and crit: "concat (map ri_critical is) =
      sk_critical (fold (sink_send open_send) ms (sink_new [] [] [] (agent_maintenance feature cfg)))"
    and norm: "concat (map ri_normal is) =
      sk_normal (fold (sink_send open_send) ms (sink_new [] [] [] (agent_maintenance feature cfg)))"
    and pump: "pump_loop encode is \<lparr>pm_normal = [], pm_critical = [], pm_wire = []\<rparr> =
      (None, \<lparr>pm_normal = [], pm_critical = [], pm_wire = wire\<rparr>)"
    and parse: "\<forall>x \<in> set ms. parse (text_of encode x) = Some (into_envelope x)"
    and "\<not> host_in_maintenance (ho_machine_id host) (cn_app conn)" and "map_of (ap_firing (cn_app conn)) fp = None"
  shows "map_of (ap_firing (cn_app (handle_socket parse try_send now (map MText (wire_texts wire)) conn))) fp \<noteq> None
    \<longleftrightarrow> tr_inner (em_tracker (module_emitter env cfg host vendor r m)) fp \<noteq> None"
proof -
  let ?h = "em_hist (module_emitter env cfg host vendor r m)"
  let ?es = "received parse (map MText (wire_texts wire))"
  have lanes: "lane_texts True wire = map (text_of encode) (filter is_critical ms)"
    "lane_texts False wire = map (text_of encode) (filter (\<lambda>x. \<not> is_critical x) ms)"
    using pump_all_sent [OF pump] unfolding crit norm eq_False [THEN iffD2, OF assms(2)] sink_open_lanes .
  note own = sent_fp [OF sends assms(3-6) fp]
  have "\<forall>(t, a) \<in> set ?h. alert_lane (module_lane m) a" using module_alert_lane by blast
  note o = last_word_kept [OF lanes parse own this]
  have es: "\<exists>x \<in> set ms. e = into_envelope x" if "e \<in> set ?es" for e
    using received_sent [OF lanes parse that] .
  have watch: "\<forall>e \<in> set ?es. keeps_watch (ho_machine_id host) e"
    using es sent_keeps_watch [OF sends assms(2)] by blast
  have hosts: "\<forall>a \<in> set (alerts_of ?es). al_host_id a = ho_machine_id host"
  proof
    fix a assume "a \<in> set (alerts_of ?es)"
    then show "al_host_id a = ho_machine_id host"
      unfolding received_alert [OF lanes parse] by (rule sent_host [OF sends])
  qed
  from firing_after_run [OF watch hosts assms(12,13), of try_send]
  show ?thesis unfolding handle_socket_run ingest_disconnect_frames o module_open .
qed

text \<open>C6. From sensor to screen. Take any run of the whole agent, not in maintenance: any configuration,
  any inputs of the modules, any interleaving of their messages. Let its queues refuse nothing, and
  let one connection send all messages without an error, in the JSON form of the wire format,
  however they arrive and however often the socket is polled. Then a fingerprint of a category that
  belongs to one module is in the collector's firing map, at the end of the connection, exactly when
  that module's tracker has the condition open, provided that it was not firing before and that the
  host is not in maintenance there. Critical alerts overtake others on the way, and no recovery is
  lost or left behind by it. Of the libraries it is used that serde's text of a JSON value and
  chrono's text of a time can be read back.\<close>

theorem agent_to_collector:
  assumes sends: "agent_sends feature env cfg host vendor r ms" and off: "\<not> agent_maintenance feature cfg"
    and cats: "no_sep (ho_machine_id host)" "plain_rules cfg" "no_sep cat" "sole_module cfg cat m"
    and fp: "fp = fingerprint_of (ho_machine_id host) cat dev metric"
    and lanes: "concat (map ri_critical is) =
        sk_critical (fold (sink_send open_send) ms (sink_new [] [] [] (agent_maintenance feature cfg)))"
      "concat (map ri_normal is) =
        sk_normal (fold (sink_send open_send) ms (sink_new [] [] [] (agent_maintenance feature cfg)))"
    and pump: "pump_loop (wire_encode print_json show_ts) is \<lparr>pm_normal = [], pm_critical = [], pm_wire = []\<rparr> =
      (None, \<lparr>pm_normal = [], pm_critical = [], pm_wire = wire\<rparr>)"
    and tags: "finite (dom (ac_tags cfg))"
    and chrono: "chrono_law show_ts parse_ts T" "(\<Union>x \<in> set ms. envelope_times (into_envelope x)) \<subseteq> T"
    and serde: "text_law print_json read_json ((\<lambda>x. envelope_to_json show_ts (into_envelope x)) ` set ms)"
    and start: "\<not> host_in_maintenance (ho_machine_id host) (cn_app conn)" "map_of (ap_firing (cn_app conn)) fp = None"
  shows "map_of (ap_firing (cn_app (handle_socket (wire_decode read_json parse_ts) try_send now
            (map MText (wire_texts wire)) conn))) fp \<noteq> None
    \<longleftrightarrow> tr_inner (em_tracker (module_emitter env cfg host vendor r m)) fp \<noteq> None"
  using delivered_state [OF sends off cats fp lanes pump sent_texts [OF sends tags chrono serde] start] .


text \<open>The agent of \<open>Agent_Main\<close> that sees a scheduled shutdown, with texts for its three messages.\<close>

definition sample_metric :: string where
  "sample_metric = fst (guess_kind_from_scheduled_path None None)"

definition sample_alert :: alert where
  "sample_alert = build_firing 0 [] (lifecycle_alert_builder sample_agent_host sample_metric
     (snd (guess_kind_from_scheduled_path None None)) ''shutdown.scheduled_file'')"

definition sample_sent :: "outbound list" where
  "sample_sent =
     [OHello (make_hello sample_agent_host sample_vendor default_fallback (agent_maintenance False default_fallback) 0),
      OAlert sample_alert, OHeartbeat (make_heartbeat sample_agent_host (5, 5))]"

definition sample_print :: "json \<Rightarrow> string" where
  "sample_print j =
     (case j of
        JObj ((_, JStr t) # _) \<Rightarrow> if t = ''hello'' then ''h'' else if t = ''heartbeat'' then ''b'' else ''a''
      | _ \<Rightarrow> [])"

abbreviation sample_json :: "outbound \<Rightarrow> json" where
  "sample_json x \<equiv> envelope_to_json sample_show_ts (into_envelope x)"

definition sample_read :: "string \<Rightarrow> json option" where
  "sample_read t = find (\<lambda>j. sample_print j = t) (map sample_json sample_sent)"

abbreviation sample_encode :: "envelope \<Rightarrow> string option" where
  "sample_encode \<equiv> wire_encode sample_print sample_show_ts"

abbreviation sample_parse :: "string \<Rightarrow> envelope option" where
  "sample_parse \<equiv> wire_decode sample_read sample_parse_ts"

lemma sample_encode_simps [simp]:
  "sample_encode (EHello l) = Some ''h''" "sample_encode (EHeartbeat h) = Some ''b''" "sample_encode (EAlert a) = Some ''a''"
  by (simp_all add: wire_encode_def sample_print_def)

lemma idle_module: "m \<noteq> Lifecycle \<Longrightarrow> em_hist (sample_emitter m) = []"
  by (cases m)
     (simp_all add: module_emitter_def sample_agent_run_def idle_inputs_def spawn_module_def spawn_defs
        syslog_rules_spawn_def or_dummy_def or_no_lines_def sample_env_def make_tracker_def Let_def
        split: option.splits)

lemma sample_sends:
  "agent_sends False sample_env default_fallback sample_agent_host sample_vendor sample_agent_run sample_sent"
proof -
  have m: "map OAlert (rev (map snd (em_hist (sample_emitter m)))) = (if m = Lifecycle then [OAlert sample_alert] else [])"
    for m by (cases "m = Lifecycle") (simp_all add: idle_module sample_lifecycle_hist sample_alert_def sample_metric_def)
  have "concat (agent_sources sample_env default_fallback sample_agent_host sample_vendor sample_agent_run)
      = [OAlert sample_alert, OHeartbeat (make_heartbeat sample_agent_host (5, 5))]"
    unfolding agent_sources_def m
    by (simp add: spawn_order_def boot_messages_def boot_spawn_def boot_run_def booted_fresh_def stop_messages_def
        sample_agent_run_def Let_def)
  with interleaving_concat [of "agent_sources sample_env default_fallback sample_agent_host sample_vendor sample_agent_run"]
  show ?thesis by (simp add: agent_sends_def sample_sent_def) (simp add: sample_agent_run_def)
qed

lemma sample_pump:
  "pump_loop sample_encode [quiet\<lparr>ri_normal := sample_sent\<rparr>, quiet, quiet]
     \<lparr>pm_normal = [], pm_critical = [], pm_wire = []\<rparr>
   = (None, \<lparr>pm_normal = [], pm_critical = [], pm_wire = [FText ''h'' False, FText ''a'' False, FText ''b'' False]\<rparr>)"
proof -
  have "from_utf8 ''h'' = Some ''h''" "from_utf8 ''a'' = Some ''a''" "from_utf8 ''b'' = Some ''b''"
    by (simp_all add: std_defs)
  then show ?thesis by (simp add: pump_round_def ship_def quiet_def sample_sent_def)
qed

lemma sample_not_critical: "filter is_critical sample_sent = []" "\<forall>x \<in> set sample_sent. \<not> is_critical x"
  by (simp_all add: sample_sent_def is_critical_def sample_alert_def build_firing_def lifecycle_alert_builder_def Let_def)

lemma sample_tags: "finite (dom (ac_tags default_fallback))"
  by (simp add: default_fallback_def)

lemma sample_times: "(\<Union>x \<in> set sample_sent. envelope_times (into_envelope x)) \<subseteq> {0, 5}"
  by (simp add: sample_sent_def sample_alert_def make_hello_def make_heartbeat_def build_firing_def)

lemma sample_serde: "text_law sample_print sample_read (sample_json ` set sample_sent)"
  by (simp add: text_law_def sample_read_def sample_sent_def sample_print_def)

lemma sample_config:
  "no_sep (ho_machine_id sample_agent_host)" "plain_rules default_fallback" "no_sep LIFECYCLE"
  "sole_module default_fallback LIFECYCLE Lifecycle"
proof -
  have rules: "map ru_category (sr_rules (mb_syslog_rules (ac_modules default_fallback)))
      = [''storage_io'', ''pcie_aer'', ''network_nic'', ''syslog'', ''thermal'']"
    by (simp add: default_fallback_def modules_block_default_def syslog_rules_cfg_default_def default_syslog_rules_def)
  then have set: "ru_category ` set (sr_rules (mb_syslog_rules (ac_modules default_fallback)))
      = {''storage_io'', ''pcie_aer'', ''network_nic'', ''syslog'', ''thermal''}"
    by (simp only: set_map [symmetric] list.set)
  show "plain_rules default_fallback"
    unfolding plain_rules_map rules by simp
  show "sole_module default_fallback LIFECYCLE Lifecycle"
    unfolding sole_module_def module_cats_def set
    by (simp add: spawn_order_def NVME_def DISK_SMART_def MEMORY_ECC_def CPU_MCE_def
        PCIE_AER_def THERMAL_def GPU_NVIDIA_def GPU_AMD_def NETWORK_NIC_def STORAGE_CONTROLLER_def STORAGE_IO_def
        MEMORY_PRESSURE_def OS_HANG_def BMC_REDFISH_def BMC_EVENTLOG_def LIFECYCLE_def BOOT_def AGENT_def set)
qed (simp_all add: sample_agent_host_def LIFECYCLE_def)

lemma sample_fp: "al_fingerprint sample_alert = fingerprint_of (ho_machine_id sample_agent_host) LIFECYCLE None sample_metric"
  by (simp add: sample_alert_def build_firing_def lifecycle_fingerprint)

theorem agent_to_collector_witness:
  "map_of (ap_firing (cn_app (handle_socket sample_parse sample_send 0 [MText ''h'', MText ''a'', MText ''b'']
     (conn_of None (collector_new 10 0))))) (al_fingerprint sample_alert) \<noteq> None"
proof -
  have off: "\<not> agent_maintenance False default_fallback" by (simp add: agent_maintenance_def)
  have hist: "em_hist (sample_emitter Lifecycle) = [(0, sample_alert)]"
    by (simp add: sample_lifecycle_hist sample_alert_def sample_metric_def)
  have state: "al_state sample_alert = Firing" "al_severity sample_alert \<noteq> Critical"
    by (simp_all add: sample_alert_def build_firing_def lifecycle_alert_builder_def Let_def)
  have lanes: "concat (map ri_critical [quiet\<lparr>ri_normal := sample_sent\<rparr>, quiet, quiet]) =
      sk_critical (fold (sink_send open_send) sample_sent (sink_new [] [] [] (agent_maintenance False default_fallback)))"
    "concat (map ri_normal [quiet\<lparr>ri_normal := sample_sent\<rparr>, quiet, quiet]) =
      sk_normal (fold (sink_send open_send) sample_sent (sink_new [] [] [] (agent_maintenance False default_fallback)))"
    using off sample_not_critical by (simp_all add: quiet_def sink_open_lanes filter_True)
  have start: "\<not> host_in_maintenance (ho_machine_id sample_agent_host) (cn_app (conn_of None (collector_new 10 (0::nat))))"
    "map_of (ap_firing (cn_app (conn_of None (collector_new 10 (0::nat))))) (al_fingerprint sample_alert) = None"
    by (simp_all add: conn_of_def collector_new_def app_new_def host_in_maintenance_def)
  note mirror = agent_to_collector [OF sample_sends off sample_config sample_fp lanes sample_pump sample_tags sample_chrono
        sample_times sample_serde start, unfolded wire_texts_simps list.map]
  have "tr_inner (em_tracker (sample_emitter Lifecycle)) (al_fingerprint sample_alert) \<noteq> None"
    unfolding module_open by (simp add: hist state)
  then show ?thesis by (rule mirror [THEN iffD2])
qed


section \<open>Heartbeats and the offline watcher\<close>



text \<open>C40. Every heartbeat makes the page forget that a host is alerting: agents send the count of firing
  alerts as zero, the collector passes the heartbeat on as it is, and the page takes the count from
  it, whatever alerts of the host are firing.\<close>

theorem heartbeat_clears_count:
  "\<exists>new h. ap_fanout (cn_app (ingest_envelope try_send (EHeartbeat (make_heartbeat host tick)) c)) = ap_fanout (cn_app c) @ new
     \<and> ap_firing (cn_app (ingest_envelope try_send (EHeartbeat (make_heartbeat host tick)) c)) = ap_firing (cn_app c)
     \<and> gv_hosts (fold gui_handle new v) (ho_machine_id host) = Some h \<and> hst_firing_count h = 0"
proof -
  have "ap_fanout (cn_app (ingest_envelope try_send (EHeartbeat (make_heartbeat host tick)) c))
      = ap_fanout (cn_app c) @ [EHeartbeat (make_heartbeat host tick)]"
    by (simp add: ingest_heartbeat_def)
  moreover have "ap_firing (cn_app (ingest_envelope try_send (EHeartbeat (make_heartbeat host tick)) c)) = ap_firing (cn_app c)"
    by (rule firing_ingest_other) simp
  moreover have "\<exists>h. gv_hosts (fold gui_handle [EHeartbeat (make_heartbeat host tick)] v) (ho_machine_id host) = Some h
      \<and> hst_firing_count h = 0"
    by (simp add: gui_heartbeat_def make_heartbeat_def Let_def)
  ultimately show ?thesis by blast
qed

end
