(* ===== verification/Agent_Sessions.thy ===== *)
theory Agent_Sessions
  imports Agent_Transport
begin

text \<open>
  \<open>run\<close> of \<open>agent/src/transport.rs\<close> as a state machine: connect, pump until the connection breaks,
  close, sleep, again, while the modules go on filling the two lanes. The lanes belong to \<open>run\<close>, so
  what was not taken off them when a connection breaks is sent on the next one; a message that was
  taken and could not be sent is gone. A round of the pump is that of \<open>Agent_Transport\<close>, with the
  arrivals as steps of their own. \<open>tp_wires\<close> has the frames of each connection, \<open>tp_in_critical\<close> and
  \<open>tp_in_normal\<close> all messages that ever entered the lanes, \<open>tp_slept\<close> the delays.
\<close>

datatype phase = Connecting | Pumping | Sleeping

record transport =
  tp_phase :: phase
  tp_critical :: "outbound list"
  tp_normal :: "outbound list"
  tp_backoff_ms :: u64
  tp_wires :: "frame list list"
  tp_slept :: "u64 list"
  tp_in_critical :: "outbound list"
  tp_in_normal :: "outbound list"

definition transport_new :: "u64 \<Rightarrow> transport" where
  "transport_new mn =
     \<lparr>tp_phase = Connecting, tp_critical = [], tp_normal = [], tp_backoff_ms = mn, tp_wires = [],
      tp_slept = [], tp_in_critical = [], tp_in_normal = []\<rparr>"

definition transport_pump :: "transport \<Rightarrow> pump" where
  "transport_pump t = \<lparr>pm_normal = tp_normal t, pm_critical = tp_critical t, pm_wire = last (tp_wires t)\<rparr>"

definition pumped :: "pump_error option \<Rightarrow> pump \<Rightarrow> transport \<Rightarrow> transport" where
  "pumped e p t =
     t\<lparr>tp_phase := (case e of None \<Rightarrow> Pumping | Some _ \<Rightarrow> Sleeping), tp_critical := pm_critical p,
       tp_normal := pm_normal p, tp_wires := butlast (tp_wires t) @ [pm_wire p]\<rparr>"

inductive transport_step :: "(envelope \<Rightarrow> string option) \<Rightarrow> u64 \<Rightarrow> u64 \<Rightarrow> transport \<Rightarrow> transport \<Rightarrow> bool"
  for encode reconnect_min_ms reconnect_max_ms where
  arrive_critical:
    "transport_step encode reconnect_min_ms reconnect_max_ms t
       (t\<lparr>tp_critical := tp_critical t @ [m], tp_in_critical := tp_in_critical t @ [m]\<rparr>)"
| arrive_normal:
    "transport_step encode reconnect_min_ms reconnect_max_ms t
       (t\<lparr>tp_normal := tp_normal t @ [m], tp_in_normal := tp_in_normal t @ [m]\<rparr>)"
| connect_failed: "tp_phase t = Connecting \<Longrightarrow>
     transport_step encode reconnect_min_ms reconnect_max_ms t (t\<lparr>tp_phase := Sleeping\<rparr>)"
| connected: "tp_phase t = Connecting \<Longrightarrow>
     transport_step encode reconnect_min_ms reconnect_max_ms t
       (t\<lparr>tp_phase := Pumping, tp_backoff_ms := reconnect_min_ms, tp_wires := tp_wires t @ [[]]\<rparr>)"
| pump_round: "tp_phase t = Pumping \<Longrightarrow> ri_critical i = [] \<Longrightarrow> ri_normal i = [] \<Longrightarrow>
     pump_round encode i (transport_pump t) = (e, p) \<Longrightarrow>
     transport_step encode reconnect_min_ms reconnect_max_ms t (pumped e p t)"
| slept: "tp_phase t = Sleeping \<Longrightarrow>
     transport_step encode reconnect_min_ms reconnect_max_ms t
       (t\<lparr>tp_phase := Connecting, tp_slept := tp_slept t @ [tp_backoff_ms t],
          tp_backoff_ms := min (saturating_mul (tp_backoff_ms t) 2) reconnect_max_ms\<rparr>)"

inductive transport_reach :: "(envelope \<Rightarrow> string option) \<Rightarrow> u64 \<Rightarrow> u64 \<Rightarrow> transport \<Rightarrow> bool"
  for encode mn mx where
  init: "transport_reach encode mn mx (transport_new mn)"
| step: "transport_reach encode mn mx t \<Longrightarrow> transport_step encode mn mx t t' \<Longrightarrow> transport_reach encode mn mx t'"

inductive_cases transport_stepE: "transport_step encode mn mx t t'"


section \<open>What happens to the messages\<close>

text \<open>The messages of a lane that are on some wire come in the order in which they entered; those
  missing were taken and lost, at most one for each connection that is over.\<close>

definition accounted :: "(envelope \<Rightarrow> string option) \<Rightarrow> transport \<Rightarrow> outbound list \<Rightarrow> outbound list \<Rightarrow> bool" where
  "accounted encode t kc kn \<longleftrightarrow>
     tp_in_critical t = kc @ tp_critical t \<and> tp_in_normal t = kn @ tp_normal t
     \<and> subseq (lane_texts True (concat (tp_wires t))) (map (text_of encode) kc)
     \<and> subseq (lane_texts False (concat (tp_wires t))) (map (text_of encode) kn)
     \<and> length kc + length kn + (if tp_phase t = Pumping then 1 else 0)
         \<le> length (lane_texts True (concat (tp_wires t))) + length (lane_texts False (concat (tp_wires t)))
            + length (tp_wires t)
     \<and> (tp_phase t = Pumping \<longrightarrow> tp_wires t \<noteq> [])"

text \<open>One round takes at most one message, and puts it on the wire if it takes it without an error.\<close>

lemma ship_cases:
  "ship encode i out c p = (e, p') \<Longrightarrow>
     p' = p\<lparr>pm_wire := pm_wire p @ [FText (text_of encode out) c]\<rparr> \<or> p' = p \<and> e \<noteq> None"
  by (auto simp: ship_def text_of_def from_utf8_Some Let_def split: option.splits if_splits)

lemma pump_round_takes:
  assumes "pump_round encode i p = (e, p')" and "ri_critical i = []" and "ri_normal i = []"
  obtains tc tn fs where "pm_critical p = tc @ pm_critical p'" "pm_normal p = tn @ pm_normal p'"
    "pm_wire p' = pm_wire p @ fs"
    "subseq (lane_texts True fs) (map (text_of encode) tc)" "subseq (lane_texts False fs) (map (text_of encode) tn)"
    "length tc + length tn \<le> length (lane_texts True fs) + length (lane_texts False fs) + (if e = None then 0 else 1)"
proof (cases "pm_critical p")
  case (Cons out rest)
  with assms have "ship encode i out True (p\<lparr>pm_critical := rest\<rparr>) = (e, p')"
    by (simp add: pump_round_def)
  from ship_cases [OF this] show thesis
  proof (elim disjE conjE)
    assume "p' = p\<lparr>pm_critical := rest, pm_wire := pm_wire (p\<lparr>pm_critical := rest\<rparr>) @ [FText (text_of encode out) True]\<rparr>"
    with Cons that [of "[out]" "[]" "[FText (text_of encode out) True]"] show thesis by simp
  next
    assume "p' = p\<lparr>pm_critical := rest\<rparr>" "e \<noteq> None"
    with Cons that [of "[out]" "[]" "[]"] show thesis by simp
  qed
next
  case nocrit: Nil
  show thesis
  proof (cases "pm_normal p")
    case (Cons out rest)
    with nocrit assms have "ship encode i out False (p\<lparr>pm_critical := [], pm_normal := rest\<rparr>) = (e, p')"
      by (simp add: pump_round_def)
    from ship_cases [OF this] show thesis
    proof (elim disjE conjE)
      assume "p' = p\<lparr>pm_critical := [], pm_normal := rest, pm_wire := pm_wire (p\<lparr>pm_critical := [], pm_normal := rest\<rparr>) @ [FText (text_of encode out) False]\<rparr>"
      with nocrit Cons that [of "[]" "[out]" "[FText (text_of encode out) False]"] show thesis by simp
    next
      assume "p' = p\<lparr>pm_critical := [], pm_normal := rest\<rparr>" "e \<noteq> None"
      with nocrit Cons that [of "[]" "[out]" "[]"] show thesis by simp
    qed
  next
    case Nil
    with nocrit assms have "pm_critical p' = []" "pm_normal p' = []" "pm_wire p' = pm_wire p \<or> pm_wire p' = pm_wire p @ [FPing]"
      by (auto simp: pump_round_def Let_def split: if_splits ws_read.splits)
    with nocrit Nil that [of "[]" "[]" "[]"] that [of "[]" "[]" "[FPing]"] show thesis by auto
  qed
qed

lemma accounted_round:
  assumes "accounted encode t kc kn" and "tp_phase t = Pumping" and "ri_critical i = []" and "ri_normal i = []"
    and "pump_round encode i (transport_pump t) = (e, p)"
  shows "\<exists>kc kn. accounted encode (pumped e p t) kc kn"
proof -
  obtain tc tn fs where r: "tp_critical t = tc @ pm_critical p" "tp_normal t = tn @ pm_normal p"
    "pm_wire p = last (tp_wires t) @ fs"
    "subseq (lane_texts True fs) (map (text_of encode) tc)" "subseq (lane_texts False fs) (map (text_of encode) tn)"
    "length tc + length tn \<le> length (lane_texts True fs) + length (lane_texts False fs) + (if e = None then 0 else 1)"
    by (rule pump_round_takes [OF assms(5,3,4)]) (simp add: transport_pump_def)
  have "tp_wires t \<noteq> []" using assms(1,2) by (simp add: accounted_def)
  then have w: "concat (tp_wires (pumped e p t)) = concat (tp_wires t) @ fs"
    "length (tp_wires (pumped e p t)) = length (tp_wires t)" "tp_wires (pumped e p t) \<noteq> []"
    unfolding pumped_def using r(3) by (cases "tp_wires t" rule: rev_cases; simp)+
  have ph: "tp_phase (pumped e p t) = Pumping \<longleftrightarrow> e = None" by (simp add: pumped_def split: option.splits)
  have "accounted encode (pumped e p t) (kc @ tc) (kn @ tn)"
    using assms(1,2) r(1,2,4-6) unfolding accounted_def w ph
    by (auto simp: pumped_def intro: list_emb_append_mono)
  then show ?thesis by blast
qed

lemma transport_reach_accounted:
  "transport_reach encode mn mx t \<Longrightarrow> \<exists>kc kn. accounted encode t kc kn"
proof (induction rule: transport_reach.induct)
  case init
  show ?case by (simp add: accounted_def transport_new_def)
next
  case (step t t')
  then obtain kc kn where a: "accounted encode t kc kn" by blast
  from step.hyps(2) show ?case
  proof cases
    case (pump_round i e p)
    with accounted_round [OF a] show ?thesis by blast
  qed (use a in \<open>auto simp: accounted_def\<close>)
qed

lemma transport_reach_backoff:
  "transport_reach encode mn mx t \<Longrightarrow> tp_backoff_ms t \<le> max mn mx \<and> (\<forall>d \<in> set (tp_slept t). d \<le> max mn mx)"
proof (induction rule: transport_reach.induct)
  case init
  show ?case by (simp add: transport_new_def)
next
  case (step t t')
  from step.hyps(2) step.IH show ?case
    by cases (auto simp: pumped_def min_le_iff_disj le_max_iff_disj)
qed


section \<open>Properties\<close>

text \<open>C8. The transport over any number of connections, whatever arrives, and wherever connecting,
  encoding, sending or reading fails: of the messages that entered a lane some prefix was taken and
  the rest is still queued in order; what is on the wires of all connections together are texts of
  taken messages of their lane, in the order in which they entered and each at most once; at most
  one taken message for each connection made is missing; and no delay between two attempts was
  longer than the configured bounds.\<close>

theorem transport_at_most_once:
  assumes "transport_reach encode mn mx t"
  shows "\<exists>kc kn. tp_in_critical t = kc @ tp_critical t \<and> tp_in_normal t = kn @ tp_normal t
    \<and> subseq (lane_texts True (concat (tp_wires t))) (map (text_of encode) kc)
    \<and> subseq (lane_texts False (concat (tp_wires t))) (map (text_of encode) kn)
    \<and> length kc + length kn \<le> length (lane_texts True (concat (tp_wires t)))
         + length (lane_texts False (concat (tp_wires t))) + length (tp_wires t)
    \<and> (\<forall>d \<in> set (tp_slept t). d \<le> max mn mx)"
proof -
  obtain kc kn where "accounted encode t kc kn" using transport_reach_accounted [OF assms] by blast
  with transport_reach_backoff [OF assms] show ?thesis
    by (intro exI [of _ kc] exI [of _ kn]) (auto simp: accounted_def)
qed

text \<open>A run whose first connection breaks while it sends, with the next message sent on the second.\<close>

definition broken_round :: round_input where
  "broken_round = quiet\<lparr>ri_send_ok := False\<rparr>"

definition two_connections :: transport where
  "two_connections =
     \<lparr>tp_phase = Pumping, tp_critical = [], tp_normal = [], tp_backoff_ms = 250,
      tp_wires = [[], [FText ''{}'' False]], tp_slept = [250],
      tp_in_critical = [sample_out Critical], tp_in_normal = [sample_out Info]\<rparr>"

lemma reach_two_connections: "transport_reach (\<lambda>_. Some ''{}'') 250 8000 two_connections"
proof -
  let ?e = "\<lambda>_. Some ''{}''"
  let ?t1 = "(transport_new 250)\<lparr>tp_critical := [sample_out Critical], tp_in_critical := [sample_out Critical]\<rparr>"
  let ?t2 = "?t1\<lparr>tp_normal := [sample_out Info], tp_in_normal := [sample_out Info]\<rparr>"
  let ?t3 = "?t2\<lparr>tp_phase := Pumping, tp_wires := [[]]\<rparr>"
  let ?t4 = "?t3\<lparr>tp_phase := Sleeping, tp_critical := []\<rparr>"
  let ?t5 = "?t4\<lparr>tp_phase := Connecting, tp_slept := [250], tp_backoff_ms := 500\<rparr>"
  let ?t6 = "?t5\<lparr>tp_phase := Pumping, tp_backoff_ms := 250, tp_wires := [[], []]\<rparr>"
  have ok: "from_utf8 ''{}'' = Some ''{}''" by (simp add: std_defs)
  have "transport_step ?e 250 8000 (transport_new 250) ?t1"
    using arrive_critical [of ?e 250 8000 "transport_new 250" "sample_out Critical"] by (simp add: transport_new_def)
  moreover have "transport_step ?e 250 8000 ?t1 ?t2"
    using arrive_normal [of ?e 250 8000 ?t1 "sample_out Info"] by (simp add: transport_new_def)
  moreover have "transport_step ?e 250 8000 ?t2 ?t3"
    using connected [of ?t2 ?e 250 8000] by (simp add: transport_new_def)
  moreover have "transport_step ?e 250 8000 ?t3 ?t4"
    using pump_round [of ?t3 broken_round ?e "Some SendErr"
        "\<lparr>pm_normal = [sample_out Info], pm_critical = [], pm_wire = []\<rparr>" 250 8000] ok
    by (simp add: transport_new_def transport_pump_def pump_round_def broken_round_def quiet_def ship_def pumped_def)
  moreover have "transport_step ?e 250 8000 ?t4 ?t5"
    using slept [of ?t4 ?e 250 8000] by (simp add: transport_new_def saturating_mul_def)
  moreover have "transport_step ?e 250 8000 ?t5 ?t6"
    using connected [of ?t5 ?e 250 8000] by (simp add: transport_new_def)
  moreover have "transport_step ?e 250 8000 ?t6 two_connections"
    using pump_round [of ?t6 quiet ?e None
        "\<lparr>pm_normal = [], pm_critical = [], pm_wire = [FText ''{}'' False]\<rparr>" 250 8000] ok
    by (simp add: transport_new_def transport_pump_def pump_round_def quiet_def ship_def pumped_def two_connections_def)
  ultimately show ?thesis by (meson transport_reach.intros)
qed

theorem transport_at_most_once_witness:
  "\<exists>kc kn. tp_in_critical two_connections = kc @ tp_critical two_connections
     \<and> tp_in_normal two_connections = kn @ tp_normal two_connections
     \<and> length kc + length kn \<le> 1 + length (tp_wires two_connections)"
  using transport_at_most_once [OF reach_two_connections] by (elim exE) (auto simp: two_connections_def)

end
