(* ===== verification/Reconnects.thy ===== *)
theory Reconnects
  imports End_To_End Agent_Sessions
begin

text \<open>
  From a module's tracker to the collector's firing map with everything that may go wrong on the
  way: full queues refuse messages, connections break while a message is being sent, and what was
  written to a broken connection arrives only in part. The transport is the state machine of
  \<open>Agent_Sessions\<close>, the collector serves the connections one after the other.
\<close>

section \<open>Subsequences\<close>

lemma subseq_concat: "list_all2 subseq xss yss \<Longrightarrow> subseq (concat xss) (concat yss)"
  by (induction rule: list_all2_induct) (auto intro: list_emb_append_mono)

lemma subseq_map_filter: "subseq xs ys \<Longrightarrow> subseq (List.map_filter f xs) (List.map_filter f ys)"
  unfolding List.map_filter_def by (intro subseq_map subseq_filter)

lemma subseq_in: "subseq xs ys \<Longrightarrow> x \<in> set xs \<Longrightarrow> x \<in> set ys"
  by (induction rule: list_emb.induct) auto

lemma subseq_front: "subseq (xs @ ys) zs \<Longrightarrow> subseq xs zs"
  using prefix_imp_subseq [of xs "xs @ ys"] by (metis prefixI subseq_order.trans)

lemma last_of_subseq:
  assumes "subseq xs ys" and "distinct ys" and "ys \<noteq> []" and "last ys \<in> set xs"
  shows "xs \<noteq> [] \<and> last xs = last ys"
proof -
  obtain zs y where ys: "ys = zs @ [y]" using assms(3) by (cases ys rule: rev_cases) auto
  with assms(1) have "subseq xs (zs @ [y])" by simp
  then obtain as bs where xs: "xs = as @ bs" "subseq as zs" "subseq bs [y]" by (rule subseq_appendE)
  have "y \<notin> set zs" using assms(2) by (simp add: ys)
  then have "y \<notin> set as" using subseq_in [OF xs(2)] by blast
  then have "y \<in> set bs" using assms(4) by (simp add: ys xs(1))
  then have "bs = [y]" using xs(3) by (cases bs) (auto split: if_splits)
  then show ?thesis by (simp add: xs(1) ys)
qed

lemma open_after_last:
  "filter (\<lambda>a. al_fingerprint a = fp) as \<noteq> [] \<Longrightarrow>
     open_after fp (rev as) \<longleftrightarrow> al_state (last (filter (\<lambda>a. al_fingerprint a = fp) as)) = Firing"
  by (induction as rule: rev_induct) (auto split: if_splits)

lemma open_after_none: "filter (\<lambda>a. al_fingerprint a = fp) as = [] \<Longrightarrow> \<not> open_after fp as"
  by (induction as) (auto split: if_splits)


section \<open>What arrives\<close>

definition arrived :: "(string \<Rightarrow> envelope option) \<Rightarrow> (datetime \<times> string list) list \<Rightarrow> envelope list" where
  "arrived parse conns = concat (map (\<lambda>(now, ts). received parse (map MText ts)) conns)"

lemma arrived_texts: "arrived parse conns = List.map_filter parse (concat (map snd conns))"
  by (induction conns) (auto simp: arrived_def received_texts map_filter_def)

lemma wire_texts_append [simp]: "wire_texts (xs @ ys) = wire_texts xs @ wire_texts ys"
  by (simp add: wire_texts_def)

lemma wire_texts_concat: "wire_texts (concat ws) = concat (map wire_texts ws)"
  by (induction ws) simp_all

lemma arrived_subseq:
  assumes "list_all2 (\<lambda>(now, ts) w. prefix ts (wire_texts w)) conns wires"
  shows "subseq (concat (map snd conns)) (wire_texts (concat wires))"
  unfolding wire_texts_concat
  by (rule subseq_concat) (use assms in \<open>force simp: list_all2_conv_all_nth split_beta\<close>)

text \<open>The texts on the wires of a lane are texts of messages sent to that lane, in their order.\<close>

definition lanes_of :: "(envelope \<Rightarrow> string option) \<Rightarrow> frame list \<Rightarrow> outbound list \<Rightarrow> bool" where
  "lanes_of encode fs ms \<longleftrightarrow>
     (\<forall>c. subseq (lane_texts c fs) (map (text_of encode) (filter (\<lambda>m. is_critical m = c) ms)))"

lemma transport_lanes:
  assumes "transport_reach encode mn mx t" and "subseq (tp_in_critical t) (filter is_critical ms)"
    and "subseq (tp_in_normal t) (filter (\<lambda>m. \<not> is_critical m) ms)"
  shows "lanes_of encode (concat (tp_wires t)) ms"
proof -
  obtain kc kn where a: "accounted encode t kc kn" using transport_reach_accounted [OF assms(1)] by blast
  then have "subseq kc (filter is_critical ms)" "subseq kn (filter (\<lambda>m. \<not> is_critical m) ms)"
    using assms(2,3) by (auto simp: accounted_def dest: subseq_front)
  then have "subseq (map (text_of encode) kc) (map (text_of encode) (filter is_critical ms))"
    "subseq (map (text_of encode) kn) (map (text_of encode) (filter (\<lambda>m. \<not> is_critical m) ms))"
    by (simp_all add: subseq_map)
  with a have "subseq (lane_texts c (concat (tp_wires t))) (map (text_of encode) (filter (\<lambda>m. is_critical m = c) ms))" for c
    by (cases c) (auto simp: accounted_def intro: subseq_order.trans)
  then show ?thesis by (simp add: lanes_of_def)
qed

lemma arrived_sent:
  assumes "lanes_of encode fs ms" and "subseq ts (wire_texts fs)"
    and "\<forall>x \<in> set ms. parse (text_of encode x) = Some (into_envelope x)"
    and "e \<in> set (List.map_filter parse ts)"
  shows "\<exists>x \<in> set ms. e = into_envelope x"
proof -
  from assms(4) obtain t where t: "t \<in> set ts" "parse t = Some e" by (auto simp: map_filter_def)
  then have "t \<in> set (wire_texts fs)" using subseq_in [OF assms(2)] by blast
  then obtain c where "t \<in> set (lane_texts c fs)" by (auto simp: wire_texts_lanes)
  then have "t \<in> set (map (text_of encode) (filter (\<lambda>m. is_critical m = c) ms))"
    using subseq_in [of "lane_texts c fs"] assms(1) unfolding lanes_of_def by blast
  with assms(3) t(2) show ?thesis by force
qed

text \<open>Messages of one lane arrive in the order in which they were sent, with gaps.\<close>

lemma arrived_fp:
  assumes lanes: "lanes_of encode fs ms" and ts: "subseq ts (wire_texts fs)"
    and parse: "\<forall>x \<in> set ms. parse (text_of encode x) = Some (into_envelope x)"
    and one: "\<forall>x \<in> set ms. fp_message fp x \<longrightarrow> is_critical x = c"
  shows "subseq (filter (fp_envelope fp) (List.map_filter parse ts)) (map into_envelope (filter (fp_message fp) ms))"
proof -
  let ?P = "\<lambda>t. \<exists>e. parse t = Some e \<and> fp_envelope fp e"
  have P: "?P (text_of encode m) \<longleftrightarrow> fp_message fp m" if "m \<in> set ms" for m
    using parse that by simp
  have lane: "subseq (lane_texts d fs) (map (text_of encode) (filter (\<lambda>m. is_critical m = d) ms))" for d
    using lanes by (simp add: lanes_of_def)
  have other: "\<forall>t \<in> set (lane_texts (\<not> c) fs). \<not> ?P t"
  proof
    fix t assume "t \<in> set (lane_texts (\<not> c) fs)"
    then have "t \<in> set (map (text_of encode) (filter (\<lambda>m. is_critical m = (\<not> c)) ms))"
      using subseq_in [OF lane] by blast
    then obtain m where "m \<in> set ms" "is_critical m = (\<not> c)" "t = text_of encode m" by auto
    with P one show "\<not> ?P t" by auto
  qed
  have "subseq (filter ?P ts) (filter ?P (wire_texts fs))" using ts by (rule subseq_filter)
  also have "filter ?P (wire_texts fs) = filter ?P (lane_texts c fs)" using other by (rule wire_filter_lane)
  also have "subseq \<dots> (filter ?P (map (text_of encode) (filter (\<lambda>m. is_critical m = c) ms)))"
    using lane by (rule subseq_filter)
  also have "\<dots> = map (text_of encode) (filter (fp_message fp) (filter (\<lambda>m. is_critical m = c) ms))"
    unfolding filter_map using P by (intro arg_cong [of _ _ "map (text_of encode)"] filter_cong) auto
  also have "filter (fp_message fp) (filter (\<lambda>m. is_critical m = c) ms) = filter (fp_message fp) ms"
    using one by (induction ms) auto
  finally have "subseq (List.map_filter parse (filter ?P ts))
      (List.map_filter parse (map (text_of encode) (filter (fp_message fp) ms)))" by (rule subseq_map_filter)
  moreover have "List.map_filter parse (map (text_of encode) xs) = map into_envelope xs" if "set xs \<subseteq> set ms" for xs
    using that parse by (induction xs) (auto simp: map_filter_simps)
  ultimately show ?thesis by (simp add: map_filter_filter)
qed

section \<open>Properties\<close>

lemma alerts_of_subseq: "subseq es fs \<Longrightarrow> subseq (alerts_of es) (alerts_of fs)"
proof (induction rule: list_emb.induct)
  case (list_emb_Cons es fs f)
  then show ?case by (cases f) auto
next
  case (list_emb_Cons2 e f es fs)
  then show ?case by (cases f) auto
qed simp

lemma alerts_of_messages:
  "alerts_of (map into_envelope (filter (fp_message fp) (map OAlert as))) = filter (\<lambda>a. al_fingerprint a = fp) as"
  by (induction as) (auto simp: fp_message_def)

text \<open>The newest alert of a fingerprint decides, at both ends.\<close>

lemma newest_decides:
  assumes sub: "F fp \<noteq> None \<Longrightarrow> subseq (filter (\<lambda>a. al_fingerprint a = fp) as) (filter (\<lambda>a. al_fingerprint a = fp) (rev h))"
    and sent: "\<forall>a \<in> set as. al_fingerprint a = fp \<longrightarrow> a \<in> set h"
    and dist: "distinct (filter (\<lambda>a. al_fingerprint a = fp) h)"
    and newest: "\<forall>a. find (\<lambda>a. al_fingerprint a = fp) h = Some a \<longrightarrow> a \<in> set as"
    and lane: "\<forall>a \<in> set h. alert_lane F a"
  shows "open_after fp (rev as) = open_after fp h"
proof (cases "filter (\<lambda>a. al_fingerprint a = fp) h")
  case Nil
  then have "filter (\<lambda>a. al_fingerprint a = fp) (rev as) = []" using sent by (auto simp: filter_empty_conv)
  with Nil show ?thesis by (simp add: open_after_none)
next
  case (Cons a older)
  then have f: "find (\<lambda>a. al_fingerprint a = fp) h = Some a" by (induction h) (auto split: if_splits)
  then have a: "a \<in> set as" "al_fingerprint a = fp" using newest by (auto simp: find_Some_iff)
  have "open_after fp h \<longleftrightarrow> al_state a = Firing"
    using open_after_last [of fp "rev h"] Cons by (simp add: rev_filter [symmetric])
  moreover have "open_after fp (rev as) \<longleftrightarrow> al_state a = Firing"
  proof (cases "F fp")
    case None
    have firing: "al_state b = Firing" if "b \<in> set h" "al_fingerprint b = fp" for b
      using lane that None by (auto simp: alert_lane_def)
    have "a \<in> set (filter (\<lambda>a. al_fingerprint a = fp) h)" by (simp add: Cons)
    then have "a \<in> set h" by simp
    moreover have "open_after fp (rev as)"
      using firing sent a by (subst open_after_firing) auto
    ultimately show ?thesis using firing a(2) by simp
  next
    case (Some sev)
    have "last (filter (\<lambda>a. al_fingerprint a = fp) as) = a"
      using last_of_subseq [OF sub] Some dist Cons a by (simp add: rev_filter [symmetric])
    moreover have "filter (\<lambda>a. al_fingerprint a = fp) as \<noteq> []" using a by (auto simp: filter_empty_conv)
    ultimately show ?thesis by (simp add: open_after_last)
  qed
  ultimately show ?thesis by simp
qed

lemma fp_one_lane:
  assumes own: "filter (fp_message fp) ms = filter (fp_message fp) (map OAlert (rev h))"
    and lane: "\<forall>a \<in> set h. alert_lane F a" and "F fp = Some sev" and "x \<in> set ms" and "fp_message fp x"
  shows "is_critical x = (sev = Critical)"
proof -
  have "x \<in> set (filter (fp_message fp) (map OAlert (rev h)))"
    using assms(4,5) unfolding own [symmetric] by simp
  then obtain a where a: "a \<in> set h" "x = OAlert a" "al_fingerprint a = fp" by (auto simp: fp_message_def)
  from bspec [OF lane a(1)] a(3) assms(3) show ?thesis by (auto simp: a(2) is_critical_def alert_lane_def)
qed

text \<open>With any encoding that the collector decodes.\<close>

lemma newest_delivered:
  assumes sends: "agent_sends feature env cfg host vendor r ms" and "\<not> agent_maintenance feature cfg"
    and "no_sep (ho_machine_id host)" and "plain_rules cfg" and "no_sep cat" and "sole_module cfg cat m"
    and fp: "fp = fingerprint_of (ho_machine_id host) cat dev metric"
    and reach: "transport_reach encode mn mx t"
    and crit: "subseq (tp_in_critical t) (filter is_critical ms)"
    and norm: "subseq (tp_in_normal t) (filter (\<lambda>x. \<not> is_critical x) ms)"
    and conns: "list_all2 (\<lambda>(now, ts) w. prefix ts (wire_texts w)) conns (tp_wires t)"
    and parse: "\<forall>x \<in> set ms. parse (text_of encode x) = Some (into_envelope x)"
    and dist: "distinct (filter (\<lambda>a. al_fingerprint a = fp) (map snd (em_hist (module_emitter env cfg host vendor r m))))"
    and newest: "\<forall>a. find (\<lambda>a. al_fingerprint a = fp) (map snd (em_hist (module_emitter env cfg host vendor r m))) = Some a
      \<longrightarrow> EAlert a \<in> set (arrived parse conns)"
    and "\<not> host_in_maintenance (ho_machine_id host) (cn_app conn)" and "map_of (ap_firing (cn_app conn)) fp = None"
  shows "map_of (ap_firing (cn_app (serve_connections parse try_send
            (map (\<lambda>(now, ts). (now, map MText ts)) conns) conn))) fp \<noteq> None
    \<longleftrightarrow> tr_inner (em_tracker (module_emitter env cfg host vendor r m)) fp \<noteq> None"
proof -
  let ?h = "map snd (em_hist (module_emitter env cfg host vendor r m))"
  let ?ts = "concat (map snd conns)"
  let ?es = "arrived parse conns"
  have lanes: "lanes_of encode (concat (tp_wires t)) ms" using transport_lanes [OF reach crit norm] .
  have sub: "subseq ?ts (wire_texts (concat (tp_wires t)))" using conns by (rule arrived_subseq)
  have es: "\<exists>x \<in> set ms. e = into_envelope x" if "e \<in> set ?es" for e
    using arrived_sent [OF lanes sub parse] that by (simp add: arrived_texts)
  have alert: "OAlert a \<in> set ms" if "EAlert a \<in> set ?es" for a
  proof -
    from es [OF that] obtain x where x: "x \<in> set ms" "EAlert a = into_envelope x" by blast
    have "x = OAlert a" using x(2) by (cases x) simp_all
    with x(1) show ?thesis by simp
  qed
  note own = sent_fp [OF sends assms(3-6) fp]
  have lane: "\<forall>a \<in> set ?h. alert_lane (module_lane m) a" using module_alert_lane by auto
  have o: "open_after fp (rev (alerts_of ?es)) = open_after fp ?h"
  proof (rule newest_decides [OF _ _ dist _ lane])
    assume "module_lane m fp \<noteq> None"
    then obtain sev where sev: "module_lane m fp = Some sev" by blast
    have "\<forall>x \<in> set ms. fp_message fp x \<longrightarrow> is_critical x = (sev = Critical)"
      using fp_one_lane [OF own lane sev] by blast
    from alerts_of_subseq [OF arrived_fp [OF lanes sub parse this]]
    show "subseq (filter (\<lambda>a. al_fingerprint a = fp) (alerts_of ?es)) (filter (\<lambda>a. al_fingerprint a = fp) (rev ?h))"
      unfolding own alerts_of_messages alerts_of_fp arrived_texts .
  next
    show "\<forall>a \<in> set (alerts_of ?es). al_fingerprint a = fp \<longrightarrow> a \<in> set ?h"
    proof (intro ballI impI)
      fix a assume "a \<in> set (alerts_of ?es)" "al_fingerprint a = fp"
      then have "OAlert a \<in> set (filter (fp_message fp) ms)" using alert alerts_of_set by (simp add: fp_message_def)
      then show "a \<in> set ?h" unfolding own by auto
    qed
  next
    show "\<forall>a. find (\<lambda>a. al_fingerprint a = fp) ?h = Some a \<longrightarrow> a \<in> set (alerts_of ?es)"
      using newest alert_in_alerts_of by blast
  qed
  let ?ms = "map (\<lambda>(now, ts). (now, map MText ts)) conns"
  have all: "concat (map (\<lambda>(now, ms). received parse ms) ?ms) = ?es"
    by (simp add: arrived_def case_prod_unfold comp_def)
  have sub_es: "set (received parse (map MText ts)) \<subseteq> set ?es" if "(now, ts) \<in> set conns" for now ts
    using that by (auto simp: arrived_def)
  have watch: "keeps_watch (ho_machine_id host) e" if "e \<in> set ?es" for e
  proof -
    from es [OF that] obtain x where x: "x \<in> set ms" "e = into_envelope x" by blast
    show ?thesis by (rule sent_keeps_watch [OF sends assms(2) x(1), folded x(2)])
  qed
  have hosts: "al_host_id a = ho_machine_id host" if "a \<in> set (alerts_of ?es)" for a
    using sent_host [OF sends alert] that alerts_of_set by blast
  have "map_of (ap_firing (cn_app (serve_connections parse try_send ?ms conn))) fp \<noteq> None
      \<longleftrightarrow> open_after fp (rev (alerts_of (concat (map (\<lambda>(now, ms). received parse ms) ?ms))) @ [])"
  proof (rule firing_after_connections)
    show "\<forall>(now, ms) \<in> set ?ms. \<forall>e \<in> set (received parse ms). keeps_watch (ho_machine_id host) e"
      using sub_es watch by fastforce
    show "\<forall>(now, ms) \<in> set ?ms. \<forall>a \<in> set (alerts_of (received parse ms)). al_host_id a = ho_machine_id host"
      using sub_es hosts alerts_of_set alert_in_alerts_of by fastforce
  qed (use assms(15,16) in simp_all)
  then show ?thesis unfolding all o [symmetric] module_open by simp
qed

text \<open>C7. The collector agrees with the agent in the end, whatever was lost on the way. Take any run of
  the whole agent, not in maintenance, bounded queues that refuse some of its messages, and any run
  of the transport over any number of connections that fail at any point; let each connection
  deliver some initial part of what was written to it. If the newest alert of a fingerprint that
  the module sent did arrive on one of the connections, then the fingerprint is in the collector's
  firing map after these connections exactly when the module's tracker has the condition open
  (provided that it was not firing before, that the host is not in maintenance there, that the
  fingerprint's category belongs to one module and that its alerts are distinct, as unique ids make
  them). All older alerts may be lost, and neither lanes nor reconnects bring an older alert after
  the newest one. The messages travel in the JSON form of the wire format; of the libraries it is
  used that serde's and chrono's texts can be read back.\<close>

theorem newest_alert_wins:
  assumes sends: "agent_sends feature env cfg host vendor r ms" and off: "\<not> agent_maintenance feature cfg"
    and cats: "no_sep (ho_machine_id host)" "plain_rules cfg" "no_sep cat" "sole_module cfg cat m"
    and fp: "fp = fingerprint_of (ho_machine_id host) cat dev metric"
    and reach: "transport_reach (wire_encode print_json show_ts) mn mx t"
    and queued: "subseq (tp_in_critical t) (filter is_critical ms)"
      "subseq (tp_in_normal t) (filter (\<lambda>x. \<not> is_critical x) ms)"
    and conns: "list_all2 (\<lambda>(now, ts) w. prefix ts (wire_texts w)) conns (tp_wires t)"
    and tags: "finite (dom (ac_tags cfg))"
    and chrono: "chrono_law show_ts parse_ts T" "(\<Union>x \<in> set ms. envelope_times (into_envelope x)) \<subseteq> T"
    and serde: "text_law print_json read_json ((\<lambda>x. envelope_to_json show_ts (into_envelope x)) ` set ms)"
    and dist: "distinct (filter (\<lambda>a. al_fingerprint a = fp) (map snd (em_hist (module_emitter env cfg host vendor r m))))"
    and newest: "\<forall>a. find (\<lambda>a. al_fingerprint a = fp) (map snd (em_hist (module_emitter env cfg host vendor r m))) = Some a
      \<longrightarrow> EAlert a \<in> set (arrived (wire_decode read_json parse_ts) conns)"
    and start: "\<not> host_in_maintenance (ho_machine_id host) (cn_app conn)" "map_of (ap_firing (cn_app conn)) fp = None"
  shows "map_of (ap_firing (cn_app (serve_connections (wire_decode read_json parse_ts) try_send
            (map (\<lambda>(now, ts). (now, map MText ts)) conns) conn))) fp \<noteq> None
    \<longleftrightarrow> tr_inner (em_tracker (module_emitter env cfg host vendor r m)) fp \<noteq> None"
  using newest_delivered [OF sends off cats fp reach queued conns sent_texts [OF sends tags chrono serde] dist newest start] .

text \<open>The agent of \<open>End_To_End\<close> whose hello is lost with the first connection and whose alert arrives
  on the second.\<close>

definition sample_hello :: outbound where
  "sample_hello = OHello (make_hello sample_agent_host sample_vendor default_fallback
     (agent_maintenance False default_fallback) 0)"

definition lost_hello :: transport where
  "lost_hello =
     \<lparr>tp_phase = Pumping, tp_critical = [], tp_normal = [], tp_backoff_ms = 250,
      tp_wires = [[], [FText ''a'' False]], tp_slept = [250], tp_in_critical = [],
      tp_in_normal = [sample_hello, OAlert sample_alert]\<rparr>"

lemma reach_lost_hello: "transport_reach sample_encode 250 8000 lost_hello"
proof -
  let ?t1 = "(transport_new 250)\<lparr>tp_normal := [sample_hello], tp_in_normal := [sample_hello]\<rparr>"
  let ?t2 = "?t1\<lparr>tp_phase := Pumping, tp_wires := [[]]\<rparr>"
  let ?t3 = "?t2\<lparr>tp_phase := Sleeping, tp_normal := []\<rparr>"
  let ?t4 = "?t3\<lparr>tp_phase := Connecting, tp_slept := [250], tp_backoff_ms := 500\<rparr>"
  let ?t5 = "?t4\<lparr>tp_normal := [OAlert sample_alert], tp_in_normal := [sample_hello, OAlert sample_alert]\<rparr>"
  let ?t6 = "?t5\<lparr>tp_phase := Pumping, tp_backoff_ms := 250, tp_wires := [[], []]\<rparr>"
  have ok: "from_utf8 ''h'' = Some ''h''" "from_utf8 ''a'' = Some ''a''" by (simp_all add: std_defs)
  have "transport_step sample_encode 250 8000 (transport_new 250) ?t1"
    using arrive_normal [of sample_encode 250 8000 "transport_new 250" sample_hello] by (simp add: transport_new_def)
  moreover have "transport_step sample_encode 250 8000 ?t1 ?t2"
    using connected [of ?t1 sample_encode 250 8000] by (simp add: transport_new_def)
  moreover have "transport_step sample_encode 250 8000 ?t2 ?t3"
    using pump_round [of ?t2 broken_round sample_encode "Some SendErr"
        "\<lparr>pm_normal = [], pm_critical = [], pm_wire = []\<rparr>" 250 8000] ok
    by (simp add: transport_new_def transport_pump_def pump_round_def broken_round_def quiet_def ship_def pumped_def
        sample_hello_def)
  moreover have "transport_step sample_encode 250 8000 ?t3 ?t4"
    using slept [of ?t3 sample_encode 250 8000] by (simp add: transport_new_def saturating_mul_def)
  moreover have "transport_step sample_encode 250 8000 ?t4 ?t5"
    using arrive_normal [of sample_encode 250 8000 ?t4 "OAlert sample_alert"] by (simp add: transport_new_def)
  moreover have "transport_step sample_encode 250 8000 ?t5 ?t6"
    using connected [of ?t5 sample_encode 250 8000] by (simp add: transport_new_def)
  moreover have "transport_step sample_encode 250 8000 ?t6 lost_hello"
    using pump_round [of ?t6 quiet sample_encode None
        "\<lparr>pm_normal = [], pm_critical = [], pm_wire = [FText ''a'' False]\<rparr>" 250 8000] ok
    by (simp add: transport_new_def transport_pump_def pump_round_def quiet_def ship_def pumped_def lost_hello_def)
  ultimately show ?thesis by (meson transport_reach.intros)
qed

lemma sample_arrived: "sample_parse ''a'' = Some (EAlert sample_alert)"
proof -
  have "OAlert sample_alert \<in> set sample_sent" by (simp add: sample_sent_def)
  with sent_texts [OF sample_sends sample_tags sample_chrono sample_times sample_serde] show ?thesis
    by (force simp: text_of_def)
qed

theorem newest_alert_wins_witness:
  "map_of (ap_firing (cn_app (serve_connections sample_parse sample_send [(0, []), (5, [MText ''a''])]
     (conn_of None (collector_new 10 0))))) (al_fingerprint sample_alert) \<noteq> None"
proof -
  have off: "\<not> agent_maintenance False default_fallback" by (simp add: agent_maintenance_def)
  have hist: "em_hist (sample_emitter Lifecycle) = [(0, sample_alert)]"
    by (simp add: sample_lifecycle_hist sample_alert_def sample_metric_def)
  have lanes: "subseq (tp_in_critical lost_hello) (filter is_critical sample_sent)"
    "subseq (tp_in_normal lost_hello) (filter (\<lambda>x. \<not> is_critical x) sample_sent)"
    using sample_not_critical by (simp_all add: lost_hello_def filter_True sample_sent_def sample_hello_def)
  have conns: "list_all2 (\<lambda>(now, ts) w. prefix ts (wire_texts w)) [(0, []), (5, [''a''])] (tp_wires lost_hello)"
    by (simp add: lost_hello_def)
  have start: "\<not> host_in_maintenance (ho_machine_id sample_agent_host) (cn_app (conn_of None (collector_new 10 (0::nat))))"
    "map_of (ap_firing (cn_app (conn_of None (collector_new 10 (0::nat))))) (al_fingerprint sample_alert) = None"
    by (simp_all add: conn_of_def collector_new_def app_new_def host_in_maintenance_def)
  have "distinct (filter (\<lambda>a. al_fingerprint a = al_fingerprint sample_alert) (map snd (em_hist (sample_emitter Lifecycle))))"
    "\<forall>a. find (\<lambda>a. al_fingerprint a = al_fingerprint sample_alert) (map snd (em_hist (sample_emitter Lifecycle))) = Some a
      \<longrightarrow> EAlert a \<in> set (arrived sample_parse [(0, []), (5, [''a''])])"
    by (simp_all add: hist arrived_def sample_arrived)
  note mirror = newest_alert_wins [OF sample_sends off sample_config sample_fp reach_lost_hello lanes conns sample_tags
      sample_chrono sample_times sample_serde this start, of sample_send, unfolded list.map prod.case]
  have "tr_inner (em_tracker (sample_emitter Lifecycle)) (al_fingerprint sample_alert) \<noteq> None"
    unfolding module_open by (simp add: hist) (simp add: sample_alert_def build_firing_def)
  then show ?thesis by (rule mirror [THEN iffD2])
qed

end
