(* ===== verification/Coll_Subscribe.thy ===== *)
theory Coll_Subscribe
  imports Coll_System Broadcast
begin

text \<open>
  \<open>collector/src/ws_subscribe.rs\<close>: the task of one browser, over what the \<open>select!\<close> of its loop gets
  (the receiver of the broadcast channel, or the browser's side of the socket) and whether a send
  works. \<open>encode\<close> is serde's. \<open>Coll_System\<close> has the same browser as steps between those of all other
  tasks; here it is shown that the task does no other steps.
\<close>

datatype client_frame = CClose | CEnd | COther | CErr

datatype sub_event = Feed "envelope bus_recv" bool | Peer client_frame

datatype sub_end = StillOpen | SnapshotFailed | SendFailed | LagDropped nat | FeedClosed | PeerGone | PeerErr

text \<open>An envelope that cannot be serialised is skipped; a lag ends the task.\<close>

fun subscribe_loop :: "(envelope \<Rightarrow> string option) \<Rightarrow> sub_event list \<Rightarrow> string list \<Rightarrow> string list \<times> sub_end" where
  "subscribe_loop encode [] out = (out, StillOpen)"
| "subscribe_loop encode (Feed (BGot env) send_ok # es) out =
     (case encode env of
        Some s \<Rightarrow> if send_ok then subscribe_loop encode es (out @ [s]) else (out, SendFailed)
      | None \<Rightarrow> subscribe_loop encode es out)"
| "subscribe_loop encode (Feed (BLagged n) send_ok # es) out = (out, LagDropped n)"
| "subscribe_loop encode (Feed BClosed send_ok # es) out = (out, FeedClosed)"
| "subscribe_loop encode (Peer CClose # es) out = (out, PeerGone)"
| "subscribe_loop encode (Peer CEnd # es) out = (out, PeerGone)"
| "subscribe_loop encode (Peer COther # es) out = subscribe_loop encode es out"
| "subscribe_loop encode (Peer CErr # es) out = (out, PeerErr)"

definition subscribe_socket ::
  "(envelope \<Rightarrow> string option) \<Rightarrow> snapshot \<Rightarrow> bool \<Rightarrow> sub_event list \<Rightarrow> string list \<times> sub_end" where
  "subscribe_socket encode snap send_ok es =
     (case encode (ESnapshot snap) of
        None \<Rightarrow> ([], SnapshotFailed)
      | Some initial \<Rightarrow> if \<not> send_ok then ([], SendFailed) else subscribe_loop encode es [initial])"

text \<open>What the receiver gave, in order.\<close>

definition feed_of :: "sub_event list \<Rightarrow> envelope bus_recv list" where
  "feed_of es = [r. Feed r ok \<leftarrow> es]"

lemma feed_of_simps [simp]:
  "feed_of [] = []" "feed_of (Feed r ok # es) = r # feed_of es" "feed_of (Peer f # es) = feed_of es"
  by (simp_all add: feed_of_def)

lemma subscribe_loop_contiguous:
  assumes "bus_feed xs (feed_of es)" and "\<forall>e \<in> set xs. encode e = Some (tx e)"
  shows "\<exists>n \<le> length xs. fst (subscribe_loop encode es out) = out @ map tx (take n xs)"
  using assms
proof (induction encode es out arbitrary: xs rule: subscribe_loop.induct)
  case (2 encode env send_ok es out)
  then obtain ys where xs: "xs = env # ys" "bus_feed ys (feed_of es)" by (cases xs) auto
  show ?case
  proof (cases send_ok)
    case True
    with 2(2) [OF _ True xs(2)] xs 2(4) obtain n where
      "n \<le> length ys" "fst (subscribe_loop encode es (out @ [tx env])) = (out @ [tx env]) @ map tx (take n ys)"
      by auto
    with True xs 2(4) show ?thesis by (intro exI [of _ "Suc n"]) simp
  next
    case False
    with xs 2(4) show ?thesis by (intro exI [of _ 0]) simp
  qed
qed (auto intro: exI [of _ 0])

text \<open>The browser of \<open>Coll_System\<close> after receiving some messages.\<close>

lemma client_recv_view:
  "cl_pos c + n \<le> length (ap_fanout s) \<Longrightarrow>
     cl_view ((client_recv s ^^ n) c) = fold gui_handle (take n (drop (cl_pos c) (ap_fanout s))) (cl_view c)
     \<and> cl_pos ((client_recv s ^^ n) c) = cl_pos c + n"
proof (induction n)
  case (Suc n)
  then have "take (Suc n) (drop (cl_pos c) (ap_fanout s))
      = take n (drop (cl_pos c) (ap_fanout s)) @ [ap_fanout s ! (cl_pos c + n)]"
    by (simp add: take_Suc_conv_app_nth)
  with Suc show ?case by (simp add: client_recv_def)
qed simp


section \<open>Properties\<close>

text \<open>C13. A browser never misses an update without being disconnected. Take a browser whose task has
  sent the snapshot and subscribed, as in the whole system, and let the broadcasts since then reach
  it over a channel that may lag, with anything the browser sends in between and sends that may
  fail. Then, however the task goes on or ends, what it has sent are the texts of the snapshot and
  of an unbroken initial part of these broadcasts, and a browser that reads these texts shows what
  the browser of the whole system shows after as many receive steps.\<close>

theorem subscription_gapless:
  assumes "c = client_subscribe s0 (client_new num_seconds now s1)"
    and "ap_fanout s = ap_fanout s0 @ xs" and "bus_feed xs (feed_of es)"
    and enc: "\<forall>e \<in> insert (ESnapshot (app_snapshot num_seconds now s1)) (set xs).
      encode e = Some (tx e) \<and> decode (tx e) = Some e"
    and "subscribe_socket encode (app_snapshot num_seconds now s1) True es = (ts, r)"
  shows "\<exists>n \<le> length xs. ts = tx (ESnapshot (app_snapshot num_seconds now s1)) # map tx (take n xs)
    \<and> fold gui_handle (List.map_filter decode ts) gui_empty = cl_view ((client_recv s ^^ n) c)"
proof -
  let ?sn = "ESnapshot (app_snapshot num_seconds now s1)"
  have "fst (subscribe_loop encode es [tx ?sn]) = ts"
    using assms(5) enc by (simp add: subscribe_socket_def)
  then obtain n where n: "n \<le> length xs" "ts = tx ?sn # map tx (take n xs)"
    using subscribe_loop_contiguous [OF assms(3), of encode tx "[tx ?sn]"] enc by auto
  have "List.map_filter decode (map tx ys) = ys" if "set ys \<subseteq> set xs" for ys
    using that enc by (induction ys) (auto simp: map_filter_simps)
  then have "List.map_filter decode ts = ?sn # take n xs"
    using enc set_take_subset [of n xs] by (simp add: n(2) map_filter_simps)
  moreover have "cl_view ((client_recv s ^^ n) c) = fold gui_handle (take n xs) (cl_view c)"
    using client_recv_view [of c n s] n(1) by (simp add: assms(1,2) client_subscribe_def)
  ultimately show ?thesis using n by (intro exI [of _ n]) (simp add: assms(1) client_subscribe_def client_new_def)
qed

text \<open>A browser that gets one heartbeat and then lags.\<close>

definition sample_beat :: envelope where
  "sample_beat = EHeartbeat \<lparr>hb_host = ''node1'', hb_host_id = ''4f2a'', hb_ts = 0, hb_uptime_s = 5, hb_firing_count = 0,
     hb_agent_version = []\<rparr>"

definition sample_status :: envelope where
  "sample_status = EHostStatus \<lparr>hs_host = ''node1'', hs_host_id = ''4f2a'', hs_online = True, hs_last_seen = 0,
     hs_firing_count = 0\<rparr>"

definition lag_events :: "sub_event list" where
  "lag_events = [Peer COther, Feed (BGot sample_beat) True, Feed (BLagged 1) True]"

definition tiny_text :: "envelope \<Rightarrow> string" where
  "tiny_text e = (case e of ESnapshot _ \<Rightarrow> ''s'' | EHeartbeat _ \<Rightarrow> ''b'' | _ \<Rightarrow> ''h'')"

definition tiny_decode :: "string \<Rightarrow> envelope option" where
  "tiny_decode t =
     (if t = ''s'' then Some (ESnapshot (app_snapshot id 0 (app_new 10)))
      else if t = ''b'' then Some sample_beat else if t = ''h'' then Some sample_status else None)"

theorem subscription_gapless_witness:
  "\<exists>n \<le> 2. subscribe_socket (\<lambda>e. Some (tiny_text e)) (app_snapshot id 0 (app_new 10)) True lag_events = ([''s'', ''b''], LagDropped 1)
     \<and> [''s'', ''b''] = ''s'' # map tiny_text (take n [sample_beat, sample_status])"
proof -
  let ?s = "(app_new 10)\<lparr>ap_fanout := [sample_beat, sample_status]\<rparr>"
  have run: "subscribe_socket (\<lambda>e. Some (tiny_text e)) (app_snapshot id 0 (app_new 10)) True lag_events
      = ([''s'', ''b''], LagDropped 1)"
    by (simp add: subscribe_socket_def lag_events_def tiny_text_def sample_beat_def)
  have feed: "bus_feed [sample_beat, sample_status] (feed_of lag_events)" by (simp add: lag_events_def)
  have enc: "\<forall>e \<in> insert (ESnapshot (app_snapshot id 0 (app_new 10))) (set [sample_beat, sample_status]).
      Some (tiny_text e) = Some (tiny_text e) \<and> tiny_decode (tiny_text e) = Some e"
    by (simp add: tiny_text_def tiny_decode_def sample_beat_def sample_status_def)
  have fan: "ap_fanout ?s = ap_fanout (app_new 10) @ [sample_beat, sample_status]" by (simp add: app_new_def)
  from subscription_gapless [OF refl fan feed enc run] obtain n where n: "n \<le> length [sample_beat, sample_status]"
    "[''s'', ''b''] = tiny_text (ESnapshot (app_snapshot id 0 (app_new 10))) # map tiny_text (take n [sample_beat, sample_status])"
    by (elim exE conjE)
  have "tiny_text (ESnapshot (app_snapshot id 0 (app_new 10))) = ''s''" by (simp add: tiny_text_def)
  with n run show ?thesis by (intro exI [of _ n] conjI) (simp_all only: list.size One_nat_def add_0 add_Suc numeral_2_eq_2)
qed

end
