(* ===== verification/Gui_Page.thy ===== *)
theory Gui_Page
  imports Coll_Feed
begin

text \<open>
  The rest of what \<open>gui/app.js\<close> keeps besides the two tables of \<open>Coll_Feed\<close>: the history list, and the
  desktop notifications with the set of fingerprints it has notified about. \<open>gui_page\<close> extends
  \<open>gui_view\<close>; an event is a message, the timer that a snapshot starts, or the answer to the request
  for the history. \<open>pg_shown\<close> is what was shown, newest first. Rendering is left out.

  \<open>handle\<close> puts the message into the history before it merges the first-seen time and the count of a
  repeated alert into the same object, so the history has the merged alert too.
\<close>

record gui_page = gui_view +
  pg_history :: "alert list"
  pg_notified :: "string set"
  pg_initial_load_done :: bool
  pg_shown :: "alert list"

record notify_settings =
  nt_enabled :: bool
  nt_severity :: string
  nt_granted :: bool

definition HISTORY_CAP :: nat where "HISTORY_CAP = 5000"

definition page_new :: gui_page where
  "page_new = \<lparr>gv_alerts = Map.empty, gv_hosts = Map.empty, pg_history = [], pg_notified = {},
     pg_initial_load_done = False, pg_shown = []\<rparr>"

definition push_history :: "alert \<Rightarrow> alert list \<Rightarrow> alert list" where
  "push_history a h = take HISTORY_CAP (a # h)"

definition should_notify :: "notify_settings \<Rightarrow> alert \<Rightarrow> gui_page \<Rightarrow> bool" where
  "should_notify n a p \<longleftrightarrow>
     nt_enabled n \<and> al_state a = Firing \<and> al_fingerprint a \<notin> pg_notified p
     \<and> (nt_severity n = ''critical'' \<longrightarrow> al_severity a = Critical)
     \<and> (nt_severity n = ''warning'' \<longrightarrow> al_severity a \<in> {Critical, Warning})
     \<and> pg_initial_load_done p"

text \<open>\<open>nt_granted\<close>: the browser has notifications and permits them. Without it the fingerprint is not
  remembered either.\<close>

definition show_notification :: "notify_settings \<Rightarrow> alert \<Rightarrow> gui_page \<Rightarrow> gui_page" where
  "show_notification n a p =
     (if \<not> nt_granted n then p
      else p\<lparr>pg_shown := a # pg_shown p, pg_notified := insert (al_fingerprint a) (pg_notified p)\<rparr>)"

definition page_alert :: "notify_settings \<Rightarrow> alert \<Rightarrow> gui_page \<Rightarrow> gui_page" where
  "page_alert n a p =
     (case al_state a of
        Resolved \<Rightarrow>
          p\<lparr>pg_history := push_history a (pg_history p), gv_alerts := (gv_alerts p)(al_fingerprint a := None),
            pg_notified := pg_notified p - {al_fingerprint a}\<rparr>
      | Firing \<Rightarrow>
          (let a1 = (case gv_alerts p (al_fingerprint a) of
               None \<Rightarrow> a
             | Some e \<Rightarrow> a\<lparr>al_first_seen := al_first_seen e,
                 al_occurrences := max (or_one (al_occurrences a)) (or_one (al_occurrences e))\<rparr>);
               p1 = p\<lparr>pg_history := push_history a1 (pg_history p), gv_alerts := (gv_alerts p)(al_fingerprint a \<mapsto> a1)\<rparr>
           in if should_notify n a1 p1 then show_notification n a1 p1 else p1))"

definition page_snapshot :: "snapshot \<Rightarrow> gui_page \<Rightarrow> gui_page" where
  "page_snapshot sn p =
     p\<lparr>gv_alerts := gv_alerts (gui_snapshot sn), gv_hosts := gv_hosts (gui_snapshot sn), pg_history := [],
       pg_notified := pg_notified p \<union> al_fingerprint ` set (sn_alerts sn)\<rparr>"

text \<open>The other messages only concern the host table.\<close>

definition page_hosts :: "(gui_view \<Rightarrow> gui_view) \<Rightarrow> gui_page \<Rightarrow> gui_page" where
  "page_hosts f p = p\<lparr>gv_hosts := gv_hosts (f (gui_view.truncate p))\<rparr>"

primrec page_handle :: "notify_settings \<Rightarrow> envelope \<Rightarrow> gui_page \<Rightarrow> gui_page" where
  "page_handle n (ESnapshot sn) p = page_snapshot sn p"
| "page_handle n (EAlert a) p = page_alert n a p"
| "page_handle n (EHeartbeat hb) p = page_hosts (gui_heartbeat hb) p"
| "page_handle n (EHostStatus st) p = page_hosts (gui_host_status st) p"
| "page_handle n (EHello hl) p = page_hosts (gui_hello hl) p"

datatype page_event = PMessage envelope | PLoaded | PHistory "alert list option"

text \<open>The timer of a snapshot, and the answer of \<open>/api/alerts\<close> (None when the request fails).\<close>

primrec page_step :: "notify_settings \<Rightarrow> page_event \<Rightarrow> gui_page \<Rightarrow> gui_page" where
  "page_step n (PMessage env) p = page_handle n env p"
| "page_step n PLoaded p = p\<lparr>pg_initial_load_done := True\<rparr>"
| "page_step n (PHistory r) p = (case r of None \<Rightarrow> p | Some h \<Rightarrow> p\<lparr>pg_history := h\<rparr>)"


section \<open>The tables are those of the browser model\<close>

lemma page_alert_view: "gui_view.truncate (page_alert n a p) = gui_alert a (gui_view.truncate p)"
  by (simp add: page_alert_def gui_alert_def show_notification_def Let_def gui_view.defs split: alert_state.splits)

lemma page_handle_view: "gui_view.truncate (page_handle n env p) = gui_handle env (gui_view.truncate p)"
proof (cases env)
  case (EAlert a)
  then show ?thesis by (simp add: page_alert_view)
qed (simp_all add: page_snapshot_def page_hosts_def gui_view.defs gui_snapshot_def gui_heartbeat_def gui_host_status_def
       gui_hello_def Let_def)

text \<open>What an agent's heartbeat does to the count that the page shows for a host.\<close>

lemma heartbeat_sets_count:
  "\<exists>h. gv_hosts (gui_heartbeat hb v) (hb_host_id hb) = Some h \<and> hst_firing_count h = hb_firing_count hb"
  by (simp add: gui_heartbeat_def Let_def)


section \<open>Properties\<close>

definition resolves_fp :: "string \<Rightarrow> page_event \<Rightarrow> bool" where
  "resolves_fp fp ev \<longleftrightarrow> (\<exists>a. ev = PMessage (EAlert a) \<and> al_fingerprint a = fp \<and> al_state a = Resolved)"

lemma notified_step:
  assumes "fp \<in> pg_notified p" and "\<not> resolves_fp fp ev"
  shows "fp \<in> pg_notified (page_step n ev p)"
    and "filter (\<lambda>a. al_fingerprint a = fp) (pg_shown (page_step n ev p)) = filter (\<lambda>a. al_fingerprint a = fp) (pg_shown p)"
proof -
  have alert: "fp \<in> pg_notified (page_alert n a p)
      \<and> filter (\<lambda>a. al_fingerprint a = fp) (pg_shown (page_alert n a p)) = filter (\<lambda>a. al_fingerprint a = fp) (pg_shown p)"
    if "\<not> (al_fingerprint a = fp \<and> al_state a = Resolved)" for a
    using assms(1) that
    by (auto simp: page_alert_def show_notification_def should_notify_def Let_def split: alert_state.splits option.splits)
  have "fp \<in> pg_notified (page_step n ev p)
      \<and> filter (\<lambda>a. al_fingerprint a = fp) (pg_shown (page_step n ev p)) = filter (\<lambda>a. al_fingerprint a = fp) (pg_shown p)"
  proof (cases ev)
    case (PMessage env)
    with assms alert show ?thesis
      by (cases env) (auto simp: resolves_fp_def page_snapshot_def page_hosts_def)
  qed (use assms(1) in \<open>auto split: option.splits\<close>)
  then show "fp \<in> pg_notified (page_step n ev p)"
    "filter (\<lambda>a. al_fingerprint a = fp) (pg_shown (page_step n ev p)) = filter (\<lambda>a. al_fingerprint a = fp) (pg_shown p)"
    by blast+
qed

text \<open>Settings may change at any time.\<close>

definition page_run :: "(notify_settings \<times> page_event) list \<Rightarrow> gui_page \<Rightarrow> gui_page" where
  "page_run evs p = fold (\<lambda>(n, ev). page_step n ev) evs p"

lemma first_notification:
  assumes "filter (\<lambda>a. al_fingerprint a = fp) (pg_shown p) = []"
  shows "filter (\<lambda>a. al_fingerprint a = fp) (pg_shown (page_step n ev p)) = []
    \<or> (\<exists>a. filter (\<lambda>a. al_fingerprint a = fp) (pg_shown (page_step n ev p)) = [a] \<and> fp \<in> pg_notified (page_step n ev p))"
proof -
  have alert: "filter (\<lambda>a. al_fingerprint a = fp) (pg_shown (page_alert n a p)) = []
    \<or> (\<exists>b. filter (\<lambda>a. al_fingerprint a = fp) (pg_shown (page_alert n a p)) = [b] \<and> fp \<in> pg_notified (page_alert n a p))" for a
    using assms by (auto simp: page_alert_def show_notification_def Let_def split: alert_state.splits option.splits)
  show ?thesis
  proof (cases ev)
    case (PMessage env)
    with assms alert show ?thesis by (cases env) (auto simp: page_snapshot_def page_hosts_def)
  qed (use assms in \<open>auto split: option.splits\<close>)
qed

lemma notified_run:
  assumes "filter (\<lambda>a. al_fingerprint a = fp) (pg_shown p) = []
      \<or> (\<exists>a. filter (\<lambda>a. al_fingerprint a = fp) (pg_shown p) = [a] \<and> fp \<in> pg_notified p)"
    and "\<forall>(n, ev) \<in> set evs. \<not> resolves_fp fp ev"
  shows "length (filter (\<lambda>a. al_fingerprint a = fp) (pg_shown (page_run evs p))) \<le> 1"
  using assms
proof (induction evs arbitrary: p)
  case (Cons x evs)
  obtain n ev where x: "x = (n, ev)" by force
  have "filter (\<lambda>a. al_fingerprint a = fp) (pg_shown (page_step n ev p)) = []
      \<or> (\<exists>a. filter (\<lambda>a. al_fingerprint a = fp) (pg_shown (page_step n ev p)) = [a] \<and> fp \<in> pg_notified (page_step n ev p))"
    using Cons.prems first_notification [of fp p n ev] notified_step [of fp p ev n] by (auto simp: x)
  from Cons.IH [OF this] Cons.prems(2) show ?case by (simp add: page_run_def x)
qed (auto simp: page_run_def)

lemma history_step_cap:
  "length (pg_history p) \<le> HISTORY_CAP \<Longrightarrow> (\<And>h. ev = PHistory (Some h) \<Longrightarrow> length h \<le> HISTORY_CAP) \<Longrightarrow>
     length (pg_history (page_step n ev p)) \<le> HISTORY_CAP"
proof (cases ev)
  case (PMessage env)
  then show "length (pg_history p) \<le> HISTORY_CAP \<Longrightarrow> ?thesis"
    by (cases env) (auto simp: page_alert_def show_notification_def push_history_def page_snapshot_def page_hosts_def
        Let_def split: alert_state.splits)
qed (auto split: option.splits)

lemma history_run_cap:
  assumes "length (pg_history p) \<le> HISTORY_CAP" and "\<forall>(n, ev) \<in> set evs. \<forall>h. ev = PHistory (Some h) \<longrightarrow> length h \<le> HISTORY_CAP"
  shows "length (pg_history (page_run evs p)) \<le> HISTORY_CAP"
  using assms
proof (induction evs arbitrary: p)
  case (Cons x evs)
  then have "length (pg_history (page_step (fst x) (snd x) p)) \<le> HISTORY_CAP"
    by (intro history_step_cap) (auto split: prod.splits)
  with Cons show ?case by (simp add: page_run_def case_prod_unfold)
qed (simp add: page_run_def)

text \<open>C26. A page notifies at most once about a condition until it is resolved: in any run of a new page,
  with settings that change at any time, reconnects (further snapshots) and any answers of the
  history request, as long as no resolved alert of a fingerprint arrives at most one notification
  with that fingerprint is shown; and with answers of at most 5000 alerts, the most the route
  gives, the history never has more than 5000 entries.\<close>

theorem notified_once:
  assumes "\<forall>(n, ev) \<in> set evs. \<not> resolves_fp fp ev \<and> (\<forall>h. ev = PHistory (Some h) \<longrightarrow> length h \<le> HISTORY_CAP)"
  shows "length (filter (\<lambda>a. al_fingerprint a = fp) (pg_shown (page_run evs page_new))) \<le> 1
    \<and> length (pg_history (page_run evs page_new)) \<le> HISTORY_CAP"
proof
  show "length (filter (\<lambda>a. al_fingerprint a = fp) (pg_shown (page_run evs page_new))) \<le> 1"
    using assms by (intro notified_run) (auto simp: page_new_def)
  show "length (pg_history (page_run evs page_new)) \<le> HISTORY_CAP"
    using assms by (intro history_run_cap) (auto simp: page_new_def)
qed

text \<open>A page that is told of a critical alert twice.\<close>

definition told_twice :: "(notify_settings \<times> page_event) list" where
  "told_twice =
     (let n = \<lparr>nt_enabled = True, nt_severity = ''critical'', nt_granted = True\<rparr>;
          a = build_firing 0 [] (builder_new ''node1'' ''4f2a'' NVME ''critical_warning'' Critical)
      in [(n, PLoaded), (n, PMessage (EAlert a)), (n, PMessage (EAlert a))])"

theorem notified_once_witness:
  "\<exists>fp. length (filter (\<lambda>a. al_fingerprint a = fp) (pg_shown (page_run told_twice page_new))) \<le> 1
     \<and> pg_shown (page_run told_twice page_new) \<noteq> []"
proof -
  let ?fp = "fingerprint (builder_new ''node1'' ''4f2a'' NVME ''critical_warning'' Critical)"
  have "\<forall>(n, ev) \<in> set told_twice. \<not> resolves_fp ?fp ev \<and> (\<forall>h. ev = PHistory (Some h) \<longrightarrow> length h \<le> HISTORY_CAP)"
    by (simp add: told_twice_def Let_def resolves_fp_def build_firing_def)
  moreover have "pg_shown (page_run told_twice page_new) \<noteq> []"
    by (simp add: told_twice_def Let_def page_run_def page_new_def page_alert_def should_notify_def show_notification_def
        build_firing_def builder_new_def)
  ultimately show ?thesis using notified_once [of told_twice ?fp] by blast
qed

end
