(* ===== verification/Gui_Views.thy ===== *)
theory Gui_Views
  imports Gui_Page Rust_Std "HOL-Library.Product_Lexorder" "HOL-Library.Multiset"
begin

text \<open>
  What the views of \<open>gui/app.js\<close> show of the page's state: the filters and the order of the alert
  list, the history rows, the state and the counters of the host map, the escaping of text that goes
  into markup, and the delay before a reconnect. Building the DOM nodes is left out.

  \<open>lower\<close> stands for JavaScript's \<open>toLowerCase\<close>. A JavaScript map lists its values in insertion order,
  which the tables of \<open>Coll_Feed\<close> do not keep, so the views take the listed values as an argument.
  A \<open>Date\<close> has milliseconds; \<open>datetime\<close> counts nanoseconds.
\<close>

record page_filters =
  filterText :: string
  showCritical :: bool
  showWarning :: bool
  showInfo :: bool
  histFilter :: string
  histShowFiring :: bool
  histShowResolved :: bool
  heatmapFilter :: string

definition initial_filters :: page_filters where
  "initial_filters = \<lparr>filterText = '''', showCritical = True, showWarning = True, showInfo = False,
     histFilter = '''', histShowFiring = True, histShowResolved = True, heatmapFilter = ''''\<rparr>"


section \<open>Text in markup\<close>

definition esc :: "string \<Rightarrow> string" where
  "esc s = replace (replace (replace (replace s ''&'' ''&amp;'') ''<'' ''&lt;'') ''>'' ''&gt;'') [CHR 0x22] ''&quot;''"

definition esc_char :: "char \<Rightarrow> string" where
  "esc_char c = (if c = CHR ''&'' then ''&amp;'' else if c = CHR ''<'' then ''&lt;''
     else if c = CHR ''>'' then ''&gt;'' else if c = CHR 0x22 then ''&quot;'' else [c])"

lemma replace_char: "replace s [p] r = concat (map (\<lambda>c. if c = p then r else [c]) s)"
  by (induction s) (auto simp: replace_def)

lemma replace_char_append: "replace (s @ t) [p] r = replace s [p] r @ replace t [p] r"
  by (simp add: replace_char)

lemma esc_append: "esc (s @ t) = esc s @ esc t"
  by (simp add: esc_def replace_char_append)

text \<open>The four passes do what one pass over the characters does: no pass touches what an earlier one
  wrote.\<close>

lemma esc_single: "esc [c] = esc_char c"
  by (simp add: esc_def esc_char_def replace_char)

lemma esc_one_pass: "esc s = concat (map esc_char s)"
proof (induction s)
  case Nil
  show ?case by (simp add: esc_def replace_char)
next
  case (Cons c s)
  with esc_append [of "[c]" s] show ?case by (simp add: esc_single)
qed

lemma esc_char_plain: "set (esc_char c) \<inter> {CHR ''<'', CHR ''>'', CHR 0x22} = {}"
  by (simp add: esc_char_def)

lemma esc_char_code: "esc_char c @ s = esc_char d @ t \<Longrightarrow> c = d \<and> s = t"
  by (simp add: esc_char_def split: if_splits)

lemma esc_char_some: "esc_char c \<noteq> []"
  by (simp add: esc_char_def)

lemma esc_inject: "esc s = esc t \<Longrightarrow> s = t"
proof (induction s arbitrary: t)
  case Nil
  then show ?case by (cases t) (simp_all add: esc_one_pass esc_char_some)
next
  case (Cons c s)
  then obtain d u where t: "t = d # u" by (cases t) (simp_all add: esc_one_pass esc_char_some)
  with Cons.prems have "esc_char c @ esc s = esc_char d @ esc u" by (simp add: esc_one_pass)
  with Cons.IH t show ?case by (blast dest: esc_char_code)
qed

text \<open>C27. Whatever an agent reports as a host name, a title or a message, the escaped text that the
  page puts into its markup has no angle bracket and no double quote, so it can neither open or close
  an element nor end a quoted attribute; and different texts stay different.\<close>

theorem escaped_text_is_inert:
  "set (esc s) \<inter> {CHR ''<'', CHR ''>'', CHR 0x22} = {} \<and> (esc s = esc t \<longleftrightarrow> s = t)"
  using esc_char_plain by (auto simp: esc_one_pass dest: esc_inject [unfolded esc_one_pass])


section \<open>Active alerts\<close>

definition host_ip :: "(string \<rightharpoonup> host_state) \<Rightarrow> string \<Rightarrow> string" where
  "host_ip hosts hid = (case hosts hid of None \<Rightarrow> '''' | Some h \<Rightarrow> hst_primary_ip h)"

definition alertIp :: "(string \<rightharpoonup> host_state) \<Rightarrow> alert \<Rightarrow> string" where
  "alertIp hosts a = (if al_primary_ip a \<noteq> '''' then al_primary_ip a else host_ip hosts (al_host_id a))"

definition passesAlert :: "(string \<Rightarrow> string) \<Rightarrow> page_filters \<Rightarrow> (string \<rightharpoonup> host_state) \<Rightarrow> alert \<Rightarrow> bool" where
  "passesAlert lower f hosts a \<longleftrightarrow>
     (filterText f \<noteq> '''' \<longrightarrow>
        contains (lower (join '' '' [al_host a, host_ip hosts (al_host_id a), al_title a, al_message a,
           al_fingerprint a, al_category a])) (lower (filterText f)))
     \<and> (case al_severity a of Critical \<Rightarrow> showCritical f | Warning \<Rightarrow> showWarning f | Info \<Rightarrow> showInfo f)"

text \<open>The table of ranks, and the expression that reads it: in JavaScript \<open>0 || 2\<close> is \<open>2\<close>.\<close>

primrec sevRank :: "severity \<Rightarrow> int" where
  "sevRank Critical = 0"
| "sevRank Warning = 1"
| "sevRank Info = 2"

definition rank_or_2 :: "severity \<Rightarrow> int" where
  "rank_or_2 s = (if sevRank s = 0 then 2 else sevRank s)"

definition js_ms :: "datetime \<Rightarrow> int" where
  "js_ms t = t div 1000000"

definition sortAlerts :: "alert \<Rightarrow> alert \<Rightarrow> int" where
  "sortAlerts a b =
     (let sr = rank_or_2 (al_severity a) - rank_or_2 (al_severity b)
      in if sr \<noteq> 0 then sr else js_ms (al_first_seen b) - js_ms (al_first_seen a))"

text \<open>\<open>Array.prototype.sort\<close> is stable; \<open>sort_order\<close> is the key that \<open>sortAlerts\<close> compares.\<close>

definition sort_order :: "alert \<Rightarrow> int \<times> int" where
  "sort_order a = (rank_or_2 (al_severity a), - js_ms (al_first_seen a))"

lemma sort_order_compares: "sort_order a \<le> sort_order b \<longleftrightarrow> sortAlerts a b \<le> 0"
  by (auto simp: sort_order_def sortAlerts_def Let_def)

definition visible_alerts ::
  "(string \<Rightarrow> string) \<Rightarrow> page_filters \<Rightarrow> (string \<rightharpoonup> host_state) \<Rightarrow> alert list \<Rightarrow> alert list" where
  "visible_alerts lower f hosts as = sort_key sort_order (filter (passesAlert lower f hosts) as)"

lemma visible_exactly: "mset (visible_alerts lower f hosts as) = mset (filter (passesAlert lower f hosts) as)"
  by (simp add: visible_alerts_def)

lemma visible_in_order:
  assumes "i < j" and "j < length (visible_alerts lower f hosts as)"
  shows "sortAlerts (visible_alerts lower f hosts as ! i) (visible_alerts lower f hosts as ! j) \<le> 0"
proof -
  have "sorted (map sort_order (visible_alerts lower f hosts as))" by (simp add: visible_alerts_def)
  with assms have "sort_order (visible_alerts lower f hosts as ! i) \<le> sort_order (visible_alerts lower f hosts as ! j)"
    using sorted_nth_mono [of "map sort_order (visible_alerts lower f hosts as)" i j] by simp
  then show ?thesis by (simp add: sort_order_compares)
qed

lemma warning_before: "sortAlerts a b \<le> 0 \<Longrightarrow> al_severity a \<noteq> Warning \<Longrightarrow> al_severity b \<noteq> Warning"
  by (cases "al_severity a") (auto simp: sortAlerts_def rank_or_2_def Let_def)

text \<open>C39. The list of active alerts is meant to start with the critical ones. The rank of a critical
  alert is 0, which the comparison replaces by the rank of an info alert: wherever the list shows a
  critical alert and a warning, the warning comes first. A critical alert is listed among the info
  alerts, by age alone.\<close>

theorem critical_listed_after_warnings:
  assumes "i < length (visible_alerts lower f hosts as)" and "j < length (visible_alerts lower f hosts as)"
    and "al_severity (visible_alerts lower f hosts as ! i) = Critical"
    and "al_severity (visible_alerts lower f hosts as ! j) = Warning"
  shows "j < i"
proof (rule ccontr)
  assume "\<not> j < i"
  moreover have "i \<noteq> j" using assms(3,4) by auto
  ultimately have "sortAlerts (visible_alerts lower f hosts as ! i) (visible_alerts lower f hosts as ! j) \<le> 0"
    using assms(2) by (intro visible_in_order) simp_all
  with warning_before assms(3,4) show False by fastforce
qed

definition sample_row :: "severity \<Rightarrow> string \<Rightarrow> alert" where
  "sample_row s fp = (build_firing 0 ''1'' (builder_new ''web1'' ''h'' NVME ''m'' s))
     \<lparr>al_primary_ip := ''10.0.0.7'', al_fingerprint := fp\<rparr>"

lemma sample_row_simps [simp]:
  "al_severity (sample_row s fp) = s" "al_first_seen (sample_row s fp) = 0" "al_primary_ip (sample_row s fp) = ''10.0.0.7''"
  by (simp_all add: sample_row_def build_firing_def builder_new_def Let_def)

lemma sample_visible:
  "visible_alerts (\<lambda>s. s) initial_filters Map.empty [sample_row Critical ''a'', sample_row Warning ''b'']
   = [sample_row Warning ''b'', sample_row Critical ''a'']"
  by (simp add: visible_alerts_def passesAlert_def initial_filters_def sort_order_def rank_or_2_def)

theorem critical_listed_after_warnings_witness:
  "map al_severity (visible_alerts (\<lambda>s. s) initial_filters Map.empty
      [sample_row Critical ''a'', sample_row Warning ''b'']) = [Warning, Critical] \<and> (0::nat) < 1"
  using critical_listed_after_warnings [of 1 "\<lambda>s. s" initial_filters Map.empty
      "[sample_row Critical ''a'', sample_row Warning ''b'']" 0]
  by (simp add: sample_visible)

text \<open>The text filter looks the address up in the host table, the row shows the stamped one: a host
  that is not in the table cannot be found by the address its alerts show.\<close>

lemma shown_ip_not_searched:
  "alertIp Map.empty (sample_row Critical ''a'') = ''10.0.0.7''
   \<and> \<not> passesAlert (\<lambda>s. s) (initial_filters\<lparr>filterText := ''10.0.0.7''\<rparr>) Map.empty (sample_row Critical ''a'')"
  by (simp add: alertIp_def passesAlert_def host_ip_def initial_filters_def sample_row_def build_firing_def
      builder_new_def NVME_def Let_def)


section \<open>History\<close>

definition passesHistory :: "(string \<Rightarrow> string) \<Rightarrow> page_filters \<Rightarrow> (string \<rightharpoonup> host_state) \<Rightarrow> alert \<Rightarrow> bool" where
  "passesHistory lower f hosts a \<longleftrightarrow>
     (al_state a = Firing \<longrightarrow> histShowFiring f) \<and> (al_state a = Resolved \<longrightarrow> histShowResolved f)
     \<and> (histFilter f \<noteq> '''' \<longrightarrow>
        contains (lower (join '' '' [al_host a, host_ip hosts (al_host_id a), al_title a, al_message a,
           al_category a, severity_as_str (al_severity a), al_fingerprint a])) (lower (histFilter f)))"

definition HISTORY_ROWS :: nat where "HISTORY_ROWS = 1000"

text \<open>The rows, the number of events in the heading, and the number in the row that says how many more
  there are.\<close>

definition rerenderHistory ::
  "(string \<Rightarrow> string) \<Rightarrow> page_filters \<Rightarrow> (string \<rightharpoonup> host_state) \<Rightarrow> alert list \<Rightarrow> alert list \<times> nat \<times> nat option" where
  "rerenderHistory lower f hosts h =
     (let visible = filter (passesHistory lower f hosts) h
      in (take (min (length visible) HISTORY_ROWS) visible, length visible,
          if HISTORY_ROWS < length visible then Some (length visible - HISTORY_ROWS) else None))"

lemma history_accounts_for_all:
  assumes "rerenderHistory lower f hosts h = (rows, n, extra)"
  shows "length rows + (case extra of None \<Rightarrow> 0 | Some k \<Rightarrow> k) = n" and "length rows \<le> 1000"
    and "rows = take 1000 (filter (passesHistory lower f hosts) h)"
  using assms by (auto simp: rerenderHistory_def HISTORY_ROWS_def Let_def min_def)


section \<open>Host map\<close>

datatype host_class = HcOffline | HcCritical | HcStale | HcMaintenance | HcOnline

text \<open>\<open>now\<close> is \<open>Date.now()\<close>, in milliseconds.\<close>

definition classifyHost :: "int \<Rightarrow> host_state \<Rightarrow> host_class" where
  "classifyHost now h =
     (let age = now - js_ms (hst_last_seen h)
      in if age > 30000 then HcOffline
         else if hst_firing_count h > 0 then HcCritical
         else if age > 10000 then HcStale
         else if hst_maintenance h then HcMaintenance
         else HcOnline)"

definition heatmap_shown :: "(string \<Rightarrow> string) \<Rightarrow> page_filters \<Rightarrow> host_state list \<Rightarrow> host_state list" where
  "heatmap_shown lower f hs =
     filter (\<lambda>h. heatmapFilter f \<noteq> '''' \<longrightarrow>
       contains (lower (hst_host h @ '' '' @ hst_primary_ip h)) (lower (heatmapFilter f))) hs"

definition heatmap_counts :: "int \<Rightarrow> host_state list \<Rightarrow> host_class \<Rightarrow> nat" where
  "heatmap_counts now all = fold (\<lambda>h counts. counts(classifyHost now h := Suc (counts (classifyHost now h)))) all (\<lambda>_. 0)"

lemma heatmap_count: "heatmap_counts now hs c = length (filter (\<lambda>h. classifyHost now h = c) hs)"
proof -
  have "fold (\<lambda>h counts. counts(classifyHost now h := Suc (counts (classifyHost now h)))) hs k c
      = k c + length (filter (\<lambda>h. classifyHost now h = c) hs)" for k
    by (induction hs arbitrary: k) simp_all
  then show ?thesis by (simp add: heatmap_counts_def)
qed

text \<open>The four segments of the ring leave out the hosts in maintenance.\<close>

lemma heatmap_counts_total:
  "heatmap_counts now hs HcCritical + heatmap_counts now hs HcOffline + heatmap_counts now hs HcStale
     + heatmap_counts now hs HcOnline + heatmap_counts now hs HcMaintenance = length hs"
proof (induction hs)
  case (Cons h hs)
  then show ?case by (cases "classifyHost now h") (simp_all add: heatmap_count)
qed (simp add: heatmap_count)

text \<open>A host that is shown as healthy reported within ten seconds, counts no alert and is not in
  maintenance; no alert count and no maintenance hides that a host is gone.\<close>

lemma healthy_iff:
  "classifyHost now h = HcOnline \<longleftrightarrow>
     now - js_ms (hst_last_seen h) \<le> 10000 \<and> hst_firing_count h = 0 \<and> \<not> hst_maintenance h"
  by (auto simp: classifyHost_def Let_def word_gt_0)

lemma offline_iff: "classifyHost now h = HcOffline \<longleftrightarrow> 30000 < now - js_ms (hst_last_seen h)"
  by (simp add: classifyHost_def Let_def)


section \<open>Reconnecting\<close>

datatype socket_event = SOpen | SClose

text \<open>\<open>onclose\<close> waits for the current delay and then doubles it; \<open>onopen\<close> resets it.\<close>

primrec socket_step :: "socket_event \<Rightarrow> nat \<Rightarrow> nat \<times> nat option" where
  "socket_step SOpen backoff = (250, None)"
| "socket_step SClose backoff = (min (backoff * 2) 8000, Some backoff)"

primrec socket_waits :: "socket_event list \<Rightarrow> nat \<Rightarrow> nat list" where
  "socket_waits [] backoff = []"
| "socket_waits (e # es) backoff =
     (case socket_step e backoff of (b, w) \<Rightarrow> (case w of None \<Rightarrow> [] | Some d \<Rightarrow> [d]) @ socket_waits es b)"

lemma socket_waits_bounds:
  "250 \<le> b \<Longrightarrow> b \<le> 8000 \<Longrightarrow> d \<in> set (socket_waits es b) \<Longrightarrow> 250 \<le> d \<and> d \<le> 8000"
proof (induction es arbitrary: b)
  case (Cons e es)
  then show ?case
  proof (cases e)
    case SOpen
    with Cons.prems show ?thesis by (intro Cons.IH [of 250]) simp_all
  next
    case SClose
    with Cons.prems have "d = b \<or> d \<in> set (socket_waits es (min (b * 2) 8000))" by simp
    with Cons.prems Cons.IH [of "min (b * 2) 8000"] show ?thesis by auto
  qed
qed simp

lemma closed_again_waits_double: "b \<le> 4000 \<Longrightarrow> socket_waits (SClose # SClose # es) b = b # (2 * b) # socket_waits es (min (4 * b) 8000)"
  by (simp add: min_def)

end
