(* ===== verification/Gui_Resolve.thy ===== *)
theory Gui_Resolve
  imports Gui_Views Coll_Http Wire_Roundtrip
begin

text \<open>
  The \<open>Resolve\<close> button, from the click to every open page: the request that \<open>resolveAlert\<close> in
  \<open>gui/app.js\<close> posts, how \<open>ResolveReq\<close> in \<open>collector/src/http.rs\<close> is read from it, the handler
  \<open>api_resolve\<close> of \<open>Coll_Http\<close>, and the broadcast that pages handle.
\<close>

record resolve_req =
  rr_fingerprint :: string
  rr_by :: string

definition resolve_req_of_json :: "json \<Rightarrow> resolve_req option" where
  "resolve_req_of_json j = do {
     kvs \<leftarrow> members_of_json j;
     (if \<not> known_once [''fingerprint'', ''by''] kvs then None
      else do {
        fp \<leftarrow> required string_of_json kvs ''fingerprint'';
        by_name \<leftarrow> defaulted [] string_of_json kvs ''by'';
        Some \<lparr>rr_fingerprint = fp, rr_by = by_name\<rparr>
      })
   }"

definition resolve_body :: "string \<Rightarrow> json" where
  "resolve_body fp = JObj [(''fingerprint'', JStr fp), (''by'', JStr '''')]"

text \<open>A body that cannot be read is turned down by the web framework before the handler runs: None.\<close>

definition post_resolve ::
  "(string \<Rightarrow> json option) \<Rightarrow> (datetime \<Rightarrow> string) \<Rightarrow> 'w sender \<Rightarrow> datetime \<Rightarrow> string \<Rightarrow> string \<Rightarrow> 'w http_gui
     \<Rightarrow> (status_code \<times> body) option \<times> 'w http_gui" where
  "post_resolve read_json to_rfc3339 try_send now ulid text g =
     (case Option.bind (read_json text) resolve_req_of_json of
        None \<Rightarrow> (None, g)
      | Some req \<Rightarrow> apfst Some (api_resolve to_rfc3339 try_send now ulid (rr_fingerprint req) (rr_by req) g))"

text \<open>\<open>r.ok\<close> holds for a status from 200 to 299; otherwise the page shows a dialog and offers the button
  again.\<close>

primrec status_ok :: "status_code \<Rightarrow> bool" where
  "status_ok OK = True"
| "status_ok NO_CONTENT = True"
| "status_ok BAD_REQUEST = False"
| "status_ok NOT_FOUND = False"
| "status_ok INTERNAL_SERVER_ERROR = False"

definition resolve_failed :: "(status_code \<times> body) option \<Rightarrow> bool" where
  "resolve_failed reply = (case reply of None \<Rightarrow> True | Some (st, _) \<Rightarrow> \<not> status_ok st)"

lemma resolve_body_read: "resolve_req_of_json (resolve_body fp) = Some \<lparr>rr_fingerprint = fp, rr_by = ''''\<rparr>"
  by (simp add: resolve_req_of_json_def resolve_body_def members_of_json_def known_once_def required_def defaulted_def)

lemma post_resolve_body:
  "text_law print_json read_json {resolve_body fp} \<Longrightarrow>
     post_resolve read_json f ts now u (print_json (resolve_body fp)) g = apfst Some (api_resolve f ts now u fp '''' g)"
  by (simp add: post_resolve_def text_law_def resolve_body_read)

lemma api_resolve_gone:
  "map_of (ap_firing (gs_app g)) fp = None \<Longrightarrow>
     api_resolve f ts now u fp n g = ((NOT_FOUND, BText ''fingerprint not in firing map''), g)"
  by (simp add: api_resolve_def)

lemma fanout_decrement [simp]: "ap_fanout (decrement_count h s) = ap_fanout s"
  by (simp add: decrement_count_def split: option.splits)

lemma api_resolve_found:
  assumes "map_of (ap_firing (gs_app g)) fp = Some a"
  shows "fst (api_resolve f ts now u fp n g) = (NO_CONTENT, BEmpty)"
    and "ap_fanout (gs_app (snd (api_resolve f ts now u fp n g)))
      = ap_fanout (gs_app g) @ [EAlert (resolved_record f now u n a)]"
    and "map_of (ap_firing (gs_app (snd (api_resolve f ts now u fp n g)))) = (map_of (ap_firing (gs_app g)))(fp := None)"
proof -
  show "fst (api_resolve f ts now u fp n g) = (NO_CONTENT, BEmpty)"
    "ap_fanout (gs_app (snd (api_resolve f ts now u fp n g)))
      = ap_fanout (gs_app g) @ [EAlert (resolved_record f now u n a)]"
    using assms by (simp_all add: api_resolve_def Let_def broadcast_def)
  show "map_of (ap_firing (gs_app (snd (api_resolve f ts now u fp n g)))) = (map_of (ap_firing (gs_app g)))(fp := None)"
    by (simp add: firing_api_resolve delete_conv')
qed

lemma page_drops_resolved:
  assumes "al_state r = Resolved"
  shows "gv_alerts (page_handle n (EAlert r) p) = (gv_alerts p)(al_fingerprint r := None)"
    and "hd (pg_history (page_handle n (EAlert r) p)) = r"
    and "pg_shown (page_handle n (EAlert r) p) = pg_shown p"
  using assms by (simp_all add: page_alert_def push_history_def HISTORY_CAP_def)

text \<open>C16. Clicking \<open>Resolve\<close> on a firing alert: the posted request is read as the fingerprint without an
  operator's name, the collector answers without content, takes exactly this alert out of its firing
  map and broadcasts one resolved alert of the fingerprint that names the operator. Every page that
  handles it drops exactly this row, has the resolved alert on top of its history and shows no
  notification. A second click, or the click of somebody else that comes later, fails and changes
  nothing.\<close>

theorem resolve_click:
  assumes "text_law print_json read_json {resolve_body fp}" and "state_wf (gs_app g)"
    and "map_of (ap_firing (gs_app g)) fp = Some a"
    and "post_resolve read_json to_rfc3339 try_send now ulid (print_json (resolve_body fp)) g = (reply, g')"
  shows "\<not> resolve_failed reply
    \<and> map_of (ap_firing (gs_app g')) = (map_of (ap_firing (gs_app g)))(fp := None)
    \<and> (\<exists>r. ap_fanout (gs_app g') = ap_fanout (gs_app g) @ [EAlert r]
        \<and> al_state r = Resolved \<and> al_raw r ''resolved_by'' = Some (JStr ''operator'')
        \<and> gv_alerts (page_handle n (EAlert r) p) = (gv_alerts p)(fp := None)
        \<and> hd (pg_history (page_handle n (EAlert r) p)) = r
        \<and> pg_shown (page_handle n (EAlert r) p) = pg_shown p)
    \<and> (case post_resolve read_json to_rfc3339 try_send now' ulid' (print_json (resolve_body fp)) g' of
        (reply', g'') \<Rightarrow> resolve_failed reply' \<and> g'' = g')"
proof -
  let ?r = "resolved_record to_rfc3339 now ulid '''' a"
  note post = post_resolve_body [OF assms(1)] and found = api_resolve_found [OF assms(3)]
  from assms(4) have g': "reply = Some (fst (api_resolve to_rfc3339 try_send now ulid fp '''' g))"
      "g' = snd (api_resolve to_rfc3339 try_send now ulid fp '''' g)"
    by (auto simp: post apfst_def map_prod_def split: prod.splits)
  have fp: "al_fingerprint ?r = fp"
    using assms(2,3) by (auto simp: state_wf_def firing_wf_def dest: map_of_SomeD)
  have raw: "al_raw ?r ''resolved_by'' = Some (JStr ''operator'')" by (simp add: resolved_record_def)
  have gone: "map_of (ap_firing (gs_app g')) fp = None" by (simp add: g' found)
  have "ap_fanout (gs_app g') = ap_fanout (gs_app g) @ [EAlert ?r]" by (simp add: g' found)
  moreover have "\<not> resolve_failed reply" by (simp add: g' found resolve_failed_def)
  moreover have "map_of (ap_firing (gs_app g')) = (map_of (ap_firing (gs_app g)))(fp := None)" by (simp add: g' found)
  moreover have "case post_resolve read_json to_rfc3339 try_send now' ulid' (print_json (resolve_body fp)) g' of
        (reply', g'') \<Rightarrow> resolve_failed reply' \<and> g'' = g'"
    by (simp add: post api_resolve_gone [OF gone] resolve_failed_def)
  ultimately show ?thesis
    using raw page_drops_resolved [of ?r] unfolding fp by auto
qed

definition sample_gui :: "unit http_gui" where
  "sample_gui = \<lparr>gs_app = (app_new 30)\<lparr>ap_firing := [(''a'', sample_row Critical ''a''), (''b'', sample_row Warning ''b'')]\<rparr>,
     gs_writer = ()\<rparr>"

text \<open>A writer and a reader that suffice for this request.\<close>

lemma sample_gui_ready:
  "text_law (\<lambda>_. ''a'') (\<lambda>s. Some (resolve_body s)) {resolve_body ''a''}"
  "state_wf (gs_app sample_gui)"
  "map_of (ap_firing (gs_app sample_gui)) ''a'' = Some (sample_row Critical ''a'')"
  by (simp_all add: text_law_def sample_gui_def state_wf_def firing_wf_def hosts_wf_def app_new_def sample_row_def
      build_firing_def)

theorem resolve_click_witness:
  "map_of (ap_firing (gs_app (snd (post_resolve (\<lambda>s. Some (resolve_body s)) (\<lambda>_. []) (\<lambda>w _. Some w) 9 ''u'' ''a'' sample_gui))))
   = [''b'' \<mapsto> sample_row Warning ''b'']"
proof -
  obtain reply g' where "post_resolve (\<lambda>s. Some (resolve_body s)) (\<lambda>_. []) (\<lambda>w _. Some w) 9 ''u'' ''a'' sample_gui = (reply, g')"
    by fastforce
  with resolve_click [OF sample_gui_ready, of "\<lambda>_. []" "\<lambda>w _. Some w" 9 "''u''" reply g'] show ?thesis
    by (auto simp: sample_gui_def app_new_def fun_eq_iff)
qed

end
