(* ===== verification/Coll_Store.thy ===== *)
theory Coll_Store
  imports Coll_Http Wire_Roundtrip "HOL-Library.Multiset" "HOL-Library.List_Lexorder" "HOL-Library.Char_ord"
begin

text \<open>
  \<open>collector/src/store.rs\<close>: the history of alerts in SQLite. The table is the list of its rows in
  the order they were written; the statements are what SQL says of them: \<open>INSERT OR REPLACE\<close> removes
  a row with the same primary key first, \<open>ORDER BY ts DESC\<close> compares texts and leaves the order of
  equal ones open (\<open>order\<close> stands for the engine's choice), a negative \<open>LIMIT\<close> is none. \<open>to_json\<close> and
  \<open>from_json\<close> are serde's, \<open>rfc3339\<close> is chrono's text of a time stamp, \<open>sub_days\<close> its subtraction of
  days (None: out of range, a panic). Whether the engine executes a statement is an input.
\<close>

record store_row =
  sr_id :: string
  sr_ts :: string
  sr_host_id :: string
  sr_host :: string
  sr_severity :: string
  sr_state :: string
  sr_category :: string
  sr_fingerprint :: string
  sr_body :: string

type_synonym alert_table = "store_row list"

definition alert_row :: "(datetime \<Rightarrow> string) \<Rightarrow> string \<Rightarrow> alert \<Rightarrow> store_row" where
  "alert_row rfc3339 body a =
     \<lparr>sr_id = al_id a, sr_ts = rfc3339 (al_ts a), sr_host_id = al_host_id a, sr_host = al_host a,
      sr_severity = severity_as_str (al_severity a),
      sr_state = (case al_state a of Firing \<Rightarrow> ''firing'' | Resolved \<Rightarrow> ''resolved''),
      sr_category = al_category a, sr_fingerprint = al_fingerprint a, sr_body = body\<rparr>"

text \<open>\<open>Store::open\<close>: the directory is created if that works, the address is parsed, the pool connects,
  and four statements make sure of the table and its indices; any error but the first ends the
  start. The statements are numbered in their order.\<close>

datatype store_error = BadSqliteUrl | CannotOpen | StatementFailed nat

definition sqlite_url :: "string \<Rightarrow> string" where
  "sqlite_url path = ''sqlite://'' @ path"

fun first_failure :: "bool list \<Rightarrow> nat \<Rightarrow> nat option" where
  "first_failure [] n = None"
| "first_failure (ok # oks) n = (if ok then first_failure oks (Suc n) else Some n)"

definition store_open ::
  "(string \<Rightarrow> bool) \<Rightarrow> (string \<Rightarrow> alert_table option) \<Rightarrow> bool list \<Rightarrow> string \<Rightarrow> store_error + alert_table" where
  "store_open url_ok connect stmt_ok path =
     (if \<not> url_ok (sqlite_url path) then Inl BadSqliteUrl
      else (case connect (sqlite_url path) of
              None \<Rightarrow> Inl CannotOpen
            | Some rows \<Rightarrow>
                (case first_failure (take 4 stmt_ok) 0 of
                   Some n \<Rightarrow> Inl (StatementFailed n)
                 | None \<Rightarrow> Inr rows)))"

text \<open>Opening keeps the history: \<open>CREATE ... IF NOT EXISTS\<close> adds nothing to a table that is there.\<close>

lemma store_open_keeps: "store_open url_ok conn stmt_ok path = Inr rows \<Longrightarrow> conn (sqlite_url path) = Some rows"
  by (auto simp: store_open_def split: if_splits option.splits)

text \<open>\<open>db_ok\<close>: the engine executes the statement. A failed insert is only logged.\<close>

definition store_insert ::
  "(alert \<Rightarrow> string option) \<Rightarrow> (datetime \<Rightarrow> string) \<Rightarrow> alert \<times> bool \<Rightarrow> alert_table \<Rightarrow> alert_table" where
  "store_insert to_json rfc3339 i rows =
     (case i of (a, db_ok) \<Rightarrow>
       (case to_json a of
          None \<Rightarrow> rows
        | Some body \<Rightarrow>
            if db_ok then filter (\<lambda>r. sr_id r \<noteq> al_id a) rows @ [alert_row rfc3339 body a] else rows))"

definition store_writer ::
  "(alert \<Rightarrow> string option) \<Rightarrow> (datetime \<Rightarrow> string) \<Rightarrow> (alert \<times> bool) list \<Rightarrow> alert_table \<Rightarrow> alert_table" where
  "store_writer to_json rfc3339 queue rows = fold (store_insert to_json rfc3339) queue rows"

definition list_recent ::
  "(alert_table \<Rightarrow> alert_table) \<Rightarrow> (string \<Rightarrow> alert option) \<Rightarrow> int \<Rightarrow> alert_table \<Rightarrow> alert list" where
  "list_recent order from_json limit rows =
     (let ordered = order rows
      in List.map_filter (\<lambda>r. from_json (sr_body r)) (if limit < 0 then ordered else take (nat limit) ordered))"

definition clear_all :: "alert_table \<Rightarrow> u64 \<times> alert_table" where
  "clear_all rows = (of_nat (length rows), [])"

definition retention_tick ::
  "(datetime \<Rightarrow> string) \<Rightarrow> (datetime \<Rightarrow> u32 \<Rightarrow> datetime option) \<Rightarrow> u32 \<Rightarrow> datetime \<Rightarrow> alert_table
     \<Rightarrow> alert_table option" where
  "retention_tick rfc3339 sub_days days now rows =
     (case sub_days now days of
        None \<Rightarrow> None
      | Some cutoff \<Rightarrow> Some (filter (\<lambda>r. \<not> sr_ts r < rfc3339 cutoff) rows))"


section \<open>The history as a list of alerts\<close>

definition history_step :: "alert \<times> bool \<Rightarrow> alert list \<Rightarrow> alert list" where
  "history_step i h = (case i of (a, ok) \<Rightarrow> if ok then filter (\<lambda>b. al_id b \<noteq> al_id a) h @ [a] else h)"

definition history :: "(alert \<times> bool) list \<Rightarrow> alert list" where
  "history q = fold history_step q []"

text \<open>The serialiser reads back what it wrote, for these alerts.\<close>

definition json_law :: "(alert \<Rightarrow> string option) \<Rightarrow> (string \<Rightarrow> alert option) \<Rightarrow> alert set \<Rightarrow> bool" where
  "json_law to_json from_json A \<longleftrightarrow> (\<forall>a \<in> A. \<exists>s. to_json a = Some s \<and> from_json s = Some a)"

text \<open>The body of a row is the JSON form of the alert, so the law follows from those of the text and of
  the times.\<close>

lemma alert_json_law:
  assumes "chrono_law show_ts parse_ts T" and "\<forall>a \<in> A. alert_ok T a"
    and "text_law print_json read_json ((\<lambda>a. JObj (alert_members show_ts a)) ` A)"
  shows "json_law (\<lambda>a. Some (print_json (JObj (alert_members show_ts a))))
    (\<lambda>s. Option.bind (read_json s) (alert_of_json parse_ts)) A"
  using assms codec.dec_enc [OF alert_codec [OF assms(1)]] by (simp add: json_law_def text_law_def)

text \<open>The text of a time stamp orders these times (one offset, years of four digits).\<close>

definition text_order :: "(datetime \<Rightarrow> string) \<Rightarrow> datetime set \<Rightarrow> bool" where
  "text_order rfc3339 T \<longleftrightarrow> (\<forall>x \<in> T. \<forall>y \<in> T. rfc3339 x < rfc3339 y \<longleftrightarrow> x < y)"

definition order_law :: "(alert_table \<Rightarrow> alert_table) \<Rightarrow> bool" where
  "order_law order \<longleftrightarrow>
     (\<forall>rows. mset (order rows) = mset rows \<and> sorted_wrt (\<lambda>r r'. sr_ts r' \<le> sr_ts r) (order rows))"

abbreviation row_of :: "(alert \<Rightarrow> string option) \<Rightarrow> (datetime \<Rightarrow> string) \<Rightarrow> alert \<Rightarrow> store_row" where
  "row_of to_json rfc3339 a \<equiv> alert_row rfc3339 (the (to_json a)) a"

lemma alert_row_simps [simp]:
  "sr_id (alert_row f body a) = al_id a" "sr_ts (alert_row f body a) = f (al_ts a)"
  "sr_body (alert_row f body a) = body"
  by (simp_all add: alert_row_def)

lemma history_subset: "set (fold history_step q h) \<subseteq> set h \<union> fst ` set q"
proof (induction q arbitrary: h)
  case (Cons i q)
  have "set (history_step i h) \<subseteq> insert (fst i) (set h)" by (auto simp: history_step_def split: prod.splits)
  with Cons.IH [of "history_step i h"] show ?case by auto
qed simp

text \<open>The table represents the history.\<close>

lemma store_writer_history:
  assumes "json_law to_json from_json (fst ` set q)"
  shows "store_writer to_json rfc3339 q [] = map (row_of to_json rfc3339) (history q)"
proof -
  have "fold (store_insert to_json rfc3339) q (map (row_of to_json rfc3339) h)
      = map (row_of to_json rfc3339) (fold history_step q h)" for h
    using assms
  proof (induction q arbitrary: h)
    case (Cons i q)
    obtain a ok where i: "i = (a, ok)" by (cases i)
    obtain s where s: "to_json a = Some s" using Cons.prems by (auto simp: json_law_def i)
    have "store_insert to_json rfc3339 i (map (row_of to_json rfc3339) h) = map (row_of to_json rfc3339) (history_step i h)"
      by (simp add: store_insert_def history_step_def i s filter_map o_def)
    moreover have "json_law to_json from_json (fst ` set q)" using Cons.prems by (simp add: json_law_def)
    ultimately show ?case using Cons.IH by simp
  qed simp
  from this [of "[]"] show ?thesis by (simp add: store_writer_def history_def)
qed

lemma map_filter_all: "\<forall>x \<in> set xs. f x = Some (g x) \<Longrightarrow> List.map_filter f xs = map g xs"
  by (induction xs) (simp_all add: map_filter_simps)

text \<open>What the ordered table reads back as.\<close>

lemma ordered_rows:
  assumes "order_law order" and "json_law to_json from_json (set h)" and "text_order rfc3339 (al_ts ` set h)"
  defines "full \<equiv> map (\<lambda>r. the (from_json (sr_body r))) (order (map (row_of to_json rfc3339) h))"
  shows "\<forall>r \<in> set (order (map (row_of to_json rfc3339) h)). from_json (sr_body r) = Some (the (from_json (sr_body r)))"
    and "mset full = mset h" and "sorted_wrt (\<lambda>a b. al_ts b \<le> al_ts a) full"
proof -
  let ?rows = "map (row_of to_json rfc3339) h"
  have perm: "mset (order ?rows) = mset ?rows" and sort: "sorted_wrt (\<lambda>r r'. sr_ts r' \<le> sr_ts r) (order ?rows)"
    using assms(1) by (simp_all add: order_law_def)
  have set: "set (order ?rows) = row_of to_json rfc3339 ` set h"
    using mset_eq_setD [OF perm] by simp
  have inv: "from_json (the (to_json a)) = Some a" if "a \<in> set h" for a
    using assms(2) that unfolding json_law_def by fastforce
  show "\<forall>r \<in> set (order ?rows). from_json (sr_body r) = Some (the (from_json (sr_body r)))"
    unfolding set by (simp add: inv)
  have "mset full = mset (map (\<lambda>r. the (from_json (sr_body r))) ?rows)"
    unfolding full_def mset_map [of "\<lambda>r. the (from_json (sr_body r))"] perm by (rule refl)
  also have "map (\<lambda>r. the (from_json (sr_body r))) ?rows = map (\<lambda>a. the (from_json (the (to_json a)))) h"
    by simp
  also have "map (\<lambda>a. the (from_json (the (to_json a)))) h = h" by (rule map_idI) (simp add: inv)
  finally show "mset full = mset h" .
  have ts: "al_ts b \<le> al_ts a" if "a \<in> set h" "b \<in> set h" "rfc3339 (al_ts b) \<le> rfc3339 (al_ts a)" for a b
  proof -
    have "rfc3339 (al_ts a) < rfc3339 (al_ts b) \<longleftrightarrow> al_ts a < al_ts b"
      using assms(3) that(1,2) by (simp add: text_order_def)
    with that(3) show ?thesis by (simp add: linorder_not_less [symmetric])
  qed
  show "sorted_wrt (\<lambda>a b. al_ts b \<le> al_ts a) full"
    unfolding full_def sorted_wrt_map
  proof (rule sorted_wrt_mono_rel [OF _ sort])
    fix r r' assume "r \<in> set (order ?rows)" "r' \<in> set (order ?rows)" and le: "sr_ts r' \<le> sr_ts r"
    then obtain a b where "a \<in> set h" "r = row_of to_json rfc3339 a" "b \<in> set h" "r' = row_of to_json rfc3339 b"
      unfolding set by blast
    with le ts show "al_ts (the (from_json (sr_body r'))) \<le> al_ts (the (from_json (sr_body r)))" by (simp add: inv)
  qed
qed


section \<open>Properties\<close>

text \<open>C22. The history a browser asks for. After any sequence of alerts was written, some of them
  refused by the engine, a query with a limit returns the newest alerts first and none left out is
  newer than one returned: with the rest it is the whole history (one alert per id, the one written
  last), sorted by time, and it has as many entries as the limit allows. The hourly pruning keeps
  exactly the alerts that are not older than the configured number of days.\<close>

theorem history_newest_first:
  assumes "json_law to_json from_json (fst ` set q)"
    and "text_order rfc3339 (insert cutoff (al_ts ` fst ` set q))" and "order_law order" and "0 \<le> limit"
    and "sub_days now days = Some cutoff"
  shows "(\<exists>rest. mset (list_recent order from_json limit (store_writer to_json rfc3339 q []) @ rest) = mset (history q)
      \<and> sorted_wrt (\<lambda>a b. al_ts b \<le> al_ts a)
           (list_recent order from_json limit (store_writer to_json rfc3339 q []) @ rest)
      \<and> length (list_recent order from_json limit (store_writer to_json rfc3339 q [])) = min (nat limit) (length (history q)))
    \<and> retention_tick rfc3339 sub_days days now (store_writer to_json rfc3339 q [])
      = Some (map (row_of to_json rfc3339) (filter (\<lambda>a. cutoff \<le> al_ts a) (history q)))"
proof -
  let ?h = "history q"
  let ?ord = "order (map (row_of to_json rfc3339) ?h)"
  let ?full = "map (\<lambda>r. the (from_json (sr_body r))) ?ord"
  have sub: "set ?h \<subseteq> fst ` set q" using history_subset [of q "[]"] by (simp add: history_def)
  then have jl: "json_law to_json from_json (set ?h)" and tl: "text_order rfc3339 (al_ts ` set ?h)"
    using assms(1,2) unfolding json_law_def text_order_def by blast+
  note r = ordered_rows [OF assms(3) jl tl]
  have "list_recent order from_json limit (store_writer to_json rfc3339 q []) =
      List.map_filter (\<lambda>r. from_json (sr_body r)) (take (nat limit) ?ord)"
    using assms(4) by (simp add: list_recent_def store_writer_history [OF assms(1)])
  also have "\<dots> = take (nat limit) ?full"
    using r(1) by (subst map_filter_all [where g = "\<lambda>r. the (from_json (sr_body r))"])
      (auto simp: take_map dest: in_set_takeD)
  finally have res: "list_recent order from_json limit (store_writer to_json rfc3339 q []) = take (nat limit) ?full" .
  have "length ?full = length ?h" using r(2) by (metis size_mset)
  then have "mset (take (nat limit) ?full @ drop (nat limit) ?full) = mset ?h
      \<and> sorted_wrt (\<lambda>a b. al_ts b \<le> al_ts a) (take (nat limit) ?full @ drop (nat limit) ?full)
      \<and> length (take (nat limit) ?full) = min (nat limit) (length ?h)"
    using r(2,3) by (simp only: append_take_drop_id length_take min.commute)
  moreover have "\<not> rfc3339 (al_ts a) < rfc3339 cutoff \<longleftrightarrow> cutoff \<le> al_ts a" if "a \<in> set ?h" for a
  proof -
    have "al_ts a \<in> al_ts ` fst ` set q" using sub that by blast
    with assms(2) have "rfc3339 (al_ts a) < rfc3339 cutoff \<longleftrightarrow> al_ts a < cutoff"
      unfolding text_order_def by blast
    then show ?thesis by (simp add: linorder_not_less)
  qed
  then have "retention_tick rfc3339 sub_days days now (store_writer to_json rfc3339 q [])
      = Some (map (row_of to_json rfc3339) (filter (\<lambda>a. cutoff \<le> al_ts a) ?h))"
    by (simp add: retention_tick_def store_writer_history [OF assms(1)] assms(5) filter_map o_def cong: filter_cong)
  ultimately show ?thesis unfolding res by blast
qed


text \<open>A table with two alerts, and an engine that sorts.\<close>

definition sample_stored :: "nat \<Rightarrow> alert" where
  "sample_stored n = build_firing (int n) (show_nat n) (builder_new ''node1'' ''4f2a'' NVME ''media_errors'' Warning)"

definition sample_order :: "alert_table \<Rightarrow> alert_table" where
  "sample_order rows = rev (sort_key sr_ts rows)"

definition sample_from_json :: "string \<Rightarrow> alert option" where
  "sample_from_json s =
     (if s = ''1'' then Some (sample_stored 1) else if s = ''2'' then Some (sample_stored 2) else None)"

definition sample_ts :: "datetime \<Rightarrow> string" where
  "sample_ts t = replicate (nat t) (CHR ''x'')"

lemma sample_order_law: "order_law sample_order"
  by (simp add: order_law_def sample_order_def sorted_wrt_rev) (metis sorted_map sorted_sort_key)

theorem history_newest_first_witness:
  "length (list_recent sample_order sample_from_json 1
     (store_writer (\<lambda>a. Some (al_id a)) sample_ts [(sample_stored 1, True), (sample_stored 2, True)] [])) = 1
   \<and> retention_tick sample_ts (\<lambda>now d. Some (now - int (unat d))) 3 5
       (store_writer (\<lambda>a. Some (al_id a)) sample_ts [(sample_stored 1, True), (sample_stored 2, True)] [])
     = Some [alert_row sample_ts ''2'' (sample_stored 2)]"
proof -
  let ?q = "[(sample_stored 1, True), (sample_stored 2, True)]"
  have n: "show_nat (Suc 0) = ''1''" "show_nat 2 = ''2''" by code_simp+
  have s: "al_id (sample_stored 1) = ''1''" "al_id (sample_stored 2) = ''2''"
    "al_ts (sample_stored 1) = 1" "al_ts (sample_stored 2) = 2"
    using n by (simp_all add: sample_stored_def build_firing_def)
  note s = s s [unfolded One_nat_def]
  have xx: "replicate 2 (CHR ''x'') = ''xx''" by (simp add: numeral_2_eq_2)
  have "history ?q = [sample_stored 1, sample_stored 2]"
    by (simp add: history_def history_step_def s)
  moreover have "json_law (\<lambda>a. Some (al_id a)) sample_from_json (fst ` set ?q)"
    by (simp add: json_law_def sample_from_json_def s)
  moreover have "text_order sample_ts (insert 2 (al_ts ` fst ` set ?q))"
    by (simp add: text_order_def sample_ts_def s xx)
  ultimately show ?thesis
    using history_newest_first [of "\<lambda>a. Some (al_id a)" sample_from_json ?q sample_ts 2 sample_order 1
        "\<lambda>now d. Some (now - int (unat d))" 5 3, OF _ _ sample_order_law] s by auto
qed

end
