(* ===== verification/Coll_Webhooks.thy ===== *)
theory Coll_Webhooks
  imports Coll_Feed Sliding_Window Broadcast
begin

text \<open>
  \<open>collector/src/webhooks.rs\<close>: one task per configured webhook, fed by the broadcast channel. The
  regex crate, the HTTP client, chrono's formatter and serde's rendering of an alert are
  parameters: \<open>regex_new\<close> compiles a pattern (None for an error), \<open>is_match\<close> matches,
  \<open>post\<close> gives the outcome of each attempt, \<open>to_rfc3339\<close> formats a time, \<open>to_json\<close> renders an
  alert. Members of a JSON object are listed in the order of the source.
\<close>

record webhook_cfg =
  wc_name :: string
  wc_kind :: string
  wc_url :: string
  wc_severity_min :: string
  wc_states :: "string list"
  wc_notify_on_resolved :: bool
  wc_host_filter :: "string option"
  wc_category_filter :: "string option"
  wc_rate_limit_per_min :: u32
  wc_gui_url :: string
  wc_insecure_tls :: bool

definition default_sev_min :: string where "default_sev_min = ''warning''"
definition default_states :: "string list" where "default_states = [''firing'']"
definition default_rate :: u32 where "default_rate = 60"

definition effective_delivery_states :: "webhook_cfg \<Rightarrow> string list" where
  "effective_delivery_states cfg =
     (let s = wc_states cfg;
          s1 = (if wc_notify_on_resolved cfg \<and> \<not> list_ex (\<lambda>x. eq_ignore_ascii_case x ''resolved'') s
                then s @ [''resolved''] else s)
      in if s1 = [] then s1 @ [''firing''] else s1)"

definition parse_sev :: "string \<Rightarrow> severity" where
  "parse_sev s =
     (let l = to_lowercase s
      in if l = ''critical'' then Critical else if l = ''warning'' then Warning else Info)"

primrec state_name :: "alert_state \<Rightarrow> string" where
  "state_name Firing = ''firing''"
| "state_name Resolved = ''resolved''"

definition passes_filters ::
  "('r \<Rightarrow> string \<Rightarrow> bool) \<Rightarrow> alert \<Rightarrow> severity \<Rightarrow> string list \<Rightarrow> 'r option \<Rightarrow> 'r option \<Rightarrow> bool" where
  "passes_filters is_match a sev_min states host_re cat_re =
     (if al_severity a < sev_min then False
      else if \<not> list_ex (\<lambda>s. eq_ignore_ascii_case s (state_name (al_state a))) states then False
      else if (case host_re of Some re \<Rightarrow> \<not> is_match re (al_host a) | None \<Rightarrow> False) then False
      else if (case cat_re of Some re \<Rightarrow> \<not> is_match re (al_category a) | None \<Rightarrow> False) then False
      else True)"


section \<open>Message bodies\<close>

definition to_upper :: "string \<Rightarrow> string" where
  "to_upper s = map ascii_upper s"

primrec state_word :: "alert_state \<Rightarrow> string" where
  "state_word Firing = ''FIRING''"
| "state_word Resolved = ''RESOLVED''"

definition mrkdwn :: "string \<Rightarrow> json" where
  "mrkdwn t = JObj [(''type'', JStr ''mrkdwn''), (''text'', JStr t)]"

definition format_slack :: "(datetime \<Rightarrow> string) \<Rightarrow> alert \<Rightarrow> string \<Rightarrow> json" where
  "format_slack to_rfc3339 a gui_url =
     (let color = (case al_severity a of
             Critical \<Rightarrow> ''#e5484d'' | Warning \<Rightarrow> ''#ffba18'' | Info \<Rightarrow> ''#3e63dd'');
          icon = (case al_severity a of
             Critical \<Rightarrow> '':rotating_light:'' | Warning \<Rightarrow> '':warning:'' | Info \<Rightarrow> '':information_source:'');
          state_emoji = (case al_state a of Firing \<Rightarrow> '':fire:'' | Resolved \<Rightarrow> '':white_check_mark:'');
          nl = [newline];
          head = [JObj [(''type'', JStr ''header''),
                   (''text'', JObj [(''type'', JStr ''plain_text''),
                     (''text'', JStr (state_emoji @ '' '' @ icon @ '' '' @ al_title a))])],
                  JObj [(''type'', JStr ''section''),
                   (''text'', mrkdwn (''*'' @ al_host a @ ''*'' @ nl @ al_message a))],
                  JObj [(''type'', JStr ''section''),
                   (''fields'', JArr
                     [mrkdwn (''*Severity:*'' @ nl @ to_upper (severity_as_str (al_severity a))),
                      mrkdwn (''*State:*'' @ nl @ state_word (al_state a)),
                      mrkdwn (''*Category:*'' @ nl @ al_category a),
                      mrkdwn (''*Device:*'' @ nl @ (case al_device a of None \<Rightarrow> ''-'' | Some d \<Rightarrow> d)),
                      mrkdwn (''*First seen:*'' @ nl @ to_rfc3339 (al_first_seen a)),
                      mrkdwn (''*Occurrences:*'' @ nl @ show_word (al_occurrences a))])]];
          button = (if gui_url = [] then []
             else [JObj [(''type'', JStr ''actions''),
                    (''elements'', JArr [JObj
                      [(''type'', JStr ''button''),
                       (''text'', JObj [(''type'', JStr ''plain_text''), (''text'', JStr ''View in UMA'')]),
                       (''url'', JStr gui_url),
                       (''style'', JStr (if al_severity a = Critical then ''danger'' else ''primary''))]])]]);
          context = [JObj [(''type'', JStr ''context''),
             (''elements'', JArr [mrkdwn (''Fingerprint: `'' @ al_fingerprint a @ ''`'')])]]
      in JObj [(''attachments'', JArr [JObj
           [(''color'', JStr color),
            (''blocks'', JArr (head @ button @ context)),
            (''fallback'', JStr (state_word (al_state a) @ '' '' @ severity_as_str (al_severity a) @
               '' on '' @ al_host a @ '': '' @ al_title a))]])])"

definition decorated :: "string \<Rightarrow> string \<Rightarrow> json" where
  "decorated label text = JObj [(''decoratedText'', JObj [(''topLabel'', JStr label), (''text'', JStr text)])]"

definition format_gchat :: "(datetime \<Rightarrow> string) \<Rightarrow> alert \<Rightarrow> string \<Rightarrow> json" where
  "format_gchat to_rfc3339 a gui_url =
     (let icon = (case al_severity a of
             Critical \<Rightarrow> [CHR 0xF0, CHR 0x9F, CHR 0x94, CHR 0xB4]
           | Warning \<Rightarrow> [CHR 0xF0, CHR 0x9F, CHR 0x9F, CHR 0xA1]
           | Info \<Rightarrow> [CHR 0xF0, CHR 0x9F, CHR 0x94, CHR 0xB5]);
          sev = to_upper (severity_as_str (al_severity a));
          widgets =
            [JObj [(''textParagraph'', JObj [(''text'', JStr (al_message a))])],
             decorated ''Host'' (al_host a),
             decorated ''Category / metric'' (al_category a @ '' / '' @ al_metric a),
             decorated ''Severity / State'' (sev @ '' / '' @ state_word (al_state a)),
             decorated ''First seen'' (to_rfc3339 (al_first_seen a))]
            @ (if al_occurrences a > 1 then [decorated ''Occurrences'' (show_word (al_occurrences a))] else [])
            @ (if gui_url = [] then []
               else [JObj [(''buttonList'', JObj [(''buttons'', JArr [JObj
                       [(''text'', JStr ''View in UMA''),
                        (''onClick'', JObj [(''openLink'', JObj [(''url'', JStr gui_url)])])]])])]])
      in JObj [(''cardsV2'', JArr [JObj
           [(''cardId'', JStr (al_fingerprint a)),
            (''card'', JObj
              [(''header'', JObj
                 [(''title'', JStr (icon @ '' '' @ al_title a)),
                  (''subtitle'', JStr (al_host a @ '' '' @ [CHR 0xC2, CHR 0xB7] @ '' '' @ sev)),
                  (''imageType'', JStr ''CIRCLE'')]),
               (''sections'', JArr [JObj [(''widgets'', JArr widgets)]])])]])])"

definition format_generic :: "(alert \<Rightarrow> json) \<Rightarrow> alert \<Rightarrow> json" where
  "format_generic to_json a = to_json a"


section \<open>The task\<close>

record 'r webhook_task =
  wt_sev_min :: severity
  wt_states_eff :: "string list"
  wt_host_re :: "'r option"
  wt_cat_re :: "'r option"
  wt_window :: "instant list"
  wt_out :: "(instant \<times> alert \<times> json) list"

text \<open>The prologue of \<open>run_one\<close>; a filter that does not compile is no filter. \<open>wt_out\<close> collects
  what is handed to \<open>deliver\<close>, oldest first.\<close>

definition webhook_start :: "(string \<Rightarrow> 'r option) \<Rightarrow> webhook_cfg \<Rightarrow> 'r webhook_task" where
  "webhook_start regex_new cfg =
     \<lparr>wt_sev_min = parse_sev (wc_severity_min cfg), wt_states_eff = effective_delivery_states cfg,
      wt_host_re = Option.bind (wc_host_filter cfg) regex_new,
      wt_cat_re = Option.bind (wc_category_filter cfg) regex_new,
      wt_window = [], wt_out = []\<rparr>"

definition webhook_body ::
  "(datetime \<Rightarrow> string) \<Rightarrow> (alert \<Rightarrow> json) \<Rightarrow> webhook_cfg \<Rightarrow> alert \<Rightarrow> json option" where
  "webhook_body to_rfc3339 to_json cfg a =
     (if wc_kind cfg = ''slack'' then Some (format_slack to_rfc3339 a (wc_gui_url cfg))
      else if wc_kind cfg = ''google_chat'' \<or> wc_kind cfg = ''gchat''
      then Some (format_gchat to_rfc3339 a (wc_gui_url cfg))
      else if wc_kind cfg = ''generic_json'' then Some (format_generic to_json a)
      else None)"

definition webhook_alert ::
  "('r \<Rightarrow> string \<Rightarrow> bool) \<Rightarrow> (datetime \<Rightarrow> string) \<Rightarrow> (alert \<Rightarrow> json) \<Rightarrow> webhook_cfg
     \<Rightarrow> alert \<Rightarrow> instant \<Rightarrow> 'r webhook_task \<Rightarrow> 'r webhook_task" where
  "webhook_alert is_match to_rfc3339 to_json cfg a now s =
     (if \<not> passes_filters is_match a (wt_sev_min s) (wt_states_eff s) (wt_host_re s) (wt_cat_re s) then s
      else
        let s1 = s\<lparr>wt_window := retain_recent (secs 60) now (wt_window s)\<rparr>
        in if (of_nat (length (wt_window s1)) :: u32) \<ge> wc_rate_limit_per_min cfg then s1
           else
             let s2 = s1\<lparr>wt_window := wt_window s1 @ [now]\<rparr>
             in (case webhook_body to_rfc3339 to_json cfg a of
                   None \<Rightarrow> s2
                 | Some body \<Rightarrow> s2\<lparr>wt_out := wt_out s2 @ [(now, a, body)]\<rparr>))"

fun run_one ::
  "('r \<Rightarrow> string \<Rightarrow> bool) \<Rightarrow> (datetime \<Rightarrow> string) \<Rightarrow> (alert \<Rightarrow> json) \<Rightarrow> webhook_cfg
     \<Rightarrow> (envelope bus_recv \<times> instant) list \<Rightarrow> 'r webhook_task \<Rightarrow> 'r webhook_task" where
  "run_one is_match to_rfc3339 to_json cfg [] s = s"
| "run_one is_match to_rfc3339 to_json cfg ((BClosed, _) # es) s = s"
| "run_one is_match to_rfc3339 to_json cfg ((BLagged n, _) # es) s =
     run_one is_match to_rfc3339 to_json cfg es s"
| "run_one is_match to_rfc3339 to_json cfg ((BGot env, now) # es) s =
     run_one is_match to_rfc3339 to_json cfg es
       (case env of EAlert a \<Rightarrow> webhook_alert is_match to_rfc3339 to_json cfg a now s | _ \<Rightarrow> s)"

text \<open>The options of the HTTP client; the library builds it or fails.\<close>

record client_options =
  cl_timeout :: duration
  cl_connect_timeout :: duration
  cl_accept_invalid_certs :: bool

definition webhook_client :: "(client_options \<Rightarrow> 'h option) \<Rightarrow> webhook_cfg \<Rightarrow> 'h option" where
  "webhook_client build cfg =
     build \<lparr>cl_timeout = secs 10, cl_connect_timeout = secs 5, cl_accept_invalid_certs = wc_insecure_tls cfg\<rparr>"

text \<open>One task per webhook, each with a receiver of its own; without a client it ends at once. The
  value of a task is what it hands to \<open>deliver\<close>.\<close>

definition webhook_run ::
  "(client_options \<Rightarrow> 'h option) \<Rightarrow> (string \<Rightarrow> 'r option) \<Rightarrow> ('r \<Rightarrow> string \<Rightarrow> bool) \<Rightarrow> (datetime \<Rightarrow> string)
     \<Rightarrow> (alert \<Rightarrow> json) \<Rightarrow> webhook_cfg \<Rightarrow> (envelope bus_recv \<times> instant) list \<Rightarrow> (instant \<times> alert \<times> json) list" where
  "webhook_run build regex_new is_match to_rfc3339 to_json cfg es =
     (case webhook_client build cfg of
        None \<Rightarrow> []
      | Some client \<Rightarrow> wt_out (run_one is_match to_rfc3339 to_json cfg es (webhook_start regex_new cfg)))"

definition spawn_all ::
  "(client_options \<Rightarrow> 'h option) \<Rightarrow> (string \<Rightarrow> 'r option) \<Rightarrow> ('r \<Rightarrow> string \<Rightarrow> bool) \<Rightarrow> (datetime \<Rightarrow> string)
     \<Rightarrow> (alert \<Rightarrow> json) \<Rightarrow> (webhook_cfg \<times> (envelope bus_recv \<times> instant) list) list
     \<Rightarrow> (instant \<times> alert \<times> json) list list" where
  "spawn_all build regex_new is_match to_rfc3339 to_json cfgs =
     map (\<lambda>(cfg, es). webhook_run build regex_new is_match to_rfc3339 to_json cfg es) cfgs"

text \<open>Whatever is delivered was broadcast, passed the filters of its webhook and has a known format.\<close>

lemma webhook_alert_out:
  "x \<in> set (wt_out (webhook_alert is_match f j cfg a now s)) \<Longrightarrow>
     x \<in> set (wt_out s) \<or> (fst (snd x) = a \<and> webhook_body f j cfg a = Some (snd (snd x))
       \<and> passes_filters is_match a (wt_sev_min s) (wt_states_eff s) (wt_host_re s) (wt_cat_re s))"
  by (auto simp: webhook_alert_def Let_def split: if_splits option.splits)

lemma webhook_alert_filters [simp]:
  "wt_sev_min (webhook_alert is_match f j cfg a now s) = wt_sev_min s"
  "wt_states_eff (webhook_alert is_match f j cfg a now s) = wt_states_eff s"
  "wt_host_re (webhook_alert is_match f j cfg a now s) = wt_host_re s"
  "wt_cat_re (webhook_alert is_match f j cfg a now s) = wt_cat_re s"
  by (auto simp: webhook_alert_def Let_def split: option.splits)

lemma run_one_out:
  "x \<in> set (wt_out (run_one is_match f j cfg es s)) \<Longrightarrow>
     x \<in> set (wt_out s) \<or> (EAlert (fst (snd x)) \<in> set (handled (map fst es)) \<and> webhook_body f j cfg (fst (snd x)) = Some (snd (snd x))
       \<and> passes_filters is_match (fst (snd x)) (wt_sev_min s) (wt_states_eff s) (wt_host_re s) (wt_cat_re s))"
proof (induction is_match f j cfg es s rule: run_one.induct)
  case (4 is_match f j cfg env now es s)
  then show ?case by (cases env) (auto dest: webhook_alert_out)
qed auto


section \<open>Delivery\<close>

datatype post_result =
    PStatus nat "string option"
  | PTransportErr

datatype deliver_event = Posted nat | Slept duration

text \<open>\<open>StatusCode::is_success\<close> and \<open>is_server_error\<close>. A \<open>retry-after\<close> header that is not visible
  text does not parse as a number either.\<close>

definition is_success :: "nat \<Rightarrow> bool" where
  "is_success c \<longleftrightarrow> 200 \<le> c \<and> c < 300"

definition is_server_error :: "nat \<Rightarrow> bool" where
  "is_server_error c \<longleftrightarrow> 500 \<le> c \<and> c < 600"

definition retry_after :: "string option \<Rightarrow> nat" where
  "retry_after h = (case Option.bind h (parse_uint 10 64) of Some n \<Rightarrow> n | None \<Rightarrow> 2)"

fun deliver_from :: "(nat \<Rightarrow> post_result) \<Rightarrow> nat list \<Rightarrow> deliver_event list" where
  "deliver_from post [] = []"
| "deliver_from post (n # ns) =
     Posted n #
     (case post n of
        PStatus code h \<Rightarrow>
          if is_success code then []
          else if code = 429 then Slept (secs (retry_after h)) # deliver_from post ns
          else if \<not> is_server_error code then []
          else Slept (millis 500) # deliver_from post ns
      | PTransportErr \<Rightarrow> Slept (millis 500) # deliver_from post ns)"

definition deliver :: "(nat \<Rightarrow> post_result) \<Rightarrow> deliver_event list" where
  "deliver post = deliver_from post [1, 2]"


section \<open>The rate limit\<close>

text \<open>The times at which the budget was used, as the window sees them.\<close>

definition spaced :: "nat \<Rightarrow> instant list \<Rightarrow> bool" where
  "spaced n ts \<longleftrightarrow> (\<forall>i. i + n < length ts \<longrightarrow> secs 60 < ts ! (i + n) - ts ! i)"

lemma spaced_snoc:
  assumes "spaced n ts" and "n \<le> length ts \<Longrightarrow> secs 60 < t - ts ! (length ts - n)" and "0 < n"
  shows "spaced n (ts @ [t])"
  unfolding spaced_def
proof (intro allI impI)
  fix i assume "i + n < length (ts @ [t])"
  then consider "i + n < length ts" | "i + n = length ts" by force
  then show "secs 60 < (ts @ [t]) ! (i + n) - (ts @ [t]) ! i"
  proof cases
    case 1
    then show ?thesis using assms(1) by (simp add: spaced_def nth_append)
  next
    case 2
    then have "i = length ts - n" "n \<le> length ts" by auto
    with 2 assms(2,3) show ?thesis by (simp add: nth_append)
  qed
qed

text \<open>The invariant, at some time up to \<open>now\<close>: the window is the recent part of the uses of the
  budget, which are spaced, and what was delivered are these uses (nothing, for a webhook of
  unknown kind).\<close>

definition known_kind :: "webhook_cfg \<Rightarrow> bool" where
  "known_kind cfg \<longleftrightarrow> wc_kind cfg \<in> {''slack'', ''google_chat'', ''gchat'', ''generic_json''}"

lemma webhook_body_None: "webhook_body f j cfg a = None \<longleftrightarrow> \<not> known_kind cfg"
  by (simp add: webhook_body_def known_kind_def)

definition budget_at :: "webhook_cfg \<Rightarrow> instant \<Rightarrow> instant list \<Rightarrow> 'r webhook_task \<Rightarrow> bool" where
  "budget_at cfg now uses s \<longleftrightarrow>
     retain.recent (secs 60) now uses (wt_window s)
     \<and> length (wt_window s) \<le> unat (wc_rate_limit_per_min cfg)
     \<and> spaced (unat (wc_rate_limit_per_min cfg)) uses
     \<and> map fst (wt_out s) = (if known_kind cfg then uses else [])"

definition budget_ok :: "webhook_cfg \<Rightarrow> instant \<Rightarrow> 'r webhook_task \<Rightarrow> bool" where
  "budget_ok cfg now s \<longleftrightarrow> (\<exists>m uses. m \<le> now \<and> budget_at cfg m uses s)"

lemma budget_ok_mono: "budget_ok cfg m s \<Longrightarrow> m \<le> now \<Longrightarrow> budget_ok cfg now s"
  unfolding budget_ok_def using le_trans by blast

lemma budget_below: "\<not> r \<le> (of_nat k :: u32) \<Longrightarrow> k \<le> unat r \<Longrightarrow> k < unat r"
  by (cases "k = unat r") auto

lemma budget_use:
  assumes "budget_at cfg m uses s" and "m \<le> now"
    and "s1 = s\<lparr>wt_window := retain_recent (secs 60) now (wt_window s)\<rparr>"
    and "\<not> wc_rate_limit_per_min cfg \<le> (of_nat (length (wt_window s1)) :: u32)"
    and "wt_window s2 = wt_window s1 @ [now]"
    and "map fst (wt_out s2) = map fst (wt_out s) @ (if known_kind cfg then [now] else [])"
  shows "budget_at cfg now (uses @ [now]) s2"
proof -
  let ?n = "unat (wc_rate_limit_per_min cfg)"
  have r: "retain.recent (secs 60) now uses (wt_window s1)"
    using retain.recent_prune [OF _ assms(2), of "secs 60" uses "wt_window s"] assms(1,3)
    by (simp add: budget_at_def)
  have "length (wt_window s1) \<le> length (wt_window s)" using assms(3) by (simp add: retain_recent_def)
  then have lt: "length (wt_window s1) < ?n"
    using assms(1,4) by (intro budget_below) (auto simp: budget_at_def)
  have "spaced ?n (uses @ [now])"
    using assms(1) retain.recent_spacing [OF r lt] lt
    by (intro spaced_snoc) (auto simp: budget_at_def)
  with retain.recent_push [OF r] lt assms show ?thesis by (simp add: budget_at_def)
qed

lemma budget_prune:
  assumes "budget_at cfg m uses s" and "m \<le> now"
  shows "budget_at cfg now uses (s\<lparr>wt_window := retain_recent (secs 60) now (wt_window s)\<rparr>)"
  using assms retain.recent_prune
  by (auto simp: budget_at_def retain_recent_def intro: le_trans [OF length_filter_le])

lemma webhook_alert_budget:
  assumes "budget_ok cfg now s"
  shows "budget_ok cfg now (webhook_alert is_match f j cfg a now s)"
proof -
  obtain m uses where m: "m \<le> now" and b: "budget_at cfg m uses s"
    using assms by (auto simp: budget_ok_def)
  let ?s1 = "s\<lparr>wt_window := retain_recent (secs 60) now (wt_window s)\<rparr>"
  let ?s' = "webhook_alert is_match f j cfg a now s"
  let ?pass = "passes_filters is_match a (wt_sev_min s) (wt_states_eff s) (wt_host_re s) (wt_cat_re s)"
  let ?full = "wc_rate_limit_per_min cfg \<le> (of_nat (length (wt_window ?s1)) :: u32)"
  show ?thesis
  proof (cases "?pass \<and> \<not> ?full")
    case True
    then have "wt_window ?s' = wt_window ?s1 @ [now]"
      and "map fst (wt_out ?s') = map fst (wt_out s) @ (if known_kind cfg then [now] else [])"
      using webhook_body_None [of f j cfg a]
      by (auto simp: webhook_alert_def Let_def split: option.splits)
    with budget_use [OF b m refl] True have "budget_at cfg now (uses @ [now]) ?s'" by blast
    then show ?thesis by (auto simp: budget_ok_def)
  next
    case False
    then have "?s' = s \<or> ?s' = ?s1" by (auto simp: webhook_alert_def Let_def)
    moreover have "budget_ok cfg now ?s1"
      unfolding budget_ok_def using budget_prune [OF b m] by blast
    ultimately show ?thesis using assms by presburger
  qed
qed

lemma run_one_budget:
  assumes "budget_ok cfg now s" and "sorted (map snd es)" and "\<forall>e \<in> set es. now \<le> snd e"
  shows "\<exists>m. budget_ok cfg m (run_one is_match f j cfg es s)"
  using assms
proof (induction is_match f j cfg es s arbitrary: now rule: run_one.induct)
  case (4 is_match f j cfg env t es s)
  then have "budget_ok cfg t s" using budget_ok_mono by fastforce
  then have "budget_ok cfg t (case env of EAlert a \<Rightarrow> webhook_alert is_match f j cfg a t s | _ \<Rightarrow> s)"
    by (simp add: webhook_alert_budget split: envelope.splits)
  with 4 show ?case by auto
qed auto

lemma webhook_start_budget: "budget_ok cfg 0 (webhook_start regex_new cfg)"
  by (auto simp: budget_ok_def budget_at_def webhook_start_def spaced_def intro!: exI [of _ "[]"])


section \<open>Properties\<close>

text \<open>C31. Over any run of a webhook task, whatever is broadcast and however the queue lags, with a
  clock that does not go back: any \<open>rate_limit_per_min + 1\<close> consecutive deliveries span more than
  60 seconds (so with a limit of zero nothing is delivered).\<close>

theorem webhook_rate_limit:
  assumes "sorted (map snd es)"
    and "i + unat (wc_rate_limit_per_min cfg)
           < length (wt_out (run_one is_match f j cfg es (webhook_start regex_new cfg)))"
  shows "secs 60 < fst (wt_out (run_one is_match f j cfg es (webhook_start regex_new cfg))
                          ! (i + unat (wc_rate_limit_per_min cfg)))
             - fst (wt_out (run_one is_match f j cfg es (webhook_start regex_new cfg)) ! i)"
proof -
  let ?s = "run_one is_match f j cfg es (webhook_start regex_new cfg)"
  obtain m where "budget_ok cfg m ?s"
    using run_one_budget [OF webhook_start_budget assms(1)] by blast
  then obtain uses where sp: "spaced (unat (wc_rate_limit_per_min cfg)) uses"
    and out: "map fst (wt_out ?s) = (if known_kind cfg then uses else [])"
    by (auto simp: budget_ok_def budget_at_def)
  with assms(2) have "map fst (wt_out ?s) = uses" by (auto split: if_splits)
  with sp assms(2) show ?thesis
    unfolding spaced_def by (metis add_lessD1 length_map nth_map)
qed

definition sample_webhook :: webhook_cfg where
  "sample_webhook = \<lparr>wc_name = ''ops'', wc_kind = ''generic_json'', wc_url = ''https://hooks'',
     wc_severity_min = default_sev_min, wc_states = default_states, wc_notify_on_resolved = False,
     wc_host_filter = None, wc_category_filter = None, wc_rate_limit_per_min = 1,
     wc_gui_url = [], wc_insecure_tls = False\<rparr>"

definition sample_alert :: alert where
  "sample_alert = build_firing 0 [] (builder_new ''node1'' ''4f2a'' NVME ''media_errors'' Critical)"

definition sample_feed :: "(envelope bus_recv \<times> instant) list" where
  "sample_feed = [(BGot (EAlert sample_alert), 0), (BGot (EAlert sample_alert), secs 30),
     (BLagged 3, secs 40), (BGot (EAlert sample_alert), secs 61)]"

lemma sample_feed_out:
  "map fst (wt_out (run_one (\<lambda>(_::unit) _. True) (\<lambda>_. []) (\<lambda>_. JNull) sample_webhook sample_feed
     (webhook_start (\<lambda>_. None) sample_webhook))) = [0, secs 61]"
  by (simp add: sample_feed_def sample_alert_def sample_webhook_def webhook_start_def webhook_alert_def
      webhook_body_def passes_filters_def parse_sev_def effective_delivery_states_def retain_recent_def
      default_sev_min_def default_states_def Let_def std_defs less_severity_def)

theorem webhook_rate_limit_witness:
  "secs 60 < fst (wt_out (run_one (\<lambda>(_::unit) _. True) (\<lambda>_. []) (\<lambda>_. JNull) sample_webhook sample_feed
       (webhook_start (\<lambda>_. None) sample_webhook)) ! 1)
     - fst (wt_out (run_one (\<lambda>(_::unit) _. True) (\<lambda>_. []) (\<lambda>_. JNull) sample_webhook sample_feed
       (webhook_start (\<lambda>_. None) sample_webhook)) ! 0)"
proof -
  let ?s = "run_one (\<lambda>(_::unit) _. True) (\<lambda>_. []) (\<lambda>_. JNull) sample_webhook sample_feed
     (webhook_start (\<lambda>_. None) sample_webhook)"
  have "length (wt_out ?s) = 2" using arg_cong [OF sample_feed_out, of length] by simp
  moreover have "sorted (map snd sample_feed)" by (simp add: sample_feed_def)
  moreover have "unat (wc_rate_limit_per_min sample_webhook) = 1" by (simp add: sample_webhook_def)
  ultimately show ?thesis
    using webhook_rate_limit [of sample_feed 0 sample_webhook "\<lambda>(_::unit) _. True" "\<lambda>_. []" "\<lambda>_. JNull" "\<lambda>_. None"]
    by simp
qed

text \<open>C35. A delivery posts once or twice, and never more. It posts a second time exactly when the
  first attempt failed in transport, was refused with status 429 or failed with a 5xx status, and
  it sleeps between the two posts: the number of seconds the server asked for (two by default)
  after a 429, half a second otherwise.\<close>

theorem deliver_attempts:
  "filter (\<lambda>e. case e of Posted _ \<Rightarrow> True | Slept _ \<Rightarrow> False) (deliver post) =
     (if post 1 = PTransportErr \<or> (\<exists>c h. post 1 = PStatus c h \<and> (c = 429 \<or> is_server_error c))
      then [Posted 1, Posted 2] else [Posted 1])
   \<and> (\<forall>h. post 1 = PStatus 429 h \<longrightarrow> take 3 (deliver post) = [Posted 1, Slept (secs (retry_after h)), Posted 2])"
  by (cases "post 1"; cases "post 2")
     (auto simp: deliver_def is_success_def is_server_error_def)

theorem deliver_attempts_witness:
  "take 3 (deliver (\<lambda>n. if n = 1 then PStatus 429 (Some ''7'') else PStatus 200 None))
     = [Posted 1, Slept (secs 7), Posted 2]"
proof -
  have "retry_after (Some ''7'') = 7" by (simp add: retry_after_def std_defs)
  then show ?thesis
    using deliver_attempts [of "\<lambda>n. if n = 1 then PStatus 429 (Some ''7'') else PStatus 200 None"] by simp
qed

text \<open>What a webhook lets through: exactly the alerts at or above its minimum severity, in a
  state it is configured for, whose host and category match the filters that compile. With the
  defaults resolved alerts are not delivered, and the flag \<open>notify_on_resolved\<close> adds them.\<close>

theorem webhook_filter_spec:
  "passes_filters is_match a (wt_sev_min (webhook_start regex_new cfg))
       (wt_states_eff (webhook_start regex_new cfg)) (wt_host_re (webhook_start regex_new cfg))
       (wt_cat_re (webhook_start regex_new cfg))
   \<longleftrightarrow> parse_sev (wc_severity_min cfg) \<le> al_severity a
     \<and> (\<exists>s \<in> set (effective_delivery_states cfg). eq_ignore_ascii_case s (state_name (al_state a)))
     \<and> (\<forall>p re. wc_host_filter cfg = Some p \<and> regex_new p = Some re \<longrightarrow> is_match re (al_host a))
     \<and> (\<forall>p re. wc_category_filter cfg = Some p \<and> regex_new p = Some re \<longrightarrow> is_match re (al_category a))"
  by (auto simp: passes_filters_def webhook_start_def list_ex_iff not_less
        split: option.splits bind_splits)

theorem webhook_filter_spec_witness:
  "\<exists>cfg. wc_host_filter cfg = Some ''node'' \<and>
     passes_filters (\<lambda>re h. contains h re) sample_alert (wt_sev_min (webhook_start Some cfg))
       (wt_states_eff (webhook_start Some cfg)) (wt_host_re (webhook_start Some cfg))
       (wt_cat_re (webhook_start Some cfg))"
proof -
  let ?cfg = "sample_webhook\<lparr>wc_host_filter := Some ''node''\<rparr>"
  have "parse_sev (wc_severity_min ?cfg) \<le> al_severity sample_alert"
    by (simp add: sample_webhook_def sample_alert_def parse_sev_def default_sev_min_def Let_def std_defs
        less_eq_severity_def)
  moreover have "eq_ignore_ascii_case ''firing'' (state_name (al_state sample_alert))"
    "''firing'' \<in> set (effective_delivery_states ?cfg)"
    by (simp_all add: sample_alert_def sample_webhook_def effective_delivery_states_def default_states_def)
  moreover have "contains (al_host sample_alert) ''node''" by (simp add: sample_alert_def)
  moreover have "wc_category_filter ?cfg = None" by (simp add: sample_webhook_def)
  ultimately show ?thesis
    using webhook_filter_spec [of "\<lambda>re h. contains h re" sample_alert Some ?cfg]
    by (intro exI [of _ ?cfg]) auto
qed

end
