(* ===== verification/Coll_Main.thy ===== *)
theory Coll_Main
  imports Coll_Store Coll_Webhooks Coll_System
begin

text \<open>
  The collector's configuration (\<open>collector/src/config.rs\<close>), its start (\<open>collector/src/main.rs\<close>) and
  the routes of the GUI port (\<open>collector/src/http.rs\<close>). A socket address is its text; reading TOML,
  opening the database and loading certificates are library calls whose outcomes are inputs. What
  \<open>main\<close> starts is a list of tasks; what they do together is \<open>Coll_System\<close>.
\<close>

record collector_tls =
  ct_ca_cert :: string
  ct_server_cert :: string
  ct_server_key :: string
  ct_require_client_cert :: bool

definition collector_tls_default :: collector_tls where
  "collector_tls_default =
     \<lparr>ct_ca_cert = [], ct_server_cert = [], ct_server_key = [], ct_require_client_cert = False\<rparr>"

record collector_config =
  cc_bind_ingest :: string
  cc_bind_gui :: string
  cc_bind_syslog_tls :: "string option"
  cc_bind_syslog_udp :: "string option"
  cc_tls :: collector_tls
  cc_db_path :: string
  cc_retention_days :: u32
  cc_offline_after_s :: u64
  cc_log_level :: string
  cc_webhooks :: "webhook_cfg list"

text \<open>What an empty file stands for.\<close>

definition collector_config_default :: collector_config where
  "collector_config_default =
     \<lparr>cc_bind_ingest = ''0.0.0.0:9443'', cc_bind_gui = ''0.0.0.0:8443'', cc_bind_syslog_tls = None,
      cc_bind_syslog_udp = None, cc_tls = collector_tls_default,
      cc_db_path = ''/var/lib/monitor-collector/collector.sqlite'', cc_retention_days = 30,
      cc_offline_after_s = 10, cc_log_level = ''info'', cc_webhooks = []\<rparr>"

definition collector_config_load ::
  "(string \<Rightarrow> string option) \<Rightarrow> (string \<Rightarrow> collector_config option) \<Rightarrow> string \<Rightarrow> string + collector_config" where
  "collector_config_load read_file from_toml path =
     (case read_file path of
        None \<Rightarrow> Inl (''reading '' @ path)
      | Some s \<Rightarrow> (case from_toml s of None \<Rightarrow> Inl (''parsing '' @ path) | Some c \<Rightarrow> Inr c))"

datatype collector_task =
    RetentionTask u32
  | WriterTask
  | WatcherTask u64
  | SyslogUdp string
  | SyslogTcp string
  | WebhookTask webhook_cfg
  | IngestServer string
  | GuiServer string

text \<open>The command line: \<open>--config\<close>, the variable \<open>UMA_COLLECTOR_CONFIG\<close>, or the default path.\<close>

record collector_cli =
  ccl_config :: string
  ccl_print_default_config :: bool

definition collector_cli_parse :: "string option \<Rightarrow> string option \<Rightarrow> bool \<Rightarrow> collector_cli" where
  "collector_cli_parse arg env_var print =
     \<lparr>ccl_config = (case arg of
          Some p \<Rightarrow> p
        | None \<Rightarrow> (case env_var of Some p \<Rightarrow> p | None \<Rightarrow> ''/etc/monitor-collector/config.toml'')),
      ccl_print_default_config = print\<rparr>"

definition quoted :: "string \<Rightarrow> string" where
  "quoted s = [CHR 0x22] @ s @ [CHR 0x22]"

definition DEFAULT_CONFIG :: string where
  "DEFAULT_CONFIG = concat (map (\<lambda>l. l @ [newline])
     [[],
      ''bind_ingest = '' @ quoted ''0.0.0.0:9443'',
      ''bind_gui    = '' @ quoted ''0.0.0.0:8443'',
      ''# Optional BMC syslog ingest:'',
      ''# bind_syslog_udp = '' @ quoted ''0.0.0.0:514'',
      ''# bind_syslog_tls = '' @ quoted ''0.0.0.0:6514'',
      [],
      ''db_path = '' @ quoted ''/var/lib/monitor-collector/collector.sqlite'',
      ''retention_days = 30'',
      ''offline_after_s = 10'',
      ''log_level = '' @ quoted ''info'',
      [],
      ''[tls]'',
      ''ca_cert     = '' @ quoted ''/etc/monitor-collector/ca.crt'',
      ''server_cert = '' @ quoted ''/etc/monitor-collector/server.crt'',
      ''server_key  = '' @ quoted ''/etc/monitor-collector/server.key'',
      ''require_client_cert = true''])"

text \<open>The filter of the log: the configured one if it parses, then that of the environment, then info.\<close>

definition collector_log_filter :: "(string \<Rightarrow> 'f option) \<Rightarrow> (string \<Rightarrow> 'f) \<Rightarrow> string option \<Rightarrow> string \<Rightarrow> 'f" where
  "collector_log_filter try_new new rust_log level =
     (case try_new level of
        Some f \<Rightarrow> f
      | None \<Rightarrow> (case Option.bind rust_log try_new of Some f \<Rightarrow> f | None \<Rightarrow> new ''info''))"

datatype start_error = BadConfig string | BadStore store_error | BadServerCert string

text \<open>A server starts when its certificate and key can be read; what happens to its socket later only
  ends its own task.\<close>

definition spawn_tls_server :: "(string \<Rightarrow> string \<Rightarrow> bool) \<Rightarrow> string \<Rightarrow> string \<Rightarrow> collector_task \<Rightarrow> start_error + collector_task" where
  "spawn_tls_server from_pem_file cert key server =
     (if from_pem_file cert key then Inr server else Inl (BadServerCert cert))"

definition ingest_router :: "string \<Rightarrow> bool" where
  "ingest_router path \<longleftrightarrow> path = ''/v1/ingest''"

datatype collector_start =
    PrintedDefaults string
  | StartFailed start_error
  | Running "collector_task list" alert_table

text \<open>The tasks started before the two servers, in their order; \<open>webhooks\<close> is the feature of that name.\<close>

definition collector_tasks :: "bool \<Rightarrow> collector_config \<Rightarrow> collector_task list" where
  "collector_tasks webhooks cfg =
     [RetentionTask (cc_retention_days cfg), WriterTask, WatcherTask (cc_offline_after_s cfg)]
     @ (case cc_bind_syslog_udp cfg of Some a \<Rightarrow> [SyslogUdp a] | None \<Rightarrow> [])
     @ (case cc_bind_syslog_tls cfg of Some a \<Rightarrow> [SyslogTcp a] | None \<Rightarrow> [])
     @ (if webhooks then map WebhookTask (cc_webhooks cfg) else [])"

text \<open>What the start asks of the machine and of the libraries.\<close>

record collector_env =
  ce_read_file :: "string \<Rightarrow> string option"
  ce_from_toml :: "string \<Rightarrow> collector_config option"
  ce_url_ok :: "string \<Rightarrow> bool"
  ce_connect :: "string \<Rightarrow> alert_table option"
  ce_stmt_ok :: "bool list"
  ce_from_pem_file :: "string \<Rightarrow> string \<Rightarrow> bool"

definition collector_servers :: "collector_env \<Rightarrow> collector_config \<Rightarrow> start_error + collector_task list" where
  "collector_servers env cfg =
     (let serve = spawn_tls_server (ce_from_pem_file env) (ct_server_cert (cc_tls cfg)) (ct_server_key (cc_tls cfg))
      in case serve (IngestServer (cc_bind_ingest cfg)) of
           Inl e \<Rightarrow> Inl e
         | Inr ingest \<Rightarrow> (case serve (GuiServer (cc_bind_gui cfg)) of Inl e \<Rightarrow> Inl e | Inr gui \<Rightarrow> Inr [ingest, gui]))"

text \<open>An error ends \<open>main\<close>.\<close>

definition collector_main :: "bool \<Rightarrow> collector_env \<Rightarrow> collector_cli \<Rightarrow> collector_start" where
  "collector_main webhooks env cli =
     (if ccl_print_default_config cli then PrintedDefaults (DEFAULT_CONFIG @ [newline])
      else (case collector_config_load (ce_read_file env) (ce_from_toml env) (ccl_config cli) of
              Inl e \<Rightarrow> StartFailed (BadConfig e)
            | Inr cfg \<Rightarrow>
                (case store_open (ce_url_ok env) (ce_connect env) (ce_stmt_ok env) (cc_db_path cfg) of
                   Inl e \<Rightarrow> StartFailed (BadStore e)
                 | Inr rows \<Rightarrow>
                     (case collector_servers env cfg of
                        Inl e \<Rightarrow> StartFailed e
                      | Inr servers \<Rightarrow> Running (collector_tasks webhooks cfg @ servers) rows))))"


section \<open>The routes of the GUI port\<close>

datatype http_method = GET | POST

datatype gui_handler =
    ServeIndex | ServeAppJs | ServeCss | ApiSnapshot | ApiAlerts | ApiHosts | ApiResolve | ApiClearHistory
  | ApiGetConfig | ApiPostConfig | ApiWebhooks | WsSubscribe

text \<open>The router answers an unknown path with 404, a known one with the wrong method with 405.\<close>

datatype routed = Handler gui_handler | NotFound | MethodNotAllowed

definition gui_routes :: "(string \<times> (http_method \<times> gui_handler) list) list" where
  "gui_routes =
     [(''/'', [(GET, ServeIndex)]), (''/app.js'', [(GET, ServeAppJs)]), (''/style.css'', [(GET, ServeCss)]),
      (''/api/snapshot'', [(GET, ApiSnapshot)]), (''/api/alerts'', [(GET, ApiAlerts)]),
      (''/api/hosts'', [(GET, ApiHosts)]), (''/api/resolve'', [(POST, ApiResolve)]),
      (''/api/history/clear'', [(POST, ApiClearHistory)]),
      (''/api/config'', [(GET, ApiGetConfig), (POST, ApiPostConfig)]),
      (''/api/webhooks'', [(GET, ApiWebhooks)]), (''/ws/subscribe'', [(GET, WsSubscribe)])]"

definition gui_router :: "http_method \<Rightarrow> string \<Rightarrow> routed" where
  "gui_router method path =
     (case map_of gui_routes path of
        None \<Rightarrow> NotFound
      | Some ms \<Rightarrow> (case map_of ms method of Some h \<Rightarrow> Handler h | None \<Rightarrow> MethodNotAllowed))"

text \<open>The compiled-in pages are parameters: \<open>pages\<close> gives the text of index, script and style.\<close>

definition serve_static :: "string \<times> string \<times> string \<Rightarrow> gui_handler \<Rightarrow> (string \<times> string) option" where
  "serve_static pages h =
     (case (pages, h) of
        ((index, _, _), ServeIndex) \<Rightarrow> Some (''text/html; charset=utf-8'', index)
      | ((_, js, _), ServeAppJs) \<Rightarrow> Some (''application/javascript; charset=utf-8'', js)
      | ((_, _, css), ServeCss) \<Rightarrow> Some (''text/css; charset=utf-8'', css)
      | _ \<Rightarrow> None)"

text \<open>Everything that changes state is behind POST: with GET only reading handlers are reached.\<close>

definition writes :: "gui_handler \<Rightarrow> bool" where
  "writes h \<longleftrightarrow> h \<in> {ApiResolve, ApiClearHistory, ApiPostConfig}"

lemma get_only_reads: "gui_router GET path = Handler h \<Longrightarrow> \<not> writes h"
  by (auto simp: gui_router_def gui_routes_def writes_def split: option.splits if_splits)

lemma running_config_used:
  assumes "collector_main w env cli = Running ts rows"
  shows "\<exists>s cfg. ce_read_file env (ccl_config cli) = Some s \<and> ce_from_toml env s = Some cfg
    \<and> ce_connect env (sqlite_url (cc_db_path cfg)) = Some rows
    \<and> ts = collector_tasks w cfg @ [IngestServer (cc_bind_ingest cfg), GuiServer (cc_bind_gui cfg)]"
  using assms store_open_keeps
  by (fastforce simp: collector_main_def collector_config_load_def collector_servers_def spawn_tls_server_def Let_def
      split: option.splits if_splits sum.splits)

text \<open>A certificate that is asked of the agents plays no part: the start is the same whether the
  configuration requires it or not.\<close>

lemma require_client_cert_unused:
  "collector_servers env (cfg\<lparr>cc_tls := (cc_tls cfg)\<lparr>ct_require_client_cert := b, ct_ca_cert := ca\<rparr>\<rparr>)
     = collector_servers env cfg"
  "collector_tasks w (cfg\<lparr>cc_tls := (cc_tls cfg)\<lparr>ct_require_client_cert := b, ct_ca_cert := ca\<rparr>\<rparr>)
     = collector_tasks w cfg"
  by (simp_all add: collector_servers_def collector_tasks_def spawn_tls_server_def Let_def)

end
