(* ===== verification/Agent_Connect.thy ===== *)
theory Agent_Connect
  imports Agent_Config
begin

text \<open>
  \<open>connect\<close>, \<open>build_tls_client\<close> and \<open>set_keepalive\<close> of \<open>agent/src/transport.rs\<close>: the steps that open a
  connection to the collector, each with the error that ends it. Parsing of the address, TCP, the
  TLS and WebSocket handshakes and the PEM readers are library calls, given by the fields of
  \<open>connect_env\<close>; \<open>'c\<close> is a certificate and \<open>'k\<close> a key.
\<close>

datatype connect_error =
    BadUrl | NoUrlHost | TcpFailed string nat | ReadCa | ParseCa | AddCa | ReadClientCert | ParseClientCert
  | ReadClientKey | ParseClientKey | NoPrivateKey | InstallClientCert | BadSni string | TlsHandshake | WsHandshake

record ('c, 'k) connect_env =
  ce_parse_url :: "string \<Rightarrow> (string option \<times> nat option) option"
  ce_tcp :: "string \<Rightarrow> nat \<Rightarrow> bool"
  ce_read :: "string \<Rightarrow> string option"
  ce_certs :: "string \<Rightarrow> 'c option list"
  ce_key :: "string \<Rightarrow> 'k option option"
  ce_root_ok :: "'c \<Rightarrow> bool"
  ce_auth_ok :: "'c list \<Rightarrow> 'k \<Rightarrow> bool"
  ce_sni_ok :: "string \<Rightarrow> bool"
  ce_tls_ok :: "string \<Rightarrow> 'c list \<Rightarrow> 'c list \<Rightarrow> 'k \<Rightarrow> bool"
  ce_ws_ok :: bool

text \<open>The roots are read one by one; the first that does not parse or is refused ends the loop.\<close>

fun add_roots :: "('c \<Rightarrow> bool) \<Rightarrow> 'c option list \<Rightarrow> connect_error + 'c list" where
  "add_roots ok [] = Inr []"
| "add_roots ok (None # cs) = Inl ParseCa"
| "add_roots ok (Some c # cs) =
     (if \<not> ok c then Inl AddCa
      else (case add_roots ok cs of Inl e \<Rightarrow> Inl e | Inr rs \<Rightarrow> Inr (c # rs)))"

definition build_tls_client ::
  "('c, 'k) connect_env \<Rightarrow> agent_config \<Rightarrow> connect_error + 'c list \<times> 'c list \<times> 'k" where
  "build_tls_client env cfg =
     (case ce_read env (tb_ca_cert (ac_tls cfg)) of
        None \<Rightarrow> Inl ReadCa
      | Some ca_pem \<Rightarrow>
     (case add_roots (ce_root_ok env) (ce_certs env ca_pem) of
        Inl e \<Rightarrow> Inl e
      | Inr roots \<Rightarrow>
     (case ce_read env (tb_client_cert (ac_tls cfg)) of
        None \<Rightarrow> Inl ReadClientCert
      | Some pem \<Rightarrow>
     (if \<not> list_all (\<lambda>c. c \<noteq> None) (ce_certs env pem) then Inl ParseClientCert
      else let client_certs = map the (ce_certs env pem) in
     (case ce_read env (tb_client_key (ac_tls cfg)) of
        None \<Rightarrow> Inl ReadClientKey
      | Some key_pem \<Rightarrow>
     (case ce_key env key_pem of
        None \<Rightarrow> Inl ParseClientKey
      | Some None \<Rightarrow> Inl NoPrivateKey
      | Some (Some key) \<Rightarrow>
          if ce_auth_ok env client_certs key then Inr (roots, client_certs, key) else Inl InstallClientCert))))))"

text \<open>The seconds handed to \<open>setsockopt\<close>, a C int.\<close>

definition keepalive_secs :: "agent_config \<Rightarrow> int" where
  "keepalive_secs cfg = min (uint (cb_keepalive_s (ac_collector cfg))) (2 ^ 31 - 1)"

text \<open>The options set on the socket, in their order. The results of \<open>setsockopt\<close> are dropped.\<close>

definition set_keepalive :: "agent_config \<Rightarrow> (string \<times> string \<times> int) list" where
  "set_keepalive cfg =
     [(''SOL_SOCKET'', ''SO_KEEPALIVE'', 1), (''IPPROTO_TCP'', ''TCP_KEEPIDLE'', keepalive_secs cfg),
      (''IPPROTO_TCP'', ''TCP_KEEPINTVL'', keepalive_secs cfg), (''IPPROTO_TCP'', ''TCP_KEEPCNT'', 3)]"

definition connect :: "('c, 'k) connect_env \<Rightarrow> agent_config \<Rightarrow> connect_error option" where
  "connect env cfg =
     (case ce_parse_url env (cb_url (ac_collector cfg)) of
        None \<Rightarrow> Some BadUrl
      | Some (None, _) \<Rightarrow> Some NoUrlHost
      | Some (Some host, p) \<Rightarrow>
          let port = (case p of Some n \<Rightarrow> n | None \<Rightarrow> 9443)
          in if \<not> ce_tcp env host port then Some (TcpFailed host port)
             else (case build_tls_client env cfg of
                     Inl e \<Rightarrow> Some e
                   | Inr (roots, certs, key) \<Rightarrow>
                       if \<not> ce_sni_ok env host then Some (BadSni host)
                       else if \<not> ce_tls_ok env host roots certs key then Some TlsHandshake
                       else if \<not> ce_ws_ok env then Some WsHandshake
                       else None))"

text \<open>The connection is always verified: it opens only after a handshake that had exactly the
  configured roots and the client's certificate, whatever \<open>insecure_skip_verify\<close> says.\<close>

lemma add_roots_all: "add_roots ok cs = Inr rs \<Longrightarrow> cs = map Some rs \<and> list_all ok rs"
  by (induction ok cs arbitrary: rs rule: add_roots.induct) (auto split: if_splits sum.splits)

lemma build_tls_client_roots:
  "build_tls_client env cfg = Inr (roots, certs, key) \<Longrightarrow>
     \<exists>pem. ce_read env (tb_ca_cert (ac_tls cfg)) = Some pem \<and> ce_certs env pem = map Some roots"
  unfolding build_tls_client_def Let_def by (auto dest!: add_roots_all split: option.splits sum.splits if_splits)

lemma connect_verified:
  assumes "connect env cfg = None"
  shows "\<exists>host port pem roots certs key.
      ce_parse_url env (cb_url (ac_collector cfg)) = Some (Some host, port)
      \<and> ce_read env (tb_ca_cert (ac_tls cfg)) = Some pem \<and> ce_certs env pem = map Some roots
      \<and> ce_tls_ok env host roots certs key"
  using assms build_tls_client_roots [of env cfg]
  unfolding connect_def Let_def by (auto split: option.splits sum.splits if_splits prod.splits)

lemma connect_ignores_insecure:
  "connect env (cfg\<lparr>ac_tls := (ac_tls cfg)\<lparr>tb_insecure_skip_verify := b\<rparr>\<rparr>) = connect env cfg"
proof -
  let ?c = "cfg\<lparr>ac_tls := (ac_tls cfg)\<lparr>tb_insecure_skip_verify := b\<rparr>\<rparr>"
  have "tb_ca_cert (ac_tls ?c) = tb_ca_cert (ac_tls cfg)" "tb_client_cert (ac_tls ?c) = tb_client_cert (ac_tls cfg)"
    "tb_client_key (ac_tls ?c) = tb_client_key (ac_tls cfg)" "ac_collector ?c = ac_collector cfg" by simp_all
  then show ?thesis unfolding connect_def build_tls_client_def by (simp only:)
qed

lemma keepalive_secs_range: "0 \<le> keepalive_secs cfg \<and> keepalive_secs cfg < 2 ^ 31"
  by (simp add: keepalive_secs_def min_def)

lemma set_keepalive_c_int: "(l, opt, v) \<in> set (set_keepalive cfg) \<Longrightarrow> 0 \<le> v \<and> v < 2 ^ 31"
  using keepalive_secs_range by (auto simp: set_keepalive_def)

end
