(* ===== verification/Agent_Logging.thy ===== *)
theory Agent_Logging
  imports Rust_Std
begin

text \<open>
  \<open>agent/src/logging.rs\<close>: the two log files, what goes into each, and the purge of old ones at the
  start. Times are nanoseconds since the epoch; \<open>SystemTime\<close> holds 64-bit seconds, and a cutoff
  before its range falls back to the epoch. A record is kept as its level, target and text: how the
  subscriber formats it is the library's.
\<close>

definition LOG_DIR :: string where "LOG_DIR = ''/var/log/monitor-agent''"
definition ERROR_LOG_FILE :: string where "ERROR_LOG_FILE = ''error.log''"
definition ERROR_LOG_RETENTION :: duration where "ERROR_LOG_RETENTION = secs (7 * 24 * 3600)"
definition EXEC_LOG_FILE :: string where "EXEC_LOG_FILE = ''execution.log''"
definition EXEC_LOG_RETENTION :: duration where "EXEC_LOG_RETENTION = secs (3 * 24 * 3600)"

definition execution_log_path :: string where
  "execution_log_path = LOG_DIR @ ''/'' @ EXEC_LOG_FILE"

definition error_log_path :: string where
  "error_log_path = LOG_DIR @ ''/'' @ ERROR_LOG_FILE"

record dir_entry =
  de_name :: string
  de_meta :: "(bool \<times> int option) option"

definition system_time_min :: int where "system_time_min = - (2 ^ 63) * 1000000000"

definition purge_cutoff :: "int \<Rightarrow> duration \<Rightarrow> int" where
  "purge_cutoff now max_age = (if now - int max_age < system_time_min then 0 else now - int max_age)"

text \<open>Whether a file is to be removed: its name, that it is a regular file, its time.\<close>

definition purges :: "string \<Rightarrow> int \<Rightarrow> dir_entry \<Rightarrow> bool" where
  "purges basename cutoff e \<longleftrightarrow>
     starts_with (from_utf8_lossy (de_name e)) basename
     \<and> (case de_meta e of Some (True, Some modified) \<Rightarrow> modified < cutoff | _ \<Rightarrow> False)"

text \<open>What is left of the directory; \<open>removable\<close> says whether the system removes a file, and a
  directory that cannot be read is left alone.\<close>

definition purge_old_logs :: "(dir_entry \<Rightarrow> bool) \<Rightarrow> int \<Rightarrow> string \<Rightarrow> duration \<Rightarrow> dir_entry list option \<Rightarrow> dir_entry list option" where
  "purge_old_logs removable now basename max_age dir =
     (case dir of
        None \<Rightarrow> None
      | Some es \<Rightarrow> Some (filter (\<lambda>e. \<not> (purges basename (purge_cutoff now max_age) e \<and> removable e)) es))"

datatype level = LTrace | LDebug | LInfo | LWarn | LError

text \<open>Which files a record of a level goes to.\<close>

definition in_error_log :: "level \<Rightarrow> bool" where
  "in_error_log l \<longleftrightarrow> l \<in> {LWarn, LError}"

definition in_exec_log :: "level \<Rightarrow> bool" where
  "in_exec_log l \<longleftrightarrow> l \<in> {LInfo, LWarn, LError}"

text \<open>What has been written: the records on standard output, and the text appended to each file.\<close>

record log_record =
  lr_level :: level
  lr_target :: string
  lr_text :: string

record log_output =
  lo_stdout :: "log_record list"
  lo_files :: "string \<Rightarrow> string"

datatype log_target = Appending string | DevNull

definition to_file :: "log_target \<Rightarrow> string \<Rightarrow> log_output \<Rightarrow> log_output" where
  "to_file t s out =
     (case t of
        Appending path \<Rightarrow> out\<lparr>lo_files := (lo_files out)(path := lo_files out path @ s)\<rparr>
      | DevNull \<Rightarrow> out)"

definition banner_rule :: string where
  "banner_rule = concat (replicate 66 [CHR 0xE2, CHR 0x94, CHR 0x80])"

definition start_banner :: "string \<Rightarrow> nat \<Rightarrow> string" where
  "start_banner ts pid =
     [newline] @ banner_rule @ [newline] @ ''  UMA agent started  '' @ ts @ ''  (PID '' @ show_nat pid @ '')''
     @ [newline] @ banner_rule @ [newline]"

text \<open>What the start asks of the system: the log directory can be created, a file can be removed, the
  time, the entries of the directory, a file can be opened, the variable of the filter, the local
  time as text and the process id.\<close>

record log_env =
  le_dir_ok :: bool
  le_removable :: "dir_entry \<Rightarrow> bool"
  le_now :: int
  le_entries :: "dir_entry list option"
  le_can_append :: "string \<Rightarrow> bool"
  le_null_ok :: bool
  le_rust_log :: "string option"
  le_ts :: string
  le_pid :: nat

text \<open>Without the file the records go to \<open>/dev/null\<close>, and without that the process panics (None). The
  banner is written to what was opened.\<close>

definition open_log_file :: "log_env \<Rightarrow> string \<Rightarrow> string \<Rightarrow> log_output \<Rightarrow> (log_target \<times> log_output) option" where
  "open_log_file env dir filename out =
     (let path = dir @ ''/'' @ filename
      in case (if le_can_append env path then Some (Appending path) else if le_null_ok env then Some DevNull else None) of
           None \<Rightarrow> None
         | Some f \<Rightarrow> Some (f, to_file f (start_banner (le_ts env) (le_pid env)) out))"

text \<open>The filter of the standard output: the one of the environment (\<open>RUST_LOG\<close>) if it is set and can be
  parsed, otherwise the configured one, whose invalid parts the library ignores. \<open>fb_format\<close> is the
  line the library writes for a record.\<close>

record 'f filter_lib =
  fb_try_new :: "string \<Rightarrow> 'f option"
  fb_new :: "string \<Rightarrow> 'f"
  fb_enabled :: "'f \<Rightarrow> level \<Rightarrow> string \<Rightarrow> bool"
  fb_format :: "log_record \<Rightarrow> string"

definition env_filter :: "'f filter_lib \<Rightarrow> string option \<Rightarrow> string \<Rightarrow> 'f" where
  "env_filter lib rust_log env_filter_str =
     (case Option.bind rust_log (fb_try_new lib) of Some f \<Rightarrow> f | None \<Rightarrow> fb_new lib env_filter_str)"

datatype 'f log_setup =
    StdoutOnly 'f
  | StdoutAndFiles 'f "dir_entry list option" log_target log_target

text \<open>With no log directory the agent logs to standard output only. The targets are those of the error
  log and of the execution log.\<close>

definition logging_init ::
  "'f filter_lib \<Rightarrow> log_env \<Rightarrow> string \<Rightarrow> log_output \<Rightarrow> ('f log_setup \<times> log_output) option" where
  "logging_init lib env env_filter_str out =
     (let flt = env_filter lib (le_rust_log env) env_filter_str
      in if \<not> le_dir_ok env then Some (StdoutOnly flt, out)
         else let d1 = purge_old_logs (le_removable env) (le_now env) ERROR_LOG_FILE ERROR_LOG_RETENTION (le_entries env);
                  d2 = purge_old_logs (le_removable env) (le_now env) EXEC_LOG_FILE EXEC_LOG_RETENTION d1
              in case open_log_file env LOG_DIR ERROR_LOG_FILE out of
                   None \<Rightarrow> None
                 | Some (error_file, out1) \<Rightarrow>
                     (case open_log_file env LOG_DIR EXEC_LOG_FILE out1 of
                        None \<Rightarrow> None
                      | Some (exec_file, out2) \<Rightarrow> Some (StdoutAndFiles flt d2 error_file exec_file, out2)))"


section \<open>Where a record goes\<close>

text \<open>The layers of the registry. The writers of the files have bounded queues and drop a record that
  finds its queue full: \<open>room\<close> says whether the error log's and the execution log's have room.\<close>

definition log_event :: "'f filter_lib \<Rightarrow> 'f log_setup \<Rightarrow> log_record \<times> bool \<times> bool \<Rightarrow> log_output \<Rightarrow> log_output" where
  "log_event lib setup ev out =
     (case ev of (r, error_room, exec_room) \<Rightarrow>
        let console = (\<lambda>flt out. if fb_enabled lib flt (lr_level r) (lr_target r)
                                  then out\<lparr>lo_stdout := lo_stdout out @ [r]\<rparr> else out)
        in case setup of
             StdoutOnly flt \<Rightarrow> console flt out
           | StdoutAndFiles flt _ error_file exec_file \<Rightarrow>
               let out1 = console flt out;
                   out2 = (if in_exec_log (lr_level r) \<and> exec_room then to_file exec_file (fb_format lib r) out1 else out1)
               in if in_error_log (lr_level r) \<and> error_room then to_file error_file (fb_format lib r) out2 else out2)"


section \<open>What the files hold\<close>

text \<open>What the purge removes is old by the rule of its own file, and nothing else is touched.\<close>

lemma logging_init_keeps:
  assumes "logging_init lib env flt_str out = Some (StdoutAndFiles flt (Some es') err exe, out')"
    and "le_entries env = Some es" and "e \<in> set es" and "e \<notin> set es'"
  shows "purges ERROR_LOG_FILE (purge_cutoff (le_now env) ERROR_LOG_RETENTION) e
       \<or> purges EXEC_LOG_FILE (purge_cutoff (le_now env) EXEC_LOG_RETENTION) e"
  using assms by (auto simp: logging_init_def purge_old_logs_def Let_def split: option.splits if_splits)

text \<open>Every error record is in both files.\<close>

lemma error_log_subset: "in_error_log l \<Longrightarrow> in_exec_log l"
  by (simp add: in_error_log_def in_exec_log_def)

lemma log_files_distinct: "LOG_DIR @ ''/'' @ ERROR_LOG_FILE \<noteq> LOG_DIR @ ''/'' @ EXEC_LOG_FILE"
  by (simp add: ERROR_LOG_FILE_def EXEC_LOG_FILE_def)

text \<open>With both files open and room in the queues, the error log gains the warnings and errors of a run
  and the execution log everything from info upwards, each in order, whatever the filter of the
  standard output lets through.\<close>

lemma log_run_files:
  assumes "e \<noteq> x" and "\<forall>(r, er, xr) \<in> set evs. er \<and> xr"
    and "out' = fold (log_event lib (StdoutAndFiles flt d (Appending e) (Appending x))) evs out"
  shows "lo_files out' e = lo_files out e @ concat (map (fb_format lib) (filter (\<lambda>r. in_error_log (lr_level r)) (map fst evs)))
    \<and> lo_files out' x = lo_files out x @ concat (map (fb_format lib) (filter (\<lambda>r. in_exec_log (lr_level r)) (map fst evs)))"
  using assms(2,3)
proof (induction evs arbitrary: out)
  case (Cons ev evs)
  obtain r where ev: "ev = (r, True, True)" using Cons.prems(1) by (cases ev) auto
  let ?out = "log_event lib (StdoutAndFiles flt d (Appending e) (Appending x)) ev out"
  have "lo_files ?out e = lo_files out e @ concat (map (fb_format lib) (filter (\<lambda>r. in_error_log (lr_level r)) [r]))
      \<and> lo_files ?out x = lo_files out x @ concat (map (fb_format lib) (filter (\<lambda>r. in_exec_log (lr_level r)) [r]))"
    using assms(1) by (simp add: ev log_event_def to_file_def Let_def)
  with Cons.IH [of ?out] Cons.prems show ?case by (simp add: ev)
qed simp

text \<open>A file that cannot be opened costs its own records only, and the start fails just when
  \<open>/dev/null\<close> cannot be opened either.\<close>

lemma logging_init_fails:
  "logging_init lib env s out = None \<longleftrightarrow>
     le_dir_ok env \<and> \<not> le_null_ok env
     \<and> \<not> (le_can_append env (LOG_DIR @ ''/'' @ ERROR_LOG_FILE) \<and> le_can_append env (LOG_DIR @ ''/'' @ EXEC_LOG_FILE))"
  by (auto simp: logging_init_def open_log_file_def Let_def split: option.splits if_splits)

end
