(* ===== verification/Agent_Debug.thy ===== *)
theory Agent_Debug
  imports Agent_Config "HOL-Library.List_Lexorder" "HOL-Library.Char_ord"
begin

text \<open>
  \<open>agent/src/debug_http.rs\<close>: the diagnostics server on the loopback interface and the snapshot it
  serves. What the machine answers (files that exist, directory listings, commands) and what the
  serialiser derived by serde makes of a configuration block are fields of \<open>debug_env\<close>; the page
  compiled into the program is a parameter. A JSON object is a list of keys and values: setting a
  key replaces its value or adds it at the end. In the text of a probe the debug form of an
  argument escapes quotes, backslashes and ASCII control characters; bytes above the ASCII range
  are left as they are.
\<close>

section \<open>Text\<close>

definition MAX_BODY_CHARS :: nat where "MAX_BODY_CHARS = 48 * 1024"

definition ellipsis :: string where "ellipsis = [CHR 0xE2, CHR 0x80, CHR 0xA6]"

text \<open>\<open>str::is_char_boundary\<close>: the ends, and every byte that is not a continuation byte.\<close>

definition is_char_boundary :: "string \<Rightarrow> nat \<Rightarrow> bool" where
  "is_char_boundary s i \<longleftrightarrow>
     i = 0 \<or> i = length s \<or> (i < length s \<and> \<not> byte_in (s ! i) 0x80 0xBF)"

fun floor_boundary :: "string \<Rightarrow> nat \<Rightarrow> nat" where
  "floor_boundary s 0 = 0"
| "floor_boundary s (Suc n) = (if is_char_boundary s (Suc n) then Suc n else floor_boundary s n)"

definition truncate_text :: "string \<Rightarrow> string" where
  "truncate_text s =
     (if length s \<le> MAX_BODY_CHARS then s
      else let end' = floor_boundary s MAX_BODY_CHARS
           in (take end' s @ ellipsis @ ''[truncated '' @ show_nat (length s - end') @ '' bytes]''))"

definition hex_digit :: "nat \<Rightarrow> char" where
  "hex_digit n = (if n < 10 then char_of (48 + n) else char_of (87 + n))"

definition escape_debug_char :: "char \<Rightarrow> string" where
  "escape_debug_char c =
     (let n = of_char c :: nat
      in if n = 34 then bsl @ quote
         else if n = 92 then bsl @ bsl
         else if n = 0 then bsl @ ''0''
         else if n = 9 then bsl @ ''t''
         else if n = 10 then bsl @ ''n''
         else if n = 13 then bsl @ ''r''
         else if n < 32 \<or> n = 127 then
           bsl @ ''u{'' @ (if n < 16 then [hex_digit n] else [hex_digit (n div 16), hex_digit (n mod 16)]) @ ''}''
         else [c])"

definition debug_str :: "string \<Rightarrow> string" where
  "debug_str s = quote @ concat (map escape_debug_char s) @ quote"

definition debug_strs :: "string list \<Rightarrow> string" where
  "debug_strs xs = ''['' @ join '', '' (map debug_str xs) @ '']''"


section \<open>Probes\<close>

datatype probe_outcome =
    PSpawnErr string
  | PTimeout
  | PWaitErr string
  | POutput string string "int option"

record debug_env =
  de_root :: bool
  de_exists :: "string \<Rightarrow> bool"
  de_glob :: "string \<Rightarrow> string list option"
  de_sys_block :: "string list option"
  de_sys_net :: "string list option"
  de_run :: "string list \<Rightarrow> probe_outcome"
  de_now :: string
  de_modules_json :: "modules_block \<Rightarrow> json option"
  de_rules_json :: "syslog_rules_cfg \<Rightarrow> json option"
  de_tags_json :: "(string \<rightharpoonup> string) \<Rightarrow> json"
  de_rx :: regex_lib

definition json_set :: "json \<Rightarrow> string \<Rightarrow> json \<Rightarrow> json" where
  "json_set j k v = (case j of JObj kvs \<Rightarrow> JObj (AList.update k v kvs) | _ \<Rightarrow> j)"

definition with_fields :: "(string \<times> json) list \<Rightarrow> json \<Rightarrow> json" where
  "with_fields extra base = fold (\<lambda>(k, v) b. json_set b k v) extra base"

definition json_code :: "int option \<Rightarrow> json" where
  "json_code c = (case c of Some n \<Rightarrow> JInt n | None \<Rightarrow> JNull)"

definition ran_text :: "string \<Rightarrow> string list \<Rightarrow> string" where
  "ran_text exe args = (''Ran `'' @ exe @ ''` '' @ debug_strs args)"

definition run_cmd_probe :: "(string list \<Rightarrow> probe_outcome) \<Rightarrow> string \<Rightarrow> (string \<times> json) list \<Rightarrow> json" where
  "run_cmd_probe run_argv name extra_fields =
     (case Option.bind (map_of extra_fields ''argv'') as_array of
        None \<Rightarrow> JObj [(''name'', JStr name), (''error'', JStr ''missing argv'')]
      | Some av \<Rightarrow>
          (case List.map_filter as_str av of
             [] \<Rightarrow> JObj [(''name'', JStr name), (''error'', JStr ''empty argv'')]
           | exe # args \<Rightarrow>
               (case run_argv (exe # args) of
                  PSpawnErr e \<Rightarrow>
                    with_fields extra_fields (JObj [(''name'', JStr name), (''what'', JStr (ran_text exe args)),
                      (''error'', JStr (''spawn: '' @ e))])
                | PTimeout \<Rightarrow>
                    with_fields extra_fields (JObj [(''name'', JStr name), (''what'', JStr (ran_text exe args)),
                      (''exit_code'', JNull), (''error'', JStr ''timeout'')])
                | PWaitErr e \<Rightarrow>
                    with_fields extra_fields (JObj [(''name'', JStr name), (''what'', JStr (ran_text exe args)),
                      (''error'', JStr (''wait: '' @ e))])
                | POutput out err code \<Rightarrow>
                    with_fields extra_fields (JObj [(''name'', JStr name), (''what'', JStr (ran_text exe args)),
                      (''exit_code'', json_code code),
                      (''stdout'', JStr (truncate_text (from_utf8_lossy out))),
                      (''stderr'', JStr (truncate_text (from_utf8_lossy err)))]))))"

definition run_shell_probe :: "(string list \<Rightarrow> probe_outcome) \<Rightarrow> string \<Rightarrow> string \<Rightarrow> string list \<Rightarrow> json" where
  "run_shell_probe run_argv name shell shell_argv =
     (let base = [(''name'', JStr name), (''what'', JStr (ran_text shell shell_argv))]
      in case run_argv (shell # shell_argv) of
           PSpawnErr e \<Rightarrow> JObj (base @ [(''error'', JStr (''spawn: '' @ e))])
         | PTimeout \<Rightarrow> JObj (base @ [(''error'', JStr ''timeout'')])
         | PWaitErr e \<Rightarrow> JObj (base @ [(''error'', JStr (''wait: '' @ e))])
         | POutput out err code \<Rightarrow>
             JObj (base @ [(''exit_code'', json_code code),
                 (''stdout'', JStr (truncate_text (from_utf8_lossy out))),
                 (''stderr'', JStr (truncate_text (from_utf8_lossy err)))]))"

definition first_glob_dev :: "debug_env \<Rightarrow> string \<Rightarrow> string option" where
  "first_glob_dev env pattern_path =
     (let expanded = (if starts_with pattern_path ''/dev/'' then pattern_path else ''/dev/'' @ pattern_path)
      in case de_glob env expanded of
           None \<Rightarrow> None
         | Some ps \<Rightarrow> (case sort (filter (de_exists env) ps) of [] \<Rightarrow> None | p # _ \<Rightarrow> Some p))"

definition first_block_dev :: "debug_env \<Rightarrow> string \<Rightarrow> string option" where
  "first_block_dev env kind_prefix =
     (case de_sys_block env of
        None \<Rightarrow> None
      | Some entries \<Rightarrow>
          find (\<lambda>n. de_exists env (''/dev/'' @ n))
            (sort (filter (\<lambda>n. starts_with n kind_prefix \<and> \<not> contains n ''boot'') entries)))"

definition first_monitorable_iface :: "debug_env \<Rightarrow> string list \<Rightarrow> string option" where
  "first_monitorable_iface env ignore_patterns =
     (if \<not> list_all (rx_compiles (de_rx env)) ignore_patterns then None
      else (case de_sys_net env of
              None \<Rightarrow> None
            | Some entries \<Rightarrow>
                find (\<lambda>n. \<not> list_ex (\<lambda>p. rx_is_match (de_rx env) p n) ignore_patterns)
                  (sort (filter (\<lambda>n. n \<noteq> ''lo'') entries))))"


section \<open>The snapshot\<close>

text \<open>The configured password of the BMC is hidden, at any depth.\<close>

fun redact_secrets :: "json \<Rightarrow> json" where
  "redact_secrets (JObj kvs) =
     JObj (map (\<lambda>(k, v). (k, if k = ''redfish_password'' then JStr ''***'' else redact_secrets v)) kvs)"
| "redact_secrets (JArr xs) = JArr (map redact_secrets xs)"
| "redact_secrets j = j"

definition sudo_prefix :: "debug_env \<Rightarrow> string list" where
  "sudo_prefix env = (if de_root env then [] else [''sudo'', ''-n''])"

definition argv_probe :: "debug_env \<Rightarrow> string \<Rightarrow> string list \<Rightarrow> json" where
  "argv_probe env name argv = run_cmd_probe (de_run env) name [(''argv'', JArr (map JStr argv))]"

definition nvme_probes :: "debug_env \<Rightarrow> json list" where
  "nvme_probes env =
     (if de_exists env ''/usr/bin/nvme'' \<or> de_exists env ''/bin/nvme'' then
        (let bin = (if de_exists env ''/usr/bin/nvme'' then ''/usr/bin/nvme'' else ''/bin/nvme'')
         in argv_probe env ''nvme_list'' (sudo_prefix env @ [bin, ''list''])
            # (case first_glob_dev env ''/dev/nvme*n1'' of
                 Some dev \<Rightarrow>
                   [argv_probe env ''nvme_smart_log_json''
                      (sudo_prefix env @ [bin, ''smart-log'', ''-o'', ''json''] @ [dev])]
               | None \<Rightarrow> []))
      else [])"

definition smartctl_probes :: "debug_env \<Rightarrow> json list" where
  "smartctl_probes env =
     (case first_block_dev env ''sd'' of
        Some sd \<Rightarrow>
          if de_exists env ''/usr/sbin/smartctl'' then
            [argv_probe env ''smartctl_info'' (sudo_prefix env @
              [''/usr/sbin/smartctl'', ''-i'', ''-j'', ''/dev/'' @ sd]),
             argv_probe env ''smartctl_full'' (sudo_prefix env @
               [''/usr/sbin/smartctl'', ''-a'', ''-j'', ''/dev/'' @ sd])]
          else []
      | None \<Rightarrow> [])"

definition ipmitool_probes :: "debug_env \<Rightarrow> json list" where
  "ipmitool_probes env =
     (if de_exists env ''/usr/bin/ipmitool'' then
        [argv_probe env ''ipmitool_sdr_temperature''
           (sudo_prefix env @ [''/usr/bin/ipmitool'', ''sdr'', ''type'', ''Temperature'']),
         argv_probe env ''ipmitool_sdr_memory''
           (sudo_prefix env @ [''/usr/bin/ipmitool'', ''sdr'', ''type'', ''Memory'']),
         argv_probe env ''ipmitool_sel_last20''
           (sudo_prefix env @ [''/usr/bin/ipmitool'', ''sel'', ''elist'', ''last'', ''20''])]
      else [])"

definition os_probes :: "debug_env \<Rightarrow> agent_config \<Rightarrow> json list" where
  "os_probes env cfg =
     (if de_exists env ''/usr/bin/lspci'' then
        [run_shell_probe (de_run env) ''lspci_nn_head'' ''/usr/bin/sh''
           [''-c'', ''LC_ALL=C /usr/bin/lspci -nn 2>/dev/null | head -n 30'']]
      else [])
     @ (case first_monitorable_iface env (nn_ignore_regex (mb_network_nic (ac_modules cfg))) of
          Some iface \<Rightarrow>
            if de_exists env ''/usr/sbin/ethtool''
            then [argv_probe env ''ethtool_S'' [''/usr/sbin/ethtool'', ''-S'', iface]] else []
        | None \<Rightarrow> [])
     @ (if de_exists env ''/usr/bin/journalctl'' then
          [argv_probe env ''journalctl_kernel_tail''
             [''/usr/bin/journalctl'', ''-k'', ''-n'', ''8'', ''--no-pager'', ''-o'', ''short-precise'']]
        else [])"

definition edac_probes :: "debug_env \<Rightarrow> json list" where
  "edac_probes env =
     List.map_filter (\<lambda>mc.
       let p = ''/sys/devices/system/edac/mc/mc'' @ show_nat mc @ ''/ce_count''
       in if de_exists env p
          then Some (argv_probe env (''edac_mc'' @ show_nat mc @
            ''_ce_count'') [''/bin/cat'', p]) else None) [0..<4]"

definition debug_probes :: "debug_env \<Rightarrow> agent_config \<Rightarrow> json list" where
  "debug_probes env cfg =
     [argv_probe env ''uname'' [''/bin/uname'', ''-a''],
      argv_probe env ''proc_pressure_memory'' [''/bin/cat'', ''/proc/pressure/memory'']]
     @ nvme_probes env @ smartctl_probes env @ ipmitool_probes env @ os_probes env cfg @ edac_probes env"

definition build_debug_snapshot :: "debug_env \<Rightarrow> agent_config \<Rightarrow> host_id \<Rightarrow> json" where
  "build_debug_snapshot env cfg host =
     (let probes = debug_probes env cfg;
          modules_val = redact_secrets (case de_modules_json env (ac_modules cfg) of Some j \<Rightarrow> j | None \<Rightarrow> JObj []);
          rules = (case de_rules_json env (mb_syslog_rules (ac_modules cfg)) of Some j \<Rightarrow> j | None \<Rightarrow> JObj [])
      in JObj
        [(''schema_version'', JInt 1),
         (''generated_at'', JStr (de_now env)),
         (''maintenance_mode'', JBool (maintenance_mode cfg)),
         (''host'', JObj [(''hostname'', JStr (ho_hostname host)), (''host_id'', JStr (ho_machine_id host)),
            (''primary_ip'', JStr (ho_primary_ip host))]),
         (''tags'', de_tags_json env (ac_tags cfg)),
         (''modules_effective'', modules_val),
         (''network_nic_ignore_regex'', JArr (map JStr (nn_ignore_regex (mb_network_nic (ac_modules cfg))))),
         (''syslog_rules'', rules),
         (''probes'', JArr probes),
         (''note'', JStr (''Each probe shows what the OS returned for common agent inputs. Truncated; bind debug_listen to 127.0.0.1 only.''))])"


section \<open>The server\<close>

text \<open>\<open>parse_addr\<close> reads a socket address and says whether its IP is a loopback address; None from
  \<open>debug_bind\<close> means that the task ends without listening.\<close>

definition debug_bind :: "(string \<Rightarrow> ('addr \<times> bool) option) \<Rightarrow> string \<Rightarrow> 'addr option" where
  "debug_bind parse_addr bind_text =
     (let b = trim bind_text
      in if b = [] then None
         else (case parse_addr b of
                 None \<Rightarrow> None
               | Some (addr, loopback) \<Rightarrow> if loopback then Some addr else None))"

definition request_path :: "string \<Rightarrow> string" where
  "request_path req =
     (let first = (case lines req of l # _ \<Rightarrow> l | [] \<Rightarrow> []);
          target = (case split_whitespace first of _ # t # _ \<Rightarrow> t | _ \<Rightarrow> ''/'')
      in case split_on (CHR ''?'') target of p # _ \<Rightarrow> p | [] \<Rightarrow> ''/'')"

definition crlf :: string where "crlf = [CHR 0x0D, CHR 0x0A]"

definition nl :: string where "nl = [CHR 0x0A]"

definition debug_route ::
  "string \<Rightarrow> (json \<Rightarrow> string) \<Rightarrow> debug_env \<Rightarrow> agent_config \<Rightarrow> host_id \<Rightarrow> string \<Rightarrow> string \<times> string \<times> string" where
  "debug_route ui_html to_text env cfg host path =
     (if path \<in> {''/'', ''/v1/debug'', ''/v1/debug/''} then (''200 OK'', ''text/html; charset=utf-8'', ui_html)
      else if path \<in> {''/v1/debug/snapshot'', ''/debug/snapshot''} then
        (''200 OK'', ''application/json; charset=utf-8'', to_text (build_debug_snapshot env cfg host))
      else (''404 Not Found'', ''text/plain; charset=utf-8'',
            ''Not found: '' @ path @ nl @ nl @ ''Available:'' @ nl @ ''  GET /'' @ nl @
              ''  GET /v1/debug/snapshot''))"

text \<open>What is written for the bytes of one read; None when the peer sent nothing.\<close>

definition serve_connection ::
  "string \<Rightarrow> (json \<Rightarrow> string) \<Rightarrow> debug_env \<Rightarrow> agent_config \<Rightarrow> host_id \<Rightarrow> string \<Rightarrow> string option" where
  "serve_connection ui_html to_text env cfg host buf =
     (if buf = [] then None
      else (case debug_route ui_html to_text env cfg host (request_path (from_utf8_lossy (take 4096 buf))) of
              (status, content_type, body) \<Rightarrow>
                Some (''HTTP/1.1 '' @ status @ crlf @ ''Content-Type: '' @ content_type @ crlf @
                      ''Content-Length: '' @ show_nat (length body) @ crlf @ ''Connection: close'' @ crlf @
                      ''Cache-Control: no-cache'' @ crlf @ crlf @ body)))"

text \<open>The accept loop: peers that are not local are dropped.\<close>

definition debug_accept ::
  "string \<Rightarrow> (json \<Rightarrow> string) \<Rightarrow> debug_env \<Rightarrow> agent_config \<Rightarrow> host_id \<Rightarrow> bool \<Rightarrow> string \<Rightarrow> string option" where
  "debug_accept ui_html to_text env cfg host peer_loopback buf =
     (if \<not> peer_loopback then None else serve_connection ui_html to_text env cfg host buf)"


section \<open>Facts\<close>

text \<open>No value under the key of the password but the placeholder, at any depth.\<close>

fun redacted :: "json \<Rightarrow> bool" where
  "redacted (JObj kvs) = list_all (\<lambda>(k, v). if k = ''redfish_password'' then v = JStr ''***'' else redacted v) kvs"
| "redacted (JArr xs) = list_all redacted xs"
| "redacted j = True"

lemma redact_redacted: "redacted (redact_secrets j)"
  by (induction j rule: redact_secrets.induct) (auto simp: list_all_iff)

lemma redact_idem: "redacted j \<Longrightarrow> redact_secrets j = j"
  by (induction j rule: redact_secrets.induct) (auto simp: list_all_iff intro!: map_idI split: if_splits)

lemma set_update: "set (AList.update k v kvs) \<subseteq> insert (k, v) (set kvs)"
  by (induction kvs) auto

lemma redacted_set:
  "redacted j \<Longrightarrow> k \<noteq> ''redfish_password'' \<Longrightarrow> redacted v \<Longrightarrow> redacted (json_set j k v)"
  using set_update [of k v] by (cases j) (fastforce simp: json_set_def list_all_iff)+

lemma redacted_strs: "redacted (JArr (map JStr xs))"
  by (simp add: list_all_iff)

lemma redacted_code: "redacted (json_code c)"
  by (cases c) (simp_all add: json_code_def)

lemma argv_probe_redacted: "redacted (argv_probe env name argv)"
  using redacted_set [of _ "''argv''" "JArr (map JStr argv)"] redacted_strs [of argv]
  by (auto simp: argv_probe_def run_cmd_probe_def with_fields_def redacted_code
        split: option.splits list.splits probe_outcome.splits)

lemma shell_probe_redacted: "redacted (run_shell_probe run_argv name shell argv)"
  by (auto simp: run_shell_probe_def redacted_code Let_def split: probe_outcome.splits)

lemma probes_redacted: "p \<in> set (debug_probes env cfg) \<Longrightarrow> redacted p"
  by (auto simp: debug_probes_def nvme_probes_def smartctl_probes_def ipmitool_probes_def os_probes_def
        edac_probes_def map_filter_def Let_def argv_probe_redacted shell_probe_redacted
        split: if_splits option.splits)

text \<open>A text that is too long is cut at the last character boundary within the limit.\<close>

lemma floor_boundary_le: "floor_boundary s n \<le> n"
  by (induction n) (auto intro: le_SucI)

lemma floor_boundary_is: "is_char_boundary s (floor_boundary s n)"
  by (induction n) (simp_all add: is_char_boundary_def)

lemma floor_boundary_max: "is_char_boundary s k \<Longrightarrow> k \<le> n \<Longrightarrow> k \<le> floor_boundary s n"
  by (induction n) (auto simp: le_Suc_eq)

lemma truncate_text_spec:
  assumes "MAX_BODY_CHARS < length s"
  shows "\<exists>n. truncate_text s = take n s @ ellipsis @ ''[truncated '' @ show_nat (length s - n) @
    '' bytes]''
    \<and> n \<le> MAX_BODY_CHARS \<and> is_char_boundary s n
    \<and> (\<forall>k \<le> MAX_BODY_CHARS. is_char_boundary s k \<longrightarrow> k \<le> n)"
  using assms floor_boundary_le [of s MAX_BODY_CHARS] floor_boundary_is [of s MAX_BODY_CHARS] floor_boundary_max
  by (intro exI [of _ "floor_boundary s MAX_BODY_CHARS"]) (auto simp: truncate_text_def Let_def)


section \<open>Properties\<close>

text \<open>C23. The snapshot never shows the password of the BMC: wherever the key \<open>redfish_password\<close> occurs
  in it, at any depth, its value is the placeholder, given that the operator's tags and the syslog
  rules hold none. Hiding changes nothing else (a value without a password is left as it is), and
  the server answers only on a loopback address and only to local peers.\<close>

theorem snapshot_hides_password:
  assumes "redacted (de_tags_json env (ac_tags cfg))"
    and "\<And>j. de_rules_json env (mb_syslog_rules (ac_modules cfg)) = Some j \<Longrightarrow> redacted j"
  shows "redacted (build_debug_snapshot env cfg host)
    \<and> (redacted j \<longrightarrow> redact_secrets j = j)
    \<and> (debug_bind parse_addr b = Some addr \<longrightarrow> parse_addr (trim b) = Some (addr, True))
    \<and> (debug_accept ui to_text env cfg host peer buf \<noteq> None \<longrightarrow> peer)"
proof -
  have "redacted (build_debug_snapshot env cfg host)"
    using assms probes_redacted redact_redacted
    by (auto simp: build_debug_snapshot_def Let_def list_all_iff split: option.splits)
  then show ?thesis
    by (auto simp: redact_idem debug_bind_def debug_accept_def Let_def split: if_splits option.splits)
qed


definition sample_debug_env :: debug_env where
  "sample_debug_env =
     \<lparr>de_root = True, de_exists = (\<lambda>_. False), de_glob = (\<lambda>_. None), de_sys_block = None, de_sys_net = None,
      de_run = (\<lambda>_. PTimeout), de_now = [],
      de_modules_json = (\<lambda>_. Some (JObj [(''bmc_redfish'', JObj [(''redfish_password'', JStr ''secret'')])])),
      de_rules_json = (\<lambda>_. Some (JObj [])), de_tags_json = (\<lambda>_. JObj []),
      de_rx = \<lparr>rx_compiles = (\<lambda>_. True), rx_is_match = (\<lambda>_ _. False), rx_captures = (\<lambda>_ _. None)\<rparr>\<rparr>"

definition sample_debug_host :: host_id where
  "sample_debug_host = \<lparr>ho_hostname = ''node1'', ho_machine_id = ''4f2a'', ho_primary_ip = []\<rparr>"

theorem snapshot_hides_password_witness:
  "redacted (build_debug_snapshot sample_debug_env default_fallback sample_debug_host)
   \<and> jget (build_debug_snapshot sample_debug_env default_fallback sample_debug_host) ''modules_effective''
     = Some (JObj [(''bmc_redfish'', JObj [(''redfish_password'', JStr ''***'')])])"
proof -
  have "redacted (de_tags_json sample_debug_env (ac_tags default_fallback))"
    and "\<And>j. de_rules_json sample_debug_env (mb_syslog_rules (ac_modules default_fallback)) = Some j \<Longrightarrow> redacted j"
    by (simp_all add: sample_debug_env_def)
  from snapshot_hides_password [OF this, of sample_debug_host JNull "\<lambda>_. None" "[]" "()" "[]" "\<lambda>_. []" False "[]"]
  show ?thesis by (simp add: build_debug_snapshot_def jget_def sample_debug_env_def Let_def)
qed

end
