(* ===== verification/Agent_Start.thy ===== *)
theory Agent_Start
  imports Agent_Main Agent_Logging Agent_Debug
begin

text \<open>
  \<open>main\<close> of \<open>agent/src/main.rs\<close> from its first line until the modules are started: command line,
  configuration, log files, host and vendor detection, the channels, and the two log sources. What it
  asks of the machine is \<open>start_env\<close>; how it ends is \<open>agent_start\<close>. The modules then run as in
  \<open>Agent_Main\<close>, on the channels that could be opened.
\<close>

text \<open>The path of the configuration: from the command line, from \<open>UMA_CONFIG\<close>, or the default.\<close>

definition cli_config :: "string option \<Rightarrow> string option \<Rightarrow> string" where
  "cli_config arg env_var =
     (case arg of
        Some p \<Rightarrow> p
      | None \<Rightarrow> (case env_var of Some p \<Rightarrow> p | None \<Rightarrow> ''/etc/monitor-agent/config.toml''))"

record 'f start_env =
  sv_read_file :: "string \<Rightarrow> string option"
  sv_from_toml :: "string \<Rightarrow> agent_config option"
  sv_example_config :: string
  sv_filter_lib :: "'f filter_lib"
  sv_log :: log_env
  sv_parse_json :: "string \<Rightarrow> json option"
  sv_hash16 :: "string \<Rightarrow> string"
  sv_hostname :: "string option"
  sv_ip_out :: "cmd_output option"
  sv_hostname_out :: "cmd_output option"
  sv_path_var :: "string option"
  sv_is_file :: "string \<Rightarrow> bool"
  sv_exists :: "string \<Rightarrow> bool"
  sv_command :: "string list \<Rightarrow> cmd_output option"
  sv_debug :: debug_env
  sv_kmsg_opened :: bool
  sv_kmsg_registered :: bool
  sv_kmsg_waits :: "bool list"
  sv_kmsg_reads :: "kmsg_read list"
  sv_journal_probe :: "bool option"
  sv_journal_children :: "journal_child list"

text \<open>What is set up when the modules are started; the lines of a log source are None when it could
  not be opened.\<close>

record 'f agent_up =
  up_cfg :: agent_config
  up_logs :: "'f log_setup"
  up_output :: log_output
  up_host :: host_id
  up_vendor :: vendor_profile
  up_lanes :: "nat \<times> nat"
  up_maintenance :: bool
  up_kmsg :: "kmsg_line list option"
  up_journal :: "journal_line list option"

datatype 'f agent_start =
    Printed string
  | PrintedJson json
  | Exited nat
  | Failed string
  | Panicked
  | Up "'f agent_up"

definition detect_host :: "'f start_env \<Rightarrow> host_id option" where
  "detect_host env =
     detect (sv_parse_json env) (sv_hash16 env) (sv_hostname env) (sv_read_file env) (sv_ip_out env) (sv_hostname_out env)"

definition detect_vendor :: "'f start_env \<Rightarrow> vendor_profile" where
  "detect_vendor env =
     vendor_detect (sv_read_file env) (sv_path_var env) (sv_is_file env) (sv_exists env) (sv_command env)"

text \<open>The start proper, with its configuration. The log files come first: only the panic for want of
  \<open>/dev/null\<close> is before the host name is read.\<close>

definition start_agent :: "bool \<Rightarrow> 'f start_env \<Rightarrow> agent_config \<Rightarrow> log_output \<Rightarrow> 'f agent_start" where
  "start_agent maintenance_feature env cfg out =
     (case logging_init (sv_filter_lib env) (sv_log env) (tracing_log_filter cfg) out of
        None \<Rightarrow> Panicked
      | Some (logs, out1) \<Rightarrow>
          (case detect_host env of
             None \<Rightarrow> Failed ''reading hostname''
           | Some host \<Rightarrow>
               (case make_channels cfg of
                  None \<Rightarrow> Panicked
                | Some lanes \<Rightarrow>
                    Up \<lparr>up_cfg = cfg, up_logs = logs, up_output = out1, up_host = host, up_vendor = detect_vendor env,
                        up_lanes = lanes, up_maintenance = agent_maintenance maintenance_feature cfg,
                        up_kmsg = kmsg_spawn (sv_kmsg_opened env) (sv_kmsg_registered env) (sv_kmsg_waits env) (sv_kmsg_reads env),
                        up_journal = journal_spawn (sv_journal_probe env) (sv_journal_children env)\<rparr>)))"

definition agent_main :: "bool \<Rightarrow> bool \<Rightarrow> 'f start_env \<Rightarrow> cli \<Rightarrow> log_output \<Rightarrow> 'f agent_start" where
  "agent_main debug_http maintenance_feature env c out =
     (case main_start debug_http (agent_config_load (sv_read_file env) (sv_from_toml env)) c of
        PrintDefaultConfig \<Rightarrow> Printed (sv_example_config env)
      | SnapshotUnsupported \<Rightarrow> Exited 1
      | PrintSnapshot cfg \<Rightarrow>
          (case detect_host env of
             None \<Rightarrow> Failed ''reading hostname''
           | Some host \<Rightarrow> PrintedJson (build_debug_snapshot (sv_debug env) cfg host))
      | RunAgent cfg \<Rightarrow> start_agent maintenance_feature env cfg out)"

text \<open>What the modules are started with.\<close>

definition module_env :: "'f agent_up \<Rightarrow> agent_env \<Rightarrow> agent_env" where
  "module_env up ae = ae\<lparr>ae_kmsg_ok := up_kmsg up \<noteq> None, ae_journal_ok := up_journal up \<noteq> None\<rparr>"

definition started_module :: "'f agent_up \<Rightarrow> agent_env \<Rightarrow> agent_run \<Rightarrow> agent_module \<Rightarrow> emitter" where
  "started_module up ae r m = module_emitter (module_env up ae) (up_cfg up) (up_host up) (up_vendor up) r m"


section \<open>When the agent starts\<close>

text \<open>A file that is missing or does not parse never keeps the agent from starting: it runs with the
  defaults.\<close>

lemma bad_config_starts:
  assumes "\<forall>s. sv_read_file env path = Some s \<longrightarrow> sv_from_toml env s = None"
  shows "agent_main dh mf env \<lparr>cl_config = path, cl_print_default_config = False, cl_debug_snapshot = False\<rparr> out
    = start_agent mf env default_fallback out"
  using assms
  by (auto simp: agent_main_def main_start_def load_or_default_def agent_config_load_def split: option.splits)

lemma start_agent_up:
  "(\<exists>up. start_agent mf env cfg out = Up up) \<longleftrightarrow>
     logging_init (sv_filter_lib env) (sv_log env) (tracing_log_filter cfg) out \<noteq> None
     \<and> sv_hostname env \<noteq> None
     \<and> 0 < unat (cb_send_queue_size (ac_collector cfg)) \<and> 0 < unat (cb_critical_queue_size (ac_collector cfg))"
  by (auto simp: start_agent_def detect_host_def detect_def make_channels_def Let_def split: option.splits)

text \<open>A queue size of zero in the file is the one setting that stops the agent, by a panic.\<close>

lemma zero_queue_panics:
  assumes "cb_send_queue_size (ac_collector cfg) = 0 \<or> cb_critical_queue_size (ac_collector cfg) = 0"
    and "sv_hostname env \<noteq> None"
  shows "start_agent mf env cfg out = Panicked"
  using assms
  by (auto simp: start_agent_def detect_host_def detect_def make_channels_def Let_def split: option.splits)


section \<open>Without a log source\<close>

lemma closed_modules_silent:
  "\<not> ae_kmsg_ok env \<Longrightarrow> m \<in> {Oshang, CpuMce, PcieAer} \<Longrightarrow> em_hist (module_emitter env cfg host vendor r m) = []"
  "\<not> ae_journal_ok env \<Longrightarrow> em_hist (module_emitter env cfg host vendor r SyslogRules) = []"
  by (auto simp: module_emitter_def spawn_module_def or_dummy_def oshang_spawn_def mce_spawn_def aer_spawn_def
      syslog_rules_spawn_def make_tracker_def emitter_new_def Let_def split: option.splits)

text \<open>Modules that only listen to a log that cannot be opened send nothing in any run.\<close>

lemma inert_without_logs:
  assumes "agent_main dh mf env c out = Up up"
  shows "(\<not> (sv_kmsg_opened env \<and> sv_kmsg_registered env) \<longrightarrow>
            (\<forall>m \<in> {Oshang, CpuMce, PcieAer}. em_hist (started_module up ae r m) = []))
    \<and> (sv_journal_probe env \<noteq> Some True \<longrightarrow> em_hist (started_module up ae r SyslogRules) = [])"
proof -
  have k: "up_kmsg up = kmsg_spawn (sv_kmsg_opened env) (sv_kmsg_registered env) (sv_kmsg_waits env) (sv_kmsg_reads env)"
    "up_journal up = journal_spawn (sv_journal_probe env) (sv_journal_children env)"
    using assms by (auto simp: agent_main_def start_agent_def split: start_action.splits option.splits)
  show ?thesis
    by (auto simp: started_module_def module_env_def k kmsg_spawn_def journal_spawn_def closed_modules_silent
        split: option.splits)
qed

end
