(* ===== verification/Spec2Isabelle.thy ===== *)
theory Spec2Isabelle
  imports Reconnects Kernel_Log Coll_Subscribe Gui_Resolve Coll_Main Agent_Connect Agent_Start
begin

text \<open>
  A verification development for UMA, a monitoring tool. An agent on every server watches hardware
  and operating system, decides which faults to report, and sends alerts over one WebSocket to a
  collector. The collector keeps the state of the fleet in memory and a history in SQLite, feeds
  browsers, and forwards alerts to chat webhooks. The Rust sources are \<open>shared\<close>, \<open>agent\<close> and
  \<open>collector\<close>; the state a browser keeps and its views are in \<open>gui/app.js\<close>.

  \<^bold>\<open>Shared vocabulary\<close>
  \<^item> \<open>Uma_Prelude\<close>: machine types, durations, facts on association lists and words.
  \<^item> \<open>Rust_Std\<close>: the string, UTF-8, number and saturating functions of the standard library;
    \<open>Rust_Float\<close>: \<open>f32\<close> and \<open>f64\<close> as rationals with rounding, parsing and printing.
  \<^item> \<open>Uma_Shared\<close>: \<open>shared/src/lib.rs\<close>, the messages, the alert builder and fingerprints.
    \<open>Wire_Format\<close>: the JSON form of every message, as the attributes of the same file fix it, on the
    locale \<open>codec\<close> (a decoder that undoes its encoder), which the leaves, lists, maps and structs
    interpret or instantiate; \<open>Wire_Roundtrip\<close>: that it is read back, in any order of members and
    across versions.
  \<^item> \<open>Sliding_Window\<close>: windows over time as a locale, interpreted by each module that has one;
    \<open>Interleaving\<close>: sequences of tasks that share a queue; \<open>Broadcast\<close>: what a receiver of a
    broadcast channel gets, with lags, and the loop over it.

  \<^bold>\<open>Agent\<close>
  \<^item> \<open>Agent_Tracker\<close> (\<open>state.rs\<close>): the map of open conditions. \<open>represents\<close> and \<open>history_ok\<close> are its
    abstract specification: what the tracker holds is what the alerts sent so far say.
    \<open>Agent_Emitter\<close>: how modules use it. The locales \<open>detector\<close> and \<open>observer\<close> are the interface
    between a module and its tracker; their lemmas lift the contract to whole runs, and every
    module interprets one of them. \<open>Agent_Lanes\<close>: what a module may clear has one severity
    (locales \<open>fixed_lane\<close> and \<open>clearing\<close>), so a recovery is never overtaken by a report.
  \<^item> \<open>Agent_Bus\<close> (\<open>bus.rs\<close>), \<open>Agent_Transport\<close>, \<open>Agent_Sessions\<close> and \<open>Agent_Connect\<close> (\<open>transport.rs\<close>):
    the two lanes, the biased pump, \<open>run\<close> as a state machine over all connections with its delays,
    and the steps of connecting.
  \<^item> \<open>Agent_Config\<close>, \<open>Agent_Host\<close> (with \<open>priv_cmd.rs\<close>), \<open>Agent_Kmsg\<close>, \<open>Agent_Journal\<close>, \<open>Agent_Vendor\<close>,
    \<open>Agent_Logging\<close>, \<open>Agent_Debug\<close>: the files of the same names.
  \<^item> \<open>Mod_*\<close>: one theory per monitoring module of \<open>agent/src/modules\<close> (both GPU modules are in
    \<open>Mod_Gpu\<close>), on the facts of \<open>Agent_Detect\<close>. \<open>Line_Reports\<close>: the locale \<open>line_reporter\<close> of the modules
    that report what single log lines say; \<open>Kernel_Log\<close> joins them to the tasks that read the logs.
  \<^item> \<open>Agent_Main\<close> (\<open>main.rs\<close>): all modules wired to their trackers and one sink; \<open>Agent_Start\<close>: \<open>main\<close> up to
    that point, with every way in which it can end.

  \<^bold>\<open>Collector\<close>
  \<^item> \<open>Coll_State\<close> (\<open>state.rs\<close>) with the invariants of \<open>Coll_Invariant\<close>: unique keys, exact counts.
  \<^item> \<open>Coll_Ingest\<close>, \<open>Coll_Http\<close>, \<open>Coll_Watcher\<close>, \<open>Coll_Syslog\<close>, \<open>Coll_Webhooks\<close>, \<open>Coll_Store\<close>: one per
    task; \<open>Coll_Subscribe\<close>: the connection of one browser; \<open>Coll_Feed\<close>: the broadcast channel and the
    tables of the browser; \<open>Gui_Page\<close>: the same page with its history list and notifications;
    \<open>Gui_Views\<close>: what its views show of them; \<open>Gui_Resolve\<close>: the resolve button, through the
    collector and back to all pages.
  \<^item> \<open>Coll_System\<close>: all tasks over the shared state as a step relation; \<open>Coll_Main\<close>: configuration,
    start and routes.

  \<^bold>\<open>Composition\<close>
  \<^item> \<open>Fleet\<close>: a tracker's alerts, delivered in order, make the collector mirror the tracker.
  \<^item> \<open>End_To_End\<close>: the same for a whole agent, through sink, lanes, pump, JSON frames and ingest, and
    the path of a heartbeat to the offline watcher and to the browser.
  \<^item> \<open>Reconnects\<close>: the same over connections that break, with refused, lost and partly delivered
    messages: collector and agent agree on every condition whose newest alert arrived.

  \<^bold>\<open>What the lemmas show\<close>: for the tracker, that its alert history refines the dedup contract, its
  spacing, that resolved alerts close something open, and when a recovery is and is not reported;
  for the wire format, that every message is read back and which messages of other versions are
  understood; for the transport, order, loss and delays over any sequence of connections; for each module, the functional behaviour of its
  checks over whole runs; for the collector, invariants over all interleavings of its tasks, and
  that browsers and the history agree with its state. Several theorems describe behaviour that
  differs from the comments or is plainly unintended; they are stated as the code behaves.

  \<^bold>\<open>Parameters\<close>: code outside the repository is an argument with its documented laws as named
  hypotheses: serde's text of a JSON value (\<open>text_law\<close>), chrono's text of a time (\<open>chrono_law\<close>,
  \<open>text_order\<close>), tokio's channels (\<open>channel_law\<close>), the regex library
  (\<open>regex_lib\<close>), SQLite's order of equal rows (\<open>order_law\<close>), HTTP
  clients, child processes, files, hash-map iteration order. A step's outside events are its inputs.

  \<^bold>\<open>Bounds\<close>: no definition runs on fuel. Loops over input are recursions over the list of inputs, so
  a run has the length of its inputs; waiting loops are one step per event. Counters keep their
  width, and where an addition could wrap the theorems carry the bound (for instance fewer than
  \<open>2^31\<close> alerts for the counts).

  \<^bold>\<open>Not modelled\<close>: socket and TLS set-up on the collector, the netlink connection, the
  formatting of log lines, the text of operating system errors, the DOM
  nodes, dialogs and local storage of the browser, and the deployment scripts. These are calls into libraries
  without logic of the program, or have none that the monitored state depends on.
\<close>

end
